(* ===== verification/F64.thy ===== *)
theory F64
  imports Prelude Complex_Main "HOL-Library.Log_Nat"
begin

text \<open>
  The \<open>f64\<close> arithmetic of the billing code: values are exact rationals, every division and
  multiplication is rounded to the nearest value with a 53-bit significand, ties to even, as
  IEEE 754 binary64 does. The exponent range is not limited: the quantities the code computes
  (seconds, hours, cents, nano-CPUs) stay far inside it, and no NaN or infinity arises.

  The locale \<open>rounding\<close> states what the billing proofs use of the rounding; it is
  interpreted on \<open>f64_round\<close> at the end.
\<close>

type_synonym f64 = rat

section \<open>Rounding to the nearest integer, ties to even\<close>

definition round_even :: "rat \<Rightarrow> int" where
  "round_even x =
     (let f = \<lfloor>x\<rfloor>; r = x - of_int f
      in if r < 1 / 2 then f else if 1 / 2 < r then f + 1 else if even f then f else f + 1)"

lemma round_even_of_int [simp]: "round_even (of_int n) = n"
  by (simp add: round_even_def)

lemma round_even_close: "\<bar>of_int (round_even x) - x\<bar> \<le> 1 / 2"
proof -
  have "of_int \<lfloor>x\<rfloor> \<le> x" "x < of_int \<lfloor>x\<rfloor> + 1" by linarith+
  then show ?thesis by (simp add: round_even_def Let_def abs_le_iff)
qed

lemma round_even_floor_cases: "round_even x = \<lfloor>x\<rfloor> \<or> round_even x = \<lfloor>x\<rfloor> + 1"
  by (simp add: round_even_def Let_def)

lemma round_even_mono:
  assumes "x \<le> y" shows "round_even x \<le> round_even y"
proof (cases "\<lfloor>x\<rfloor> = \<lfloor>y\<rfloor>")
  case True
  with assms show ?thesis by (simp add: round_even_def Let_def)
next
  case False
  with floor_mono [OF assms] have "\<lfloor>x\<rfloor> + 1 \<le> \<lfloor>y\<rfloor>" by linarith
  with round_even_floor_cases [of x] round_even_floor_cases [of y] show ?thesis by linarith
qed

lemma round_even_ge: "of_int n \<le> x \<Longrightarrow> n \<le> round_even x"
  using round_even_mono [of "of_int n" x] by simp

lemma round_even_le: "x \<le> of_int n \<Longrightarrow> round_even x \<le> n"
  using round_even_mono [of x "of_int n"] by simp

section \<open>The scale of a positive value\<close>

definition f64_scale :: "rat \<Rightarrow> int" where
  \<comment> \<open>the \<open>k\<close> for which \<open>q * 2\<^sup>k\<close> has exactly 53 integer bits\<close>
  "f64_scale q =
     (let (n, d) = quotient_of q; k = 53 + bitlen d - bitlen n
      in if q * 2 powi k < 2 ^ 53 then k else k - 1)"

lemma powi_add_nat: "(2::rat) powi (int n - int m) = 2 ^ n / 2 ^ m"
  by (simp add: power_int_diff)

lemma bitlen_bounds_rat:
  assumes "0 < x"
  obtains b where "bitlen x = int b" "0 < b" "2 ^ (b - 1) \<le> (of_int x :: rat)" "of_int x < (2 ^ b :: rat)"
proof -
  define b where "b = nat (bitlen x)"
  have pos: "0 < bitlen x" using assms by (simp add: bitlen_eq_zero_iff bitlen_nonneg order_less_le)
  have bounds: "2 ^ nat (bitlen x - 1) \<le> x" "x < 2 ^ nat (bitlen x)"
    using bitlen_bounds [OF assms] by auto
  have eq: "nat (bitlen x - 1) = b - 1" using pos by (simp add: b_def nat_diff_distrib)
  from bounds(1) have "(of_int (2 ^ (b - 1)) :: rat) \<le> of_int x" by (simp only: eq of_int_le_iff)
  moreover from bounds(2) have "(of_int x :: rat) < of_int (2 ^ b)" by (simp only: b_def of_int_less_iff)
  ultimately show ?thesis using pos that [of b] by (simp add: b_def)
qed

lemma f64_scale_bounds:
  assumes "0 < q"
  shows "2 ^ 52 \<le> q * 2 powi f64_scale q" and "q * 2 powi f64_scale q < 2 ^ 53"
proof -
  obtain n d where nd: "quotient_of q = (n, d)" by (cases "quotient_of q")
  have d: "0 < d" using nd by (rule quotient_of_denom_pos)
  have q: "q = of_int n / of_int d" using nd by (rule quotient_of_div)
  have n: "0 < n" using assms d by (simp add: q zero_less_divide_iff)
  obtain b where b: "bitlen n = int b" "0 < b" "2 ^ (b - 1) \<le> (of_int n :: rat)" "of_int n < (2 ^ b :: rat)"
    using bitlen_bounds_rat [OF n] .
  obtain c where c: "bitlen d = int c" "0 < c" "2 ^ (c - 1) \<le> (of_int d :: rat)" "of_int d < (2 ^ c :: rat)"
    using bitlen_bounds_rat [OF d] .
  define k where "k = 53 + bitlen d - bitlen n"
  have k: "(2::rat) powi k = 2 ^ (53 + c) / 2 ^ b"
    using powi_add_nat [of "53 + c" b] by (simp add: k_def b c)
  have dpos: "(0::rat) < of_int d" using d by simp
  have bb: "(2::rat) ^ b = 2 * 2 ^ (b - 1)" using b(2) by (cases b) simp_all
  have cc: "(2::rat) ^ c = 2 * 2 ^ (c - 1)" using c(2) by (cases c) simp_all
  have low: "2 ^ 52 \<le> q * 2 powi k"
  proof -
    have "(2::rat) ^ 52 * of_int d * 2 ^ b \<le> 2 ^ 52 * 2 ^ c * (2 * 2 ^ (b - 1))"
      using c(4) bb d by (intro mult_mono) auto
    also have "\<dots> \<le> of_int n * 2 ^ (53 + c)"
      using b(3) by (simp add: power_add)
    finally show ?thesis using dpos by (simp add: q k field_simps)
  qed
  have high: "q * 2 powi k < 2 ^ 54"
  proof -
    have "of_int n * (2::rat) ^ (53 + c) < 2 ^ b * 2 ^ (53 + c)" using b(4) by simp
    also have "\<dots> = 2 ^ 54 * 2 ^ b * 2 ^ (c - 1)" by (simp add: power_add cc)
    also have "\<dots> \<le> 2 ^ 54 * 2 ^ b * of_int d" using c(3) by simp
    finally show ?thesis using dpos by (simp add: q k field_simps)
  qed
  have half: "(2::rat) powi (k - 1) = 2 powi k / 2" by (simp add: power_int_diff)
  have "f64_scale q = (if q * 2 powi k < 2 ^ 53 then k else k - 1)"
    by (simp add: f64_scale_def nd k_def)
  then show "2 ^ 52 \<le> q * 2 powi f64_scale q" and "q * 2 powi f64_scale q < 2 ^ 53"
    using low high by (auto simp: not_less half)
qed

lemma f64_scale_unique:
  assumes "2 ^ 52 \<le> q * 2 powi k" "q * 2 powi k < 2 ^ 53"
  shows "f64_scale q = k"
proof -
  have q: "0 < q" using assms(1) zero_less_power_int [of "2::rat" k]
    by (smt (verit) mult_nonpos_nonneg zero_less_power zero_less_numeral not_less order_less_imp_le order_less_le_trans)
  have no: False if "i < j" "2 ^ 52 \<le> q * 2 powi i" "q * 2 powi j < 2 ^ 53" for i j
  proof -
    have "(2::rat) powi (i + 1) \<le> 2 powi j" using that(1) by (intro power_int_increasing) auto
    then have "q * (2 powi i * 2) \<le> q * 2 powi j"
      using q by (intro mult_left_mono) (simp_all add: power_int_add)
    with that(2,3) show False by simp
  qed
  show ?thesis
    using no [of k "f64_scale q"] no [of "f64_scale q" k] assms f64_scale_bounds [OF q] by force
qed

section \<open>The rounding function\<close>

definition f64_round_pos :: "rat \<Rightarrow> f64" where
  "f64_round_pos q = of_int (round_even (q * 2 powi f64_scale q)) / 2 powi f64_scale q"

definition f64_round :: "rat \<Rightarrow> f64" where
  "f64_round q =
     (if q = 0 then 0 else if 0 < q then f64_round_pos q else - f64_round_pos (- q))"

lemma f64_round_pos_eq:
  assumes "2 ^ 52 \<le> q * 2 powi k" "q * 2 powi k < 2 ^ 53"
  shows "f64_round_pos q = of_int (round_even (q * 2 powi k)) / 2 powi k"
  by (simp add: f64_round_pos_def f64_scale_unique [OF assms])

lemma f64_round_pos_close:
  assumes "0 < q" shows "\<bar>f64_round_pos q - q\<bar> \<le> q / 2 ^ 53"
proof -
  let ?k = "f64_scale q"
  have P: "(0::rat) < 2 powi ?k" by simp
  let ?r = "of_int (round_even (q * 2 powi ?k)) :: rat"
  have "f64_round_pos q - q = (?r - q * 2 powi ?k) / 2 powi ?k"
    using P by (simp add: f64_round_pos_def field_simps)
  then have "\<bar>f64_round_pos q - q\<bar> = \<bar>?r - q * 2 powi ?k\<bar> / 2 powi ?k"
    using P by (simp add: abs_divide)
  also have "\<dots> \<le> (1 / 2) / 2 powi ?k"
    using round_even_close P by (intro divide_right_mono) auto
  also have "\<dots> \<le> q / 2 ^ 53"
    using f64_scale_bounds(1) [OF assms] P by (simp add: field_simps)
  finally show ?thesis .
qed

lemma f64_round_pos_between:
  assumes "0 < q"
  shows "2 ^ 52 / 2 powi f64_scale q \<le> f64_round_pos q"
    and "f64_round_pos q \<le> 2 ^ 53 / 2 powi f64_scale q"
proof -
  have P: "(0::rat) < 2 powi f64_scale q" by simp
  have "2 ^ 52 \<le> round_even (q * 2 powi f64_scale q)"
    using f64_scale_bounds(1) [OF assms] by (intro round_even_ge) simp
  then have "(of_int (2 ^ 52) :: rat) \<le> of_int (round_even (q * 2 powi f64_scale q))"
    by (simp only: of_int_le_iff)
  then show "2 ^ 52 / 2 powi f64_scale q \<le> f64_round_pos q"
    using P by (simp add: f64_round_pos_def divide_right_mono)
  have "round_even (q * 2 powi f64_scale q) \<le> 2 ^ 53"
    using f64_scale_bounds(2) [OF assms] by (intro round_even_le) simp
  then have "(of_int (round_even (q * 2 powi f64_scale q)) :: rat) \<le> of_int (2 ^ 53)"
    by (simp only: of_int_le_iff)
  then show "f64_round_pos q \<le> 2 ^ 53 / 2 powi f64_scale q"
    using P by (simp add: f64_round_pos_def divide_right_mono)
qed

lemma f64_round_pos_mono:
  assumes "0 < p" "p \<le> q" shows "f64_round_pos p \<le> f64_round_pos q"
proof -
  have q: "0 < q" using assms by simp
  let ?i = "f64_scale p" and ?j = "f64_scale q"
  consider "?i = ?j" | "?j < ?i" | "?i < ?j" by linarith
  then show ?thesis
  proof cases
    case 1
    have "p * 2 powi ?j \<le> q * 2 powi ?j" using assms by simp
    then show ?thesis
      by (simp add: f64_round_pos_def 1 round_even_mono divide_right_mono)
  next
    case 2
    have "(2::rat) powi (?j + 1) \<le> 2 powi ?i" using 2 by (intro power_int_increasing) auto
    then have "2 ^ 53 / 2 powi ?i \<le> (2 ^ 53 / 2 powi (?j + 1) :: rat)"
      by (intro divide_left_mono) auto
    also have "\<dots> = 2 ^ 52 / 2 powi ?j" by (simp add: power_int_add)
    finally show ?thesis
      using f64_round_pos_between(2) [OF assms(1)] f64_round_pos_between(1) [OF q] by linarith
  next
    case 3
    have "(2::rat) powi (?i + 1) \<le> 2 powi ?j" using 3 by (intro power_int_increasing) auto
    then have "p * (2 powi ?i * 2) \<le> q * 2 powi ?j"
      using assms by (intro mult_mono) (simp_all add: power_int_add)
    with f64_scale_bounds(1) [OF assms(1)] f64_scale_bounds(2) [OF q] show ?thesis by simp
  qed
qed

lemma f64_round_pos_pos: "0 < q \<Longrightarrow> 0 < f64_round_pos q"
  using f64_round_pos_between(1) [of q] by (smt (verit) divide_pos_pos zero_less_power zero_less_numeral zero_less_power_int order_less_le_trans)

lemma f64_round_pos_int:
  assumes "0 < n" "n \<le> 2 ^ 53" shows "f64_round_pos (of_int n) = of_int n"
proof (cases "n = 2 ^ 53")
  case True
  have "f64_round_pos (of_int n) = of_int (round_even (of_int n * 2 powi (- 1))) / 2 powi (- 1)"
    by (rule f64_round_pos_eq) (simp_all add: True)
  also have "of_int n * 2 powi (- 1) = (of_int (2 ^ 52) :: rat)" by (simp add: True)
  finally have "f64_round_pos (of_int n) = of_int (2 ^ 52) / 2 powi (- 1)"
    by (simp only: round_even_of_int)
  then show ?thesis by (simp add: True)
next
  case False
  let ?k = "f64_scale (of_int n)"
  have q: "(0::rat) < of_int n" using assms by simp
  have "0 \<le> ?k"
  proof (rule ccontr)
    assume "\<not> 0 \<le> ?k"
    then have "(2::rat) powi ?k \<le> 2 powi (- 1)" by (intro power_int_increasing) auto
    then have "of_int n * 2 powi ?k \<le> of_int n * (2 powi (- 1) :: rat)" using q by simp
    with f64_scale_bounds(1) [OF q] have "(2 ^ 53 :: rat) \<le> of_int n" by simp
    then have "(of_int (2 ^ 53) :: rat) \<le> of_int n" by simp
    with False assms show False by (simp only: of_int_le_iff)
  qed
  then have "of_int n * (2::rat) powi ?k = of_int (n * 2 ^ nat ?k)" by (simp add: power_int_def)
  then show ?thesis
    unfolding f64_round_pos_def by (simp only: round_even_of_int) (simp add: \<open>0 \<le> ?k\<close> power_int_def)
qed

section \<open>What the billing code relies on\<close>

locale rounding =
  fixes rnd :: "rat \<Rightarrow> rat"
  assumes rnd_mono: "x \<le> y \<Longrightarrow> rnd x \<le> rnd y"
    and rnd_int: "\<bar>n\<bar> \<le> 2 ^ 53 \<Longrightarrow> rnd (of_int n) = of_int n"
    and rnd_close: "\<bar>rnd x - x\<bar> \<le> \<bar>x\<bar> / 2 ^ 53"
begin

lemma rnd_zero: "rnd 0 = 0"
  using rnd_int [of 0] by simp

lemma rnd_nonneg: "0 \<le> x \<Longrightarrow> 0 \<le> rnd x"
  using rnd_mono [of 0 x] rnd_zero by simp

lemma rnd_nonpos: "x \<le> 0 \<Longrightarrow> rnd x \<le> 0"
  using rnd_mono [of x 0] rnd_zero by simp

lemma rnd_le_int: "\<bar>n\<bar> \<le> 2 ^ 53 \<Longrightarrow> x \<le> of_int n \<Longrightarrow> rnd x \<le> of_int n"
  using rnd_mono [of x "of_int n"] rnd_int by simp

lemma rnd_ge_int: "\<bar>n\<bar> \<le> 2 ^ 53 \<Longrightarrow> of_int n \<le> x \<Longrightarrow> of_int n \<le> rnd x"
  using rnd_mono [of "of_int n" x] rnd_int by simp

text \<open>Two roundings in a row, as in \<open>(s / 3600.0) * p\<close>, lose little.\<close>

lemma rnd_twice_close:
  assumes "0 \<le> x" "0 \<le> p"
  shows "\<bar>rnd (rnd x * p) - x * p\<bar> \<le> x * p / 2 ^ 51"
proof -
  have a: "\<bar>rnd x - x\<bar> \<le> x / 2 ^ 53" using rnd_close [of x] assms by simp
  have b: "\<bar>rnd (rnd x * p) - rnd x * p\<bar> \<le> rnd x * p / 2 ^ 53"
    using rnd_close [of "rnd x * p"] rnd_nonneg [OF assms(1)] assms by simp
  have c: "\<bar>rnd x * p - x * p\<bar> \<le> x * p / 2 ^ 53"
  proof -
    have "\<bar>rnd x * p - x * p\<bar> = \<bar>rnd x - x\<bar> * p"
      using assms by (simp add: abs_mult flip: left_diff_distrib)
    also have "\<dots> \<le> (x / 2 ^ 53) * p" using a assms by (intro mult_right_mono) auto
    finally show ?thesis by simp
  qed
  have "rnd x * p \<le> 2 * (x * p)"
  proof -
    have xp: "0 \<le> x * p" using assms by simp
    then have "x * p / 2 ^ 53 \<le> x * p" by (simp add: field_simps)
    with c show ?thesis by linarith
  qed
  then have "rnd x * p / 2 ^ 53 \<le> 2 * (x * p) / 2 ^ 53" by (intro divide_right_mono) auto
  with b c have "\<bar>rnd (rnd x * p) - x * p\<bar> \<le> 3 * (x * p) / 2 ^ 53" by linarith
  also have "\<dots> \<le> x * p / 2 ^ 51" using assms by simp
  finally show ?thesis .
qed

end

lemma f64_round_mono: "x \<le> y \<Longrightarrow> f64_round x \<le> f64_round y"
  using f64_round_pos_mono [of x y] f64_round_pos_mono [of "- y" "- x"]
    f64_round_pos_pos [of y] f64_round_pos_pos [of "- x"]
  by (auto simp: f64_round_def not_less intro: order_trans [of _ 0])

lemma f64_round_int: "\<bar>n\<bar> \<le> 2 ^ 53 \<Longrightarrow> f64_round (of_int n) = of_int n"
  using f64_round_pos_int [of n] f64_round_pos_int [of "- n"]
  by (auto simp: f64_round_def)

lemma f64_round_close: "\<bar>f64_round x - x\<bar> \<le> \<bar>x\<bar> / 2 ^ 53"
proof -
  consider "x = 0" | "0 < x" | "x < 0" by linarith
  then show ?thesis
  proof cases
    case 3
    have "\<bar>f64_round x - x\<bar> = \<bar>f64_round_pos (- x) - (- x)\<bar>"
      using 3 by (simp add: f64_round_def abs_if)
    with f64_round_pos_close [of "- x"] 3 show ?thesis by (simp only: abs_of_neg)
  next
    case 2
    with f64_round_pos_close [of x] show ?thesis by (simp add: f64_round_def)
  qed (simp add: f64_round_def)
qed

interpretation f64: rounding f64_round
  by unfold_locales (fact f64_round_mono f64_round_int f64_round_close)+

section \<open>Conversions\<close>

text \<open>\<open>as f64\<close> of an integer below \<open>2\<^sup>53\<close> is exact; \<open>as i32\<close> and \<open>as i64\<close> truncate and saturate.\<close>

definition f64_of_int :: "int \<Rightarrow> f64" where
  "f64_of_int n = f64_round (of_int n)"

definition f64_trunc :: "f64 \<Rightarrow> int" where
  "f64_trunc x = (if 0 \<le> x then \<lfloor>x\<rfloor> else \<lceil>x\<rceil>)"

definition f64_as_i32 :: "f64 \<Rightarrow> i32" where
  "f64_as_i32 x = max (- (2 ^ 31)) (min (2 ^ 31 - 1) (f64_trunc x))"

definition f64_as_i64 :: "f64 \<Rightarrow> i64" where
  "f64_as_i64 x = max (- (2 ^ 63)) (min (2 ^ 63 - 1) (f64_trunc x))"

definition f64_ceil :: "f64 \<Rightarrow> f64" where
  "f64_ceil x = of_int \<lceil>x\<rceil>"

lemma f64_of_int_exact: "\<bar>n\<bar> \<le> 2 ^ 53 \<Longrightarrow> f64_of_int n = of_int n"
  by (simp add: f64_of_int_def f64_round_int)

lemma f64_as_i32_ceil:
  "f64_as_i32 (f64_ceil x) = max (- (2 ^ 31)) (min (2 ^ 31 - 1) \<lceil>x\<rceil>)"
  by (simp add: f64_as_i32_def f64_ceil_def f64_trunc_def)

lemma f64_as_i32_mono: "x \<le> y \<Longrightarrow> f64_as_i32 (f64_ceil x) \<le> f64_as_i32 (f64_ceil y)"
  using ceiling_mono [of x y] by (simp add: f64_as_i32_ceil)

end
