(* ===== verification/Models.thy ===== *)
theory Models
  imports F64
begin

text \<open>
  The data model of \<open>src/api/src/models\<close> and \<open>src/api/src/error.rs\<close>: one \<open>datatype\<close> per
  enum, one \<open>record\<close> per struct (the fields of a struct carry a prefix, so that two
  structs may share a field name), the validators of the request types, the errors of the
  API and their translation into HTTP statuses.
\<close>

section \<open>Users and databases\<close>

datatype user_role = UserRole_User | UserRole_Admin

datatype db_type = Postgresql | Redis | Mariadb

datatype db_status = Provisioning | Running | Stopped | Error | Deleting

datatype db_permission = Admin | ReadWrite | ReadOnly

record user =
  u_id :: uuid
  u_email :: string
  u_password_hash :: string
  u_role :: user_role
  u_api_key :: "string option"
  u_max_databases :: i32
  u_created_at :: time
  u_updated_at :: time
  u_stripe_customer_id :: "string option" \<comment> \<open>a column of the table the struct leaves out\<close>

record user_info =
  ui_id :: uuid
  ui_email :: string
  ui_role :: user_role

definition UserInfo_from :: "user \<Rightarrow> user_info" where
  "UserInfo_from u = \<lparr>ui_id = u_id u, ui_email = u_email u, ui_role = u_role u\<rparr>"

record create_user_request =
  cur_email :: string
  cur_password :: string
  cur_invitation_code :: "string option"

record login_request =
  lr_email :: string
  lr_password :: string

record auth_response =
  ar_token :: string
  ar_user :: user_info

record database_instance =
  di_id :: uuid
  di_user_id :: uuid
  di_name :: string
  di_db_type :: db_type
  di_status :: db_status
  di_container_id :: "string option"
  di_network_id :: "string option"
  di_host :: string
  di_port :: i32
  di_username :: string
  di_password_encrypted :: string
  di_database_name :: "string option"
  di_tls_cert :: "string option"
  di_cpu_limit :: f64
  di_memory_limit_mb :: i32
  di_bundle_id :: "uuid option"
  di_tls_mode :: string
  di_plan_template_id :: "uuid option"
  di_subdomain :: string
  di_routing_mode :: string
  di_docker_server_id :: "uuid option"
  di_created_at :: time
  di_updated_at :: time

fun DatabaseInstance_db_type_str :: "db_type \<Rightarrow> string" where
  "DatabaseInstance_db_type_str Postgresql = ''pg''"
| "DatabaseInstance_db_type_str Redis = ''redis''"
| "DatabaseInstance_db_type_str Mariadb = ''mariadb''"

record db_bundle =
  bu_id :: uuid
  bu_user_id :: uuid
  bu_name :: string
  bu_network_id :: "string option"
  bu_created_at :: time

record database_user =
  du_id :: uuid
  du_database_id :: uuid
  du_username :: string
  du_password_encrypted :: string
  du_permission :: db_permission
  du_created_at :: time
  du_updated_at :: time

record backup_record =
  br_id :: uuid
  br_database_id :: uuid
  br_filename :: string
  br_size_bytes :: i64
  br_created_at :: time

record migration_record =
  mr_id :: uuid
  mr_database_id :: uuid
  mr_filename :: string
  mr_checksum :: string
  mr_applied_at :: time

record db_event =
  ev_user_id :: uuid
  ev_database_id :: uuid
  ev_event_type :: string
  ev_status :: "db_status option"

section \<open>Requests on databases and their validators\<close>

text \<open>
  The validators return the code of the \<open>ValidationError\<close>. Bytes of a non-ASCII code point
  are no ASCII letters or digits, so testing every byte is testing every \<open>char\<close>.
\<close>

definition validate_db_name :: "string \<Rightarrow> string + unit" where
  "validate_db_name name =
     (if name = [] \<or> length name > 63 then Inl ''invalid_length''
      else if \<not> is_ascii_alphabetic (hd name) then Inl ''must_start_with_letter''
      else if \<not> list_all (\<lambda>c. is_ascii_alphanumeric c \<or> c = CHR ''_'' \<or> c = CHR ''-'') name
      then Inl ''invalid_characters''
      else Inr ())"

definition validate_username :: "string \<Rightarrow> string + unit" where
  "validate_username username =
     (if username = [] \<or> length username > 63 then Inl ''invalid_length''
      else if \<not> list_all (\<lambda>c. is_ascii_alphanumeric c \<or> c = CHR ''_'') username
      then Inl ''invalid_characters''
      else Inr ())"

definition char_count :: "string \<Rightarrow> nat" where
  \<comment> \<open>\<open>chars().count()\<close>: the bytes that do not continue a code point\<close>
  "char_count s = length (filter (\<lambda>c. \<not> (128 \<le> (of_char c :: nat) \<and> (of_char c :: nat) < 192)) s)"

definition default_ssl_mode :: string where
  "default_ssl_mode = ''require''"

record create_database_request =
  cdr_name :: string
  cdr_db_type :: db_type
  cdr_plan_template_id :: "uuid option"
  cdr_cpu_limit :: "f64 option"
  cdr_memory_limit_mb :: "i32 option"
  cdr_ssl_mode :: string
  cdr_server_id :: "uuid option"

definition CreateDatabaseRequest_validate :: "create_database_request \<Rightarrow> string + unit" where
  "CreateDatabaseRequest_validate r = validate_db_name (cdr_name r)"

record create_bundle_request =
  cbr_name :: string
  cbr_plan_template_id :: "uuid option"
  cbr_cpu_limit :: "f64 option"
  cbr_memory_limit_mb :: "i32 option"
  cbr_ssl_mode :: string
  cbr_server_id :: "uuid option"

definition CreateBundleRequest_validate :: "create_bundle_request \<Rightarrow> string + unit" where
  "CreateBundleRequest_validate r = validate_db_name (cbr_name r)"

record create_database_user_request =
  cdu_username :: string
  cdu_permission :: db_permission

definition CreateDatabaseUserRequest_validate :: "create_database_user_request \<Rightarrow> string + unit" where
  "CreateDatabaseUserRequest_validate r = validate_username (cdu_username r)"

datatype container_action = Start | Stop | Restart

record database_response =
  dr_id :: uuid
  dr_name :: string
  dr_db_type :: db_type
  dr_status :: db_status
  dr_host :: string
  dr_port :: i32
  dr_username :: string
  dr_password :: string
  dr_database_name :: "string option"
  dr_connection_url :: string
  dr_tls_enabled :: bool
  dr_ssl_mode :: string
  dr_cpu_limit :: f64
  dr_memory_limit_mb :: i32
  dr_bundle_id :: "uuid option"
  dr_plan_template_id :: "uuid option"
  dr_subdomain :: "string option"
  dr_routing_mode :: string
  dr_created_at :: time

record bundle_response =
  bur_id :: uuid
  bur_name :: string
  bur_postgresql :: database_response
  bur_redis :: database_response
  bur_created_at :: time

record database_user_response =
  dur_id :: uuid
  dur_database_id :: uuid
  dur_username :: string
  dur_password :: string
  dur_permission :: db_permission
  dur_created_at :: time

record database_user_list_item =
  dul_id :: uuid
  dul_database_id :: uuid
  dul_username :: string
  dul_permission :: db_permission
  dul_created_at :: time

section \<open>Billing\<close>

record plan_template =
  pt_id :: uuid
  pt_name :: string
  pt_db_type :: db_type
  pt_cpu_limit :: f64
  pt_memory_limit_mb :: i32
  pt_monthly_price_cents :: i32
  pt_hourly_price_cents :: i32
  pt_is_bundle :: bool
  pt_active :: bool
  pt_created_at :: time

record create_plan_template_request =
  cpt_name :: string
  cpt_db_type :: db_type
  cpt_cpu_limit :: f64
  cpt_memory_limit_mb :: i32
  cpt_monthly_price_cents :: i32
  cpt_hourly_price_cents :: i32
  cpt_is_bundle :: bool
  cpt_active :: bool

definition default_active :: bool where
  "default_active = True"

record update_plan_template_request =
  upt_name :: "string option"
  upt_cpu_limit :: "f64 option"
  upt_memory_limit_mb :: "i32 option"
  upt_monthly_price_cents :: "i32 option"
  upt_hourly_price_cents :: "i32 option"
  upt_is_bundle :: "bool option"
  upt_active :: "bool option"

record usage_event =
  ue_id :: uuid
  ue_database_id :: uuid
  ue_event_type :: string
  ue_recorded_at :: time
  ue_user_id :: "uuid option"
  ue_database_name :: "string option"
  ue_plan_template_id :: "uuid option"

record billing_period =
  bp_id :: uuid
  bp_user_id :: uuid
  bp_period_start :: time
  bp_period_end :: time
  bp_total_cents :: i32
  bp_stripe_invoice_id :: "string option"
  bp_status :: string
  bp_created_at :: time

record billing_line_item =
  li_id :: uuid
  li_billing_period_id :: uuid
  li_database_id :: uuid
  li_plan_template_id :: "uuid option"
  li_hours_used :: f64
  li_amount_cents :: i32
  li_created_at :: time

record database_usage =
  dbu_database_id :: uuid
  dbu_database_name :: string
  dbu_plan_name :: "string option"
  dbu_hours_used :: f64
  dbu_estimated_cents :: i32

record current_usage_response =
  cu_databases :: "database_usage list"
  cu_total_estimated_cents :: i32

section \<open>Docker servers\<close>

record docker_server =
  ds_id :: uuid
  ds_name :: string
  ds_url :: string
  ds_tls_ca :: "string option"
  ds_tls_cert :: "string option"
  ds_tls_key :: "string option"
  ds_max_containers :: i32
  ds_active :: bool
  ds_region :: "string option"
  ds_notes :: "string option"
  ds_server_type :: string
  ds_last_seen_at :: "time option"
  ds_created_at :: time

record create_docker_server_request =
  cds_name :: string
  cds_url :: string
  cds_tls_ca :: "string option"
  cds_tls_cert :: "string option"
  cds_tls_key :: "string option"
  cds_max_containers :: "i32 option"
  cds_region :: "string option"
  cds_notes :: "string option"
  cds_server_type :: "string option"

record update_docker_server_request =
  uds_name :: "string option"
  uds_url :: "string option"
  uds_tls_ca :: "string option"
  uds_tls_cert :: "string option"
  uds_tls_key :: "string option"
  uds_max_containers :: "i32 option"
  uds_active :: "bool option"
  uds_region :: "string option"
  uds_notes :: "string option"
  uds_server_type :: "string option"

record docker_server_status =
  dss_id :: uuid
  dss_name :: string
  dss_url :: string
  dss_region :: "string option"
  dss_active :: bool
  dss_server_type :: string
  dss_max_containers :: i32
  dss_online :: bool
  dss_containers_running :: "i64 option"
  dss_containers_total :: "i64 option"
  dss_cpu_count :: "i64 option"
  dss_memory_bytes :: "i64 option"
  dss_docker_version :: "string option"
  dss_last_seen_at :: "time option"
  dss_error :: "string option"

section \<open>Private networks, peerings and firewall rules\<close>

record private_network =
  pn_id :: uuid
  pn_user_id :: uuid
  pn_name :: string
  pn_docker_network_id :: "string option"
  pn_docker_server_id :: "uuid option"
  pn_subnet :: "string option"
  pn_gateway :: "string option"
  pn_created_at :: time

record private_network_member =
  pm_id :: uuid
  pm_network_id :: uuid
  pm_database_id :: uuid
  pm_joined_at :: time

record private_network_member_info =
  pmi_database_id :: uuid
  pmi_database_name :: string
  pmi_db_type :: db_type
  pmi_hostname :: string
  pmi_port :: i32
  pmi_joined_at :: time

record private_network_response =
  pnr_id :: uuid
  pnr_name :: string
  pnr_docker_server_id :: "uuid option"
  pnr_subnet :: "string option"
  pnr_gateway :: "string option"
  pnr_members :: "private_network_member_info list"
  pnr_created_at :: time

record network_peering =
  np_id :: uuid
  np_user_id :: uuid
  np_network_a_id :: uuid
  np_network_b_id :: uuid
  np_docker_bridge_id :: "string option"
  np_docker_server_id :: "uuid option"
  np_status :: string
  np_created_at :: time

record firewall_rule =
  fr_id :: uuid
  fr_peering_id :: uuid
  fr_priority :: i32
  fr_action :: string
  fr_source_network_id :: uuid
  fr_dest_network_id :: uuid
  fr_port :: "i32 option"
  fr_protocol :: "string option"
  fr_description :: "string option"
  fr_created_at :: time

record create_peering_request =
  cpr_network_a_id :: uuid
  cpr_network_b_id :: uuid

record create_firewall_rule_request =
  cfr_action :: string
  cfr_source_network_id :: uuid
  cfr_dest_network_id :: uuid
  cfr_port :: "i32 option"
  cfr_protocol :: "string option"
  cfr_priority :: "i32 option"
  cfr_description :: "string option"

record peering_network_info =
  pni_id :: uuid
  pni_name :: string
  pni_member_count :: i64

record peering_response =
  ppr_id :: uuid
  ppr_network_a :: peering_network_info
  ppr_network_b :: peering_network_info
  ppr_status :: string
  ppr_rules :: "firewall_rule list"
  ppr_created_at :: time

section \<open>Invitations, alerts, audit logs, backup schedules\<close>

record invitation =
  inv_id :: uuid
  inv_code :: string
  inv_created_by :: uuid
  inv_used_by :: "uuid option"
  inv_max_uses :: i32
  inv_use_count :: i32
  inv_expires_at :: "time option"
  inv_created_at :: time

record create_invitation_request =
  cir_max_uses :: "i32 option"
  cir_expires_in_hours :: "i64 option"

record alert_rule =
  alr_id :: uuid
  alr_user_id :: uuid
  alr_database_id :: "uuid option"
  alr_event_type :: string
  alr_webhook_url :: "string option"
  alr_email :: "string option"
  alr_enabled :: bool
  alr_created_at :: time

record alert_history =
  alh_id :: uuid
  alh_alert_rule_id :: uuid
  alh_event_type :: string
  alh_message :: string
  alh_sent_at :: time

record create_alert_rule_request =
  car_database_id :: "uuid option"
  car_event_type :: string
  car_webhook_url :: "string option"
  car_email :: "string option"
  car_enabled :: "bool option"

record update_alert_rule_request =
  uar_webhook_url :: "string option"
  uar_email :: "string option"
  uar_enabled :: "bool option"

record audit_log =
  aul_id :: uuid
  aul_user_id :: "uuid option"
  aul_action :: string
  aul_resource_type :: string
  aul_resource_id :: "uuid option"
  aul_details :: "string option" \<comment> \<open>the JSON value, as its text\<close>
  aul_ip_address :: "string option"
  aul_created_at :: time

record audit_log_query =
  alq_page :: "i64 option"
  alq_per_page :: "i64 option"
  alq_action :: "string option"
  alq_resource_type :: "string option"

record backup_schedule =
  bs_id :: uuid
  bs_database_id :: uuid
  bs_interval_hours :: i32
  bs_retention_count :: i32
  bs_enabled :: bool
  bs_last_run_at :: "time option"
  bs_created_at :: time

record create_backup_schedule_request =
  cbs_interval_hours :: "i32 option"
  cbs_retention_count :: "i32 option"
  cbs_enabled :: "bool option"

definition in_range :: "int \<Rightarrow> int \<Rightarrow> i32 option \<Rightarrow> bool" where
  \<comment> \<open>\<open>#[validate(range(min, max))]\<close> on an optional field\<close>
  "in_range lo hi v = (case v of None \<Rightarrow> True | Some x \<Rightarrow> lo \<le> x \<and> x \<le> hi)"

definition CreateBackupScheduleRequest_validate :: "create_backup_schedule_request \<Rightarrow> bool" where
  "CreateBackupScheduleRequest_validate r \<longleftrightarrow>
     in_range 1 168 (cbs_interval_hours r) \<and> in_range 1 30 (cbs_retention_count r)"

section \<open>Errors\<close>

text \<open>The failures of a SQL statement the code can meet, by the constraint that is violated.\<close>

datatype sqlx_error =
    RowNotFound
  | UniqueViolation string
  | ForeignKeyViolation string
  | CheckViolation string
  | ValueTooLong string
  | ParameterMismatch
  | NegativeRowCount
  | Unavailable

datatype app_error =
    NotFound string
  | BadRequest string
  | Unauthorized
  | Forbidden
  | Conflict string
  | RateLimited
  | Database sqlx_error
  | Docker string
  | Jwt string
  | JsonRejection string
  | PathRejection string
  | Internal string

fun AppError_into_response :: "app_error \<Rightarrow> nat \<times> string" where
  "AppError_into_response (NotFound msg) = (404, msg)"
| "AppError_into_response (BadRequest msg) = (400, msg)"
| "AppError_into_response Unauthorized = (401, ''Unauthorized'')"
| "AppError_into_response Forbidden = (403, ''Forbidden'')"
| "AppError_into_response (Conflict msg) = (409, msg)"
| "AppError_into_response RateLimited = (429, ''Rate limited'')"
| "AppError_into_response (Database e) = (500, ''Internal server error'')"
| "AppError_into_response (Docker e) = (500, ''Provisioning error'')"
| "AppError_into_response (Jwt e) = (401, ''Invalid token'')"
| "AppError_into_response (JsonRejection e) = (400, ''Invalid request body'')"
| "AppError_into_response (PathRejection e) = (400, ''Invalid URL parameter'')"
| "AppError_into_response (Internal msg) = (500, ''Internal server error'')"

section \<open>Privileges in order\<close>

text \<open>
  The permissions of a database user form a chain, from reading to administration: the
  type class gives \<open>\<le>\<close>, \<open>max\<close> and the order lemmas of the library.
\<close>

instantiation db_permission :: linorder
begin

fun permission_rank :: "db_permission \<Rightarrow> nat" where
  "permission_rank ReadOnly = 0"
| "permission_rank ReadWrite = 1"
| "permission_rank Admin = 2"

definition less_eq_db_permission :: "db_permission \<Rightarrow> db_permission \<Rightarrow> bool" where
  "p \<le> q \<longleftrightarrow> permission_rank p \<le> permission_rank q"

definition less_db_permission :: "db_permission \<Rightarrow> db_permission \<Rightarrow> bool" where
  "(p :: db_permission) < q \<longleftrightarrow> permission_rank p < permission_rank q"

instance
proof
  fix p q r :: db_permission
  show "p < q \<longleftrightarrow> p \<le> q \<and> \<not> q \<le> p" "p \<le> p" "p \<le> q \<or> q \<le> p"
    by (auto simp: less_eq_db_permission_def less_db_permission_def)
  show "p \<le> q \<Longrightarrow> q \<le> r \<Longrightarrow> p \<le> r"
    by (simp add: less_eq_db_permission_def)
  show "p \<le> q \<Longrightarrow> q \<le> p \<Longrightarrow> p = q"
    by (cases p; cases q) (simp_all add: less_eq_db_permission_def)
qed

end

section \<open>What a validated name is\<close>

lemma validate_db_name_iff:
  "validate_db_name n = Inr () \<longleftrightarrow>
   n \<noteq> [] \<and> length n \<le> 63 \<and> is_ascii_alphabetic (hd n) \<and>
   (\<forall>c \<in> set n. is_ascii_alphanumeric c \<or> c = CHR ''_'' \<or> c = CHR ''-'')"
  by (auto simp: validate_db_name_def list_all_iff)

lemma validate_username_iff:
  "validate_username n = Inr () \<longleftrightarrow>
   n \<noteq> [] \<and> length n \<le> 63 \<and> (\<forall>c \<in> set n. is_ascii_alphanumeric c \<or> c = CHR ''_'')"
  by (auto simp: validate_username_def list_all_iff)

end
