(* ===== verification/Utils.thy ===== *)
theory Utils
  imports Models
begin

text \<open>
  The helpers of \<open>src/api/src/utils\<close>: the port pool (\<open>port_pool.rs\<close>), the subdomain names
  (\<open>subdomain.rs\<close>) and the encoding half of \<open>crypto.rs\<close> (random strings, hexadecimal keys,
  the layout of an encrypted string). The ciphers, hashes and random bytes come from crates
  and are arguments of the definitions.
\<close>

section \<open>The port pool\<close>

record port_pool =
  pp_start :: u16
  pp_end :: u16
  pp_allocated :: "u16 set"

definition PortPool_new :: "u16 \<Rightarrow> u16 \<Rightarrow> port_pool" where
  "PortPool_new start end' = \<lparr>pp_start = start, pp_end = end', pp_allocated = {}\<rparr>"

definition u16_try_from :: "i32 \<Rightarrow> u16 option" where
  "u16_try_from x = (if 0 \<le> x \<and> x < 65536 then Some (word_of_int x) else None)"

fun PortPool_load_allocated :: "port_pool \<Rightarrow> i32 list \<Rightarrow> port_pool" where
  "PortPool_load_allocated pp [] = pp"
| "PortPool_load_allocated pp (port # ports) =
     PortPool_load_allocated
       (case u16_try_from port of
          Some p \<Rightarrow> pp\<lparr>pp_allocated := insert p (pp_allocated pp)\<rparr>
        | None \<Rightarrow> pp)
       ports"

lemma u16_less_Suc: "p < (e :: u16) \<Longrightarrow> unat (p + 1) = Suc (unat p)"
  using unsigned_less [of e, where ?'a = nat] by (simp add: unat_word_ariths word_less_nat_alt)

function first_free :: "u16 \<Rightarrow> u16 \<Rightarrow> u16 set \<Rightarrow> u16 option" where
  "first_free port end' allocated =
     (if end' < port then None
      else if port \<notin> allocated then Some port
      else if port = end' then None
      else first_free (port + 1) end' allocated)"
  by pat_completeness auto
termination
proof (relation "measure (\<lambda>(port, end', _). unat end' - unat port)", goal_cases)
  case (2 port end' allocated)
  then have "port < end'" by simp
  with u16_less_Suc [OF this] show ?case by (simp add: word_less_nat_alt)
qed simp

declare first_free.simps [simp del]

definition PortPool_allocate :: "port_pool \<Rightarrow> (app_error + u16) \<times> port_pool" where
  "PortPool_allocate pp =
     (case first_free (pp_start pp) (pp_end pp) (pp_allocated pp) of
        Some port \<Rightarrow> (Inr port, pp\<lparr>pp_allocated := insert port (pp_allocated pp)\<rparr>)
      | None \<Rightarrow> (Inl (Internal ''No available ports''), pp))"

definition PortPool_release :: "u16 \<Rightarrow> port_pool \<Rightarrow> port_pool" where
  "PortPool_release port pp = pp\<lparr>pp_allocated := pp_allocated pp - {port}\<rparr>"

lemma first_free_Some:
  "first_free p e A = Some q \<Longrightarrow>
   p \<le> q \<and> q \<le> e \<and> q \<notin> A \<and> (\<forall>r. p \<le> r \<and> r < q \<longrightarrow> r \<in> A)"
proof (induction p e A rule: first_free.induct)
  case (1 p e A)
  show ?case
  proof (cases "e < p \<or> p \<notin> A \<or> p = e")
    case True
    with 1(2) show ?thesis
      by (subst (asm) first_free.simps) (auto split: if_splits simp: not_less)
  next
    case False
    then have pe: "p < e" by auto
    have step: "first_free (p + 1) e A = Some q"
      using 1(2) False by (subst (asm) first_free.simps) (auto split: if_splits)
    with 1(1) False have IH: "p + 1 \<le> q" "q \<le> e" "q \<notin> A"
      "\<forall>r. p + 1 \<le> r \<and> r < q \<longrightarrow> r \<in> A" by auto
    have "p < q"
      using IH(1) u16_less_Suc [OF pe] by (simp add: word_le_nat_alt word_less_nat_alt)
    moreover have "r \<in> A" if "p \<le> r" "r < q" for r
    proof (cases "r = p")
      case False
      with that(1) u16_less_Suc [OF pe] have "p + 1 \<le> r"
        by (auto simp: word_le_nat_alt Suc_le_eq le_less word_unat_eq_iff)
      with that(2) IH(4) show ?thesis by blast
    qed (use \<open>\<not> (e < p \<or> p \<notin> A \<or> p = e)\<close> in auto)
    ultimately show ?thesis using IH by auto
  qed
qed

lemma first_free_None:
  "first_free p e A = None \<Longrightarrow> p \<le> r \<Longrightarrow> r \<le> e \<Longrightarrow> r \<in> A"
proof (induction p e A rule: first_free.induct)
  case (1 p e A)
  show ?case
  proof (cases "e < p \<or> p \<notin> A \<or> p = e")
    case True
    with 1(2-4) show ?thesis
      by (subst (asm) first_free.simps) (auto split: if_splits)
  next
    case False
    then have pe: "p < e" by auto
    have step: "first_free (p + 1) e A = None"
      using 1(2) False by (subst (asm) first_free.simps) (auto split: if_splits)
    show ?thesis
    proof (cases "r = p")
      case False
      with 1(3) u16_less_Suc [OF pe] have "p + 1 \<le> r"
        by (auto simp: word_le_nat_alt Suc_le_eq le_less word_unat_eq_iff)
      with 1(1) step 1(4) pe \<open>\<not> (e < p \<or> p \<notin> A \<or> p = e)\<close> show ?thesis by auto
    qed (use \<open>\<not> (e < p \<or> p \<notin> A \<or> p = e)\<close> in auto)
  qed
qed

lemma first_free_iff_None: "first_free p e A = None \<longleftrightarrow> {p..e} \<subseteq> A"
proof
  assume "{p..e} \<subseteq> A"
  then show "first_free p e A = None"
    using first_free_Some [of p e A] by (cases "first_free p e A") fastforce+
qed (auto dest: first_free_None)

text \<open>
  What the handlers rely on when they ask for a port: the pool hands out a port of its range
  that nobody holds, keeps it until it is released, and fails only when no port is left.
\<close>

locale port_allocator =
  fixes alloc :: "'p \<Rightarrow> (app_error + u16) \<times> 'p"
    and release :: "u16 \<Rightarrow> 'p \<Rightarrow> 'p"
    and held :: "'p \<Rightarrow> u16 set"
    and range :: "'p \<Rightarrow> u16 set"
  assumes alloc_ok: "alloc pp = (Inr p, pp') \<Longrightarrow>
      p \<in> range pp \<and> p \<notin> held pp \<and> held pp' = insert p (held pp) \<and> range pp' = range pp"
    and alloc_full: "alloc pp = (Inl e, pp') \<Longrightarrow> range pp \<subseteq> held pp \<and> pp' = pp"
    and release_held: "held (release q pp) = held pp - {q}"
    and release_range: "range (release q pp) = range pp"
begin

fun alloc_many :: "nat \<Rightarrow> 'p \<Rightarrow> u16 list \<times> 'p" where
  "alloc_many 0 pp = ([], pp)"
| "alloc_many (Suc n) pp =
     (case alloc pp of
        (Inl e, pp') \<Rightarrow> ([], pp')
      | (Inr p, pp') \<Rightarrow> (let (ps, pp'') = alloc_many n pp' in (p # ps, pp'')))"

lemma alloc_many_distinct:
  "alloc_many n pp = (ps, pp') \<Longrightarrow>
   distinct ps \<and> set ps \<inter> held pp = {} \<and> set ps \<subseteq> range pp \<and>
         held pp' = set ps \<union> held pp \<and> range pp' = range pp"
proof (induction n arbitrary: pp ps pp')
  case (Suc n)
  show ?case
  proof (cases "alloc pp")
    case (Pair r pp1)
    show ?thesis
    proof (cases r)
      case (Inl e)
      with Pair Suc.prems alloc_full [of pp e pp1] show ?thesis by auto
    next
      case (Inr p)
      obtain qs pp2 where rec: "alloc_many n pp1 = (qs, pp2)" by (cases "alloc_many n pp1")
      with Pair Inr Suc.prems have "ps = p # qs" "pp' = pp2" by auto
      with Suc.IH [OF rec] alloc_ok [of pp p pp1] Pair Inr show ?thesis by auto
    qed
  qed
qed auto

lemma realloc_after_release:
  assumes "alloc pp = (Inr p, pp')"
  shows "held (release p pp') = held pp" "range (release p pp') = range pp"
  using alloc_ok [OF assms] by (auto simp: release_held release_range)

lemma released_not_stuck:
  assumes "q \<in> range pp"
  obtains p pp' where "alloc (release q pp) = (Inr p, pp')"
proof (cases "alloc (release q pp)")
  case (Pair r pp')
  show thesis
  proof (cases r)
    case (Inl e)
    with Pair alloc_full have "range (release q pp) \<subseteq> held (release q pp)" by blast
    with assms show thesis by (auto simp: release_held release_range)
  qed (use Pair that in auto)
qed

end

definition pp_range :: "port_pool \<Rightarrow> u16 set" where
  "pp_range pp = {pp_start pp .. pp_end pp}"

interpretation pool: port_allocator PortPool_allocate PortPool_release pp_allocated pp_range
proof (unfold_locales, goal_cases)
  case (1 pp p pp')
  then show ?case
    by (auto simp: PortPool_allocate_def pp_range_def split: option.splits
        dest!: first_free_Some)
next
  case (2 pp e pp')
  then show ?case
    by (auto simp: PortPool_allocate_def pp_range_def first_free_iff_None split: option.splits)
next
  case (3 q pp)
  then show ?case by (simp add: PortPool_release_def)
next
  case (4 q pp)
  then show ?case by (simp add: PortPool_release_def pp_range_def)
qed

lemma PortPool_allocate_cases:
  obtains (full) "PortPool_allocate pp = (Inl (Internal ''No available ports''), pp)"
  | (port) p where "PortPool_allocate pp =
      (Inr p, pp\<lparr>pp_allocated := insert p (pp_allocated pp)\<rparr>)"
      "p \<notin> pp_allocated pp" "p \<in> pp_range pp"
proof (cases "first_free (pp_start pp) (pp_end pp) (pp_allocated pp)")
  case None
  with full show thesis by (simp add: PortPool_allocate_def)
next
  case (Some p)
  then have *: "PortPool_allocate pp = (Inr p, pp\<lparr>pp_allocated := insert p (pp_allocated pp)\<rparr>)"
    by (simp add: PortPool_allocate_def)
  from port [OF this] pool.alloc_ok [OF *] show thesis by blast
qed

lemma PortPool_load_allocated_simps [simp]:
  "pp_start (PortPool_load_allocated pp ports) = pp_start pp"
  "pp_end (PortPool_load_allocated pp ports) = pp_end pp"
  by (induction pp ports rule: PortPool_load_allocated.induct) (auto split: option.splits)

lemma PortPool_load_allocated_set:
  "pp_allocated (PortPool_load_allocated pp ports) =
   pp_allocated pp \<union> {p. \<exists>port \<in> set ports. u16_try_from port = Some p}"
  by (induction pp ports rule: PortPool_load_allocated.induct) (auto split: option.splits)

section \<open>Subdomains\<close>

text \<open>
  \<open>to_lowercase\<close> on UTF-8 bytes, up to what \<open>generate_subdomain\<close> observes: a non-ASCII byte
  becomes a hyphen in the next step whatever it is, so lowercasing only matters where it
  makes an ASCII letter: A-Z, the Kelvin sign U+212A (to k) and U+0130 (to i and a combining
  dot). The lowercase of every other non-ASCII code point is non-ASCII.
\<close>

fun str_to_lowercase :: "string \<Rightarrow> string" where
  "str_to_lowercase [] = []"
| "str_to_lowercase (c # cs) =
     (if is_ascii_uppercase c then char_of ((of_char c :: nat) + 32) # str_to_lowercase cs
      else if c = CHR 0xC4 \<and> cs \<noteq> [] \<and> hd cs = CHR 0xB0
      then CHR ''i'' # CHR 0xCC # CHR 0x87 # str_to_lowercase (tl cs)
      else if c = CHR 0xE2 \<and> length cs \<ge> 2 \<and> cs ! 0 = CHR 0x84 \<and> cs ! 1 = CHR 0xAA
      then CHR ''k'' # str_to_lowercase (drop 2 cs)
      else c # str_to_lowercase cs)"

definition sanitize_subdomain :: "string \<Rightarrow> string" where
  "sanitize_subdomain name =
     (let sanitized = map (\<lambda>c. if is_ascii_alphanumeric c \<or> c = CHR ''-'' then c else CHR ''-'')
                        (str_to_lowercase name);
          joined = str_join (filter (\<lambda>s. s \<noteq> []) (str_split sanitized CHR ''-'')) ''-''
      in if length joined > 48 then take 48 joined else joined)"

definition generate_subdomain :: "string \<Rightarrow> string \<Rightarrow> string option" where
  \<comment> \<open>the second argument is \<open>id.to_string()\<close>; \<open>None\<close> is the panic of the slice \<open>..8\<close>\<close>
  "generate_subdomain name id_string =
     (let id_hex = filter (\<lambda>c. c \<noteq> CHR ''-'') id_string
      in if length id_hex < 8 then None
         else Some (sanitize_subdomain name @ ''-'' @ take 8 id_hex @ ''.db''))"

definition subdomain_fqdn :: "string \<Rightarrow> string \<Rightarrow> string" where
  "subdomain_fqdn subdomain platform_domain = subdomain @ ''.'' @ platform_domain"

lemma sanitize_subdomain_length: "length (sanitize_subdomain name) \<le> 48"
  by (simp add: sanitize_subdomain_def Let_def)

lemma to_lowercase_not_upper: "c \<in> set (str_to_lowercase s) \<Longrightarrow> \<not> is_ascii_uppercase c"
proof (induction s rule: str_to_lowercase.induct)
  case (2 c' cs)
  have up: "\<not> is_ascii_uppercase (char_of ((of_char d :: nat) + 32))"
    if "is_ascii_uppercase d" for d
    using that by (auto simp: is_ascii_uppercase_def less_eq_char_def)
  from 2 up show ?case by (auto simp: is_ascii_uppercase_def split: if_splits)
qed simp

lemma sanitize_subdomain_chars:
  assumes "c \<in> set (sanitize_subdomain name)"
  shows "is_ascii_lowercase c \<or> is_ascii_digit c \<or> c = CHR ''-''"
proof -
  define m where "m = map (\<lambda>c. if is_ascii_alphanumeric c \<or> c = CHR ''-'' then c else CHR ''-'')
                        (str_to_lowercase name)"
  define j where "j = str_join (filter (\<lambda>s. s \<noteq> []) (str_split m CHR ''-'')) ''-''"
  have "c \<in> set j"
    using assms in_set_takeD [of c 48 j]
    by (auto simp: sanitize_subdomain_def Let_def m_def j_def split: if_splits)
  then have "c \<in> set m \<or> c = CHR ''-''"
    using set_str_join [of "filter (\<lambda>s. s \<noteq> []) (str_split m CHR ''-'')" "''-''"]
      set_str_split [of _ m "CHR ''-''"]
    unfolding j_def by fastforce
  moreover have "c \<in> set m \<Longrightarrow> (is_ascii_alphanumeric c \<and> \<not> is_ascii_uppercase c) \<or> c = CHR ''-''"
    using to_lowercase_not_upper by (auto simp: m_def split: if_splits)
  ultimately show ?thesis by (auto simp: is_ascii_alphanumeric_def is_ascii_alphabetic_def)
qed

section \<open>Random strings and API keys\<close>

text \<open>The \<open>i\<close>-th index of \<open>random_range(0..62)\<close> is an argument.\<close>

definition random_char :: "nat \<Rightarrow> char" where
  "random_char idx =
     (if idx \<le> 9 then char_of (48 + idx)
      else if idx \<le> 35 then char_of (97 + idx - 10)
      else char_of (65 + idx - 36))"

definition generate_random_string :: "(nat \<Rightarrow> nat) \<Rightarrow> nat \<Rightarrow> string" where
  "generate_random_string rng len = map (\<lambda>i. random_char (rng i)) [0..<len]"

definition generate_api_key :: "(nat \<Rightarrow> nat) \<Rightarrow> string" where
  "generate_api_key rng = ''sbk_'' @ generate_random_string rng 48"

lemma random_char_alphanumeric: "idx < 62 \<Longrightarrow> is_ascii_alphanumeric (random_char idx)"
  by (auto simp: random_char_def ascii_class_defs less_eq_char_def)

lemma random_char_inj: "inj_on random_char {..<62}"
proof -
  have "distinct (map random_char [0..<62])" by code_simp
  then show ?thesis by (simp add: distinct_map lessThan_atLeast0)
qed

lemma generate_random_string_length [simp]: "length (generate_random_string rng n) = n"
  by (simp add: generate_random_string_def)

lemma generate_random_string_chars:
  assumes "\<And>i. rng i < 62" "c \<in> set (generate_random_string rng n)"
  shows "is_ascii_alphanumeric c"
  using assms random_char_alphanumeric by (auto simp: generate_random_string_def)

section \<open>Hexadecimal keys and encrypted strings\<close>

definition hex_value :: "char \<Rightarrow> nat option" where
  "hex_value c =
     (if is_ascii_digit c then Some (of_char c - 48)
      else if CHR ''a'' \<le> c \<and> c \<le> CHR ''f'' then Some (of_char c - 87)
      else if CHR ''A'' \<le> c \<and> c \<le> CHR ''F'' then Some (of_char c - 55)
      else None)"

definition u8_from_hex :: "char \<Rightarrow> char \<Rightarrow> (app_error + nat)" where
  \<comment> \<open>\<open>u8::from_str_radix\<close> on two characters, which accepts a leading plus sign\<close>
  "u8_from_hex a b =
     (case (if a = CHR ''+'' then Some 0 else hex_value a, hex_value b) of
        (Some x, Some y) \<Rightarrow> Inr (16 * x + y)
      | _ \<Rightarrow> Inl (Internal ''Invalid hex''))"

fun hex_pairs :: "string \<Rightarrow> (app_error + nat list)" where
  "hex_pairs (a # b # cs) =
     (case u8_from_hex a b of
        Inl e \<Rightarrow> Inl e
      | Inr v \<Rightarrow> (case hex_pairs cs of Inl e \<Rightarrow> Inl e | Inr vs \<Rightarrow> Inr (v # vs)))"
| "hex_pairs _ = Inr []"

definition hex_decode :: "string \<Rightarrow> (app_error + nat list)" where
  \<comment> \<open>the key bytes; a key with a multi-byte character would panic in the slice instead\<close>
  "hex_decode hex =
     (if length hex \<noteq> 64
      then Inl (Internal ''Encryption key must be 64 hex chars (32 bytes)'')
      else hex_pairs hex)"

record cipher =
  aes_encrypt :: "nat list \<Rightarrow> string \<Rightarrow> string \<Rightarrow> string option" \<comment> \<open>key, nonce, plaintext\<close>
  aes_decrypt :: "nat list \<Rightarrow> string \<Rightarrow> string \<Rightarrow> string option"
  b64_encode :: "string \<Rightarrow> string"
  b64_decode :: "string \<Rightarrow> string option"
  utf8_valid :: "string \<Rightarrow> bool"

definition encrypt_string :: "cipher \<Rightarrow> string \<Rightarrow> string \<Rightarrow> string \<Rightarrow> (app_error + string)" where
  \<comment> \<open>the second argument is the 12 random nonce bytes\<close>
  "encrypt_string ci nonce plaintext key_hex =
     (case hex_decode key_hex of
        Inl e \<Rightarrow> Inl e
      | Inr key_bytes \<Rightarrow>
          if length key_bytes \<noteq> 32 then Inl (Internal ''Invalid encryption key'')
          else (case aes_encrypt ci key_bytes nonce plaintext of
                  None \<Rightarrow> Inl (Internal ''Encryption failed'')
                | Some ciphertext \<Rightarrow> Inr (b64_encode ci (nonce @ ciphertext))))"

definition decrypt_string :: "cipher \<Rightarrow> string \<Rightarrow> string \<Rightarrow> (app_error + string)" where
  "decrypt_string ci encrypted key_hex =
     (case hex_decode key_hex of
        Inl e \<Rightarrow> Inl e
      | Inr key_bytes \<Rightarrow>
          if length key_bytes \<noteq> 32 then Inl (Internal ''Invalid encryption key'')
          else (case b64_decode ci encrypted of
                  None \<Rightarrow> Inl (Internal ''Base64 decode failed'')
                | Some data \<Rightarrow>
                    if length data < 12 then Inl (Internal ''Invalid encrypted data'')
                    else (case aes_decrypt ci key_bytes (take 12 data) (drop 12 data) of
                            None \<Rightarrow> Inl (Internal ''Decryption failed'')
                          | Some plaintext \<Rightarrow>
                              if utf8_valid ci plaintext then Inr plaintext
                              else Inl (Internal ''UTF-8 decode failed''))))"

lemma hex_pairs_length: "hex_pairs s = Inr vs \<Longrightarrow> length vs = length s div 2"
  by (induction s arbitrary: vs rule: hex_pairs.induct) (auto split: sum.splits)

lemma hex_pairs_bound: "hex_pairs s = Inr vs \<Longrightarrow> v \<in> set vs \<Longrightarrow> v < 256"
proof (induction s arbitrary: vs rule: hex_pairs.induct)
  case (1 a b cs)
  have bound: "hex_value c = Some x \<Longrightarrow> x < 16" for c x
    by (auto simp: hex_value_def is_ascii_digit_def less_eq_char_def split: if_splits)
  have "u8_from_hex a b = Inr w \<Longrightarrow> w < 256" for w
    using bound [of a] bound [of b]
    by (fastforce simp: u8_from_hex_def split: option.splits if_splits)
  with 1 show ?case by (auto split: sum.splits)
qed auto

section \<open>What callers rely on\<close>

lemma first_free_least:
  assumes "q \<in> {p..e}" "q \<notin> A" "{p ..< q} \<subseteq> A"
  shows "first_free p e A = Some (q :: u16)"
proof (cases "first_free p e A")
  case None
  with assms first_free_None show ?thesis by auto
next
  case (Some r)
  from first_free_Some [OF this] assms have "\<not> r < q" "\<not> q < r" by auto
  with Some show ?thesis by simp
qed

text \<open>
  C29. The pool hands out the smallest free port of its range and marks it taken; it fails
  exactly when every port of the range is taken, and then changes nothing.
\<close>

theorem PortPool_allocate_least:
  "(PortPool_allocate pp = (Inr p, pp') \<longleftrightarrow>
      p \<in> pp_range pp \<and> p \<notin> pp_allocated pp \<and> {pp_start pp ..< p} \<subseteq> pp_allocated pp \<and>
      pp' = pp\<lparr>pp_allocated := insert p (pp_allocated pp)\<rparr>) \<and>
   (PortPool_allocate pp = (Inl er, pp') \<longleftrightarrow>
      pp_range pp \<subseteq> pp_allocated pp \<and> er = Internal ''No available ports'' \<and> pp' = pp)"
proof (rule conjI, goal_cases)
  case 1
  show ?case
    using first_free_least [of p "pp_start pp" "pp_end pp" "pp_allocated pp"]
      first_free_Some [of "pp_start pp" "pp_end pp" "pp_allocated pp"]
    by (fastforce simp: PortPool_allocate_def pp_range_def split: option.splits)
next
  case 2
  show ?case
    by (auto simp: PortPool_allocate_def pp_range_def first_free_iff_None [symmetric] split: option.splits)
qed

text \<open>
  C25. Round trip of the stored passwords: what \<open>encrypt_string\<close> returns is decrypted to the
  plaintext under the same key, for every AEAD that opens what it sealed, every base64 codec
  that decodes what it encoded, and every 12-byte nonce.
\<close>

theorem decrypt_encrypt:
  assumes aead: "\<And>k n p c. aes_encrypt ci k n p = Some c \<Longrightarrow> aes_decrypt ci k n c = Some p"
    and b64: "\<And>x. b64_decode ci (b64_encode ci x) = Some x"
    and "length nonce = 12" and "utf8_valid ci plaintext"
    and "encrypt_string ci nonce plaintext key_hex = Inr encrypted"
  shows "decrypt_string ci encrypted key_hex = Inr plaintext"
  using assms(3-)
  by (auto simp: encrypt_string_def decrypt_string_def b64 aead split: sum.splits option.splits if_splits)

definition toy_cipher :: cipher where
  "toy_cipher = \<lparr>aes_encrypt = (\<lambda>k n p. Some (n @ rev p)),
     aes_decrypt = (\<lambda>k n c. if take (length n) c = n then Some (rev (drop (length n) c)) else None),
     b64_encode = id, b64_decode = Some, utf8_valid = (\<lambda>_. True)\<rparr>"

lemma decrypt_encrypt_witness:
  "decrypt_string toy_cipher (''0123456789ab'' @ ''0123456789ab'' @ ''terces'') (replicate 64 CHR ''f'')
   = Inr ''secret''"
proof (rule decrypt_encrypt [where nonce = "''0123456789ab''"])
  show "encrypt_string toy_cipher ''0123456789ab'' ''secret'' (replicate 64 CHR ''f'')
      = Inr (''0123456789ab'' @ ''0123456789ab'' @ ''terces'')" by code_simp
qed (auto simp: toy_cipher_def)

lemma validated_name_keeps_head:
  assumes "name \<noteq> []" "is_ascii_alphabetic (hd name)"
  shows "sanitize_subdomain name \<noteq> [] \<and> is_ascii_lowercase (hd (sanitize_subdomain name))"
proof -
  obtain c cs where name: "name = c # cs" using assms(1) by (cases name) auto
  let ?f = "\<lambda>c. if is_ascii_alphanumeric c \<or> c = CHR ''-'' then c else CHR ''-''"
  obtain d ds where low: "str_to_lowercase name = d # ds" "is_ascii_lowercase d"
  proof (cases "is_ascii_uppercase c")
    case True
    moreover have "is_ascii_lowercase (char_of ((of_char c :: nat) + 32))"
      using True by (auto simp: is_ascii_uppercase_def is_ascii_lowercase_def less_eq_char_def)
    ultimately show thesis using that by (simp add: name)
  next
    case False
    with assms(2) have "is_ascii_lowercase c" by (simp add: name is_ascii_alphabetic_def)
    moreover from this have "c \<noteq> CHR 0xC4" "c \<noteq> CHR 0xE2"
      by (auto simp: is_ascii_lowercase_def less_eq_char_def)
    ultimately show thesis using that False by (simp add: name)
  qed
  then have d: "?f d = d" "d \<noteq> CHR ''-''" by (auto simp: ascii_class_defs less_eq_char_def)
  obtain w ws where "str_split (map ?f ds) CHR ''-'' = w # ws"
    using str_split_not_Nil by (cases "str_split (map ?f ds) CHR ''-''") blast+
  with d have split: "str_split (map ?f (str_to_lowercase name)) CHR ''-'' = (d # w) # ws"
    by (simp add: low)
  obtain r where "str_join (filter (\<lambda>s. s \<noteq> []) ((d # w) # ws)) ''-'' = d # r"
    by (cases "filter (\<lambda>s. s \<noteq> []) ws") auto
  with low(2) show ?thesis by (simp add: sanitize_subdomain_def split Let_def)
qed

text \<open>
  C26. The subdomain of a database whose name the validator accepted is a DNS label followed by
  \<open>.db\<close>: it starts with a letter, has lowercase letters, digits and hyphens only, ends with the
  eight characters of the identifier, and is at most 57 bytes long.
\<close>

theorem subdomain_of_validated_name:
  assumes "validate_db_name name = Inr ()" and "generate_subdomain name id_string = Some sub"
    and "\<forall>c \<in> set id_string. is_ascii_lowercase c \<or> is_ascii_digit c \<or> c = CHR ''-''"
  shows "\<exists>label. sub = label @ ''.db'' \<and> length label \<le> 57 \<and> is_ascii_lowercase (hd label) \<and>
    (\<forall>c \<in> set label. is_ascii_lowercase c \<or> is_ascii_digit c \<or> c = CHR ''-'') \<and>
    drop (length label - 8) label = take 8 (filter (\<lambda>c. c \<noteq> CHR ''-'') id_string)"
proof -
  let ?id8 = "take 8 (filter (\<lambda>c. c \<noteq> CHR ''-'') id_string)"
  let ?label = "sanitize_subdomain name @ ''-'' @ ?id8"
  have sub: "sub = ?label @ ''.db''" and len: "length ?id8 = 8"
    using assms(2) by (auto simp: generate_subdomain_def Let_def split: if_splits)
  have "is_ascii_lowercase (hd ?label)"
    using assms(1) validated_name_keeps_head [of name] by (simp add: validate_db_name_iff)
  moreover have "\<forall>c \<in> set ?label. is_ascii_lowercase c \<or> is_ascii_digit c \<or> c = CHR ''-''"
  proof
    fix c assume "c \<in> set ?label"
    then consider "c \<in> set (sanitize_subdomain name)" | "c = CHR ''-''" | "c \<in> set ?id8"
      by (simp only: set_append list.set) blast
    then show "is_ascii_lowercase c \<or> is_ascii_digit c \<or> c = CHR ''-''"
    proof cases
      case 1
      then show ?thesis by (rule sanitize_subdomain_chars)
    next
      case 3
      then have "c \<in> set id_string" using in_set_takeD by fastforce
      with assms(3) show ?thesis by blast
    qed simp
  qed
  moreover have "length ?label \<le> 57"
    using sanitize_subdomain_length [of name] len by simp
  moreover have "drop (length ?label - 8) ?label = ?id8"
    using len by simp
  ultimately show ?thesis using sub by blast
qed

lemma subdomain_of_validated_name_witness:
  "\<exists>label. ''shop-a1b2c3d4.db'' = label @ ''.db'' \<and> length label \<le> 57 \<and> is_ascii_lowercase (hd label) \<and>
    (\<forall>c \<in> set label. is_ascii_lowercase c \<or> is_ascii_digit c \<or> c = CHR ''-'') \<and>
    drop (length label - 8) label = take 8 (filter (\<lambda>c. c \<noteq> CHR ''-'') ''a1b2c3d4-e5f6'')"
proof (rule subdomain_of_validated_name)
  show "validate_db_name ''Shop'' = Inr ()" by code_simp
  show "generate_subdomain ''Shop'' ''a1b2c3d4-e5f6'' = Some ''shop-a1b2c3d4.db''" by code_simp
  show "\<forall>c \<in> set ''a1b2c3d4-e5f6''. is_ascii_lowercase c \<or> is_ascii_digit c \<or> c = CHR ''-''" by code_simp
qed

end
