(* ===== verification/Schema.thy ===== *)
theory Schema
  imports Utils
begin

text \<open>
  The PostgreSQL database behind the repositories: one list of rows per table, and the
  constraints of \<open>src/api/migrations\<close> as the insertions and deletions enforce them (primary
  keys, unique indexes, foreign keys with their \<open>ON DELETE\<close> action, \<open>CHECK\<close>s and
  \<open>VARCHAR\<close> lengths). \<open>schema_ok\<close> is the conjunction of these constraints on a whole
  database; every insertion, update and deletion below keeps it.
\<close>

record pg =
  t_users :: "user list"
  t_databases :: "database_instance list"
  t_bundles :: "db_bundle list"
  t_db_users :: "database_user list"
  t_backups :: "backup_record list"
  t_migrations :: "migration_record list"
  t_plans :: "plan_template list"
  t_usage_events :: "usage_event list"
  t_billing_periods :: "billing_period list"
  t_line_items :: "billing_line_item list"
  t_servers :: "docker_server list"
  t_networks :: "private_network list"
  t_members :: "private_network_member list"
  t_peerings :: "network_peering list"
  t_rules :: "firewall_rule list"
  t_invitations :: "invitation list"
  t_schedules :: "backup_schedule list"
  t_audit_logs :: "audit_log list"
  t_alert_rules :: "alert_rule list"
  t_alert_history :: "alert_history list"
  t_favorites :: "(uuid \<times> uuid) list"
  t_settings :: "(string \<times> string) list" \<comment> \<open>key and JSON text\<close>

section \<open>Constraints as predicates\<close>

definition fits :: "nat \<Rightarrow> string \<Rightarrow> bool" where
  "fits n s \<longleftrightarrow> char_count s \<le> n"

definition fits_opt :: "nat \<Rightarrow> string option \<Rightarrow> bool" where
  "fits_opt n v = (case v of None \<Rightarrow> True | Some s \<Rightarrow> fits n s)"

definition opt_in :: "'a option \<Rightarrow> 'a set \<Rightarrow> bool" where
  "opt_in v A = (case v of None \<Rightarrow> True | Some x \<Rightarrow> x \<in> A)"

definition ids :: "('r \<Rightarrow> 'k) \<Rightarrow> 'r list \<Rightarrow> 'k set" where
  "ids k rs = k ` set rs"

definition keyed :: "('r \<Rightarrow> 'k) \<Rightarrow> 'r list \<Rightarrow> bool" where
  "keyed k rs \<longleftrightarrow> distinct (map k rs)"

definition keyed_opt :: "('r \<Rightarrow> 'k option) \<Rightarrow> 'r list \<Rightarrow> bool" where
  "keyed_opt k rs \<longleftrightarrow> distinct (List.map_filter k rs)"

definition peering_key :: "network_peering \<Rightarrow> uuid \<times> uuid" where
  \<comment> \<open>the expression of the unique index: \<open>LEAST\<close> and \<open>GREATEST\<close> of the two networks\<close>
  "peering_key p = (min (np_network_a_id p) (np_network_b_id p),
                    max (np_network_a_id p) (np_network_b_id p))"

definition fk :: "('r \<Rightarrow> 'k) \<Rightarrow> 'r list \<Rightarrow> 'k set \<Rightarrow> bool" where
  \<comment> \<open>a \<open>NOT NULL\<close> foreign key\<close>
  "fk k rs A \<longleftrightarrow> ids k rs \<subseteq> A"

definition fk_opt :: "('r \<Rightarrow> 'k option) \<Rightarrow> 'r list \<Rightarrow> 'k set \<Rightarrow> bool" where
  "fk_opt k rs A \<longleftrightarrow> list_all (\<lambda>r. opt_in (k r) A) rs"

text \<open>How the constraints behave under insertion, deletion and update of rows.\<close>

lemma opt_in_simps [simp]: "opt_in None A" "opt_in (Some x) A \<longleftrightarrow> x \<in> A"
  by (simp_all add: opt_in_def)

lemma opt_in_mono: "opt_in v A \<Longrightarrow> A \<subseteq> B \<Longrightarrow> opt_in v B"
  by (cases v) auto

lemma keyed_append1 [simp]: "keyed k (rs @ [r]) \<longleftrightarrow> keyed k rs \<and> k r \<notin> ids k rs"
  by (auto simp: keyed_def ids_def)

lemma keyed_delete [simp]: "keyed k rs \<Longrightarrow> keyed k (delete_where p rs)"
  by (simp add: keyed_def distinct_map_delete_where)

lemma keyed_update [simp]: "(\<And>r. p r \<Longrightarrow> k (f r) = k r) \<Longrightarrow> keyed k (update_where p f rs) = keyed k rs"
  by (simp add: keyed_def map_update_where)

lemma keyed_opt_append1 [simp]:
  "keyed_opt k (rs @ [r]) \<longleftrightarrow> keyed_opt k rs \<and> (k r = None \<or> k r \<notin> ids k rs)"
  by (auto simp: keyed_opt_def ids_def map_filter_def image_iff split: option.splits)

lemma keyed_opt_delete [simp]: "keyed_opt k rs \<Longrightarrow> keyed_opt k (delete_where p rs)"
proof (induction rs)
  case (Cons r rs)
  have "set (List.map_filter k (delete_where p rs)) \<subseteq> set (List.map_filter k rs)"
    by (auto simp: map_filter_def delete_where_def)
  with Cons show ?case
    by (auto simp: keyed_opt_def delete_where_def split: option.splits)
qed (simp add: delete_where_def)

lemma keyed_opt_update [simp]:
  "(\<And>r. p r \<Longrightarrow> k (f r) = k r) \<Longrightarrow> keyed_opt k (update_where p f rs) = keyed_opt k rs"
proof -
  assume *: "\<And>r. p r \<Longrightarrow> k (f r) = k r"
  have "List.map_filter k (update_where p f rs) = List.map_filter k rs"
    using * by (induction rs) (auto simp: update_where_def split: option.splits)
  then show ?thesis by (simp add: keyed_opt_def)
qed

lemma ids_append1 [simp]: "ids k (rs @ [r]) = insert (k r) (ids k rs)"
  by (auto simp: ids_def)

lemma ids_update [simp]: "(\<And>r. p r \<Longrightarrow> k (f r) = k r) \<Longrightarrow> ids k (update_where p f rs) = ids k rs"
  unfolding ids_def set_map [symmetric] by (simp add: map_update_where)

lemma ids_delete_key [simp]: "ids k (delete_where (\<lambda>r. k r = i) rs) = ids k rs - {i}"
  by (auto simp: ids_def)

lemma ids_Nil [simp]: "ids k [] = {}" and keyed_Nil [simp]: "keyed k []"
  by (simp_all add: ids_def keyed_def)

lemma keyed_find:
  assumes "keyed k rs" "r \<in> set rs" shows "find (\<lambda>x. k x = k r) rs = Some r"
  using assms by (induction rs) (auto simp: keyed_def)

lemma find_key_None: "find (\<lambda>x. k x = i) rs = None \<longleftrightarrow> i \<notin> ids k rs"
  by (auto simp: find_None_iff ids_def)

lemma find_Some_mem: "find p rs = Some r \<Longrightarrow> r \<in> set rs \<and> p r"
  by (auto simp: find_Some_iff)

lemma fk_append1 [simp]: "fk k (rs @ [r]) A \<longleftrightarrow> k r \<in> A \<and> fk k rs A"
  by (auto simp: fk_def)

lemma fk_insert [simp]: "fk k rs A \<Longrightarrow> fk k rs (insert a A)"
  by (auto simp: fk_def)

lemma fk_delete [simp]: "fk k rs A \<Longrightarrow> fk k (delete_where p rs) A"
  by (auto simp: fk_def ids_def)

lemma fk_delete_key [simp]:
  "fk k rs A \<Longrightarrow> (\<And>r. k r = i \<Longrightarrow> p r) \<Longrightarrow> fk k (delete_where p rs) (A - {i})"
  by (auto simp: fk_def ids_def)

lemma fk_update [simp]: "(\<And>r. p r \<Longrightarrow> k (f r) = k r) \<Longrightarrow> fk k (update_where p f rs) A = fk k rs A"
  by (simp add: fk_def)

lemma fk_opt_append1 [simp]: "fk_opt k (rs @ [r]) A \<longleftrightarrow> opt_in (k r) A \<and> fk_opt k rs A"
  by (auto simp: fk_opt_def)

lemma fk_opt_insert [simp]: "fk_opt k rs A \<Longrightarrow> fk_opt k rs (insert a A)"
  by (auto simp: fk_opt_def list_all_iff intro: opt_in_mono)

lemma fk_opt_delete [simp]: "fk_opt k rs A \<Longrightarrow> fk_opt k (delete_where p rs) A"
  by (auto simp: fk_opt_def list_all_iff)

lemma opt_in_minus: "opt_in v A \<Longrightarrow> v \<noteq> Some i \<Longrightarrow> opt_in v (A - {i})"
  by (cases v) auto

lemma fk_opt_delete_key [simp]:
  "fk_opt k rs A \<Longrightarrow> (\<And>r. k r = Some i \<Longrightarrow> p r) \<Longrightarrow> fk_opt k (delete_where p rs) (A - {i})"
  by (auto simp: fk_opt_def list_all_iff intro: opt_in_minus)

lemma fk_opt_minus: "fk_opt k rs A \<Longrightarrow> Some i \<notin> ids k rs \<Longrightarrow> fk_opt k rs (A - {i})"
  by (induction rs) (auto simp: fk_opt_def ids_def intro: opt_in_minus)

lemma fk_minus: "fk k rs A \<Longrightarrow> i \<notin> ids k rs \<Longrightarrow> fk k rs (A - {i})"
  by (auto simp: fk_def)

lemma fk_opt_update [simp]:
  "(\<And>r. p r \<Longrightarrow> k (f r) = k r) \<Longrightarrow> fk_opt k (update_where p f rs) A = fk_opt k rs A"
  by (induction rs) (auto simp: fk_opt_def update_where_def)

lemma fk_cascade [simp]:
  "fk k cs (ids j ps) \<Longrightarrow> (\<And>c. k c \<in> j ` {x \<in> set ps. p x} \<Longrightarrow> q c) \<Longrightarrow>
   fk k (delete_where q cs) (ids j (delete_where p ps))"
  by (fastforce simp: fk_def ids_def)

lemma fk_opt_set_null [simp]:
  "fk_opt k rs A \<Longrightarrow> (\<And>r. k (f r) = None) \<Longrightarrow>
   fk_opt k (update_where (\<lambda>r. k r = Some i) f rs) (A - {i})"
  by (induction rs) (auto simp: fk_opt_def update_where_def intro: opt_in_minus)

lemma list_all_delete [simp]: "list_all P rs \<Longrightarrow> list_all P (delete_where p rs)"
  by (auto simp: list_all_iff)

lemma list_all_update:
  "list_all P rs \<Longrightarrow> (\<And>r. p r \<Longrightarrow> P r \<Longrightarrow> P (f r)) \<Longrightarrow> list_all P (update_where p f rs)"
  by (auto simp: list_all_iff update_where_def)

lemma list_all_update_same [simp]:
  "(\<And>r. p r \<Longrightarrow> P (f r) = P r) \<Longrightarrow> list_all P (update_where p f rs) = list_all P rs"
  by (induction rs) (auto simp: update_where_def)

lemma distinct_delete_where [simp]: "distinct rs \<Longrightarrow> distinct (delete_where p rs)"
  by (simp add: delete_where_def)

section \<open>The invariant\<close>

definition users_ok :: "pg \<Rightarrow> bool" where
  "users_ok d \<longleftrightarrow> keyed u_id (t_users d) \<and> keyed u_email (t_users d) \<and>
     keyed_opt u_api_key (t_users d)"

definition databases_ok :: "pg \<Rightarrow> bool" where
  "databases_ok d \<longleftrightarrow>
     keyed di_id (t_databases d) \<and>
     keyed (\<lambda>x. (di_user_id x, di_name x)) (t_databases d) \<and>
     keyed di_subdomain (t_databases d) \<and>
     fk di_user_id (t_databases d) (ids u_id (t_users d)) \<and>
     fk_opt di_bundle_id (t_databases d) (ids bu_id (t_bundles d)) \<and>
     fk_opt di_plan_template_id (t_databases d) (ids pt_id (t_plans d)) \<and>
     fk_opt di_docker_server_id (t_databases d) (ids ds_id (t_servers d))"

definition bundles_ok :: "pg \<Rightarrow> bool" where
  "bundles_ok d \<longleftrightarrow> keyed bu_id (t_bundles d) \<and>
     fk bu_user_id (t_bundles d) (ids u_id (t_users d))"

definition db_children_ok :: "pg \<Rightarrow> bool" where
  "db_children_ok d \<longleftrightarrow>
     keyed du_id (t_db_users d) \<and>
     keyed (\<lambda>x. (du_database_id x, du_username x)) (t_db_users d) \<and>
     fk du_database_id (t_db_users d) (ids di_id (t_databases d)) \<and>
     keyed br_id (t_backups d) \<and>
     fk br_database_id (t_backups d) (ids di_id (t_databases d)) \<and>
     keyed mr_id (t_migrations d) \<and>
     keyed (\<lambda>x. (mr_database_id x, mr_filename x)) (t_migrations d) \<and>
     fk mr_database_id (t_migrations d) (ids di_id (t_databases d)) \<and>
     keyed bs_id (t_schedules d) \<and> keyed bs_database_id (t_schedules d) \<and>
     fk bs_database_id (t_schedules d) (ids di_id (t_databases d)) \<and>
     keyed (\<lambda>x. x) (t_favorites d) \<and>
     fk fst (t_favorites d) (ids u_id (t_users d)) \<and>
     fk snd (t_favorites d) (ids di_id (t_databases d))"

definition billing_ok :: "pg \<Rightarrow> bool" where
  "billing_ok d \<longleftrightarrow>
     keyed pt_id (t_plans d) \<and>
     keyed (\<lambda>x. (pt_name x, pt_db_type x, pt_is_bundle x)) (t_plans d) \<and>
     keyed ue_id (t_usage_events d) \<and>
     list_all (\<lambda>x. ue_event_type x \<in> {''start'', ''stop''}) (t_usage_events d) \<and>
     keyed bp_id (t_billing_periods d) \<and>
     fk bp_user_id (t_billing_periods d) (ids u_id (t_users d)) \<and>
     list_all (\<lambda>x. bp_status x \<in> {''pending'', ''invoiced'', ''paid'', ''failed''}) (t_billing_periods d) \<and>
     keyed li_id (t_line_items d) \<and>
     fk li_billing_period_id (t_line_items d) (ids bp_id (t_billing_periods d)) \<and>
     fk_opt li_plan_template_id (t_line_items d) (ids pt_id (t_plans d))"

definition servers_ok :: "pg \<Rightarrow> bool" where
  "servers_ok d \<longleftrightarrow> keyed ds_id (t_servers d) \<and>
     list_all (\<lambda>x. ds_server_type x \<in> {''platform'', ''client''}) (t_servers d)"

definition networks_ok :: "pg \<Rightarrow> bool" where
  "networks_ok d \<longleftrightarrow>
     keyed pn_id (t_networks d) \<and>
     keyed (\<lambda>x. (pn_user_id x, pn_name x)) (t_networks d) \<and>
     fk pn_user_id (t_networks d) (ids u_id (t_users d)) \<and>
     fk_opt pn_docker_server_id (t_networks d) (ids ds_id (t_servers d)) \<and>
     keyed pm_id (t_members d) \<and>
     keyed (\<lambda>x. (pm_network_id x, pm_database_id x)) (t_members d) \<and>
     fk pm_network_id (t_members d) (ids pn_id (t_networks d)) \<and>
     fk pm_database_id (t_members d) (ids di_id (t_databases d))"

definition rule_checks :: "firewall_rule \<Rightarrow> bool" where
  "rule_checks x \<longleftrightarrow> fr_action x \<in> {''allow'', ''deny''} \<and>
     (case fr_port x of None \<Rightarrow> True | Some p \<Rightarrow> 0 < p \<and> p < 65536) \<and>
     (case fr_protocol x of None \<Rightarrow> True | Some p \<Rightarrow> p \<in> {''tcp'', ''udp''})"

definition peerings_ok :: "pg \<Rightarrow> bool" where
  "peerings_ok d \<longleftrightarrow>
     keyed np_id (t_peerings d) \<and> keyed peering_key (t_peerings d) \<and>
     list_all (\<lambda>x. np_network_a_id x \<noteq> np_network_b_id x) (t_peerings d) \<and>
     fk np_user_id (t_peerings d) (ids u_id (t_users d)) \<and>
     fk np_network_a_id (t_peerings d) (ids pn_id (t_networks d)) \<and>
     fk np_network_b_id (t_peerings d) (ids pn_id (t_networks d)) \<and>
     fk_opt np_docker_server_id (t_peerings d) (ids ds_id (t_servers d)) \<and>
     keyed fr_id (t_rules d) \<and> list_all rule_checks (t_rules d) \<and>
     fk fr_peering_id (t_rules d) (ids np_id (t_peerings d)) \<and>
     fk fr_source_network_id (t_rules d) (ids pn_id (t_networks d)) \<and>
     fk fr_dest_network_id (t_rules d) (ids pn_id (t_networks d))"

definition alert_event_types :: "string list" where
  "alert_event_types = [''db_down'', ''db_error'', ''backup_failed'', ''high_cpu'', ''high_memory'']"

definition misc_ok :: "pg \<Rightarrow> bool" where
  "misc_ok d \<longleftrightarrow>
     keyed inv_id (t_invitations d) \<and> keyed inv_code (t_invitations d) \<and>
     fk inv_created_by (t_invitations d) (ids u_id (t_users d)) \<and>
     fk_opt inv_used_by (t_invitations d) (ids u_id (t_users d)) \<and>
     keyed aul_id (t_audit_logs d) \<and>
     fk_opt aul_user_id (t_audit_logs d) (ids u_id (t_users d)) \<and>
     keyed alr_id (t_alert_rules d) \<and>
     fk alr_user_id (t_alert_rules d) (ids u_id (t_users d)) \<and>
     fk_opt alr_database_id (t_alert_rules d) (ids di_id (t_databases d)) \<and>
     list_all (\<lambda>x. alr_event_type x \<in> set alert_event_types) (t_alert_rules d) \<and>
     keyed alh_id (t_alert_history d) \<and>
     fk alh_alert_rule_id (t_alert_history d) (ids alr_id (t_alert_rules d))"

definition schema_ok :: "pg \<Rightarrow> bool" where
  "schema_ok d \<longleftrightarrow> users_ok d \<and> databases_ok d \<and> bundles_ok d \<and> db_children_ok d \<and>
     billing_ok d \<and> servers_ok d \<and> networks_ok d \<and> peerings_ok d \<and> misc_ok d"

lemmas schema_parts_def =
  users_ok_def databases_ok_def bundles_ok_def db_children_ok_def billing_ok_def
  servers_ok_def networks_ok_def peerings_ok_def misc_ok_def

section \<open>Insertions\<close>

text \<open>
  PostgreSQL tests the lengths and the \<open>CHECK\<close>s of the new row first, then the unique
  indexes, then the foreign keys. Each insertion appends the row or reports the violation.
\<close>

definition insert_user :: "user \<Rightarrow> pg \<Rightarrow> sqlx_error + pg" where
  "insert_user r d =
     (if \<not> (fits 255 (u_email r) \<and> fits_opt 64 (u_api_key r)) then Inl (ValueTooLong ''users'')
      else if u_id r \<in> ids u_id (t_users d) then Inl (UniqueViolation ''users_pkey'')
      else if u_email r \<in> ids u_email (t_users d) then Inl (UniqueViolation ''users_email_key'')
      else if u_api_key r \<noteq> None \<and> u_api_key r \<in> ids u_api_key (t_users d)
      then Inl (UniqueViolation ''users_api_key_key'')
      else Inr (d\<lparr>t_users := t_users d @ [r]\<rparr>))"

definition database_fits :: "database_instance \<Rightarrow> bool" where
  "database_fits r \<longleftrightarrow> fits 63 (di_name r) \<and> fits_opt 128 (di_container_id r) \<and>
     fits_opt 128 (di_network_id r) \<and> fits 255 (di_host r) \<and> fits 63 (di_username r) \<and>
     fits_opt 63 (di_database_name r) \<and> fits 16 (di_tls_mode r) \<and> fits 255 (di_subdomain r) \<and>
     fits 10 (di_routing_mode r)"

definition insert_database :: "database_instance \<Rightarrow> pg \<Rightarrow> sqlx_error + pg" where
  "insert_database r d =
     (if \<not> database_fits r then Inl (ValueTooLong ''database_instances'')
      else if di_id r \<in> ids di_id (t_databases d) then Inl (UniqueViolation ''database_instances_pkey'')
      else if (di_user_id r, di_name r) \<in> ids (\<lambda>x. (di_user_id x, di_name x)) (t_databases d)
      then Inl (UniqueViolation ''database_instances_user_id_name_key'')
      else if di_subdomain r \<in> ids di_subdomain (t_databases d)
      then Inl (UniqueViolation ''idx_database_instances_subdomain'')
      else if di_user_id r \<notin> ids u_id (t_users d)
      then Inl (ForeignKeyViolation ''database_instances_user_id_fkey'')
      else if \<not> opt_in (di_bundle_id r) (ids bu_id (t_bundles d))
      then Inl (ForeignKeyViolation ''database_instances_bundle_id_fkey'')
      else if \<not> opt_in (di_plan_template_id r) (ids pt_id (t_plans d))
      then Inl (ForeignKeyViolation ''database_instances_plan_template_id_fkey'')
      else if \<not> opt_in (di_docker_server_id r) (ids ds_id (t_servers d))
      then Inl (ForeignKeyViolation ''database_instances_docker_server_id_fkey'')
      else Inr (d\<lparr>t_databases := t_databases d @ [r]\<rparr>))"

definition insert_bundle :: "db_bundle \<Rightarrow> pg \<Rightarrow> sqlx_error + pg" where
  "insert_bundle r d =
     (if \<not> (fits 63 (bu_name r) \<and> fits_opt 255 (bu_network_id r)) then Inl (ValueTooLong ''bundles'')
      else if bu_id r \<in> ids bu_id (t_bundles d) then Inl (UniqueViolation ''bundles_pkey'')
      else if bu_user_id r \<notin> ids u_id (t_users d) then Inl (ForeignKeyViolation ''bundles_user_id_fkey'')
      else Inr (d\<lparr>t_bundles := t_bundles d @ [r]\<rparr>))"

definition insert_db_user :: "database_user \<Rightarrow> pg \<Rightarrow> sqlx_error + pg" where
  "insert_db_user r d =
     (if \<not> fits 63 (du_username r) then Inl (ValueTooLong ''database_users'')
      else if du_id r \<in> ids du_id (t_db_users d) then Inl (UniqueViolation ''database_users_pkey'')
      else if (du_database_id r, du_username r) \<in> ids (\<lambda>x. (du_database_id x, du_username x)) (t_db_users d)
      then Inl (UniqueViolation ''uq_database_users_db_username'')
      else if du_database_id r \<notin> ids di_id (t_databases d)
      then Inl (ForeignKeyViolation ''database_users_database_id_fkey'')
      else Inr (d\<lparr>t_db_users := t_db_users d @ [r]\<rparr>))"

definition insert_backup :: "backup_record \<Rightarrow> pg \<Rightarrow> sqlx_error + pg" where
  "insert_backup r d =
     (if \<not> fits 255 (br_filename r) then Inl (ValueTooLong ''database_backups'')
      else if br_id r \<in> ids br_id (t_backups d) then Inl (UniqueViolation ''database_backups_pkey'')
      else if br_database_id r \<notin> ids di_id (t_databases d)
      then Inl (ForeignKeyViolation ''database_backups_database_id_fkey'')
      else Inr (d\<lparr>t_backups := t_backups d @ [r]\<rparr>))"

definition insert_migration :: "migration_record \<Rightarrow> pg \<Rightarrow> sqlx_error + pg" where
  "insert_migration r d =
     (if \<not> (fits 255 (mr_filename r) \<and> fits 64 (mr_checksum r)) then Inl (ValueTooLong ''migration_records'')
      else if mr_id r \<in> ids mr_id (t_migrations d) then Inl (UniqueViolation ''migration_records_pkey'')
      else if (mr_database_id r, mr_filename r) \<in> ids (\<lambda>x. (mr_database_id x, mr_filename x)) (t_migrations d)
      then Inl (UniqueViolation ''migration_records_database_id_filename_key'')
      else if mr_database_id r \<notin> ids di_id (t_databases d)
      then Inl (ForeignKeyViolation ''migration_records_database_id_fkey'')
      else Inr (d\<lparr>t_migrations := t_migrations d @ [r]\<rparr>))"

definition insert_plan :: "plan_template \<Rightarrow> pg \<Rightarrow> sqlx_error + pg" where
  "insert_plan r d =
     (if \<not> fits 100 (pt_name r) then Inl (ValueTooLong ''plan_templates'')
      else if pt_id r \<in> ids pt_id (t_plans d) then Inl (UniqueViolation ''plan_templates_pkey'')
      else if (pt_name r, pt_db_type r, pt_is_bundle r) \<in>
                ids (\<lambda>x. (pt_name x, pt_db_type x, pt_is_bundle x)) (t_plans d)
      then Inl (UniqueViolation ''plan_templates_name_type_bundle_uniq'')
      else Inr (d\<lparr>t_plans := t_plans d @ [r]\<rparr>))"

definition insert_usage_event :: "usage_event \<Rightarrow> pg \<Rightarrow> sqlx_error + pg" where
  "insert_usage_event r d =
     (if \<not> (fits 10 (ue_event_type r) \<and> fits_opt 100 (ue_database_name r))
      then Inl (ValueTooLong ''usage_events'')
      else if ue_event_type r \<notin> {''start'', ''stop''}
      then Inl (CheckViolation ''usage_events_event_type_check'')
      else if ue_id r \<in> ids ue_id (t_usage_events d) then Inl (UniqueViolation ''usage_events_pkey'')
      else Inr (d\<lparr>t_usage_events := t_usage_events d @ [r]\<rparr>))"

definition insert_billing_period :: "billing_period \<Rightarrow> pg \<Rightarrow> sqlx_error + pg" where
  "insert_billing_period r d =
     (if \<not> (fits_opt 255 (bp_stripe_invoice_id r) \<and> fits 20 (bp_status r))
      then Inl (ValueTooLong ''billing_periods'')
      else if bp_status r \<notin> {''pending'', ''invoiced'', ''paid'', ''failed''}
      then Inl (CheckViolation ''billing_periods_status_check'')
      else if bp_id r \<in> ids bp_id (t_billing_periods d)
      then Inl (UniqueViolation ''billing_periods_pkey'')
      else if bp_user_id r \<notin> ids u_id (t_users d)
      then Inl (ForeignKeyViolation ''billing_periods_user_id_fkey'')
      else Inr (d\<lparr>t_billing_periods := t_billing_periods d @ [r]\<rparr>))"

definition insert_line_item :: "billing_line_item \<Rightarrow> pg \<Rightarrow> sqlx_error + pg" where
  "insert_line_item r d =
     (if li_id r \<in> ids li_id (t_line_items d) then Inl (UniqueViolation ''billing_line_items_pkey'')
      else if li_billing_period_id r \<notin> ids bp_id (t_billing_periods d)
      then Inl (ForeignKeyViolation ''billing_line_items_billing_period_id_fkey'')
      else if \<not> opt_in (li_plan_template_id r) (ids pt_id (t_plans d))
      then Inl (ForeignKeyViolation ''billing_line_items_plan_template_id_fkey'')
      else Inr (d\<lparr>t_line_items := t_line_items d @ [r]\<rparr>))"

definition insert_server :: "docker_server \<Rightarrow> pg \<Rightarrow> sqlx_error + pg" where
  "insert_server r d =
     (if \<not> (fits 100 (ds_name r) \<and> fits 500 (ds_url r) \<and> fits_opt 100 (ds_region r) \<and>
             fits 20 (ds_server_type r))
      then Inl (ValueTooLong ''docker_servers'')
      else if ds_server_type r \<notin> {''platform'', ''client''}
      then Inl (CheckViolation ''docker_servers_server_type_check'')
      else if ds_id r \<in> ids ds_id (t_servers d) then Inl (UniqueViolation ''docker_servers_pkey'')
      else Inr (d\<lparr>t_servers := t_servers d @ [r]\<rparr>))"

definition insert_network :: "private_network \<Rightarrow> pg \<Rightarrow> sqlx_error + pg" where
  "insert_network r d =
     (if \<not> (fits 63 (pn_name r) \<and> fits_opt 128 (pn_docker_network_id r) \<and>
             fits_opt 43 (pn_subnet r) \<and> fits_opt 39 (pn_gateway r))
      then Inl (ValueTooLong ''private_networks'')
      else if pn_id r \<in> ids pn_id (t_networks d) then Inl (UniqueViolation ''private_networks_pkey'')
      else if (pn_user_id r, pn_name r) \<in> ids (\<lambda>x. (pn_user_id x, pn_name x)) (t_networks d)
      then Inl (UniqueViolation ''private_networks_user_id_name_key'')
      else if pn_user_id r \<notin> ids u_id (t_users d)
      then Inl (ForeignKeyViolation ''private_networks_user_id_fkey'')
      else if \<not> opt_in (pn_docker_server_id r) (ids ds_id (t_servers d))
      then Inl (ForeignKeyViolation ''private_networks_docker_server_id_fkey'')
      else Inr (d\<lparr>t_networks := t_networks d @ [r]\<rparr>))"

definition insert_member :: "private_network_member \<Rightarrow> pg \<Rightarrow> sqlx_error + pg" where
  "insert_member r d =
     (if pm_id r \<in> ids pm_id (t_members d) then Inl (UniqueViolation ''private_network_members_pkey'')
      else if (pm_network_id r, pm_database_id r) \<in> ids (\<lambda>x. (pm_network_id x, pm_database_id x)) (t_members d)
      then Inl (UniqueViolation ''private_network_members_network_id_database_id_key'')
      else if pm_network_id r \<notin> ids pn_id (t_networks d)
      then Inl (ForeignKeyViolation ''private_network_members_network_id_fkey'')
      else if pm_database_id r \<notin> ids di_id (t_databases d)
      then Inl (ForeignKeyViolation ''private_network_members_database_id_fkey'')
      else Inr (d\<lparr>t_members := t_members d @ [r]\<rparr>))"

definition insert_peering :: "network_peering \<Rightarrow> pg \<Rightarrow> sqlx_error + pg" where
  "insert_peering r d =
     (if \<not> (fits_opt 128 (np_docker_bridge_id r) \<and> fits 20 (np_status r))
      then Inl (ValueTooLong ''network_peerings'')
      else if np_network_a_id r = np_network_b_id r then Inl (CheckViolation ''peering_different'')
      else if np_id r \<in> ids np_id (t_peerings d) then Inl (UniqueViolation ''network_peerings_pkey'')
      else if peering_key r \<in> ids peering_key (t_peerings d)
      then Inl (UniqueViolation ''idx_peering_unique'')
      else if np_user_id r \<notin> ids u_id (t_users d)
      then Inl (ForeignKeyViolation ''network_peerings_user_id_fkey'')
      else if np_network_a_id r \<notin> ids pn_id (t_networks d) \<or> np_network_b_id r \<notin> ids pn_id (t_networks d)
      then Inl (ForeignKeyViolation ''network_peerings_network_fkey'')
      else if \<not> opt_in (np_docker_server_id r) (ids ds_id (t_servers d))
      then Inl (ForeignKeyViolation ''network_peerings_docker_server_id_fkey'')
      else Inr (d\<lparr>t_peerings := t_peerings d @ [r]\<rparr>))"

definition insert_rule :: "firewall_rule \<Rightarrow> pg \<Rightarrow> sqlx_error + pg" where
  "insert_rule r d =
     (if \<not> (fits 5 (fr_action r) \<and> fits_opt 4 (fr_protocol r) \<and> fits_opt 255 (fr_description r))
      then Inl (ValueTooLong ''firewall_rules'')
      else if \<not> rule_checks r
      then Inl (CheckViolation ''firewall_rules_check'')
      else if fr_id r \<in> ids fr_id (t_rules d) then Inl (UniqueViolation ''firewall_rules_pkey'')
      else if fr_peering_id r \<notin> ids np_id (t_peerings d)
      then Inl (ForeignKeyViolation ''firewall_rules_peering_id_fkey'')
      else if fr_source_network_id r \<notin> ids pn_id (t_networks d) \<or>
              fr_dest_network_id r \<notin> ids pn_id (t_networks d)
      then Inl (ForeignKeyViolation ''firewall_rules_network_fkey'')
      else Inr (d\<lparr>t_rules := t_rules d @ [r]\<rparr>))"

definition insert_invitation :: "invitation \<Rightarrow> pg \<Rightarrow> sqlx_error + pg" where
  "insert_invitation r d =
     (if \<not> fits 32 (inv_code r) then Inl (ValueTooLong ''invitations'')
      else if inv_id r \<in> ids inv_id (t_invitations d) then Inl (UniqueViolation ''invitations_pkey'')
      else if inv_code r \<in> ids inv_code (t_invitations d) then Inl (UniqueViolation ''invitations_code_key'')
      else if inv_created_by r \<notin> ids u_id (t_users d)
      then Inl (ForeignKeyViolation ''invitations_created_by_fkey'')
      else if \<not> opt_in (inv_used_by r) (ids u_id (t_users d))
      then Inl (ForeignKeyViolation ''invitations_used_by_fkey'')
      else Inr (d\<lparr>t_invitations := t_invitations d @ [r]\<rparr>))"

definition insert_schedule :: "backup_schedule \<Rightarrow> pg \<Rightarrow> sqlx_error + pg" where
  "insert_schedule r d =
     (if bs_id r \<in> ids bs_id (t_schedules d) then Inl (UniqueViolation ''backup_schedules_pkey'')
      else if bs_database_id r \<in> ids bs_database_id (t_schedules d)
      then Inl (UniqueViolation ''backup_schedules_database_id_key'')
      else if bs_database_id r \<notin> ids di_id (t_databases d)
      then Inl (ForeignKeyViolation ''backup_schedules_database_id_fkey'')
      else Inr (d\<lparr>t_schedules := t_schedules d @ [r]\<rparr>))"

definition insert_audit_log :: "audit_log \<Rightarrow> pg \<Rightarrow> sqlx_error + pg" where
  "insert_audit_log r d =
     (if \<not> (fits 100 (aul_action r) \<and> fits 50 (aul_resource_type r) \<and> fits_opt 45 (aul_ip_address r))
      then Inl (ValueTooLong ''audit_logs'')
      else if aul_id r \<in> ids aul_id (t_audit_logs d) then Inl (UniqueViolation ''audit_logs_pkey'')
      else if \<not> opt_in (aul_user_id r) (ids u_id (t_users d))
      then Inl (ForeignKeyViolation ''audit_logs_user_id_fkey'')
      else Inr (d\<lparr>t_audit_logs := t_audit_logs d @ [r]\<rparr>))"

definition insert_alert_rule :: "alert_rule \<Rightarrow> pg \<Rightarrow> sqlx_error + pg" where
  "insert_alert_rule r d =
     (if \<not> (fits 50 (alr_event_type r) \<and> fits_opt 255 (alr_email r)) then Inl (ValueTooLong ''alert_rules'')
      else if alr_event_type r \<notin> set alert_event_types
      then Inl (CheckViolation ''alert_rules_event_type_check'')
      else if alr_id r \<in> ids alr_id (t_alert_rules d) then Inl (UniqueViolation ''alert_rules_pkey'')
      else if alr_user_id r \<notin> ids u_id (t_users d) then Inl (ForeignKeyViolation ''alert_rules_user_id_fkey'')
      else if \<not> opt_in (alr_database_id r) (ids di_id (t_databases d))
      then Inl (ForeignKeyViolation ''alert_rules_database_id_fkey'')
      else Inr (d\<lparr>t_alert_rules := t_alert_rules d @ [r]\<rparr>))"

definition insert_alert_history :: "alert_history \<Rightarrow> pg \<Rightarrow> sqlx_error + pg" where
  "insert_alert_history r d =
     (if \<not> fits 50 (alh_event_type r) then Inl (ValueTooLong ''alert_history'')
      else if alh_id r \<in> ids alh_id (t_alert_history d) then Inl (UniqueViolation ''alert_history_pkey'')
      else if alh_alert_rule_id r \<notin> ids alr_id (t_alert_rules d)
      then Inl (ForeignKeyViolation ''alert_history_alert_rule_id_fkey'')
      else Inr (d\<lparr>t_alert_history := t_alert_history d @ [r]\<rparr>))"

lemmas insert_defs =
  insert_user_def insert_database_def insert_bundle_def insert_db_user_def insert_backup_def
  insert_migration_def insert_plan_def insert_usage_event_def insert_billing_period_def
  insert_line_item_def insert_server_def insert_network_def insert_member_def insert_peering_def
  insert_rule_def insert_invitation_def insert_schedule_def insert_audit_log_def
  insert_alert_rule_def insert_alert_history_def

section \<open>Deletions with their cascades\<close>

definition delete_database_row :: "uuid \<Rightarrow> pg \<Rightarrow> pg" where
  "delete_database_row i d =
     (let gone = map alr_id (filter (\<lambda>x. alr_database_id x = Some i) (t_alert_rules d)) in
      d\<lparr>t_databases := delete_where (\<lambda>x. di_id x = i) (t_databases d),
        t_db_users := delete_where (\<lambda>x. du_database_id x = i) (t_db_users d),
        t_backups := delete_where (\<lambda>x. br_database_id x = i) (t_backups d),
        t_migrations := delete_where (\<lambda>x. mr_database_id x = i) (t_migrations d),
        t_members := delete_where (\<lambda>x. pm_database_id x = i) (t_members d),
        t_schedules := delete_where (\<lambda>x. bs_database_id x = i) (t_schedules d),
        t_alert_rules := delete_where (\<lambda>x. alr_database_id x = Some i) (t_alert_rules d),
        t_alert_history := delete_where (\<lambda>x. alh_alert_rule_id x \<in> set gone) (t_alert_history d),
        t_favorites := delete_where (\<lambda>x. snd x = i) (t_favorites d)\<rparr>)"

definition delete_bundle_row :: "uuid \<Rightarrow> pg \<Rightarrow> pg" where
  \<comment> \<open>\<open>ON DELETE SET NULL\<close> on the databases of the bundle\<close>
  "delete_bundle_row i d =
     d\<lparr>t_bundles := delete_where (\<lambda>x. bu_id x = i) (t_bundles d),
       t_databases := update_where (\<lambda>x. di_bundle_id x = Some i)
                        (\<lambda>x. x\<lparr>di_bundle_id := None\<rparr>) (t_databases d)\<rparr>"

definition delete_peering_row :: "uuid \<Rightarrow> pg \<Rightarrow> pg" where
  "delete_peering_row i d =
     d\<lparr>t_peerings := delete_where (\<lambda>x. np_id x = i) (t_peerings d),
       t_rules := delete_where (\<lambda>x. fr_peering_id x = i) (t_rules d)\<rparr>"

definition delete_network_row :: "uuid \<Rightarrow> pg \<Rightarrow> pg" where
  "delete_network_row i d =
     (let gone = map np_id (filter (\<lambda>x. np_network_a_id x = i \<or> np_network_b_id x = i) (t_peerings d)) in
      d\<lparr>t_networks := delete_where (\<lambda>x. pn_id x = i) (t_networks d),
        t_members := delete_where (\<lambda>x. pm_network_id x = i) (t_members d),
        t_peerings := delete_where (\<lambda>x. np_network_a_id x = i \<or> np_network_b_id x = i) (t_peerings d),
        t_rules := delete_where (\<lambda>x. fr_peering_id x \<in> set gone \<or> fr_source_network_id x = i \<or>
                                     fr_dest_network_id x = i) (t_rules d)\<rparr>)"

definition delete_alert_rule_row :: "uuid \<Rightarrow> pg \<Rightarrow> pg" where
  "delete_alert_rule_row i d =
     d\<lparr>t_alert_rules := delete_where (\<lambda>x. alr_id x = i) (t_alert_rules d),
       t_alert_history := delete_where (\<lambda>x. alh_alert_rule_id x = i) (t_alert_history d)\<rparr>"

definition delete_server_row :: "uuid \<Rightarrow> pg \<Rightarrow> sqlx_error + pg" where
  \<comment> \<open>no \<open>ON DELETE\<close> action: a row that refers to the server blocks the deletion\<close>
  "delete_server_row i d =
     (if i \<in> ids ds_id (t_servers d) \<and>
         (Some i \<in> ids di_docker_server_id (t_databases d) \<or>
          Some i \<in> ids pn_docker_server_id (t_networks d) \<or>
          Some i \<in> ids np_docker_server_id (t_peerings d))
      then Inl (ForeignKeyViolation ''docker_server_id_fkey'')
      else Inr (d\<lparr>t_servers := delete_where (\<lambda>x. ds_id x = i) (t_servers d)\<rparr>))"

definition delete_user_row :: "uuid \<Rightarrow> pg \<Rightarrow> sqlx_error + pg" where
  \<comment> \<open>cascades to what the user owns; \<open>billing_periods\<close> and \<open>invitations.used_by\<close> block\<close>
  "delete_user_row u d =
     (let dbs = map di_id (filter (\<lambda>x. di_user_id x = u) (t_databases d));
          nets = map pn_id (filter (\<lambda>x. pn_user_id x = u) (t_networks d));
          bundles = map bu_id (filter (\<lambda>x. bu_user_id x = u) (t_bundles d));
          alerts = map alr_id (filter (\<lambda>x. alr_user_id x = u) (t_alert_rules d));
          peers = map np_id (filter (\<lambda>x. np_user_id x = u) (t_peerings d));
          d1 = fold delete_database_row dbs d;
          d2 = fold delete_network_row nets d1;
          d3 = fold delete_peering_row peers d2;
          d4 = fold delete_bundle_row bundles d3;
          d5 = fold delete_alert_rule_row alerts d4;
          d6 = d5\<lparr>t_users := delete_where (\<lambda>x. u_id x = u) (t_users d5),
                  t_invitations := delete_where (\<lambda>x. inv_created_by x = u) (t_invitations d5),
                  t_favorites := delete_where (\<lambda>x. fst x = u) (t_favorites d5),
                  t_audit_logs := update_where (\<lambda>x. aul_user_id x = Some u)
                                    (\<lambda>x. x\<lparr>aul_user_id := None\<rparr>) (t_audit_logs d5)\<rparr>
      in if u \<notin> ids u_id (t_users d) then Inr d
         else if u \<in> ids bp_user_id (t_billing_periods d6) then Inl (ForeignKeyViolation ''billing_periods_user_id_fkey'')
         else if Some u \<in> ids inv_used_by (t_invitations d6) then Inl (ForeignKeyViolation ''invitations_used_by_fkey'')
         else Inr d6)"

section \<open>The invariant is kept\<close>

named_theorems schema_intro \<open>a statement keeps the constraints of the schema\<close>

lemma insert_user_ok [schema_intro]: "insert_user r d = Inr d' \<Longrightarrow> schema_ok d \<Longrightarrow> schema_ok d'"
  by (clarsimp simp: insert_user_def schema_ok_def schema_parts_def split: if_split_asm)

lemma insert_database_ok [schema_intro]: "insert_database r d = Inr d' \<Longrightarrow> schema_ok d \<Longrightarrow> schema_ok d'"
  by (clarsimp simp: insert_database_def schema_ok_def schema_parts_def split: if_split_asm)

lemma insert_bundle_ok [schema_intro]: "insert_bundle r d = Inr d' \<Longrightarrow> schema_ok d \<Longrightarrow> schema_ok d'"
  by (clarsimp simp: insert_bundle_def schema_ok_def schema_parts_def split: if_split_asm)

lemma insert_db_user_ok [schema_intro]: "insert_db_user r d = Inr d' \<Longrightarrow> schema_ok d \<Longrightarrow> schema_ok d'"
  by (clarsimp simp: insert_db_user_def schema_ok_def schema_parts_def split: if_split_asm)

lemma insert_backup_ok [schema_intro]: "insert_backup r d = Inr d' \<Longrightarrow> schema_ok d \<Longrightarrow> schema_ok d'"
  by (clarsimp simp: insert_backup_def schema_ok_def schema_parts_def split: if_split_asm)

lemma insert_migration_ok [schema_intro]: "insert_migration r d = Inr d' \<Longrightarrow> schema_ok d \<Longrightarrow> schema_ok d'"
  by (clarsimp simp: insert_migration_def schema_ok_def schema_parts_def split: if_split_asm)

lemma insert_plan_ok [schema_intro]: "insert_plan r d = Inr d' \<Longrightarrow> schema_ok d \<Longrightarrow> schema_ok d'"
  by (clarsimp simp: insert_plan_def schema_ok_def schema_parts_def split: if_split_asm)

lemma insert_usage_event_ok [schema_intro]: "insert_usage_event r d = Inr d' \<Longrightarrow> schema_ok d \<Longrightarrow> schema_ok d'"
  by (clarsimp simp: insert_usage_event_def schema_ok_def schema_parts_def split: if_split_asm)

lemma insert_billing_period_ok [schema_intro]: "insert_billing_period r d = Inr d' \<Longrightarrow> schema_ok d \<Longrightarrow> schema_ok d'"
  by (clarsimp simp: insert_billing_period_def schema_ok_def schema_parts_def split: if_split_asm)

lemma insert_line_item_ok [schema_intro]: "insert_line_item r d = Inr d' \<Longrightarrow> schema_ok d \<Longrightarrow> schema_ok d'"
  by (clarsimp simp: insert_line_item_def schema_ok_def schema_parts_def split: if_split_asm)

lemma insert_server_ok [schema_intro]: "insert_server r d = Inr d' \<Longrightarrow> schema_ok d \<Longrightarrow> schema_ok d'"
  by (clarsimp simp: insert_server_def schema_ok_def schema_parts_def split: if_split_asm)

lemma insert_network_ok [schema_intro]: "insert_network r d = Inr d' \<Longrightarrow> schema_ok d \<Longrightarrow> schema_ok d'"
  by (clarsimp simp: insert_network_def schema_ok_def schema_parts_def split: if_split_asm)

lemma insert_member_ok [schema_intro]: "insert_member r d = Inr d' \<Longrightarrow> schema_ok d \<Longrightarrow> schema_ok d'"
  by (clarsimp simp: insert_member_def schema_ok_def schema_parts_def split: if_split_asm)

lemma insert_peering_ok [schema_intro]: "insert_peering r d = Inr d' \<Longrightarrow> schema_ok d \<Longrightarrow> schema_ok d'"
  by (clarsimp simp: insert_peering_def schema_ok_def schema_parts_def split: if_split_asm)

lemma insert_rule_ok [schema_intro]: "insert_rule r d = Inr d' \<Longrightarrow> schema_ok d \<Longrightarrow> schema_ok d'"
  by (clarsimp simp: insert_rule_def schema_ok_def schema_parts_def split: if_split_asm)

lemma insert_invitation_ok [schema_intro]: "insert_invitation r d = Inr d' \<Longrightarrow> schema_ok d \<Longrightarrow> schema_ok d'"
  by (clarsimp simp: insert_invitation_def schema_ok_def schema_parts_def split: if_split_asm)

lemma insert_schedule_ok [schema_intro]: "insert_schedule r d = Inr d' \<Longrightarrow> schema_ok d \<Longrightarrow> schema_ok d'"
  by (clarsimp simp: insert_schedule_def schema_ok_def schema_parts_def split: if_split_asm)

lemma insert_audit_log_ok [schema_intro]: "insert_audit_log r d = Inr d' \<Longrightarrow> schema_ok d \<Longrightarrow> schema_ok d'"
  by (clarsimp simp: insert_audit_log_def schema_ok_def schema_parts_def split: if_split_asm)

lemma insert_alert_rule_ok [schema_intro]: "insert_alert_rule r d = Inr d' \<Longrightarrow> schema_ok d \<Longrightarrow> schema_ok d'"
  by (clarsimp simp: insert_alert_rule_def schema_ok_def schema_parts_def split: if_split_asm)

lemma insert_alert_history_ok [schema_intro]: "insert_alert_history r d = Inr d' \<Longrightarrow> schema_ok d \<Longrightarrow> schema_ok d'"
  by (clarsimp simp: insert_alert_history_def schema_ok_def schema_parts_def split: if_split_asm)

lemma delete_database_row_ok [schema_intro]: "schema_ok d \<Longrightarrow> schema_ok (delete_database_row i d)"
  by (simp add: delete_database_row_def schema_ok_def schema_parts_def Let_def)

lemma delete_bundle_row_ok [schema_intro]: "schema_ok d \<Longrightarrow> schema_ok (delete_bundle_row i d)"
  by (simp add: delete_bundle_row_def schema_ok_def schema_parts_def)

lemma delete_peering_row_ok [schema_intro]: "schema_ok d \<Longrightarrow> schema_ok (delete_peering_row i d)"
  by (simp add: delete_peering_row_def schema_ok_def schema_parts_def)

lemma delete_network_row_ok [schema_intro]: "schema_ok d \<Longrightarrow> schema_ok (delete_network_row i d)"
  by (simp add: delete_network_row_def schema_ok_def schema_parts_def Let_def)

lemma delete_alert_rule_row_ok [schema_intro]: "schema_ok d \<Longrightarrow> schema_ok (delete_alert_rule_row i d)"
  by (simp add: delete_alert_rule_row_def schema_ok_def schema_parts_def)

lemma delete_server_row_ok [schema_intro]:
  "delete_server_row i d = Inr d' \<Longrightarrow> schema_ok d \<Longrightarrow> schema_ok d'"
  by (cases "i \<in> ids ds_id (t_servers d)")
     (clarsimp simp: delete_server_row_def schema_ok_def schema_parts_def fk_opt_minus
        split: if_split_asm)+

lemma fold_keeps: "(\<And>i d. P d \<Longrightarrow> P (f i d)) \<Longrightarrow> P d \<Longrightarrow> P (fold f is d)"
  by (induction "is" arbitrary: d) auto

lemma fold_frame: "(\<And>i d. g (f i d) = g d) \<Longrightarrow> g (fold f is d) = g d"
  by (induction "is" arbitrary: d) auto

text \<open>
  What a user owns, as pairs of a table number and an identifier: each cascade step only
  shrinks it, so that after the cascades nothing refers to the user any more.
\<close>

definition owned :: "uuid \<Rightarrow> pg \<Rightarrow> (nat \<times> uuid) set" where
  "owned u d =
     Pair 0 ` ids di_id (filter (\<lambda>x. di_user_id x = u) (t_databases d)) \<union>
     Pair 1 ` ids pn_id (filter (\<lambda>x. pn_user_id x = u) (t_networks d)) \<union>
     Pair 2 ` ids np_id (filter (\<lambda>x. np_user_id x = u) (t_peerings d)) \<union>
     Pair 3 ` ids bu_id (filter (\<lambda>x. bu_user_id x = u) (t_bundles d)) \<union>
     Pair 4 ` ids alr_id (filter (\<lambda>x. alr_user_id x = u) (t_alert_rules d))"

lemma owned_shrinks:
  "owned u (delete_database_row i d) \<subseteq> owned u d - {(0, i)}"
  "owned u (delete_network_row i d) \<subseteq> owned u d - {(1, i)}"
  "owned u (delete_peering_row i d) \<subseteq> owned u d - {(2, i)}"
  "owned u (delete_bundle_row i d) \<subseteq> owned u d - {(3, i)}"
  "owned u (delete_alert_rule_row i d) \<subseteq> owned u d - {(4, i)}"
  by (auto simp: owned_def ids_def Let_def set_update_where delete_database_row_def
      delete_network_row_def delete_peering_row_def delete_bundle_row_def delete_alert_rule_row_def)

lemma fold_shrinks:
  "(\<And>i d. S (f i d) \<subseteq> S d - {(n, i)}) \<Longrightarrow> S (fold f (map k xs) d) \<subseteq> S d - Pair n ` ids k xs"
proof (induction xs arbitrary: d)
  case (Cons x xs)
  from Cons.IH [OF Cons.prems, of "f (k x) d"] Cons.prems [of "k x" d] show ?case
    by (auto simp: ids_def)
qed simp

lemma peel_off:
  assumes "D1 \<subseteq> D - A" "D2 \<subseteq> D1 - B" "D3 \<subseteq> D2 - C" "D4 \<subseteq> D3 - E" "D5 \<subseteq> D4 - F"
    and "D = A \<union> B \<union> C \<union> E \<union> F"
  shows "D5 = {}"
  using assms by blast

lemma delete_user_row_ok [schema_intro]:
  assumes del: "delete_user_row u d = Inr d'" and ok: "schema_ok d"
  shows "schema_ok d'"
proof (cases "u \<in> ids u_id (t_users d)")
  case False
  with del ok show ?thesis by (simp add: delete_user_row_def Let_def)
next
  case True
  define d1 where "d1 = fold delete_database_row (map di_id (filter (\<lambda>x. di_user_id x = u) (t_databases d))) d"
  define d2 where "d2 = fold delete_network_row (map pn_id (filter (\<lambda>x. pn_user_id x = u) (t_networks d))) d1"
  define d3 where "d3 = fold delete_peering_row (map np_id (filter (\<lambda>x. np_user_id x = u) (t_peerings d))) d2"
  define d4 where "d4 = fold delete_bundle_row (map bu_id (filter (\<lambda>x. bu_user_id x = u) (t_bundles d))) d3"
  define d5 where "d5 = fold delete_alert_rule_row (map alr_id (filter (\<lambda>x. alr_user_id x = u) (t_alert_rules d))) d4"
  define d6 where "d6 = d5\<lparr>t_users := delete_where (\<lambda>x. u_id x = u) (t_users d5),
                  t_invitations := delete_where (\<lambda>x. inv_created_by x = u) (t_invitations d5),
                  t_favorites := delete_where (\<lambda>x. fst x = u) (t_favorites d5),
                  t_audit_logs := update_where (\<lambda>x. aul_user_id x = Some u)
                                    (\<lambda>x. x\<lparr>aul_user_id := None\<rparr>) (t_audit_logs d5)\<rparr>"
  note ds = d1_def d2_def d3_def d4_def d5_def
  note keep = fold_keeps [where P = schema_ok]
  have "schema_ok d5"
    unfolding ds
    by (rule keep, erule delete_alert_rule_row_ok, rule keep, erule delete_bundle_row_ok,
        rule keep, erule delete_peering_row_ok, rule keep, erule delete_network_row_ok,
        rule keep, erule delete_database_row_ok, rule ok)
  moreover have "owned u d5 = {}"
  proof -
    have 1: "owned u d1 \<subseteq> owned u d - Pair 0 ` ids di_id (filter (\<lambda>x. di_user_id x = u) (t_databases d))"
      unfolding d1_def by (rule fold_shrinks, rule owned_shrinks)
    have 2: "owned u d2 \<subseteq> owned u d1 - Pair 1 ` ids pn_id (filter (\<lambda>x. pn_user_id x = u) (t_networks d))"
      unfolding d2_def by (rule fold_shrinks, rule owned_shrinks)
    have 3: "owned u d3 \<subseteq> owned u d2 - Pair 2 ` ids np_id (filter (\<lambda>x. np_user_id x = u) (t_peerings d))"
      unfolding d3_def by (rule fold_shrinks, rule owned_shrinks)
    have 4: "owned u d4 \<subseteq> owned u d3 - Pair 3 ` ids bu_id (filter (\<lambda>x. bu_user_id x = u) (t_bundles d))"
      unfolding d4_def by (rule fold_shrinks, rule owned_shrinks)
    have 5: "owned u d5 \<subseteq> owned u d4 - Pair 4 ` ids alr_id (filter (\<lambda>x. alr_user_id x = u) (t_alert_rules d))"
      unfolding d5_def by (rule fold_shrinks, rule owned_shrinks)
    show ?thesis by (rule peel_off [OF 1 2 3 4 5 owned_def])
  qed
  then have "u \<notin> ids di_user_id (t_databases d5)" "u \<notin> ids pn_user_id (t_networks d5)"
    "u \<notin> ids np_user_id (t_peerings d5)" "u \<notin> ids bu_user_id (t_bundles d5)"
    "u \<notin> ids alr_user_id (t_alert_rules d5)"
    by (auto simp: owned_def ids_def)
  moreover have "d' = d6" "u \<notin> ids bp_user_id (t_billing_periods d6)" "Some u \<notin> ids inv_used_by (t_invitations d6)"
    using del True by (simp_all add: delete_user_row_def Let_def ds d6_def split: if_split_asm)
  ultimately show ?thesis
    by (simp add: d6_def schema_ok_def schema_parts_def fk_minus fk_opt_minus)
qed

lemmas schema_insert_rules =
  insert_user_ok insert_database_ok insert_bundle_ok insert_db_user_ok insert_backup_ok insert_migration_ok insert_plan_ok insert_usage_event_ok insert_billing_period_ok insert_line_item_ok insert_server_ok insert_network_ok insert_member_ok insert_peering_ok insert_rule_ok insert_invitation_ok insert_schedule_ok insert_audit_log_ok insert_alert_rule_ok insert_alert_history_ok

end
