(* ===== verification/Platform.thy ===== *)
theory Platform
  imports Schema
begin

text \<open>
  The platform the handlers run on: the configuration (\<open>src/api/src/config.rs\<close>), the shared
  state \<open>AppState\<close> of \<open>src/api/src/lib.rs\<close>, the outside world, and the monad of an
  \<open>async fn\<close> that returns \<open>AppResult\<close>.

  Code that is not in the repository (PostgreSQL as a service, Docker, the file system, the
  network, cryptography, calendars, random numbers) is the parameter \<open>env\<close>: each effect takes
  the next number \<open>tick\<close> of the state and asks \<open>env\<close> what happened at that number, so an
  environment fixes one history of successes, failures, latencies and replies, and the
  theorems hold for all of them. An effect that failed leaves the effects before it in place.
\<close>

section \<open>The configuration\<close>

record config =
  database_url :: string
  redis_url :: string
  api_host :: string
  api_port :: u16
  jwt_secret :: string
  encryption_key :: string
  docker_host :: "string option"
  port_range_start :: u16
  port_range_end :: u16
  max_databases_per_user :: i32
  cfg_registration_enabled :: bool
  tls_ca_dir :: string
  traefik_dynamic_dir :: string
  platform_domain :: string
  backup_dir :: string
  stripe_secret_key :: "string option"
  stripe_webhook_secret :: "string option"
  platform_ip :: string
  cors_origins :: "string list option"
  smtp_host :: "string option"
  smtp_port :: "u16 option"
  smtp_username :: "string option"
  smtp_password :: "string option"
  smtp_from :: "string option"

definition Config_dns_zone :: "config \<Rightarrow> string" where
  "Config_dns_zone cfg = ''db.'' @ platform_domain cfg"

section \<open>Calls to the outside\<close>

datatype docker_client = Local_defaults | Http_client string | Ssl_client string uuid
  \<comment> \<open>the last one: the address and the server whose PEM directory holds the keys\<close>

record host_config =
  hc_port_bindings :: "(string \<times> string \<times> string) list" \<comment> \<open>container port, host IP, host port\<close>
  hc_network_mode :: string
  hc_unless_stopped :: bool
  hc_nano_cpus :: "i64 option"
  hc_memory :: "i64 option"
  hc_memory_swap :: "i64 option"
  hc_security_opt :: "string list"
  hc_userns_mode :: "string option"
  hc_auto_remove :: bool
  hc_cap_add :: "string list"

record health_config =
  he_test :: "string list"
  he_interval :: i64
  he_timeout :: i64
  he_retries :: i64
  he_start_period :: i64

record container_body =
  cb_image :: string
  cb_cmd :: "string list option"
  cb_env :: "string list option"
  cb_host_config :: host_config
  cb_healthcheck :: "health_config option"

record network_request =
  nr_name :: string
  nr_driver :: string
  nr_internal :: "bool option"
  nr_options :: "(string \<times> string) list"

datatype docker_call =
    InspectImage string
  | PullImage string string
  | CreateNetwork network_request
  | InspectNetwork string
  | ConnectNetwork string string      \<comment> \<open>network, container\<close>
  | DisconnectNetwork string string
  | RemoveNetwork string
  | CreateContainer string container_body
  | StartContainer string
  | StopContainer string
  | RestartContainer string
  | RemoveContainer string
  | InspectContainer string
  | UpdateContainer string i64 i64 i64 \<comment> \<open>memory, memory and swap, nano-CPUs\<close>
  | CreateExec string "string list"
  | StartExec string
  | ContainerLogs string
  | ContainerStatsOnce string
  | DownloadFrom string string
  | UploadTo string string string      \<comment> \<open>container, directory, tar archive\<close>
  | Ping
  | Info
  | Version
  | DataUsage
  | ListRunningContainers

datatype health_status = HEALTHY | UNHEALTHY | STARTING | HEALTH_NONE | HEALTH_EMPTY

record container_state =
  cs_running :: "bool option"
  cs_health :: "health_status option option"

record raw_stats =
  rs_cpu_total :: "nat option"
  rs_precpu_total :: "nat option"
  rs_system :: "nat option"
  rs_presystem :: "nat option"
  rs_online_cpus :: "nat option"
  rs_memory_usage :: "nat option"
  rs_memory_limit :: "nat option"

record docker_info =
  in_ncpu :: "i64 option"
  in_mem_total :: "i64 option"
  in_containers_running :: "i64 option"
  in_containers_stopped :: "i64 option"
  in_containers :: "i64 option"
  in_operating_system :: "string option"
  in_kernel_version :: "string option"
  in_docker_root_dir :: "string option"

record container_summary =
  su_id :: "string option"
  su_names :: "string list option"
  su_image :: "string option"
  su_state :: "string option"

record disk_report =
  df_images_count :: "i64 option"
  df_volumes_count :: "i64 option"
  df_images_size :: "i64 option"
  df_containers_size :: "i64 option"

record docker_reply =
  rp_id :: string                        \<comment> \<open>of a created object\<close>
  rp_output :: string                    \<comment> \<open>of an exec, of logs, of a download\<close>
  rp_network_id :: "string option"       \<comment> \<open>of an inspected network\<close>
  rp_ipam :: "(string option \<times> string option) list" \<comment> \<open>subnet and gateway\<close>
  rp_state :: "container_state option"   \<comment> \<open>of an inspected container\<close>
  rp_stats :: "raw_stats option"
  rp_info :: docker_info
  rp_version :: "string option"
  rp_disk :: disk_report
  rp_containers :: "container_summary list"

datatype external =
    DockerCall docker_client docker_call
  | HttpPost string "string option" "(string \<times> string) list" \<comment> \<open>address, bearer token and fields\<close>
  | SendMail string string string             \<comment> \<open>to, subject, body\<close>
  | JsonPost string "(string \<times> string) list" \<comment> \<open>address and JSON object\<close>
  | ClientSql string string                   \<comment> \<open>connection URL and statement\<close>

record http_reply =
  hr_success :: bool
  hr_body :: string
  hr_json :: "string + string option"    \<comment> \<open>decoding error, or the string under \<open>id\<close>\<close>

record claims =
  \<comment> \<open>of a JSON web token\<close>
  cl_sub :: uuid
  cl_email :: string
  cl_role :: user_role
  cl_exp :: nat

datatype ip_addr = V4 nat nat nat nat | V6 nat \<comment> \<open>octets; the 128-bit value\<close>

record parsed_url =
  url_scheme :: string
  url_host :: "string option"
  url_port :: "nat option"

record libraries =
  l_cipher :: cipher
  l_uuid_str :: "uuid \<Rightarrow> string"          \<comment> \<open>\<open>Uuid::to_string\<close>\<close>
  l_argon2 :: "string \<Rightarrow> string \<Rightarrow> string option"      \<comment> \<open>salt, password\<close>
  l_argon2_parse :: "string \<Rightarrow> bool"
  l_argon2_verify :: "string \<Rightarrow> string \<Rightarrow> bool"        \<comment> \<open>password, hash\<close>
  l_sha256_hex :: "string \<Rightarrow> string"
  l_email_valid :: "string \<Rightarrow> bool"
  l_alphanumeric :: "string \<Rightarrow> bool"                   \<comment> \<open>of one non-ASCII code point\<close>
  l_month_start :: "time \<Rightarrow> time"                      \<comment> \<open>midnight of the first of its month\<close>
  l_prev_month_start :: "time \<Rightarrow> time"
  l_format_timestamp :: "time \<Rightarrow> string"               \<comment> \<open>\<open>%Y%m%d_%H%M%S\<close>\<close>
  l_new_ca :: "nat \<Rightarrow> string \<Rightarrow> string \<Rightarrow> (string \<times> string) option"
    \<comment> \<open>tick, common name, organization: certificate and key\<close>
  l_new_cert :: "nat \<Rightarrow> string \<Rightarrow> string \<Rightarrow> string \<Rightarrow> string list \<Rightarrow> (string \<times> string) option"
    \<comment> \<open>tick, CA certificate, CA key, common name, alternative names: certificate and key\<close>
  l_untar :: "string \<Rightarrow> (string \<times> nat) option option" \<comment> \<open>first entry: data and size\<close>
  l_hmac_sha256 :: "string \<Rightarrow> string \<Rightarrow> string"      \<comment> \<open>key, message; every key length is accepted\<close>
  l_stripe_event :: "string \<Rightarrow> string + (string option \<times> string option)"
    \<comment> \<open>the JSON of a webhook: decoding error, or the strings \<open>type\<close> and \<open>data.object.id\<close>\<close>
  l_hex_decode :: "string \<Rightarrow> string option"            \<comment> \<open>of the \<open>hex\<close> crate\<close>
  l_uuid_parse :: "string \<Rightarrow> uuid option"              \<comment> \<open>\<open>Uuid::parse_str\<close>\<close>
  l_jwt_encode :: "string \<Rightarrow> claims \<Rightarrow> string + string"           \<comment> \<open>secret\<close>
  l_jwt_decode :: "time \<Rightarrow> string \<Rightarrow> string \<Rightarrow> string + claims"  \<comment> \<open>now, secret, token\<close>
  l_url_parse :: "string \<Rightarrow> parsed_url option"
  l_mailbox_valid :: "string \<Rightarrow> bool"
  l_rfc3339 :: "time \<Rightarrow> string"
  l_day_of_month :: "time \<Rightarrow> nat"
  l_month_of_year :: "time \<Rightarrow> nat"
  l_date :: "int \<Rightarrow> string"                            \<comment> \<open>\<open>YYYY-MM-DD\<close> of a day number\<close>
  l_year_month :: "time \<Rightarrow> string"                     \<comment> \<open>\<open>YYYY-MM\<close>\<close>
  l_time_ok :: "int \<Rightarrow> bool"                         \<comment> \<open>within the dates of \<open>chrono\<close>\<close>
  l_canonicalize :: "string \<Rightarrow> string option"
  l_ip_parse :: "string \<Rightarrow> ip_addr option"
  l_tar :: "string \<Rightarrow> string \<Rightarrow> string"                 \<comment> \<open>archive of a file name and its data\<close>

record env =
  cfg :: config
  lib :: libraries
  db_up :: "nat \<Rightarrow> bool"
  fresh_uuid :: "nat \<Rightarrow> uuid"
  latency :: "nat \<Rightarrow> nat"                \<comment> \<open>nanoseconds\<close>
  docker_answer :: "nat \<Rightarrow> docker_client \<Rightarrow> docker_call \<Rightarrow> string + docker_reply"
  docker_connects :: "nat \<Rightarrow> docker_client \<Rightarrow> bool"
  http_answer :: "nat \<Rightarrow> string \<Rightarrow> (string \<times> string) list \<Rightarrow> string + http_reply"
  client_connects :: "nat \<Rightarrow> string \<Rightarrow> bool"           \<comment> \<open>to the database of a customer\<close>
  client_executes :: "nat \<Rightarrow> string \<Rightarrow> bool"
  resolve :: "nat \<Rightarrow> string \<Rightarrow> ip_addr list option"
  fs_ok :: "nat \<Rightarrow> bool"
  random_index :: "nat \<Rightarrow> nat \<Rightarrow> nat"     \<comment> \<open>the indices \<open>random_range(0..62)\<close> draws\<close>
  random_bytes :: "nat \<Rightarrow> string"

section \<open>The state\<close>

record provision_task =
  pv_server :: "docker_server option"
  pv_db_id :: uuid
  pv_db_type :: db_type
  pv_username :: string
  pv_password :: string
  pv_db_name :: "string option"
  pv_cpu_limit :: f64
  pv_memory_limit_mb :: i32
  pv_port :: i32
  pv_fqdn :: string
  pv_user_id :: uuid
  pv_name :: string
  pv_plan_id :: "uuid option"

record clone_task =
  ct_source :: database_instance
  ct_new_id :: uuid
  ct_user_id :: uuid
  ct_name :: string
  ct_password :: string
  ct_port :: u16
  ct_subdomain :: string
  ct_filename :: string

datatype task =
    ProvisionDatabase provision_task
  | ProvisionBundle uuid provision_task provision_task \<comment> \<open>bundle, PostgreSQL, Redis\<close>
  | CleanupDatabase database_instance "docker_client option" bool
      \<comment> \<open>whether the end is announced\<close>
  | CloneDatabase clone_task
  | ActivatePeering uuid "uuid option" uuid uuid       \<comment> \<open>peering, server, the two networks\<close>
  | WriteAudit "uuid option" string string "uuid option" "string option" "string option"

record gauge_values =
  \<comment> \<open>of \<open>src/api/src/services/metrics.rs\<close>\<close>
  ga_total_users :: i64
  ga_total_databases :: i64
  ga_by_status :: "(db_status \<times> i64) list"
  ga_by_type :: "(db_type \<times> i64) list"
  ga_monthly_revenue :: i64
  ga_pending_revenue :: i64

record app_state =
  db :: pg
  ports :: port_pool
  registration_enabled :: bool
  maintenance_mode :: bool
  events :: "db_event list"          \<comment> \<open>what the SSE channel has broadcast\<close>
  calls :: "external list"           \<comment> \<open>requests sent to the outside\<close>
  spawned :: "task list"             \<comment> \<open>\<open>tokio::spawn\<close>ed and not yet run\<close>
  files :: "string \<Rightarrow> string option"
  gauges :: gauge_values
  tick :: nat
  clock :: time

section \<open>The monad\<close>

datatype fault = Err app_error | Panic

type_synonym 'a app = "env \<Rightarrow> app_state \<Rightarrow> (fault + 'a) \<times> app_state"

definition return_app :: "'a \<Rightarrow> 'a app" where
  "return_app x = (\<lambda>e s. (Inr x, s))"

definition throw :: "app_error \<Rightarrow> 'a app" where
  "throw er = (\<lambda>e s. (Inl (Err er), s))"

definition panic :: "'a app" where
  "panic = (\<lambda>e s. (Inl Panic, s))"

definition bind_app :: "'a app \<Rightarrow> ('a \<Rightarrow> 'b app) \<Rightarrow> 'b app" where
  \<comment> \<open>\<open>m.await?\<close> followed by the rest\<close>
  "bind_app m f = (\<lambda>e s. case m e s of
      (Inr x, s') \<Rightarrow> f x e s'
    | (Inl er, s') \<Rightarrow> (Inl er, s'))"

definition attempt :: "'a app \<Rightarrow> (app_error + 'a) app" where
  \<comment> \<open>\<open>m.await\<close> without the question mark: the error is a value\<close>
  "attempt m = (\<lambda>e s. case m e s of
      (Inr x, s') \<Rightarrow> (Inr (Inr x), s')
    | (Inl (Err er), s') \<Rightarrow> (Inr (Inl er), s')
    | (Inl Panic, s') \<Rightarrow> (Inl Panic, s'))"

abbreviation then_app :: "'a app \<Rightarrow> 'b app \<Rightarrow> 'b app" where
  "then_app m n \<equiv> bind_app m (\<lambda>_. n)"

abbreviation ignore :: "'a app \<Rightarrow> 'b app \<Rightarrow> 'b app" where
  \<comment> \<open>\<open>let _ = m.await;\<close>\<close>
  "ignore m n \<equiv> bind_app (attempt m) (\<lambda>_. n)"

definition lift_result :: "app_error + 'a \<Rightarrow> 'a app" where
  "lift_result r = (case r of Inl er \<Rightarrow> throw er | Inr x \<Rightarrow> return_app x)"

definition ok_or :: "'a option \<Rightarrow> app_error \<Rightarrow> 'a app" where
  "ok_or v er = (case v of None \<Rightarrow> throw er | Some x \<Rightarrow> return_app x)"

definition unwrap :: "'a option \<Rightarrow> 'a app" where
  "unwrap v = (case v of None \<Rightarrow> panic | Some x \<Rightarrow> return_app x)"

definition require :: "bool \<Rightarrow> app_error \<Rightarrow> unit app" where
  \<comment> \<open>\<open>if !p { return Err(er) }\<close>\<close>
  "require p er = (if p then return_app () else throw er)"

definition asks :: "(env \<Rightarrow> 'a) \<Rightarrow> 'a app" where
  "asks f = (\<lambda>e s. (Inr (f e), s))"

definition utc_now :: "time app" where
  "utc_now = (\<lambda>e s. (Inr (clock s), s))"

primrec for_each :: "'x list \<Rightarrow> ('x \<Rightarrow> unit app) \<Rightarrow> unit app" where
  "for_each [] f = return_app ()"
| "for_each (x # xs) f = then_app (f x) (for_each xs f)"

primrec fold_app :: "'x list \<Rightarrow> 'acc \<Rightarrow> ('x \<Rightarrow> 'acc \<Rightarrow> 'acc app) \<Rightarrow> 'acc app" where
  "fold_app [] acc f = return_app acc"
| "fold_app (x # xs) acc f = bind_app (f x acc) (\<lambda>acc'. fold_app xs acc' f)"

section \<open>Effects\<close>

definition next_tick :: "env \<Rightarrow> app_state \<Rightarrow> app_state" where
  "next_tick e s = s\<lparr>tick := Suc (tick s), clock := clock s + int (latency e (tick s))\<rparr>"

definition run_sql :: "(uuid \<Rightarrow> time \<Rightarrow> pg \<Rightarrow> sqlx_error + ('a \<times> pg)) \<Rightarrow> 'a app" where
  \<comment> \<open>one SQL statement, given \<open>gen_random_uuid()\<close> and \<open>NOW()\<close>\<close>
  "run_sql q = (\<lambda>e s.
     let s' = next_tick e s in
     if \<not> db_up e (tick s) then (Inl (Err (Database Unavailable)), s')
     else (case q (fresh_uuid e (tick s)) (clock s') (db s') of
             Inl er \<Rightarrow> (Inl (Err (Database er)), s')
           | Inr (x, d) \<Rightarrow> (Inr x, s'\<lparr>db := d\<rparr>)))"

definition sql_select :: "(time \<Rightarrow> pg \<Rightarrow> 'a) \<Rightarrow> 'a app" where
  "sql_select f = run_sql (\<lambda>_ now d. Inr (f now d, d))"

definition sql_execute :: "(time \<Rightarrow> pg \<Rightarrow> pg) \<Rightarrow> unit app" where
  "sql_execute f = run_sql (\<lambda>_ now d. Inr ((), f now d))"

definition with_result :: "'a \<Rightarrow> sqlx_error + pg \<Rightarrow> sqlx_error + ('a \<times> pg)" where
  "with_result x r = (case r of Inl er \<Rightarrow> Inl er | Inr d \<Rightarrow> Inr (x, d))"

definition sql_insert :: "('r \<Rightarrow> pg \<Rightarrow> sqlx_error + pg) \<Rightarrow> (uuid \<Rightarrow> time \<Rightarrow> 'r) \<Rightarrow> 'r app" where
  \<comment> \<open>\<open>INSERT ... RETURNING\<close>\<close>
  "sql_insert ins row = run_sql (\<lambda>new now d. with_result (row new now) (ins (row new now) d))"

definition sql_update :: "bool \<Rightarrow> string \<Rightarrow> (time \<Rightarrow> pg \<Rightarrow> pg) \<Rightarrow> unit app" where
  \<comment> \<open>an \<open>UPDATE\<close> whose new values must fit the columns of the table\<close>
  "sql_update fit table f =
     run_sql (\<lambda>_ now d. if fit then Inr ((), f now d) else Inl (ValueTooLong table))"

definition newest_first :: "('r \<Rightarrow> time) \<Rightarrow> 'r list \<Rightarrow> 'r list" where
  \<comment> \<open>\<open>ORDER BY .. DESC\<close>; rows of the same instant keep their insertion order\<close>
  "newest_first k rs = sort_key (\<lambda>r. - k r) rs"

definition count_rows :: "('r \<Rightarrow> bool) \<Rightarrow> 'r list \<Rightarrow> i64" where
  "count_rows p rs = int (length (filter p rs))"

definition docker_request :: "docker_client \<Rightarrow> docker_call \<Rightarrow> docker_reply app" where
  "docker_request c call = (\<lambda>e s.
     let s' = (next_tick e s)\<lparr>calls := calls s @ [DockerCall c call]\<rparr> in
     case docker_answer e (tick s) c call of
       Inl msg \<Rightarrow> (Inl (Err (Docker msg)), s')
     | Inr r \<Rightarrow> (Inr r, s'))"

definition http_post :: "string \<Rightarrow> string option \<Rightarrow> (string \<times> string) list \<Rightarrow> http_reply app" where
  "http_post url bearer form = (\<lambda>e s.
     let s' = (next_tick e s)\<lparr>calls := calls s @ [HttpPost url bearer form]\<rparr> in
     case http_answer e (tick s) url form of
       Inl msg \<Rightarrow> (Inl (Err (Internal (''Stripe request error: '' @ msg))), s')
     | Inr r \<Rightarrow> (Inr r, s'))"

definition json_post :: "string \<Rightarrow> (string \<times> string) list \<Rightarrow> unit app" where
  \<comment> \<open>the answer is only logged\<close>
  "json_post url obj = (\<lambda>e s. (Inr (), (next_tick e s)\<lparr>calls := calls s @ [JsonPost url obj]\<rparr>))"

definition send_mail :: "string \<Rightarrow> string \<Rightarrow> string \<Rightarrow> unit app" where
  "send_mail to subject body = (\<lambda>e s.
     (Inr (), (next_tick e s)\<lparr>calls := calls s @ [SendMail to subject body]\<rparr>))"

definition client_sql :: "string \<Rightarrow> string \<Rightarrow> unit app" where
  \<comment> \<open>connect, run one statement, close\<close>
  "client_sql url sql = (\<lambda>e s.
     if \<not> client_connects e (tick s) url
     then (Inl (Err (Internal ''Failed to connect to client DB'')), next_tick e s)
     else let s' = (next_tick e s)\<lparr>calls := calls s @ [ClientSql url sql]\<rparr> in
       if client_executes e (tick s) sql then (Inr (), s')
       else (Inl (Err (BadRequest ''Migration failed'')), s'))"

definition sleep_secs :: "nat \<Rightarrow> unit app" where
  "sleep_secs n = (\<lambda>e s. (Inr (), (next_tick e s)\<lparr>clock := clock (next_tick e s) + int n * 10 ^ 9\<rparr>))"

definition new_uuid :: "uuid app" where
  "new_uuid = (\<lambda>e s. (Inr (fresh_uuid e (tick s)), next_tick e s))"

definition random_string :: "nat \<Rightarrow> string app" where
  "random_string n = (\<lambda>e s. (Inr (generate_random_string (random_index e (tick s)) n), next_tick e s))"

definition encrypt :: "string \<Rightarrow> string app" where
  \<comment> \<open>\<open>encrypt_string(.., &state.config.encryption_key)?\<close>\<close>
  "encrypt plaintext = (\<lambda>e s.
     lift_result (encrypt_string (l_cipher (lib e)) (take 12 (random_bytes e (tick s))) plaintext
                    (encryption_key (cfg e))) e (next_tick e s))"

definition decrypt :: "string \<Rightarrow> string app" where
  "decrypt encrypted = (\<lambda>e s.
     lift_result (decrypt_string (l_cipher (lib e)) encrypted (encryption_key (cfg e))) e s)"

definition allocate_port :: "u16 app" where
  "allocate_port = (\<lambda>e s. case PortPool_allocate (ports s) of
     (Inl er, pp) \<Rightarrow> (Inl (Err er), s\<lparr>ports := pp\<rparr>)
   | (Inr p, pp) \<Rightarrow> (Inr p, s\<lparr>ports := pp\<rparr>))"

definition release_port :: "u16 \<Rightarrow> unit app" where
  "release_port p = (\<lambda>e s. (Inr (), s\<lparr>ports := PortPool_release p (ports s)\<rparr>))"

definition send_event :: "db_event \<Rightarrow> unit app" where
  "send_event ev = (\<lambda>e s. (Inr (), s\<lparr>events := events s @ [ev]\<rparr>))"

definition spawn :: "task \<Rightarrow> unit app" where
  "spawn t = (\<lambda>e s. (Inr (), s\<lparr>spawned := spawned s @ [t]\<rparr>))"

definition get_registration :: "bool app" where
  "get_registration = (\<lambda>e s. (Inr (registration_enabled s), s))"

definition set_registration :: "bool \<Rightarrow> unit app" where
  "set_registration b = (\<lambda>e s. (Inr (), s\<lparr>registration_enabled := b\<rparr>))"

definition get_maintenance :: "bool app" where
  "get_maintenance = (\<lambda>e s. (Inr (maintenance_mode s), s))"

definition set_maintenance :: "bool \<Rightarrow> unit app" where
  "set_maintenance b = (\<lambda>e s. (Inr (), s\<lparr>maintenance_mode := b\<rparr>))"

definition set_gauges :: "(gauge_values \<Rightarrow> gauge_values) \<Rightarrow> unit app" where
  "set_gauges f = (\<lambda>e s. (Inr (), s\<lparr>gauges := f (gauges s)\<rparr>))"

definition fs_effect :: "string \<Rightarrow> ((string \<Rightarrow> string option) \<Rightarrow> (string \<Rightarrow> string option)) \<Rightarrow> unit app" where
  "fs_effect msg f = (\<lambda>e s.
     if fs_ok e (tick s) then (Inr (), (next_tick e s)\<lparr>files := f (files s)\<rparr>)
     else (Inl (Err (Internal msg)), next_tick e s))"

definition fs_create_dir_all :: "string \<Rightarrow> string \<Rightarrow> unit app" where
  "fs_create_dir_all dir msg = fs_effect msg id"

definition fs_write :: "string \<Rightarrow> string \<Rightarrow> string \<Rightarrow> unit app" where
  "fs_write path data msg = fs_effect msg (\<lambda>fs. fs(path \<mapsto> data))"

definition fs_remove_file :: "string \<Rightarrow> string \<Rightarrow> unit app" where
  "fs_remove_file path msg = fs_effect msg (\<lambda>fs. fs(path := None))"

definition fs_exists :: "string \<Rightarrow> bool app" where
  "fs_exists path = (\<lambda>e s. (Inr (files s path \<noteq> None), s))"

definition fs_read :: "string \<Rightarrow> app_error \<Rightarrow> string app" where
  "fs_read path er = (\<lambda>e s.
     case (if fs_ok e (tick s) then files s path else None) of
       None \<Rightarrow> (Inl (Err er), next_tick e s)
     | Some data \<Rightarrow> (Inr data, next_tick e s))"

definition path_join :: "string \<Rightarrow> string \<Rightarrow> string" where
  \<comment> \<open>\<open>Path::join\<close>: an absolute second path replaces the first\<close>
  "path_join dir name =
     (if str_starts_with name ''/'' then name
      else if dir = [] \<or> str_ends_with dir ''/'' then dir @ name
      else dir @ ''/'' @ name)"

end
