(* ===== verification/Calculus.thy ===== *)
theory Calculus
  imports Platform
begin

text \<open>
  Reasoning about the monad of \<open>Platform\<close>: evaluation of the basic operations, weakest
  preconditions (\<open>wp\<close>) for path-sensitive properties, and \<open>preserves\<close>, the rule set by
  which a whole handler is shown to keep a predicate of the state from the fact that its
  SQL statements and effects do.
\<close>

section \<open>Evaluation\<close>

lemma app_simps [simp]:
  "return_app x e s = (Inr x, s)"
  "throw er e s = (Inl (Err er), s)"
  "panic e s = (Inl Panic, s)"
  "asks f e s = (Inr (f e), s)"
  "utc_now e s = (Inr (clock s), s)"
  "require p er e s = (if p then (Inr (), s) else (Inl (Err er), s))"
  "ok_or None er e s = (Inl (Err er), s)"
  "ok_or (Some x) er e s = (Inr x, s)"
  "unwrap None e s = (Inl Panic, s)"
  "unwrap (Some x) e s = (Inr x, s)"
  "lift_result (Inl er) e s = (Inl (Err er), s)"
  "lift_result (Inr x) e s = (Inr x, s)"
  "release_port port e s = (Inr (), s\<lparr>ports := PortPool_release port (ports s)\<rparr>)"
  "send_event ev e s = (Inr (), s\<lparr>events := events s @ [ev]\<rparr>)"
  "spawn t e s = (Inr (), s\<lparr>spawned := spawned s @ [t]\<rparr>)"
  "get_registration e s = (Inr (registration_enabled s), s)"
  "set_registration b e s = (Inr (), s\<lparr>registration_enabled := b\<rparr>)"
  "get_maintenance e s = (Inr (maintenance_mode s), s)"
  "set_maintenance b e s = (Inr (), s\<lparr>maintenance_mode := b\<rparr>)"
  "set_gauges g e s = (Inr (), s\<lparr>gauges := g (gauges s)\<rparr>)"
  "new_uuid e s = (Inr (fresh_uuid e (tick s)), next_tick e s)"
  "random_string n e s = (Inr (generate_random_string (random_index e (tick s)) n), next_tick e s)"
  by (simp_all add: return_app_def throw_def panic_def asks_def utc_now_def require_def ok_or_def
      unwrap_def lift_result_def release_port_def send_event_def spawn_def new_uuid_def
      random_string_def get_registration_def set_registration_def get_maintenance_def
      set_maintenance_def set_gauges_def)

lemma bind_app_eval:
  "bind_app m f e s = (case m e s of (Inr x, s') \<Rightarrow> f x e s' | (Inl er, s') \<Rightarrow> (Inl er, s'))"
  by (simp add: bind_app_def)

lemma bind_app_Inr [simp]: "m e s = (Inr x, s') \<Longrightarrow> bind_app m f e s = f x e s'"
  by (simp add: bind_app_def)

lemma bind_app_Inl [simp]: "m e s = (Inl er, s') \<Longrightarrow> bind_app m f e s = (Inl er, s')"
  by (simp add: bind_app_def)

lemma bind_return [simp]: "bind_app (return_app x) f = f x"
  by (rule ext)+ simp

lemma bind_throw [simp]: "bind_app (throw er) f = throw er"
  by (rule ext)+ simp

lemma bind_assoc: "bind_app (bind_app m f) g = bind_app m (\<lambda>x. bind_app (f x) g)"
  by (rule ext)+ (simp add: bind_app_def split: prod.split sum.split)

lemma return_bind [simp]: "bind_app m return_app = m"
  by (rule ext)+ (simp add: bind_app_def split: prod.split sum.split)

lemma next_tick_simps [simp]:
  "db (next_tick e s) = db s" "ports (next_tick e s) = ports s"
  "registration_enabled (next_tick e s) = registration_enabled s"
  "maintenance_mode (next_tick e s) = maintenance_mode s"
  "events (next_tick e s) = events s" "calls (next_tick e s) = calls s"
  "spawned (next_tick e s) = spawned s" "files (next_tick e s) = files s" "gauges (next_tick e s) = gauges s"
  "tick (next_tick e s) = Suc (tick s)"
  "clock (next_tick e s) = clock s + int (latency e (tick s))"
  by (simp_all add: next_tick_def)

lemma run_sql_up:
  "db_up e (tick s) \<Longrightarrow>
   run_sql q e s = (case q (fresh_uuid e (tick s)) (clock s + int (latency e (tick s))) (db s) of
      Inl er \<Rightarrow> (Inl (Err (Database er)), next_tick e s)
    | Inr (x, d) \<Rightarrow> (Inr x, (next_tick e s)\<lparr>db := d\<rparr>))"
  by (simp add: run_sql_def Let_def)

lemma run_sql_down [simp]:
  "\<not> db_up e (tick s) \<Longrightarrow> run_sql q e s = (Inl (Err (Database Unavailable)), next_tick e s)"
  by (simp add: run_sql_def Let_def)

lemma sql_select_up [simp]:
  "db_up e (tick s) \<Longrightarrow>
   sql_select f e s = (Inr (f (clock s + int (latency e (tick s))) (db s)), next_tick e s)"
  by (simp add: sql_select_def run_sql_up)

lemma sql_execute_up [simp]:
  "db_up e (tick s) \<Longrightarrow>
   sql_execute f e s = (Inr (), (next_tick e s)\<lparr>db := f (clock s + int (latency e (tick s))) (db s)\<rparr>)"
  by (simp add: sql_execute_def run_sql_up)

lemma with_result_simps [simp]:
  "with_result x (Inl er) = Inl er" "with_result x (Inr d) = Inr (x, d)"
  "with_result x v = Inr (y, d) \<longleftrightarrow> y = x \<and> v = Inr d"
  by (auto simp: with_result_def split: sum.splits)

lemma sql_insert_up:
  "db_up e (tick s) \<Longrightarrow>
   sql_insert ins row e s =
     (let r = row (fresh_uuid e (tick s)) (clock s + int (latency e (tick s)))
      in case ins r (db s) of
           Inl er \<Rightarrow> (Inl (Err (Database er)), next_tick e s)
         | Inr d \<Rightarrow> (Inr r, (next_tick e s)\<lparr>db := d\<rparr>))"
  by (simp add: sql_insert_def run_sql_up Let_def with_result_def split: sum.split)

lemma sql_down [simp]:
  "\<not> db_up e (tick s) \<Longrightarrow> sql_select f e s = (Inl (Err (Database Unavailable)), next_tick e s)"
  "\<not> db_up e (tick s) \<Longrightarrow> sql_execute g e s = (Inl (Err (Database Unavailable)), next_tick e s)"
  "\<not> db_up e (tick s) \<Longrightarrow> sql_insert ins row e s = (Inl (Err (Database Unavailable)), next_tick e s)"
  by (simp_all add: sql_select_def sql_execute_def sql_insert_def)

lemma sql_select_cases:
  obtains (down) "sql_select f e s = (Inl (Err (Database Unavailable)), next_tick e s)"
  | (up) "sql_select f e s = (Inr (f (clock s + int (latency e (tick s))) (db s)), next_tick e s)"
  by (cases "db_up e (tick s)") auto

section \<open>Weakest preconditions\<close>

definition wp :: "'a app \<Rightarrow> (fault + 'a \<Rightarrow> app_state \<Rightarrow> bool) \<Rightarrow> env \<Rightarrow> app_state \<Rightarrow> bool" where
  "wp m Q e s \<longleftrightarrow> (case m e s of (r, s') \<Rightarrow> Q r s')"

definition on_ok :: "('a \<Rightarrow> app_state \<Rightarrow> bool) \<Rightarrow> (app_state \<Rightarrow> bool) \<Rightarrow> fault + 'a \<Rightarrow> app_state \<Rightarrow> bool" where
  \<comment> \<open>a postcondition for the result and one for the state after an error\<close>
  "on_ok Q E r s = (case r of Inr x \<Rightarrow> Q x s | Inl _ \<Rightarrow> E s)"

lemma on_ok_simps [simp]: "on_ok Q E (Inr x) s = Q x s" "on_ok Q E (Inl er) s = E s"
  by (simp_all add: on_ok_def)

lemma wp_eq: "m e s = (r, s') \<Longrightarrow> wp m Q e s = Q r s'"
  by (simp add: wp_def)

lemma wp_mono: "wp m Q e s \<Longrightarrow> (\<And>r s'. Q r s' \<Longrightarrow> Q' r s') \<Longrightarrow> wp m Q' e s"
  by (auto simp: wp_def)

lemma wp_bind:
  "wp (bind_app m f) Q e s =
   wp m (\<lambda>r s'. case r of Inr x \<Rightarrow> wp (f x) Q e s' | Inl er \<Rightarrow> Q (Inl er) s') e s"
  by (auto simp: wp_def bind_app_def split: prod.split sum.split)

lemma wp_bind_ok:
  "wp m (on_ok (\<lambda>x s'. wp (f x) (on_ok Q E) e s') E) e s \<Longrightarrow> wp (bind_app m f) (on_ok Q E) e s"
  by (auto simp: wp_def bind_app_def split: prod.splits sum.splits)

lemma wp_select_ok:
  "(\<And>t. Q (f t (db s)) (next_tick e s)) \<Longrightarrow> E (next_tick e s) \<Longrightarrow>
   wp (sql_select f) (on_ok Q E) e s"
  by (rule sql_select_cases [of f e s]) (simp_all add: wp_def)

lemma wp_execute_ok:
  "(\<And>t. Q () ((next_tick e s)\<lparr>db := f t (db s)\<rparr>)) \<Longrightarrow> E (next_tick e s) \<Longrightarrow>
   wp (sql_execute f) (on_ok Q E) e s"
  by (cases "db_up e (tick s)") (simp_all add: wp_def)

lemma wp_insert_ok:
  "(\<And>i t d. ins (row i t) (db s) = Inr d \<Longrightarrow> Q (row i t) ((next_tick e s)\<lparr>db := d\<rparr>)) \<Longrightarrow>
   E (next_tick e s) \<Longrightarrow> wp (sql_insert ins row) (on_ok Q E) e s"
  by (cases "db_up e (tick s)")
     (auto simp: wp_def sql_insert_up Let_def split: sum.split)

lemma wp_return: "wp (return_app x) Q e s = Q (Inr x) s"
  by (simp add: wp_def)

lemma wp_throw: "wp (throw er) Q e s = Q (Inl (Err er)) s"
  by (simp add: wp_def)

lemma wp_panic: "wp panic Q e s = Q (Inl Panic) s"
  by (simp add: wp_def)

lemma wp_require: "wp (require p er) Q e s = (if p then Q (Inr ()) s else Q (Inl (Err er)) s)"
  by (simp add: wp_def)

lemma wp_ok_or: "wp (ok_or v er) Q e s = (case v of None \<Rightarrow> Q (Inl (Err er)) s | Some x \<Rightarrow> Q (Inr x) s)"
  by (simp add: wp_def split: option.split)

lemma wp_send_event: "wp (send_event ev) Q e s = Q (Inr ()) (s\<lparr>events := events s @ [ev]\<rparr>)"
  by (simp add: wp_def)

lemma wp_spawn: "wp (spawn t) Q e s = Q (Inr ()) (s\<lparr>spawned := spawned s @ [t]\<rparr>)"
  by (simp add: wp_def)

lemmas wp_simple = wp_return wp_throw wp_panic wp_require wp_ok_or wp_send_event wp_spawn

lemma wp_fold_app:
  assumes "J acc s"
    and "\<And>x acc s. x \<in> set xs \<Longrightarrow> J acc s \<Longrightarrow> wp (f x acc) (on_ok J E) e s"
  shows "wp (fold_app xs acc f) (on_ok J E) e s"
  using assms
proof (induction xs arbitrary: acc s)
  case Nil
  then show ?case by (simp add: wp_def)
next
  case (Cons x xs)
  have "wp (f x acc) (on_ok (\<lambda>acc' s'. wp (fold_app xs acc' f) (on_ok J E) e s') E) e s"
    using Cons.prems by (intro wp_mono [OF Cons.prems(2)]) (simp_all add: on_ok_def Cons.IH split: sum.splits)
  then show ?case by (simp add: wp_bind_ok)
qed

lemma wp_for_each:
  \<comment> \<open>\<open>J n\<close> holds once the first \<open>n\<close> elements are done\<close>
  assumes "J 0 s"
    and "\<And>n s. n < length xs \<Longrightarrow> J n s \<Longrightarrow> wp (f (xs ! n)) (on_ok (\<lambda>_. J (Suc n)) E) e s"
  shows "wp (for_each xs f) (on_ok (\<lambda>_. J (length xs)) E) e s"
  using assms
proof (induction xs arbitrary: J s)
  case Nil
  then show ?case by (simp add: wp_def)
next
  case (Cons x xs)
  have "wp (for_each xs f) (on_ok (\<lambda>_. J (Suc (length xs))) E) e s'" if "J (Suc 0) s'" for s'
    using Cons.IH [of "\<lambda>n. J (Suc n)" s'] that Cons.prems(2) [of "Suc _"] by simp
  with Cons.prems(1) Cons.prems(2) [of 0]
  have "wp (f x) (on_ok (\<lambda>_ s'. wp (for_each xs f) (on_ok (\<lambda>_. J (Suc (length xs))) E) e s') E) e s"
    by (intro wp_mono [where m = "f x", OF Cons.prems(2) [of 0, simplified]])
       (simp_all add: on_ok_def split: sum.splits)
  then show ?case by (simp add: wp_bind_ok)
qed

lemma wp_weaken: "wp m (on_ok Q' E') e s \<Longrightarrow> (\<And>x s. Q' x s \<Longrightarrow> Q x s) \<Longrightarrow> (\<And>s. E' s \<Longrightarrow> E s) \<Longrightarrow>
  wp m (on_ok Q E) e s"
  by (erule wp_mono) (auto simp: on_ok_def split: sum.splits)

lemma wp_result: "wp m (on_ok Q E) e s \<Longrightarrow> m e s = (Inr x, s') \<Longrightarrow> Q x s'"
  by (simp add: wp_def)

section \<open>Keeping a predicate\<close>

definition preserves :: "(app_state \<Rightarrow> bool) \<Rightarrow> 'a app \<Rightarrow> bool" where
  "preserves I m \<longleftrightarrow> (\<forall>e s. I s \<longrightarrow> I (snd (m e s)))"

lemma preservesD: "preserves I m \<Longrightarrow> I s \<Longrightarrow> m e s = (r, s') \<Longrightarrow> I s'"
  unfolding preserves_def by (metis snd_conv)

lemma preserves_conj: "preserves I m \<Longrightarrow> preserves J m \<Longrightarrow> preserves (\<lambda>s. I s \<and> J s) m"
  by (simp add: preserves_def)

lemma preserves_control [preserves_intro]:
  "preserves I (return_app x)"
  "preserves I (throw er)"
  "preserves I panic"
  "preserves I (asks f)"
  "preserves I utc_now"
  "preserves I (require p er)"
  "preserves I (ok_or v er)"
  "preserves I (unwrap v)"
  "preserves I (lift_result r)"
  "preserves I (decrypt str)"
  "preserves I (fs_exists path)"
  "preserves I get_registration"
  "preserves I get_maintenance"
  by (auto simp: preserves_def require_def ok_or_def unwrap_def lift_result_def decrypt_def
      fs_exists_def split: option.split sum.split)

lemma preserves_bind [preserves_intro]:
  "preserves I m \<Longrightarrow> (\<And>x. preserves I (f x)) \<Longrightarrow> preserves I (bind_app m f)"
  unfolding preserves_def by (auto simp: bind_app_def split: prod.split sum.split) (metis snd_conv)+

lemma preserves_attempt [preserves_intro]: "preserves I m \<Longrightarrow> preserves I (attempt m)"
  unfolding preserves_def attempt_def
  by (auto split: prod.split sum.split fault.split) (metis snd_conv)+

lemma preserves_for_each [preserves_intro]:
  "(\<And>x. preserves I (f x)) \<Longrightarrow> preserves I (for_each xs f)"
  by (induction xs) (auto intro: preserves_intro)

lemma preserves_fold_app [preserves_intro]:
  "(\<And>x acc. preserves I (f x acc)) \<Longrightarrow> preserves I (fold_app xs acc f)"
  by (induction xs arbitrary: acc) (auto intro: preserves_intro)

lemma preserves_if [preserves_intro]:
  "(b \<Longrightarrow> preserves I m) \<Longrightarrow> (\<not> b \<Longrightarrow> preserves I n) \<Longrightarrow> preserves I (if b then m else n)"
  by simp

lemma preserves_let [preserves_intro]: "(\<And>x. preserves I (f x)) \<Longrightarrow> preserves I (Let v f)"
  by simp

lemma preserves_case_option [preserves_intro]:
  "preserves I m \<Longrightarrow> (\<And>x. preserves I (f x)) \<Longrightarrow> preserves I (case v of None \<Rightarrow> m | Some x \<Rightarrow> f x)"
  by (cases v) auto

lemma preserves_case_sum [preserves_intro]:
  "(\<And>x. preserves I (f x)) \<Longrightarrow> (\<And>x. preserves I (g x)) \<Longrightarrow>
   preserves I (case v of Inl x \<Rightarrow> f x | Inr x \<Rightarrow> g x)"
  by (cases v) auto

lemma preserves_case_prod [preserves_intro]:
  "(\<And>x y. preserves I (f x y)) \<Longrightarrow> preserves I (case v of (x, y) \<Rightarrow> f x y)"
  by (cases v) auto

lemma preserves_case_db_type [preserves_intro]:
  "preserves I m \<Longrightarrow> preserves I n \<Longrightarrow> preserves I k \<Longrightarrow>
   preserves I (case v of Postgresql \<Rightarrow> m | Redis \<Rightarrow> n | Mariadb \<Rightarrow> k)"
  by (cases v) auto

lemma preserves_case_list [preserves_intro]:
  "preserves I m \<Longrightarrow> (\<And>x xs. preserves I (f x xs)) \<Longrightarrow> preserves I (case v of [] \<Rightarrow> m | x # xs \<Rightarrow> f x xs)"
  by (cases v) auto

lemma preserves_case_action [preserves_intro]:
  "preserves I m \<Longrightarrow> preserves I n \<Longrightarrow> preserves I k \<Longrightarrow>
   preserves I (case v of Start \<Rightarrow> m | Stop \<Rightarrow> n | Restart \<Rightarrow> k)"
  by (cases v) auto

section \<open>Predicates of the database\<close>

text \<open>
  A predicate of the tables alone is kept by every effect that is no SQL statement, and by a
  statement that keeps it on the tables.
\<close>

abbreviation keeps_db :: "(pg \<Rightarrow> bool) \<Rightarrow> 'a app \<Rightarrow> bool" where
  "keeps_db P m \<equiv> preserves (\<lambda>s. P (db s)) m"

lemma keeps_db_effects [preserves_intro]:
  "keeps_db P (docker_request c call)"
  "keeps_db P (http_post url bearer form)"
  "keeps_db P (json_post url form)"
  "keeps_db P (send_mail to subject body)"
  "keeps_db P (client_sql url sql)"
  "keeps_db P (sleep_secs n)"
  "keeps_db P new_uuid"
  "keeps_db P (random_string n)"
  "keeps_db P (encrypt str)"
  "keeps_db P allocate_port"
  "keeps_db P (release_port port)"
  "keeps_db P (send_event ev)"
  "keeps_db P (spawn t)"
  "keeps_db P (set_registration b)"
  "keeps_db P (set_maintenance b)"
  "keeps_db P (set_gauges gs)"
  "keeps_db P (fs_effect msg g)"
  "keeps_db P (fs_create_dir_all dir msg)"
  "keeps_db P (fs_write path data msg)"
  "keeps_db P (fs_remove_file path msg)"
  "keeps_db P (fs_read path er)"
  by (auto simp: preserves_def docker_request_def http_post_def json_post_def send_mail_def
      client_sql_def sleep_secs_def encrypt_def
      allocate_port_def fs_effect_def fs_create_dir_all_def fs_write_def fs_remove_file_def
      fs_read_def lift_result_def throw_def return_app_def Let_def split: sum.split prod.split option.split)

lemma keeps_db_run_sql:
  assumes "\<And>i t d x d'. P d \<Longrightarrow> q i t d = Inr (x, d') \<Longrightarrow> P d'"
  shows "keeps_db P (run_sql q)"
  unfolding preserves_def
proof (intro allI impI)
  fix e and s :: app_state assume "P (db s)"
  then show "P (db (snd (run_sql q e s)))"
    using assms by (cases "db_up e (tick s)") (auto simp: run_sql_up split: sum.split prod.split)
qed

lemma keeps_db_select [preserves_intro]: "keeps_db P (sql_select f)"
  unfolding sql_select_def by (rule keeps_db_run_sql) simp

lemma keeps_db_execute: "(\<And>t d. P d \<Longrightarrow> P (f t d)) \<Longrightarrow> keeps_db P (sql_execute f)"
  unfolding sql_execute_def by (rule keeps_db_run_sql) auto

lemma keeps_db_insert:
  "(\<And>i t d d'. P d \<Longrightarrow> ins (row i t) d = Inr d' \<Longrightarrow> P d') \<Longrightarrow> keeps_db P (sql_insert ins row)"
  unfolding sql_insert_def by (rule keeps_db_run_sql) auto

lemma keeps_db_update: "(\<And>t d. P d \<Longrightarrow> P (f t d)) \<Longrightarrow> keeps_db P (sql_update fit table f)"
  unfolding sql_update_def by (rule keeps_db_run_sql) (auto split: if_splits)

lemma sql_update_up:
  "db_up e (tick s) \<Longrightarrow>
   sql_update fit table f e s =
     (if fit then (Inr (), (next_tick e s)\<lparr>db := f (clock s + int (latency e (tick s))) (db s)\<rparr>)
      else (Inl (Err (Database (ValueTooLong table))), next_tick e s))"
  by (simp add: sql_update_def run_sql_up)

lemma sql_update_down [simp]:
  "\<not> db_up e (tick s) \<Longrightarrow>
   sql_update fit table f e s = (Inl (Err (Database Unavailable)), next_tick e s)"
  by (simp add: sql_update_def)

lemma wp_update_ok:
  "(\<And>t. Q () ((next_tick e s)\<lparr>db := f t (db s)\<rparr>)) \<Longrightarrow> E (next_tick e s) \<Longrightarrow>
   wp (sql_update fit table f) (on_ok Q E) e s"
  by (cases "db_up e (tick s)") (simp_all add: wp_def sql_update_up)

lemma set_newest_first [simp]: "set (newest_first k rs) = set rs"
  and length_newest_first [simp]: "length (newest_first k rs) = length rs"
  by (simp_all add: newest_first_def)

lemma newest_first_sorted: "sorted (rev (map k (newest_first k rs)))"
proof -
  have "sorted (map (\<lambda>r. - k r) (newest_first k rs))"
    by (simp add: newest_first_def)
  then have "sorted_wrt (\<lambda>x y. k y \<le> k x) (newest_first k rs)"
    by (simp add: sorted_wrt_map)
  then show ?thesis by (simp add: sorted_wrt_rev sorted_wrt_map)
qed

section \<open>Operations that only read\<close>

definition reads :: "'a app \<Rightarrow> bool" where
  \<comment> \<open>the tables are left as they are\<close>
  "reads m \<longleftrightarrow> (\<forall>e s. db (snd (m e s)) = db s)"

lemma readsI: "(\<And>d. keeps_db (\<lambda>d'. d' = d) m) \<Longrightarrow> reads m"
  by (simp add: reads_def preserves_def)

lemma readsD: "reads m \<Longrightarrow> m e s = (r, s') \<Longrightarrow> db s' = db s"
  unfolding reads_def by (erule allE [of _ e], erule allE [of _ s]) simp

lemma wp_keeps:
  assumes "keeps_db P m" "P (db s)"
  shows "wp m (on_ok (\<lambda>_ s'. P (db s')) (\<lambda>s'. P (db s'))) e s"
  using assms preservesD [OF assms(1), of s e] 
  by (cases "m e s") (simp add: wp_def on_ok_def split: sum.split)

lemma wp_reads:
  assumes "reads m"
    and "\<And>x s'. db s' = db s \<Longrightarrow> Q x s'" "\<And>s'. db s' = db s \<Longrightarrow> E s'"
  shows "wp m (on_ok Q E) e s"
  using assms(2,3) readsD [OF assms(1)]
  by (cases "m e s") (simp add: wp_def on_ok_def split: sum.split)

lemma preserves_iff_wp: "preserves I m \<longleftrightarrow> (\<forall>e s. I s \<longrightarrow> wp m (on_ok (\<lambda>_. I) I) e s)"
  by (simp add: preserves_def wp_def on_ok_def split_beta split: sum.split)

lemma wp_preserved: "preserves I m \<Longrightarrow> I s \<Longrightarrow> wp m (on_ok (\<lambda>_. I) I) e s"
  by (simp add: preserves_iff_wp)

section \<open>Inverting a successful run\<close>

lemma bind_Inr_iff:
  "bind_app m f e s = (Inr y, s') \<longleftrightarrow> (\<exists>x s1. m e s = (Inr x, s1) \<and> f x e s1 = (Inr y, s'))"
  by (auto simp: bind_app_def split: prod.splits sum.splits)

lemma control_Inr_iff:
  "ok_or v er e s = (Inr x, s') \<longleftrightarrow> v = Some x \<and> s' = s"
  "lift_result r e s = (Inr x, s') \<longleftrightarrow> r = Inr x \<and> s' = s"
  "return_app x' e s = (Inr x, s') \<longleftrightarrow> x = x' \<and> s' = s"
  by (auto simp: ok_or_def lift_result_def return_app_def throw_def split: option.splits sum.splits)

lemma require_Inr_iff: "require p er e s = (Inr u, s') \<longleftrightarrow> p \<and> s' = s"
  by auto

lemma sql_select_Inr: "sql_select f e s = (Inr x, s') \<Longrightarrow> (\<exists>t. x = f t (db s)) \<and> db s' = db s \<and> calls s' = calls s"
  by (cases "db_up e (tick s)") auto

section \<open>The calls to the outside\<close>

abbreviation keeps_calls :: "(external list \<Rightarrow> bool) \<Rightarrow> 'a app \<Rightarrow> bool" where
  "keeps_calls J m \<equiv> preserves (\<lambda>s. J (calls s)) m"

lemma keeps_calls_effects [preserves_intro]:
  "keeps_calls J (run_sql q)"
  "keeps_calls J (sql_select f)"
  "keeps_calls J (sql_execute g)"
  "keeps_calls J (sql_insert ins row)"
  "keeps_calls J (sql_update fit table h)"
  "keeps_calls J (sleep_secs n)"
  "keeps_calls J new_uuid"
  "keeps_calls J (random_string n)"
  "keeps_calls J (encrypt str)"
  "keeps_calls J allocate_port"
  "keeps_calls J (release_port port)"
  "keeps_calls J (send_event ev)"
  "keeps_calls J (spawn t)"
  "keeps_calls J (set_registration b)"
  "keeps_calls J (set_maintenance b)"
  "keeps_calls J (set_gauges gs)"
  "keeps_calls J (fs_effect msg k)"
  "keeps_calls J (fs_create_dir_all dir msg)"
  "keeps_calls J (fs_write path data msg)"
  "keeps_calls J (fs_remove_file path msg)"
  "keeps_calls J (fs_read path er)"
  by (auto simp: preserves_def run_sql_def sql_select_def sql_execute_def sql_insert_def sql_update_def
      sleep_secs_def encrypt_def allocate_port_def fs_effect_def fs_create_dir_all_def fs_write_def
      fs_remove_file_def fs_read_def lift_result_def throw_def return_app_def Let_def
      split: sum.split prod.split option.split)

lemma keeps_calls_docker:
  "(\<And>cs. J cs \<Longrightarrow> J (cs @ [DockerCall c call])) \<Longrightarrow> keeps_calls J (docker_request c call)"
  by (auto simp: preserves_def docker_request_def Let_def split: sum.split)

lemma keeps_calls_http:
  "(\<And>cs. J cs \<Longrightarrow> J (cs @ [HttpPost url bearer form])) \<Longrightarrow> keeps_calls J (http_post url bearer form)"
  by (auto simp: preserves_def http_post_def Let_def split: sum.split)

lemma keeps_calls_other:
  "(\<And>cs. J cs \<Longrightarrow> J (cs @ [JsonPost url form])) \<Longrightarrow> keeps_calls J (json_post url form)"
  "(\<And>cs. J cs \<Longrightarrow> J (cs @ [SendMail to subject body])) \<Longrightarrow> keeps_calls J (send_mail to subject body)"
  "(\<And>cs. J cs \<Longrightarrow> J (cs @ [ClientSql url sql])) \<Longrightarrow> keeps_calls J (client_sql url sql)"
  by (auto simp: preserves_def json_post_def send_mail_def client_sql_def Let_def)

definition appends :: "(external \<Rightarrow> bool) \<Rightarrow> external list \<Rightarrow> external list \<Rightarrow> bool" where
  \<comment> \<open>the calls so far and then calls that satisfy the predicate\<close>
  "appends P cs cs' \<longleftrightarrow> (\<exists>new. cs' = cs @ new \<and> list_all P new)"

definition sends :: "(external \<Rightarrow> bool) \<Rightarrow> 'a app \<Rightarrow> bool" where
  \<comment> \<open>every call the operation makes satisfies the predicate\<close>
  "sends P m \<longleftrightarrow> (\<forall>e s. appends P (calls s) (calls (snd (m e s))))"

lemma appends_refl [simp]: "appends P cs cs"
  by (simp add: appends_def)

lemma appends_snoc: "appends P cs cs' \<Longrightarrow> P x \<Longrightarrow> appends P cs (cs' @ [x])"
  by (auto simp: appends_def)

lemma sendsI: "(\<And>cs. keeps_calls (appends P cs) m) \<Longrightarrow> sends P m"
  by (simp add: sends_def preserves_def)

lemma sendsD: "sends P m \<Longrightarrow> m e s = (r, s') \<Longrightarrow> \<exists>new. calls s' = calls s @ new \<and> list_all P new"
  unfolding sends_def appends_def by (metis snd_conv)

lemma keeps_calls_sends: "sends P m \<Longrightarrow> keeps_calls (appends P cs) m"
  by (auto simp: sends_def preserves_def appends_def) (metis append.assoc list_all_append)

lemma sends_docker [preserves_intro]:
  "P (DockerCall c call) \<Longrightarrow> keeps_calls (appends P cs) (docker_request c call)"
  by (rule keeps_calls_docker) (rule appends_snoc)

lemma sends_http [preserves_intro]:
  "P (HttpPost url bearer form) \<Longrightarrow> keeps_calls (appends P cs) (http_post url bearer form)"
  by (rule keeps_calls_http) (rule appends_snoc)

lemma sends_other [preserves_intro]:
  "P (JsonPost url form) \<Longrightarrow> keeps_calls (appends P cs) (json_post url form)"
  "P (SendMail to subject body) \<Longrightarrow> keeps_calls (appends P cs) (send_mail to subject body)"
  "P (ClientSql url sql) \<Longrightarrow> keeps_calls (appends P cs) (client_sql url sql)"
  by (rule keeps_calls_other, erule (1) appends_snoc [rotated])+

end
