(* ===== verification/Provisioner.thy ===== *)
theory Provisioner
  imports Calculus
begin

text \<open>
  \<open>src/api/src/services/provisioner.rs\<close>, the containers and networks: the choice of the Docker
  client, images, the creation of a database container in both routing modes, its resource
  limits and health check, the wait for its health, networks and the container lifecycle.
  \<open>src/api/src/utils/docker.rs\<close> gives the fallback client.
\<close>

section \<open>Clients\<close>

definition connect_docker :: "docker_client \<Rightarrow> string \<Rightarrow> docker_client app" where
  "connect_docker c msg = (\<lambda>e s.
     (if docker_connects e (tick s) c then Inr c else Inl (Err (Internal msg)), next_tick e s))"

definition create_docker_client :: "string option \<Rightarrow> docker_client app" where
  "create_docker_client host = (case host of
      Some h \<Rightarrow> if str_starts_with h ''tcp://''
        then connect_docker (Http_client h) ''Docker connection failed''
        else connect_docker Local_defaults ''Docker connection failed''
    | None \<Rightarrow> connect_docker Local_defaults ''Docker connection failed'')"

definition fallback_docker :: "config \<Rightarrow> docker_client" where
  \<comment> \<open>the client \<open>main\<close> gives to \<open>ProvisionerService::new\<close>\<close>
  "fallback_docker cf = (case docker_host cf of
      Some h \<Rightarrow> if str_starts_with h ''tcp://'' then Http_client h else Local_defaults
    | None \<Rightarrow> Local_defaults)"

definition with_docker :: "docker_client option \<Rightarrow> (docker_client \<Rightarrow> 'a app) \<Rightarrow> 'a app" where
  \<comment> \<open>\<open>self.docker(target)\<close>\<close>
  "with_docker target f = bind_app (asks (\<lambda>e. fallback_docker (cfg e)))
     (\<lambda>fallback. f (case target of Some c \<Rightarrow> c | None \<Rightarrow> fallback))"

definition pem_dir_for_server :: "uuid \<Rightarrow> string app" where
  "pem_dir_for_server server_id =
     bind_app (asks (\<lambda>e. ''/tmp/dbsaas-tls/'' @ l_uuid_str (lib e) server_id)) (\<lambda>dir.
     then_app (fs_create_dir_all dir ''Failed to create PEM directory'') (return_app dir))"

definition write_pem_file :: "string \<Rightarrow> string \<Rightarrow> unit app" where
  "write_pem_file path data =
     then_app (fs_write path [] ''Failed to create PEM file'')
     (then_app (fs_write path data ''Failed to write PEM data'')
     (fs_effect ''Failed to set PEM permissions'' id))"

definition connect_to_server :: "docker_server \<Rightarrow> docker_client app" where
  "connect_to_server server =
     (if ds_url server = ''local'' \<or> ds_url server = ''unix:///var/run/docker.sock''
      then connect_docker Local_defaults ''Docker connection failed''
      else
        bind_app (ok_or (ds_tls_ca server)
          (BadRequest ''TLS certificates required for remote Docker connections (missing CA)'')) (\<lambda>ca.
        bind_app (ok_or (ds_tls_cert server)
          (BadRequest ''TLS certificates required for remote Docker connections (missing cert)'')) (\<lambda>cert.
        bind_app (ok_or (ds_tls_key server)
          (BadRequest ''TLS certificates required for remote Docker connections (missing key)'')) (\<lambda>key.
        bind_app (pem_dir_for_server (ds_id server)) (\<lambda>pem_dir.
        then_app (write_pem_file (path_join pem_dir ''ca.pem'') ca)
        (then_app (write_pem_file (path_join pem_dir ''cert.pem'') cert)
        (then_app (write_pem_file (path_join pem_dir ''key.pem'') key)
        (connect_docker (Ssl_client (ds_url server) (ds_id server)) ''Docker TLS connection failed''))))))))"

section \<open>Images\<close>

definition ensure_image :: "docker_client \<Rightarrow> string \<Rightarrow> string \<Rightarrow> unit app" where
  "ensure_image c img tag =
     bind_app (attempt (docker_request c (InspectImage (img @ '':'' @ tag)))) (\<lambda>r.
       case r of
         Inr _ \<Rightarrow> return_app ()
       | Inl _ \<Rightarrow>
           bind_app (attempt (docker_request c (PullImage img tag))) (\<lambda>r.
             case r of
               Inr _ \<Rightarrow> return_app ()
             | Inl _ \<Rightarrow> throw (Internal (''Failed to pull image '' @ img @ '':'' @ tag))))"

fun image_for_db_type :: "db_type \<Rightarrow> string \<times> string" where
  "image_for_db_type Postgresql = (''postgres'', ''17-alpine'')"
| "image_for_db_type Redis = (''redis'', ''8-alpine'')"
| "image_for_db_type Mariadb = (''mariadb'', ''11-noble'')"

section \<open>Container bodies\<close>

definition nano_cpus_of :: "f64 \<Rightarrow> i64" where
  "nano_cpus_of cpu_limit = f64_as_i64 (f64_round (cpu_limit * 1000000000))"

definition memory_bytes :: "i64 \<Rightarrow> i64" where
  "memory_bytes memory_limit_mb = wrap_i64 (wrap_i64 (memory_limit_mb * 1024) * 1024)"

definition build_host_config_sni :: "string \<Rightarrow> f64 \<Rightarrow> i64 \<Rightarrow> host_config" where
  "build_host_config_sni network cpu_limit memory_limit_mb =
     \<lparr>hc_port_bindings = [], hc_network_mode = network, hc_unless_stopped = True,
      hc_nano_cpus = Some (nano_cpus_of cpu_limit), hc_memory = Some (memory_bytes memory_limit_mb),
      hc_memory_swap = Some (memory_bytes memory_limit_mb),
      hc_security_opt = [''no-new-privileges:true''], hc_userns_mode = None,
      hc_auto_remove = False, hc_cap_add = []\<rparr>"

definition build_host_config ::
  "string \<Rightarrow> string \<Rightarrow> u16 \<Rightarrow> f64 \<Rightarrow> i64 \<Rightarrow> string option \<Rightarrow> host_config" where
  "build_host_config network port_internal port_external cpu_limit memory_limit_mb host_ip =
     \<lparr>hc_port_bindings = [(port_internal, case host_ip of Some ip \<Rightarrow> ip | None \<Rightarrow> ''127.0.0.1'',
        int_to_string (uint port_external))],
      hc_network_mode = network, hc_unless_stopped = True,
      hc_nano_cpus = Some (nano_cpus_of cpu_limit), hc_memory = Some (memory_bytes memory_limit_mb),
      hc_memory_swap = Some (memory_bytes memory_limit_mb),
      hc_security_opt = [''no-new-privileges:true''], hc_userns_mode = None,
      hc_auto_remove = False, hc_cap_add = []\<rparr>"

fun healthcheck_for_db_type :: "db_type \<Rightarrow> string \<Rightarrow> health_config" where
  "healthcheck_for_db_type Postgresql password =
     \<lparr>he_test = [''CMD-SHELL'', ''pg_isready -U $POSTGRES_USER || exit 1''],
      he_interval = 10 * 10 ^ 9, he_timeout = 5 * 10 ^ 9, he_retries = 3, he_start_period = 15 * 10 ^ 9\<rparr>"
| "healthcheck_for_db_type Redis password =
     \<lparr>he_test = [''CMD-SHELL'', ''redis-cli -a '' @ password @ '' --no-auth-warning ping | grep PONG''],
      he_interval = 10 * 10 ^ 9, he_timeout = 5 * 10 ^ 9, he_retries = 3, he_start_period = 10 * 10 ^ 9\<rparr>"
| "healthcheck_for_db_type Mariadb password =
     \<lparr>he_test = [''CMD-SHELL'', ''healthcheck --connect --innodb_initialized''],
      he_interval = 10 * 10 ^ 9, he_timeout = 5 * 10 ^ 9, he_retries = 3, he_start_period = 30 * 10 ^ 9\<rparr>"

definition create_container :: "docker_client \<Rightarrow> string \<Rightarrow> container_body \<Rightarrow> string app" where
  "create_container c name body =
     bind_app (docker_request c (CreateContainer name body)) (\<lambda>response. return_app (rp_id response))"

definition postgres_env :: "string \<Rightarrow> string \<Rightarrow> string \<Rightarrow> string list" where
  "postgres_env username password db_name =
     [''POSTGRES_USER='' @ username, ''POSTGRES_PASSWORD='' @ password, ''POSTGRES_DB='' @ db_name]"

definition redis_cmd :: "string \<Rightarrow> i64 \<Rightarrow> string list" where
  "redis_cmd password memory_limit_mb =
     [''redis-server'', ''--requirepass'', password, ''--appendonly'', ''yes'', ''--maxmemory'',
      int_to_string memory_limit_mb @ ''mb'', ''--maxmemory-policy'', ''allkeys-lru'']"

definition mariadb_env :: "string \<Rightarrow> string \<Rightarrow> string \<Rightarrow> string list" where
  "mariadb_env username password db_name =
     [''MARIADB_USER='' @ username, ''MARIADB_PASSWORD='' @ password, ''MARIADB_DATABASE='' @ db_name,
      ''MARIADB_ROOT_PASSWORD='' @ password, ''MARIADB_AUTO_UPGRADE=1'']"

definition postgres_body :: "host_config \<Rightarrow> string \<Rightarrow> string \<Rightarrow> string \<Rightarrow> container_body" where
  "postgres_body hc username password db_name =
     \<lparr>cb_image = ''postgres:17-alpine'', cb_cmd = None, cb_env = Some (postgres_env username password db_name),
      cb_host_config = hc, cb_healthcheck = Some (healthcheck_for_db_type Postgresql password)\<rparr>"

definition redis_body :: "host_config \<Rightarrow> string \<Rightarrow> i64 \<Rightarrow> container_body" where
  "redis_body hc password memory_limit_mb =
     \<lparr>cb_image = ''redis:8-alpine'', cb_cmd = Some (redis_cmd password memory_limit_mb),
      cb_env = Some [''REDIS_PASSWORD='' @ password],
      cb_host_config = hc, cb_healthcheck = Some (healthcheck_for_db_type Redis password)\<rparr>"

definition mariadb_body :: "host_config \<Rightarrow> string \<Rightarrow> string \<Rightarrow> string \<Rightarrow> container_body" where
  "mariadb_body hc username password db_name =
     \<lparr>cb_image = ''mariadb:11-noble'', cb_cmd = None, cb_env = Some (mariadb_env username password db_name),
      cb_host_config = hc, cb_healthcheck = Some (healthcheck_for_db_type Mariadb password)\<rparr>"

definition create_postgres_container ::
  "docker_client \<Rightarrow> string \<Rightarrow> string \<Rightarrow> string \<Rightarrow> string \<Rightarrow> string \<Rightarrow> u16 \<Rightarrow> f64 \<Rightarrow> i64 \<Rightarrow> string option \<Rightarrow> string app" where
  "create_postgres_container c name network username password db_name port cpu_limit memory_limit_mb host_ip =
     create_container c name (postgres_body
       (build_host_config network ''5432/tcp'' port cpu_limit memory_limit_mb host_ip) username password db_name)"

definition create_redis_container ::
  "docker_client \<Rightarrow> string \<Rightarrow> string \<Rightarrow> string \<Rightarrow> u16 \<Rightarrow> f64 \<Rightarrow> i64 \<Rightarrow> string option \<Rightarrow> string app" where
  "create_redis_container c name network password port cpu_limit memory_limit_mb host_ip =
     create_container c name (redis_body
       (build_host_config network ''6379/tcp'' port cpu_limit memory_limit_mb host_ip) password memory_limit_mb)"

definition create_mariadb_container ::
  "docker_client \<Rightarrow> string \<Rightarrow> string \<Rightarrow> string \<Rightarrow> string \<Rightarrow> string \<Rightarrow> u16 \<Rightarrow> f64 \<Rightarrow> i64 \<Rightarrow> string option \<Rightarrow> string app" where
  "create_mariadb_container c name network username password db_name port cpu_limit memory_limit_mb host_ip =
     create_container c name (mariadb_body
       (build_host_config network ''3306/tcp'' port cpu_limit memory_limit_mb host_ip) username password db_name)"

definition create_postgres_container_sni ::
  "docker_client \<Rightarrow> string \<Rightarrow> string \<Rightarrow> string \<Rightarrow> string \<Rightarrow> string \<Rightarrow> f64 \<Rightarrow> i64 \<Rightarrow> string app" where
  "create_postgres_container_sni c name network username password db_name cpu_limit memory_limit_mb =
     create_container c name (postgres_body
       (build_host_config_sni network cpu_limit memory_limit_mb) username password db_name)"

definition create_redis_container_sni ::
  "docker_client \<Rightarrow> string \<Rightarrow> string \<Rightarrow> string \<Rightarrow> f64 \<Rightarrow> i64 \<Rightarrow> string app" where
  "create_redis_container_sni c name network password cpu_limit memory_limit_mb =
     create_container c name (redis_body
       (build_host_config_sni network cpu_limit memory_limit_mb) password memory_limit_mb)"

definition create_mariadb_container_sni ::
  "docker_client \<Rightarrow> string \<Rightarrow> string \<Rightarrow> string \<Rightarrow> string \<Rightarrow> string \<Rightarrow> f64 \<Rightarrow> i64 \<Rightarrow> string app" where
  "create_mariadb_container_sni c name network username password db_name cpu_limit memory_limit_mb =
     create_container c name (mariadb_body
       (build_host_config_sni network cpu_limit memory_limit_mb) username password db_name)"

section \<open>Networks\<close>

definition create_network_with_opts :: "docker_client \<Rightarrow> string \<Rightarrow> bool \<Rightarrow> string app" where
  "create_network_with_opts c name internal =
     bind_app (docker_request c (CreateNetwork
       \<lparr>nr_name = name, nr_driver = ''bridge'', nr_internal = Some internal, nr_options = []\<rparr>)) (\<lambda>response.
     then_app (require (rp_id response \<noteq> []) (Internal ''Network creation returned no ID''))
     (return_app (rp_id response)))"

definition create_network :: "docker_client \<Rightarrow> string \<Rightarrow> string app" where
  "create_network c name = create_network_with_opts c name True"

definition connect_to_proxy_network :: "docker_client option \<Rightarrow> string \<Rightarrow> string \<Rightarrow> unit app" where
  "connect_to_proxy_network target container_id proxy_network =
     with_docker target (\<lambda>c. bind_app (docker_request c (ConnectNetwork proxy_network container_id))
       (\<lambda>_. return_app ()))"

definition ensure_proxy_network :: "docker_client option \<Rightarrow> string app" where
  "ensure_proxy_network target =
     with_docker target (\<lambda>c.
       let create = bind_app (docker_request c (CreateNetwork
             \<lparr>nr_name = ''sb-proxy'', nr_driver = ''bridge'', nr_internal = None, nr_options = []\<rparr>))
             (\<lambda>response. return_app (rp_id response))
       in bind_app (attempt (docker_request c (InspectNetwork ''sb-proxy''))) (\<lambda>r.
         case r of
           Inr info \<Rightarrow> (case rp_network_id info of Some i \<Rightarrow> return_app i | None \<Rightarrow> create)
         | Inl _ \<Rightarrow> create))"

definition create_private_network ::
  "docker_client option \<Rightarrow> string \<Rightarrow> (string \<times> string option \<times> string option) app" where
  "create_private_network target name =
     with_docker target (\<lambda>c.
       bind_app (create_network c name) (\<lambda>net_id.
       bind_app (attempt (docker_request c (InspectNetwork net_id))) (\<lambda>r.
         case r of
           Inl _ \<Rightarrow> return_app (net_id, None, None)
         | Inr info \<Rightarrow>
             (case rp_ipam info of
                [] \<Rightarrow> return_app (net_id, None, None)
              | (subnet, gateway) # _ \<Rightarrow> return_app (net_id, subnet, gateway)))))"

definition attach_container_to_network :: "docker_client option \<Rightarrow> string \<Rightarrow> string \<Rightarrow> unit app" where
  "attach_container_to_network target container_id network_id =
     with_docker target (\<lambda>c. bind_app (docker_request c (ConnectNetwork network_id container_id))
       (\<lambda>_. return_app ()))"

definition detach_container_from_network :: "docker_client option \<Rightarrow> string \<Rightarrow> string \<Rightarrow> unit app" where
  "detach_container_from_network target container_id network_id =
     with_docker target (\<lambda>c. bind_app (docker_request c (DisconnectNetwork network_id container_id))
       (\<lambda>_. return_app ()))"

definition remove_private_network :: "docker_client option \<Rightarrow> string \<Rightarrow> unit app" where
  "remove_private_network target network_id =
     with_docker target (\<lambda>c. bind_app (docker_request c (RemoveNetwork network_id)) (\<lambda>_. return_app ()))"

definition create_peering_network :: "docker_client option \<Rightarrow> string \<Rightarrow> string app" where
  "create_peering_network target name =
     with_docker target (\<lambda>c.
       bind_app (docker_request c (CreateNetwork
         \<lparr>nr_name = name, nr_driver = ''bridge'', nr_internal = Some False,
          nr_options = [(''com.docker.network.bridge.enable_icc'', ''false'')]\<rparr>)) (\<lambda>response.
       then_app (require (rp_id response \<noteq> []) (Internal ''Peering network creation returned no ID''))
       (return_app (rp_id response))))"

section \<open>Databases\<close>

record provision_result =
  pvr_container_id :: string
  pvr_network_id :: string
  pvr_exposed_port :: "u16 option"

definition create_database_docker ::
  "docker_client option \<Rightarrow> uuid \<Rightarrow> db_type \<Rightarrow> string \<Rightarrow> string \<Rightarrow> string \<Rightarrow> u16 \<Rightarrow> f64 \<Rightarrow> i64 \<Rightarrow>
   provision_result app" where
  "create_database_docker target db_id type username password db_name port cpu_limit memory_limit_mb =
     with_docker target (\<lambda>c. bind_app (asks (\<lambda>e. l_uuid_str (lib e) db_id)) (\<lambda>id_str.
     let network_name = ''sb-net-'' @ id_str; container_name = ''sb-'' @ id_str;
         (img, tag) = image_for_db_type type
     in then_app (ensure_image c img tag)
     (bind_app (create_network c network_name) (\<lambda>network_id.
     bind_app (case type of
         Postgresql \<Rightarrow> create_postgres_container c container_name network_name username password db_name
                         port cpu_limit memory_limit_mb None
       | Redis \<Rightarrow> create_redis_container c container_name network_name password
                    port cpu_limit memory_limit_mb None
       | Mariadb \<Rightarrow> create_mariadb_container c container_name network_name username password db_name
                      port cpu_limit memory_limit_mb None) (\<lambda>container_id.
     bind_app (docker_request c (StartContainer container_id)) (\<lambda>_.
     return_app \<lparr>pvr_container_id = container_id, pvr_network_id = network_id,
       pvr_exposed_port = None\<rparr>))))))"

definition create_database_sni ::
  "docker_client option \<Rightarrow> uuid \<Rightarrow> db_type \<Rightarrow> string \<Rightarrow> string \<Rightarrow> string \<Rightarrow> f64 \<Rightarrow> i64 \<Rightarrow> bool \<Rightarrow>
   u16 option \<Rightarrow> string option \<Rightarrow> provision_result app" where
  "create_database_sni target db_id type username password db_name cpu_limit memory_limit_mb
     is_remote exposed_port host_ip =
     with_docker target (\<lambda>c. bind_app (asks (\<lambda>e. l_uuid_str (lib e) db_id)) (\<lambda>id_str.
     let network_name = ''sb-net-'' @ id_str; container_name = ''sb-'' @ id_str;
         (img, tag) = image_for_db_type type
     in then_app (ensure_image c img tag)
     (bind_app (create_network_with_opts c network_name (\<not> is_remote)) (\<lambda>network_id.
     bind_app (case (is_remote, exposed_port) of
         (True, Some port) \<Rightarrow> (case type of
             Postgresql \<Rightarrow> create_postgres_container c container_name network_name username password db_name
                             port cpu_limit memory_limit_mb host_ip
           | Redis \<Rightarrow> create_redis_container c container_name network_name password
                        port cpu_limit memory_limit_mb host_ip
           | Mariadb \<Rightarrow> create_mariadb_container c container_name network_name username password db_name
                          port cpu_limit memory_limit_mb host_ip)
       | _ \<Rightarrow> (case type of
             Postgresql \<Rightarrow> create_postgres_container_sni c container_name network_name username password db_name
                             cpu_limit memory_limit_mb
           | Redis \<Rightarrow> create_redis_container_sni c container_name network_name password
                        cpu_limit memory_limit_mb
           | Mariadb \<Rightarrow> create_mariadb_container_sni c container_name network_name username password db_name
                          cpu_limit memory_limit_mb)) (\<lambda>container_id.
     bind_app (docker_request c (StartContainer container_id)) (\<lambda>_.
     then_app (if is_remote then return_app ()
       else bind_app (ensure_proxy_network target) (\<lambda>_.
         connect_to_proxy_network target container_id ''sb-proxy''))
     (return_app \<lparr>pvr_container_id = container_id, pvr_network_id = network_id,
       pvr_exposed_port = exposed_port\<rparr>)))))))"

section \<open>Waiting for health\<close>

datatype health_verdict = Healthy | Unhealthy | Keep_polling

definition health_verdict_of :: "container_state option \<Rightarrow> health_verdict" where
  "health_verdict_of state = (case state of
      None \<Rightarrow> Keep_polling
    | Some st \<Rightarrow> (case cs_health st of
          Some status \<Rightarrow>
            (if status = Some HEALTHY then Healthy
             else if status = Some UNHEALTHY then Unhealthy else Keep_polling)
        | None \<Rightarrow> if cs_running st = Some True then Healthy else Keep_polling))"

lemma docker_request_clock:
  "docker_request c call e s = (r, s') \<Longrightarrow> clock s \<le> clock s'"
  by (auto simp: docker_request_def Let_def split: sum.splits)

function wait_loop :: "docker_client \<Rightarrow> string \<Rightarrow> nat \<Rightarrow> time \<Rightarrow> unit app" where
  "wait_loop c container_id timeout_secs deadline e s =
     (if deadline \<le> clock s
      then (Inl (Err (Internal (''Container '' @ container_id @ '' did not become healthy within ''
              @ int_to_string (int timeout_secs) @ ''s''))), s)
      else (case docker_request c (InspectContainer container_id) e s of
          (Inl er, s1) \<Rightarrow> (Inl er, s1)
        | (Inr info, s1) \<Rightarrow>
            (case health_verdict_of (rp_state info) of
               Healthy \<Rightarrow> (Inr (), s1)
             | Unhealthy \<Rightarrow> (Inl (Err (Internal (''Container '' @ container_id @ '' is unhealthy''))), s1)
             | Keep_polling \<Rightarrow> wait_loop c container_id timeout_secs deadline e (snd (sleep_secs 2 e s1)))))"
  by pat_completeness auto
termination
  by (relation "measure (\<lambda>(c, i, t, deadline, e, s). nat (deadline - clock s))")
     (auto simp: sleep_secs_def dest!: docker_request_clock [OF sym])

declare wait_loop.simps [simp del]

definition wait_for_healthy :: "docker_client \<Rightarrow> string \<Rightarrow> nat \<Rightarrow> unit app" where
  "wait_for_healthy c container_id timeout_secs =
     bind_app utc_now (\<lambda>now.
       wait_loop c container_id timeout_secs (now + int timeout_secs * 10 ^ 9))"

section \<open>Lifecycle\<close>

definition restart_container :: "docker_client option \<Rightarrow> string \<Rightarrow> unit app" where
  "restart_container target container_id =
     with_docker target (\<lambda>c. bind_app (docker_request c (RestartContainer container_id)) (\<lambda>_. return_app ()))"

definition stop_container :: "docker_client option \<Rightarrow> string \<Rightarrow> unit app" where
  "stop_container target container_id =
     with_docker target (\<lambda>c. bind_app (docker_request c (StopContainer container_id)) (\<lambda>_. return_app ()))"

definition start_container :: "docker_client option \<Rightarrow> string \<Rightarrow> unit app" where
  "start_container target container_id =
     with_docker target (\<lambda>c. bind_app (docker_request c (StartContainer container_id)) (\<lambda>_. return_app ()))"

definition remove_container :: "docker_client option \<Rightarrow> string \<Rightarrow> string \<Rightarrow> unit app" where
  "remove_container target container_id network_id =
     with_docker target (\<lambda>c.
       ignore (docker_request c (StopContainer container_id))
       (bind_app (docker_request c (RemoveContainer container_id)) (\<lambda>_.
        bind_app (docker_request c (RemoveNetwork network_id)) (\<lambda>_. return_app ()))))"

definition is_container_running :: "docker_client option \<Rightarrow> string \<Rightarrow> bool app" where
  "is_container_running target container_id =
     with_docker target (\<lambda>c.
       bind_app (attempt (docker_request c (InspectContainer container_id))) (\<lambda>r.
         case r of
           Inl _ \<Rightarrow> return_app False
         | Inr info \<Rightarrow> return_app (case rp_state info of
               None \<Rightarrow> False
             | Some st \<Rightarrow> (case cs_running st of None \<Rightarrow> False | Some b \<Rightarrow> b))))"

definition update_container_resources :: "docker_client option \<Rightarrow> string \<Rightarrow> f64 \<Rightarrow> i32 \<Rightarrow> unit app" where
  "update_container_resources target container_id cpu_limit memory_limit_mb =
     with_docker target (\<lambda>c.
       bind_app (docker_request c (UpdateContainer container_id (memory_bytes memory_limit_mb)
         (memory_bytes memory_limit_mb) (nano_cpus_of cpu_limit))) (\<lambda>_. return_app ()))"

end
