(* ===== verification/Provisioner_Exec.thy ===== *)
theory Provisioner_Exec
  imports Provisioner
begin

text \<open>
  \<open>src/api/src/services/provisioner.rs\<close>, what runs inside the containers and on the host: command
  execution, backups and restores, the SQL and ACL commands that manage database users, the
  nftables script of a peering, and the statistics of a container.
\<close>

section \<open>Code points of a byte string\<close>

definition is_continuation :: "char \<Rightarrow> bool" where
  "is_continuation c \<longleftrightarrow> 128 \<le> (of_char c :: nat) \<and> (of_char c :: nat) < 192"

function utf8_chars :: "string \<Rightarrow> string list" where
  \<comment> \<open>\<open>str::chars\<close>: the encodings of the code points\<close>
  "utf8_chars [] = []"
| "utf8_chars (c # cs) =
     (c # takeWhile is_continuation cs) # utf8_chars (dropWhile is_continuation cs)"
  by pat_completeness auto
termination
  by (relation "measure length") (auto simp: length_dropWhile_le less_Suc_eq_le)

definition char_is_alphanumeric :: "libraries \<Rightarrow> string \<Rightarrow> bool" where
  "char_is_alphanumeric l c = (case c of
      [] \<Rightarrow> False
    | b # bs \<Rightarrow> if is_ascii b then bs = [] \<and> is_ascii_alphanumeric b else l_alphanumeric l c)"

definition char_is_control :: "string \<Rightarrow> bool" where
  \<comment> \<open>the category Cc: U+0000 to U+001F and U+007F to U+009F\<close>
  "char_is_control c = (case c of
      [b] \<Rightarrow> (of_char b :: nat) < 32 \<or> (of_char b :: nat) = 127
    | [b, b'] \<Rightarrow> b = CHR 0xC2 \<and> 128 \<le> (of_char b' :: nat) \<and> (of_char b' :: nat) < 160
    | _ \<Rightarrow> False)"

definition char_is_whitespace :: "string \<Rightarrow> bool" where
  "char_is_whitespace c \<longleftrightarrow> c \<in> set whitespace_encodings"

section \<open>Commands in a container\<close>

definition exec_in_container :: "docker_client option \<Rightarrow> string \<Rightarrow> string list \<Rightarrow> string app" where
  "exec_in_container target container_id cmd =
     with_docker target (\<lambda>c.
       bind_app (docker_request c (CreateExec container_id cmd)) (\<lambda>exec.
       bind_app (docker_request c (StartExec (rp_id exec))) (\<lambda>attached.
       return_app (rp_output attached))))"

abbreviation run_in_container :: "docker_client option \<Rightarrow> string \<Rightarrow> string list \<Rightarrow> unit app" where
  "run_in_container target container_id cmd \<equiv>
     bind_app (exec_in_container target container_id cmd) (\<lambda>_. return_app ())"

section \<open>Backups and restores\<close>

definition map_err :: "'a app \<Rightarrow> app_error \<Rightarrow> 'a app" where
  "map_err m er = bind_app (attempt m) (\<lambda>r. case r of Inl _ \<Rightarrow> throw er | Inr x \<Rightarrow> return_app x)"

definition copy_from_container ::
  "docker_client option \<Rightarrow> string \<Rightarrow> string \<Rightarrow> string \<Rightarrow> string \<Rightarrow> nat app" where
  "copy_from_container target container_id src_path dest_dir filename =
     with_docker target (\<lambda>c.
       let dest = path_join dest_dir filename in
       then_app (fs_create_dir_all dest_dir ''Failed to create backup dir'')
       (bind_app (map_err (docker_request c (DownloadFrom container_id src_path)) (Internal ''Download error''))
         (\<lambda>download.
       bind_app (asks (\<lambda>e. l_untar (lib e) (rp_output download))) (\<lambda>archive.
       bind_app (ok_or archive (Internal ''Tar error'')) (\<lambda>entry.
       bind_app (case entry of
           None \<Rightarrow> return_app 0
         | Some (file_data, sz) \<Rightarrow> then_app (fs_write dest file_data ''Write error'') (return_app sz))
         (\<lambda>size.
       ignore (exec_in_container target container_id [''rm'', ''-f'', src_path])
       (return_app size)))))))"

definition backup_postgres ::
  "docker_client option \<Rightarrow> string \<Rightarrow> string \<Rightarrow> string \<Rightarrow> string \<Rightarrow> string \<Rightarrow> nat app" where
  "backup_postgres target container_id username db_name dest_dir filename =
     (let dump_path = ''/tmp/'' @ filename in
      then_app (exec_in_container target container_id
        [''pg_dump'', ''-U'', username, ''-d'', db_name, ''-Fc'', ''-f'', dump_path])
      (copy_from_container target container_id dump_path dest_dir filename))"

definition backup_redis ::
  "docker_client option \<Rightarrow> string \<Rightarrow> string \<Rightarrow> string \<Rightarrow> string \<Rightarrow> nat app" where
  "backup_redis target container_id password dest_dir filename =
     then_app (exec_in_container target container_id
       [''redis-cli'', ''-a'', password, ''--no-auth-warning'', ''BGSAVE''])
     (then_app (sleep_secs 2)
     (copy_from_container target container_id ''/data/dump.rdb'' dest_dir filename))"

definition backup_mariadb ::
  "docker_client option \<Rightarrow> string \<Rightarrow> string \<Rightarrow> string \<Rightarrow> string \<Rightarrow> string \<Rightarrow> string \<Rightarrow> nat app" where
  "backup_mariadb target container_id username password db_name dest_dir filename =
     (let dump_path = ''/tmp/'' @ filename in
      then_app (exec_in_container target container_id
        [''mariadb-dump'', ''-u'', username, ''-p'' @ password, ''--single-transaction'',
         ''--routines'', ''--triggers'', db_name, ''--result-file'', dump_path])
      (copy_from_container target container_id dump_path dest_dir filename))"

definition upload_file_to_container ::
  "docker_client option \<Rightarrow> string \<Rightarrow> string \<Rightarrow> string \<Rightarrow> string \<Rightarrow> unit app" where
  \<comment> \<open>the path in the container as its parent and file name\<close>
  "upload_file_to_container target container_id host_path container_dir filename =
     with_docker target (\<lambda>c.
       bind_app (fs_read host_path (Internal (''Failed to read file '' @ host_path))) (\<lambda>data.
       bind_app (asks (\<lambda>e. l_tar (lib e) filename data)) (\<lambda>tar_buf.
       bind_app (docker_request c (UploadTo container_id container_dir tar_buf)) (\<lambda>_. return_app ()))))"

definition restore_postgres ::
  "docker_client option \<Rightarrow> string \<Rightarrow> string \<Rightarrow> string \<Rightarrow> string \<Rightarrow> unit app" where
  "restore_postgres target container_id username db_name backup_path =
     then_app (upload_file_to_container target container_id backup_path ''/tmp'' ''restore.dump'')
     (run_in_container target container_id
        [''pg_restore'', ''-U'', username, ''-d'', db_name, ''--clean'', ''--if-exists'', ''/tmp/restore.dump''])"

definition restore_mariadb ::
  "docker_client option \<Rightarrow> string \<Rightarrow> string \<Rightarrow> string \<Rightarrow> string \<Rightarrow> string \<Rightarrow> unit app" where
  "restore_mariadb target container_id username password db_name backup_path =
     then_app (upload_file_to_container target container_id backup_path ''/tmp'' ''restore.sql'')
     (run_in_container target container_id
        [''mariadb'', ''-u'' @ username, ''-p'' @ password, db_name, ''-e'', ''source /tmp/restore.sql''])"

definition restore_redis :: "docker_client option \<Rightarrow> string \<Rightarrow> string \<Rightarrow> unit app" where
  "restore_redis target container_id backup_path =
     then_app (upload_file_to_container target container_id backup_path ''/data'' ''dump.rdb'')
     (restart_container target container_id)"

section \<open>SQL quoting\<close>

definition sq :: char where "sq = CHR 0x27"
definition dq :: char where "dq = CHR 0x22"
definition bt :: char where "bt = CHR 0x60"

definition escape_sql_literal :: "string \<Rightarrow> string" where
  "escape_sql_literal s = str_replace_char s sq [sq, sq]"

definition escape_sql_identifier :: "string \<Rightarrow> string" where
  "escape_sql_identifier s = str_replace_char s dq [dq, dq]"

definition quoted :: "char \<Rightarrow> string \<Rightarrow> string" where
  "quoted q s = q # s @ [q]"

section \<open>Users of PostgreSQL\<close>

definition psql :: "string \<Rightarrow> string \<Rightarrow> string \<Rightarrow> string list" where
  "psql owner_username db_name sql = [''psql'', ''-U'', owner_username, ''-d'', db_name, ''-c'', sql]"

definition create_role_sql :: "string \<Rightarrow> string \<Rightarrow> string" where
  "create_role_sql username password =
     ''CREATE ROLE '' @ quoted dq (escape_sql_identifier username) @ '' WITH LOGIN PASSWORD ''
       @ quoted sq (escape_sql_literal password) @ '';''"

definition pg_grant_sql :: "string \<Rightarrow> string \<Rightarrow> db_permission \<Rightarrow> string" where
  "pg_grant_sql db_name username permission =
     (let user = quoted dq (escape_sql_identifier username); db = quoted dq (escape_sql_identifier db_name)
      in case permission of
        Admin \<Rightarrow>
          ''GRANT ALL PRIVILEGES ON DATABASE '' @ db @ '' TO '' @ user @ ''; ''
          @ ''GRANT ALL PRIVILEGES ON ALL TABLES IN SCHEMA public TO '' @ user @ ''; ''
          @ ''GRANT ALL PRIVILEGES ON ALL SEQUENCES IN SCHEMA public TO '' @ user @ ''; ''
          @ ''ALTER DEFAULT PRIVILEGES IN SCHEMA public GRANT ALL PRIVILEGES ON TABLES TO '' @ user @ ''; ''
          @ ''ALTER DEFAULT PRIVILEGES IN SCHEMA public GRANT ALL PRIVILEGES ON SEQUENCES TO '' @ user @ '';''
      | ReadWrite \<Rightarrow>
          ''GRANT CONNECT ON DATABASE '' @ db @ '' TO '' @ user @ ''; ''
          @ ''GRANT USAGE ON SCHEMA public TO '' @ user @ ''; ''
          @ ''GRANT SELECT, INSERT, UPDATE, DELETE ON ALL TABLES IN SCHEMA public TO '' @ user @ ''; ''
          @ ''GRANT USAGE, SELECT ON ALL SEQUENCES IN SCHEMA public TO '' @ user @ ''; ''
          @ ''ALTER DEFAULT PRIVILEGES IN SCHEMA public GRANT SELECT, INSERT, UPDATE, DELETE ON TABLES TO '' @ user @ ''; ''
          @ ''ALTER DEFAULT PRIVILEGES IN SCHEMA public GRANT USAGE, SELECT ON SEQUENCES TO '' @ user @ '';''
      | ReadOnly \<Rightarrow>
          ''GRANT CONNECT ON DATABASE '' @ db @ '' TO '' @ user @ ''; ''
          @ ''GRANT USAGE ON SCHEMA public TO '' @ user @ ''; ''
          @ ''GRANT SELECT ON ALL TABLES IN SCHEMA public TO '' @ user @ ''; ''
          @ ''ALTER DEFAULT PRIVILEGES IN SCHEMA public GRANT SELECT ON TABLES TO '' @ user @ '';'')"

definition create_pg_user ::
  "docker_client option \<Rightarrow> string \<Rightarrow> string \<Rightarrow> string \<Rightarrow> string \<Rightarrow> string \<Rightarrow> db_permission \<Rightarrow> unit app" where
  "create_pg_user target container_id owner_username db_name username password permission =
     then_app (exec_in_container target container_id
       (psql owner_username db_name (create_role_sql username password)))
     (run_in_container target container_id
       (psql owner_username db_name (pg_grant_sql db_name username permission)))"

definition remove_pg_user ::
  "docker_client option \<Rightarrow> string \<Rightarrow> string \<Rightarrow> string \<Rightarrow> string \<Rightarrow> unit app" where
  "remove_pg_user target container_id owner_username db_name username =
     (let user = quoted dq (escape_sql_identifier username); db = quoted dq (escape_sql_identifier db_name)
      in run_in_container target container_id (psql owner_username db_name
        (''REVOKE ALL PRIVILEGES ON ALL TABLES IN SCHEMA public FROM '' @ user @ ''; ''
         @ ''REVOKE ALL PRIVILEGES ON ALL SEQUENCES IN SCHEMA public FROM '' @ user @ ''; ''
         @ ''REVOKE ALL PRIVILEGES ON DATABASE '' @ db @ '' FROM '' @ user @ ''; ''
         @ ''REVOKE USAGE ON SCHEMA public FROM '' @ user @ ''; ''
         @ ''DROP ROLE IF EXISTS '' @ user @ '';'')))"

definition alter_role_sql :: "string \<Rightarrow> string \<Rightarrow> string" where
  "alter_role_sql username new_password =
     ''ALTER ROLE '' @ quoted dq (escape_sql_identifier username) @ '' WITH PASSWORD ''
       @ quoted sq (escape_sql_literal new_password) @ '';''"

definition rotate_pg_password ::
  "docker_client option \<Rightarrow> string \<Rightarrow> string \<Rightarrow> string \<Rightarrow> string \<Rightarrow> string \<Rightarrow> unit app" where
  "rotate_pg_password target container_id owner_username db_name username new_password =
     run_in_container target container_id
       (psql owner_username db_name (alter_role_sql username new_password))"

section \<open>Users of Redis\<close>

definition validate_redis_credential :: "string \<Rightarrow> string \<Rightarrow> app_error + unit" where
  "validate_redis_credential val field =
     (if val = [] \<or> length val > 256 then Inl (BadRequest (field @ '' has invalid length''))
      else if list_ex (\<lambda>c. char_is_whitespace c \<or> char_is_control c) (utf8_chars val)
      then Inl (BadRequest (field @ '' contains invalid characters''))
      else Inr ())"

definition redis_cli :: "string \<Rightarrow> string list \<Rightarrow> string list" where
  "redis_cli owner_password args = [''redis-cli'', ''-a'', owner_password, ''--no-auth-warning''] @ args"

fun redis_acl :: "db_permission \<Rightarrow> string list" where
  "redis_acl Admin = [''+@all'']"
| "redis_acl ReadWrite = [''+@read'', ''+@write'', ''+@connection'', ''+@string'', ''+@list'', ''+@set'',
     ''+@sortedset'', ''+@hash'', ''+@stream'', ''-@admin'', ''-@dangerous'']"
| "redis_acl ReadOnly = [''+@read'', ''+@connection'', ''-@admin'', ''-@dangerous'', ''-@write'']"

definition create_redis_user ::
  "docker_client option \<Rightarrow> string \<Rightarrow> string \<Rightarrow> string \<Rightarrow> string \<Rightarrow> db_permission \<Rightarrow> unit app" where
  "create_redis_user target container_id owner_password username password permission =
     then_app (lift_result (validate_redis_credential username ''Redis username''))
     (then_app (lift_result (validate_redis_credential password ''Redis password''))
     (then_app (exec_in_container target container_id (redis_cli owner_password
        ([''ACL'', ''SETUSER'', username, ''on'', ''>'' @ password, ''~*'', ''&*''] @ redis_acl permission)))
     (run_in_container target container_id (redis_cli owner_password [''ACL'', ''SAVE'']))))"

definition remove_redis_user :: "docker_client option \<Rightarrow> string \<Rightarrow> string \<Rightarrow> string \<Rightarrow> unit app" where
  "remove_redis_user target container_id owner_password username =
     then_app (lift_result (validate_redis_credential username ''Redis username''))
     (then_app (exec_in_container target container_id (redis_cli owner_password [''ACL'', ''DELUSER'', username]))
     (run_in_container target container_id (redis_cli owner_password [''ACL'', ''SAVE''])))"

definition rotate_redis_password ::
  "docker_client option \<Rightarrow> string \<Rightarrow> string \<Rightarrow> string \<Rightarrow> string \<Rightarrow> unit app" where
  "rotate_redis_password target container_id owner_password username new_password =
     then_app (lift_result (validate_redis_credential username ''Redis username''))
     (then_app (lift_result (validate_redis_credential new_password ''Redis password''))
     (then_app (exec_in_container target container_id (redis_cli owner_password
        [''ACL'', ''SETUSER'', username, ''resetpass'', ''>'' @ new_password]))
     (run_in_container target container_id (redis_cli owner_password [''ACL'', ''SAVE'']))))"

section \<open>Users of MariaDB\<close>

definition mariadb_root :: "string \<Rightarrow> string \<Rightarrow> string list" where
  "mariadb_root root_password sql = [''mariadb'', ''-uroot'', ''-p'' @ root_password, ''-e'', sql]"

definition mariadb_account :: "string \<Rightarrow> string" where
  "mariadb_account username = quoted sq (escape_sql_literal username) @ ''@'' @ quoted sq ''%''"

definition mariadb_grant_sql :: "string \<Rightarrow> string \<Rightarrow> db_permission \<Rightarrow> string" where
  "mariadb_grant_sql db_name username permission =
     (let db = quoted bt (escape_sql_literal db_name) in case permission of
        Admin \<Rightarrow> ''GRANT ALL PRIVILEGES ON '' @ db @ ''.* TO '' @ mariadb_account username @ '' WITH GRANT OPTION;''
      | ReadWrite \<Rightarrow> ''GRANT SELECT, INSERT, UPDATE, DELETE, CREATE, ALTER, INDEX, DROP ON '' @ db @ ''.* TO ''
          @ mariadb_account username @ '';''
      | ReadOnly \<Rightarrow> ''GRANT SELECT ON '' @ db @ ''.* TO '' @ mariadb_account username @ '';'')"

definition create_mariadb_user ::
  "docker_client option \<Rightarrow> string \<Rightarrow> string \<Rightarrow> string \<Rightarrow> string \<Rightarrow> string \<Rightarrow> db_permission \<Rightarrow> unit app" where
  "create_mariadb_user target container_id root_password db_name username password permission =
     then_app (exec_in_container target container_id (mariadb_root root_password
       (''CREATE USER '' @ mariadb_account username @ '' IDENTIFIED BY ''
          @ quoted sq (escape_sql_literal password) @ '';'')))
     (then_app (exec_in_container target container_id (mariadb_root root_password
       (mariadb_grant_sql db_name username permission)))
     (run_in_container target container_id (mariadb_root root_password ''FLUSH PRIVILEGES;'')))"

definition remove_mariadb_user :: "docker_client option \<Rightarrow> string \<Rightarrow> string \<Rightarrow> string \<Rightarrow> unit app" where
  "remove_mariadb_user target container_id root_password username =
     run_in_container target container_id (mariadb_root root_password
       (''DROP USER IF EXISTS '' @ mariadb_account username @ '';''))"

definition rotate_mariadb_password ::
  "docker_client option \<Rightarrow> string \<Rightarrow> string \<Rightarrow> string \<Rightarrow> string \<Rightarrow> unit app" where
  "rotate_mariadb_password target container_id root_password username new_password =
     run_in_container target container_id (mariadb_root root_password
       (''ALTER USER '' @ mariadb_account username @ '' IDENTIFIED BY ''
          @ quoted sq (escape_sql_literal new_password) @ ''; FLUSH PRIVILEGES;''))"

section \<open>The firewall of a peering\<close>

definition exec_on_host :: "docker_client option \<Rightarrow> string \<Rightarrow> string app" where
  "exec_on_host target script =
     with_docker target (\<lambda>c.
       bind_app new_uuid (\<lambda>i. bind_app (asks (\<lambda>e. l_uuid_str (lib e) i)) (\<lambda>id_str.
       bind_app (docker_request c (CreateContainer (''sb-nft-'' @ take 8 id_str)
         \<lparr>cb_image = ''dbsaas-nftables:latest'', cb_cmd = Some [''sh'', ''-c'', script], cb_env = None,
          cb_host_config = \<lparr>hc_port_bindings = [], hc_network_mode = ''host'', hc_unless_stopped = False,
            hc_nano_cpus = None, hc_memory = None, hc_memory_swap = None, hc_security_opt = [],
            hc_userns_mode = Some ''host'', hc_auto_remove = True,
            hc_cap_add = [''NET_ADMIN'', ''NET_RAW'']\<rparr>,
          cb_healthcheck = None\<rparr>)) (\<lambda>response.
       bind_app (docker_request c (StartContainer (rp_id response))) (\<lambda>_.
       bind_app (attempt (docker_request c (ContainerLogs (rp_id response)))) (\<lambda>logs.
       return_app (case logs of Inl _ \<Rightarrow> [] | Inr v \<Rightarrow> rp_output v)))))))"

definition nft_char_ok :: "libraries \<Rightarrow> string \<Rightarrow> bool" where
  "nft_char_ok l c \<longleftrightarrow> char_is_alphanumeric l c \<or> c \<in> {''.'', ''/'', ''-'', ''_'', '':''}"

definition validate_nft_value :: "libraries \<Rightarrow> string \<Rightarrow> string \<Rightarrow> app_error + unit" where
  "validate_nft_value l val field_name =
     (if \<not> list_all (nft_char_ok l) (utf8_chars val)
      then Inl (BadRequest (''Invalid characters in '' @ field_name @ '': '' @ val))
      else if val = [] \<or> length val > 64
      then Inl (BadRequest (field_name @ '' has invalid length''))
      else Inr ())"

type_synonym nft_rule = "string \<times> string \<times> i32 option \<times> string option \<times> string"
  \<comment> \<open>source subnet, destination subnet, port, protocol, action\<close>

definition nft_table :: "string \<Rightarrow> string" where
  "nft_table peering_id = ''sb_peer_'' @ take 8 peering_id"

definition nft_forward :: "string \<Rightarrow> string \<Rightarrow> string \<Rightarrow> string" where
  "nft_forward table bridge_name rest =
     ''nft add rule inet '' @ table @ '' forward iifname '' @ bridge_name @ '' oifname '' @ bridge_name @ '' '' @ rest @ ''; ''"

definition nft_rule_line :: "string \<Rightarrow> string \<Rightarrow> nft_rule \<Rightarrow> string" where
  "nft_rule_line table bridge_name r =
     (let (src, dst, port, protocol, action) = r;
          verdict = (if action = ''allow'' then ''accept'' else ''drop'');
          proto = (case protocol of Some p \<Rightarrow> p | None \<Rightarrow> ''tcp'')
      in nft_forward table bridge_name (''ip saddr '' @ src @ '' ip daddr '' @ dst @ '' ''
           @ (case port of Some p \<Rightarrow> proto @ '' dport '' @ int_to_string p @ '' '' | None \<Rightarrow> [])
           @ verdict))"

definition check_nft_rule :: "libraries \<Rightarrow> nft_rule \<Rightarrow> app_error + unit" where
  "check_nft_rule l r =
     (let (src, dst, port, protocol, action) = r;
          proto = (case protocol of Some p \<Rightarrow> p | None \<Rightarrow> ''tcp'')
      in case validate_nft_value l src ''source subnet'' of Inl er \<Rightarrow> Inl er | Inr _ \<Rightarrow>
         (case validate_nft_value l dst ''destination subnet'' of Inl er \<Rightarrow> Inl er | Inr _ \<Rightarrow>
         (case validate_nft_value l proto ''protocol'' of Inl er \<Rightarrow> Inl er | Inr _ \<Rightarrow>
         (case port of
            Some p \<Rightarrow> if p < 1 \<or> p > 65535 then Inl (BadRequest (''Invalid port number: '' @ int_to_string p)) else Inr ()
          | None \<Rightarrow> Inr ()))))"

fun nft_rule_lines :: "libraries \<Rightarrow> string \<Rightarrow> string \<Rightarrow> nft_rule list \<Rightarrow> app_error + string" where
  "nft_rule_lines l table bridge_name [] = Inr []"
| "nft_rule_lines l table bridge_name (r # rs) =
     (case check_nft_rule l r of
        Inl er \<Rightarrow> Inl er
      | Inr _ \<Rightarrow> (case nft_rule_lines l table bridge_name rs of
            Inl er \<Rightarrow> Inl er
          | Inr script \<Rightarrow> Inr (nft_rule_line table bridge_name r @ script)))"

definition firewall_script :: "libraries \<Rightarrow> string \<Rightarrow> string \<Rightarrow> nft_rule list \<Rightarrow> app_error + string" where
  "firewall_script l peering_id bridge_name rules =
     (case validate_nft_value l peering_id ''peering_id'' of Inl er \<Rightarrow> Inl er | Inr _ \<Rightarrow>
     (case validate_nft_value l bridge_name ''bridge_name'' of Inl er \<Rightarrow> Inl er | Inr _ \<Rightarrow>
     (let table = nft_table peering_id in
      case nft_rule_lines l table bridge_name rules of Inl er \<Rightarrow> Inl er | Inr lines \<Rightarrow>
      Inr (''nft delete table inet '' @ table @ '' 2>/dev/null; ''
        @ ''nft add table inet '' @ table @ ''; ''
        @ ''nft add chain inet '' @ table @ '' forward { type filter hook forward priority -1''
        @ [CHR 0x5C] @ ''; policy accept'' @ [CHR 0x5C] @ ''; }; ''
        @ nft_forward table bridge_name ''ct state established,related accept''
        @ lines
        @ nft_forward table bridge_name ''drop''
        @ ''echo OK''))))"

definition apply_firewall_rules ::
  "docker_client option \<Rightarrow> string \<Rightarrow> string \<Rightarrow> nft_rule list \<Rightarrow> unit app" where
  "apply_firewall_rules target peering_id bridge_name rules =
     bind_app (asks lib) (\<lambda>l.
     bind_app (lift_result (firewall_script l peering_id bridge_name rules)) (\<lambda>script.
     then_app (exec_on_host target script) (return_app ())))"

definition remove_firewall_rules :: "docker_client option \<Rightarrow> string \<Rightarrow> unit app" where
  \<comment> \<open>the slice \<open>[..8]\<close> panics on a shorter identifier\<close>
  "remove_firewall_rules target peering_id =
     (if length peering_id < 8 then panic
      else ignore (exec_on_host target (''nft delete table inet '' @ nft_table peering_id @ '' 2>/dev/null; echo OK''))
             (return_app ()))"

section \<open>Statistics\<close>

record container_stats =
  cst_cpu_percent :: f64
  cst_memory_usage :: nat
  cst_memory_limit :: nat
  cst_memory_percent :: f64

definition u64_as_f64 :: "nat option \<Rightarrow> nat \<Rightarrow> f64" where
  "u64_as_f64 v dflt = f64_of_int (int (case v of Some n \<Rightarrow> n | None \<Rightarrow> dflt))"

definition container_stats_of :: "raw_stats \<Rightarrow> container_stats" where
  "container_stats_of stats =
     (let cpu_delta = f64_round (u64_as_f64 (rs_cpu_total stats) 0 - u64_as_f64 (rs_precpu_total stats) 0);
          system_delta = f64_round (u64_as_f64 (rs_system stats) 0 - u64_as_f64 (rs_presystem stats) 0);
          num_cpus = u64_as_f64 (rs_online_cpus stats) 1;
          memory_usage = (case rs_memory_usage stats of Some n \<Rightarrow> n | None \<Rightarrow> 0);
          memory_limit = (case rs_memory_limit stats of Some n \<Rightarrow> n | None \<Rightarrow> 0)
      in \<lparr>cst_cpu_percent =
            (if system_delta > 0
             then f64_round (f64_round (f64_round (cpu_delta / system_delta) * num_cpus) * 100) else 0),
          cst_memory_usage = memory_usage, cst_memory_limit = memory_limit,
          cst_memory_percent =
            (if memory_limit > 0
             then f64_round (f64_round (f64_of_int (int memory_usage) / f64_of_int (int memory_limit)) * 100)
             else 0)\<rparr>)"

definition get_container_stats_once :: "docker_client option \<Rightarrow> string \<Rightarrow> container_stats option app" where
  "get_container_stats_once target container_id =
     with_docker target (\<lambda>c.
       bind_app (attempt (docker_request c (ContainerStatsOnce container_id))) (\<lambda>r.
         return_app (case r of
           Inl _ \<Rightarrow> None
         | Inr reply \<Rightarrow> map_option container_stats_of (rp_stats reply))))"

definition parse_u64 :: "string \<Rightarrow> nat option" where
  "parse_u64 s =
     (let ds = (case s of c # cs \<Rightarrow> if c = CHR ''+'' then cs else s | [] \<Rightarrow> [])
      in if ds \<noteq> [] \<and> list_all is_ascii_digit ds \<and> digits_value ds < 2 ^ 64
         then Some (nat (digits_value ds)) else None)"

definition first_word :: "string \<Rightarrow> string option" where
  \<comment> \<open>\<open>split_whitespace().next()\<close>\<close>
  "first_word s =
     (case takeWhile (\<lambda>c. \<not> char_is_whitespace c) (dropWhile char_is_whitespace (utf8_chars s)) of
        [] \<Rightarrow> None | cs \<Rightarrow> Some (concat cs))"

fun data_dir_for_db_type :: "db_type \<Rightarrow> string" where
  "data_dir_for_db_type Postgresql = ''/var/lib/postgresql/data''"
| "data_dir_for_db_type Redis = ''/data''"
| "data_dir_for_db_type Mariadb = ''/var/lib/mysql''"

definition get_disk_usage :: "docker_client option \<Rightarrow> string \<Rightarrow> db_type \<Rightarrow> nat app" where
  "get_disk_usage target container_id type =
     bind_app (exec_in_container target container_id [''du'', ''-sb'', data_dir_for_db_type type]) (\<lambda>output.
       return_app (case first_word output of
           None \<Rightarrow> 0
         | Some w \<Rightarrow> (case parse_u64 w of Some n \<Rightarrow> n | None \<Rightarrow> 0)))"

end
