(* ===== verification/Database_Repository.thy ===== *)
theory Database_Repository
  imports Calculus
begin

text \<open>
  \<open>src/api/src/repository/database_repo.rs\<close>: the statements on database instances, bundles,
  the users inside a database and the backup records. Each function is one SQL statement.
\<close>

section \<open>Instances\<close>

definition DatabaseRepository_create ::
  "uuid \<Rightarrow> string \<Rightarrow> db_type \<Rightarrow> string \<Rightarrow> i32 \<Rightarrow> string \<Rightarrow> string \<Rightarrow> string option \<Rightarrow> f64 \<Rightarrow> i32 \<Rightarrow>
   uuid option \<Rightarrow> string \<Rightarrow> uuid option \<Rightarrow> uuid option \<Rightarrow> string \<Rightarrow> string \<Rightarrow> database_instance app" where
  "DatabaseRepository_create user_id name type host port username password_encrypted
     database_name cpu_limit memory_limit_mb bundle_id tls_mode plan_template_id
     docker_server_id subdomain routing_mode =
   sql_insert insert_database (\<lambda>new now.
     \<lparr>di_id = new, di_user_id = user_id, di_name = name, di_db_type = type,
      di_status = Provisioning, di_container_id = None, di_network_id = None, di_host = host,
      di_port = port, di_username = username, di_password_encrypted = password_encrypted,
      di_database_name = database_name, di_tls_cert = None, di_cpu_limit = cpu_limit,
      di_memory_limit_mb = memory_limit_mb, di_bundle_id = bundle_id, di_tls_mode = tls_mode,
      di_plan_template_id = plan_template_id, di_subdomain = subdomain,
      di_routing_mode = routing_mode, di_docker_server_id = docker_server_id,
      di_created_at = now, di_updated_at = now\<rparr>)"

abbreviation update_databases ::
  "(database_instance \<Rightarrow> bool) \<Rightarrow> (database_instance \<Rightarrow> database_instance) \<Rightarrow> pg \<Rightarrow> pg" where
  "update_databases p f d \<equiv> d\<lparr>t_databases := update_where p f (t_databases d)\<rparr>"

definition DatabaseRepository_update_provisioned ::
  "uuid \<Rightarrow> string \<Rightarrow> string \<Rightarrow> string option \<Rightarrow> unit app" where
  "DatabaseRepository_update_provisioned i container_id network_id tls_cert =
     sql_update (fits 128 container_id \<and> fits 128 network_id) ''database_instances''
       (\<lambda>now. update_databases (\<lambda>x. di_id x = i)
          (\<lambda>x. x\<lparr>di_container_id := Some container_id, di_network_id := Some network_id,
                 di_tls_cert := tls_cert, di_status := Running, di_updated_at := now\<rparr>))"

definition DatabaseRepository_update_status :: "uuid \<Rightarrow> db_status \<Rightarrow> unit app" where
  "DatabaseRepository_update_status i status =
     sql_execute (\<lambda>now. update_databases (\<lambda>x. di_id x = i)
       (\<lambda>x. x\<lparr>di_status := status, di_updated_at := now\<rparr>))"

definition DatabaseRepository_update_owner_password :: "uuid \<Rightarrow> string \<Rightarrow> unit app" where
  "DatabaseRepository_update_owner_password i password_encrypted =
     sql_execute (\<lambda>now. update_databases (\<lambda>x. di_id x = i)
       (\<lambda>x. x\<lparr>di_password_encrypted := password_encrypted, di_updated_at := now\<rparr>))"

definition DatabaseRepository_find_by_id :: "uuid \<Rightarrow> database_instance option app" where
  "DatabaseRepository_find_by_id i = sql_select (\<lambda>_ d. find (\<lambda>x. di_id x = i) (t_databases d))"

definition DatabaseRepository_find_by_user :: "uuid \<Rightarrow> database_instance list app" where
  "DatabaseRepository_find_by_user u =
     sql_select (\<lambda>_ d. newest_first di_created_at (filter (\<lambda>x. di_user_id x = u) (t_databases d)))"

definition DatabaseRepository_count_by_user :: "uuid \<Rightarrow> i64 app" where
  "DatabaseRepository_count_by_user u =
     sql_select (\<lambda>_ d. count_rows (\<lambda>x. di_user_id x = u \<and> di_status x \<noteq> Deleting) (t_databases d))"

definition DatabaseRepository_list_all :: "database_instance list app" where
  "DatabaseRepository_list_all = sql_select (\<lambda>_ d. newest_first di_created_at (t_databases d))"

definition DatabaseRepository_get_allocated_ports :: "i32 list app" where
  "DatabaseRepository_get_allocated_ports =
     sql_select (\<lambda>_ d. map di_port (filter (\<lambda>x. di_status x \<noteq> Deleting) (t_databases d)))"

definition DatabaseRepository_find_by_subdomain :: "string \<Rightarrow> database_instance option app" where
  "DatabaseRepository_find_by_subdomain sub =
     sql_select (\<lambda>_ d. find (\<lambda>x. di_subdomain x = sub) (t_databases d))"

definition DatabaseRepository_update_routing_mode :: "uuid \<Rightarrow> string \<Rightarrow> unit app" where
  "DatabaseRepository_update_routing_mode i mode =
     sql_update (fits 10 mode) ''database_instances''
       (\<lambda>now. update_databases (\<lambda>x. di_id x = i)
          (\<lambda>x. x\<lparr>di_routing_mode := mode, di_updated_at := now\<rparr>))"

definition DatabaseRepository_delete :: "uuid \<Rightarrow> unit app" where
  "DatabaseRepository_delete i = sql_execute (\<lambda>_. delete_database_row i)"

definition DatabaseRepository_count_all :: "i64 app" where
  "DatabaseRepository_count_all = sql_select (\<lambda>_ d. int (length (t_databases d)))"

fun db_type_rank :: "db_type \<Rightarrow> nat" where
  \<comment> \<open>the order of the values in the SQL enum\<close>
  "db_type_rank Postgresql = 0"
| "db_type_rank Redis = 1"
| "db_type_rank Mariadb = 2"

definition DatabaseRepository_find_databases_by_bundle :: "uuid \<Rightarrow> database_instance list app" where
  "DatabaseRepository_find_databases_by_bundle b =
     sql_select (\<lambda>_ d. sort_key (\<lambda>x. db_type_rank (di_db_type x))
                         (filter (\<lambda>x. di_bundle_id x = Some b) (t_databases d)))"

section \<open>Bundles\<close>

definition DatabaseRepository_create_bundle :: "uuid \<Rightarrow> string \<Rightarrow> db_bundle app" where
  "DatabaseRepository_create_bundle u name =
     sql_insert insert_bundle (\<lambda>new now.
       \<lparr>bu_id = new, bu_user_id = u, bu_name = name, bu_network_id = None, bu_created_at = now\<rparr>)"

definition DatabaseRepository_update_bundle_network :: "uuid \<Rightarrow> string \<Rightarrow> unit app" where
  "DatabaseRepository_update_bundle_network b net =
     sql_update (fits 255 net) ''bundles''
       (\<lambda>_ d. d\<lparr>t_bundles := update_where (\<lambda>x. bu_id x = b)
                              (\<lambda>x. x\<lparr>bu_network_id := Some net\<rparr>) (t_bundles d)\<rparr>)"

definition DatabaseRepository_find_bundle_by_id :: "uuid \<Rightarrow> db_bundle option app" where
  "DatabaseRepository_find_bundle_by_id b = sql_select (\<lambda>_ d. find (\<lambda>x. bu_id x = b) (t_bundles d))"

definition DatabaseRepository_find_bundles_by_user :: "uuid \<Rightarrow> db_bundle list app" where
  "DatabaseRepository_find_bundles_by_user u =
     sql_select (\<lambda>_ d. newest_first bu_created_at (filter (\<lambda>x. bu_user_id x = u) (t_bundles d)))"

definition DatabaseRepository_delete_bundle :: "uuid \<Rightarrow> unit app" where
  "DatabaseRepository_delete_bundle b = sql_execute (\<lambda>_. delete_bundle_row b)"

section \<open>Users inside a database\<close>

definition DatabaseRepository_create_database_user ::
  "uuid \<Rightarrow> string \<Rightarrow> string \<Rightarrow> db_permission \<Rightarrow> database_user app" where
  "DatabaseRepository_create_database_user database_id username password_encrypted permission =
     sql_insert insert_db_user (\<lambda>new now.
       \<lparr>du_id = new, du_database_id = database_id, du_username = username,
        du_password_encrypted = password_encrypted, du_permission = permission,
        du_created_at = now, du_updated_at = now\<rparr>)"

definition DatabaseRepository_find_database_users :: "uuid \<Rightarrow> database_user list app" where
  "DatabaseRepository_find_database_users i =
     sql_select (\<lambda>_ d. sort_key du_created_at (filter (\<lambda>x. du_database_id x = i) (t_db_users d)))"

definition DatabaseRepository_find_database_user_by_id :: "uuid \<Rightarrow> database_user option app" where
  "DatabaseRepository_find_database_user_by_id i =
     sql_select (\<lambda>_ d. find (\<lambda>x. du_id x = i) (t_db_users d))"

definition DatabaseRepository_update_database_user_password :: "uuid \<Rightarrow> string \<Rightarrow> unit app" where
  "DatabaseRepository_update_database_user_password i password_encrypted =
     sql_execute (\<lambda>now d. d\<lparr>t_db_users := update_where (\<lambda>x. du_id x = i)
       (\<lambda>x. x\<lparr>du_password_encrypted := password_encrypted, du_updated_at := now\<rparr>) (t_db_users d)\<rparr>)"

definition DatabaseRepository_delete_database_user :: "uuid \<Rightarrow> unit app" where
  "DatabaseRepository_delete_database_user i =
     sql_execute (\<lambda>_ d. d\<lparr>t_db_users := delete_where (\<lambda>x. du_id x = i) (t_db_users d)\<rparr>)"

definition DatabaseRepository_count_database_users :: "uuid \<Rightarrow> i64 app" where
  "DatabaseRepository_count_database_users i =
     sql_select (\<lambda>_ d. count_rows (\<lambda>x. du_database_id x = i) (t_db_users d))"

section \<open>Backup records\<close>

definition DatabaseRepository_create_backup :: "uuid \<Rightarrow> string \<Rightarrow> i64 \<Rightarrow> backup_record app" where
  "DatabaseRepository_create_backup database_id filename size_bytes =
     sql_insert insert_backup (\<lambda>new now.
       \<lparr>br_id = new, br_database_id = database_id, br_filename = filename,
        br_size_bytes = size_bytes, br_created_at = now\<rparr>)"

definition DatabaseRepository_find_backups_by_database :: "uuid \<Rightarrow> backup_record list app" where
  "DatabaseRepository_find_backups_by_database i =
     sql_select (\<lambda>_ d. newest_first br_created_at (filter (\<lambda>x. br_database_id x = i) (t_backups d)))"

definition DatabaseRepository_find_backup_by_id :: "uuid \<Rightarrow> backup_record option app" where
  "DatabaseRepository_find_backup_by_id i = sql_select (\<lambda>_ d. find (\<lambda>x. br_id x = i) (t_backups d))"

definition DatabaseRepository_delete_backup :: "uuid \<Rightarrow> unit app" where
  "DatabaseRepository_delete_backup i =
     sql_execute (\<lambda>_ d. d\<lparr>t_backups := delete_where (\<lambda>x. br_id x = i) (t_backups d)\<rparr>)"

lemmas DatabaseRepository_writes =
  DatabaseRepository_create_def DatabaseRepository_update_provisioned_def
  DatabaseRepository_update_status_def DatabaseRepository_update_owner_password_def
  DatabaseRepository_update_routing_mode_def DatabaseRepository_delete_def
  DatabaseRepository_create_bundle_def DatabaseRepository_update_bundle_network_def
  DatabaseRepository_delete_bundle_def DatabaseRepository_create_database_user_def
  DatabaseRepository_update_database_user_password_def DatabaseRepository_delete_database_user_def
  DatabaseRepository_create_backup_def DatabaseRepository_delete_backup_def

lemmas DatabaseRepository_reads =
  DatabaseRepository_find_by_id_def DatabaseRepository_find_by_user_def
  DatabaseRepository_count_by_user_def DatabaseRepository_list_all_def
  DatabaseRepository_get_allocated_ports_def DatabaseRepository_find_by_subdomain_def
  DatabaseRepository_count_all_def DatabaseRepository_find_databases_by_bundle_def
  DatabaseRepository_find_bundle_by_id_def DatabaseRepository_find_bundles_by_user_def
  DatabaseRepository_find_database_users_def DatabaseRepository_find_database_user_by_id_def
  DatabaseRepository_count_database_users_def DatabaseRepository_find_backups_by_database_def
  DatabaseRepository_find_backup_by_id_def

section \<open>What the statements keep\<close>

lemma DatabaseRepository_reads_keep [preserves_intro]:
  "keeps_db P (DatabaseRepository_find_by_id i)"
  "keeps_db P (DatabaseRepository_find_by_user i)"
  "keeps_db P (DatabaseRepository_count_by_user i)"
  "keeps_db P DatabaseRepository_list_all"
  "keeps_db P DatabaseRepository_get_allocated_ports"
  "keeps_db P (DatabaseRepository_find_by_subdomain sub)"
  "keeps_db P DatabaseRepository_count_all"
  "keeps_db P (DatabaseRepository_find_databases_by_bundle i)"
  "keeps_db P (DatabaseRepository_find_bundle_by_id i)"
  "keeps_db P (DatabaseRepository_find_bundles_by_user i)"
  "keeps_db P (DatabaseRepository_find_database_users i)"
  "keeps_db P (DatabaseRepository_find_database_user_by_id i)"
  "keeps_db P (DatabaseRepository_count_database_users i)"
  "keeps_db P (DatabaseRepository_find_backups_by_database i)"
  "keeps_db P (DatabaseRepository_find_backup_by_id i)"
  unfolding DatabaseRepository_reads by (rule keeps_db_select)+

lemma update_databases_ok:
  assumes "\<And>x. di_id (f x) = di_id x \<and> di_user_id (f x) = di_user_id x \<and>
      di_name (f x) = di_name x \<and> di_subdomain (f x) = di_subdomain x \<and>
      di_bundle_id (f x) = di_bundle_id x \<and> di_plan_template_id (f x) = di_plan_template_id x \<and>
      di_docker_server_id (f x) = di_docker_server_id x"
    and "schema_ok d"
  shows "schema_ok (update_databases p f d)"
  using assms by (simp add: schema_ok_def schema_parts_def)

lemma DatabaseRepository_schema [preserves_intro]:
  "keeps_db schema_ok (DatabaseRepository_create u nm ty h po un pw dbn cpu mem bu tls pl srv sub rm)"
  "keeps_db schema_ok (DatabaseRepository_update_provisioned i c n cert)"
  "keeps_db schema_ok (DatabaseRepository_update_status i st)"
  "keeps_db schema_ok (DatabaseRepository_update_owner_password i pw)"
  "keeps_db schema_ok (DatabaseRepository_update_routing_mode i rm)"
  "keeps_db schema_ok (DatabaseRepository_delete i)"
  "keeps_db schema_ok (DatabaseRepository_delete_bundle i)"
  "keeps_db schema_ok (DatabaseRepository_create_bundle u nm)"
  "keeps_db schema_ok (DatabaseRepository_create_database_user i un pw perm)"
  "keeps_db schema_ok (DatabaseRepository_create_backup i file sz)"
  unfolding DatabaseRepository_writes
  by ((rule keeps_db_insert, erule (1) schema_insert_rules [rotated])
      | (rule keeps_db_update keeps_db_execute,
         (rule update_databases_ok delete_database_row_ok delete_bundle_row_ok; simp)))+

lemma DatabaseRepository_schema' [preserves_intro]:
  "keeps_db schema_ok (DatabaseRepository_update_bundle_network i net)"
  "keeps_db schema_ok (DatabaseRepository_update_database_user_password i pw)"
  "keeps_db schema_ok (DatabaseRepository_delete_database_user i)"
  "keeps_db schema_ok (DatabaseRepository_delete_backup i)"
  unfolding DatabaseRepository_writes
  by (rule keeps_db_update keeps_db_execute, simp add: schema_ok_def schema_parts_def)+

end
