(* ===== verification/Billing_Repository.thy ===== *)
theory Billing_Repository
  imports Calculus
begin

text \<open>
  \<open>src/api/src/repository/billing_repo.rs\<close>: plan templates, usage events, billing periods and
  their line items.
\<close>

section \<open>Plan templates\<close>

definition BillingRepository_create_plan_template ::
  "create_plan_template_request \<Rightarrow> plan_template app" where
  "BillingRepository_create_plan_template req =
     sql_insert insert_plan (\<lambda>new now.
       \<lparr>pt_id = new, pt_name = cpt_name req, pt_db_type = cpt_db_type req,
        pt_cpu_limit = cpt_cpu_limit req, pt_memory_limit_mb = cpt_memory_limit_mb req,
        pt_monthly_price_cents = cpt_monthly_price_cents req,
        pt_hourly_price_cents = cpt_hourly_price_cents req,
        pt_is_bundle = cpt_is_bundle req, pt_active = cpt_active req, pt_created_at = now\<rparr>)"

definition BillingRepository_list_plan_templates :: "plan_template list app" where
  "BillingRepository_list_plan_templates = sql_select (\<lambda>_ d. sort_key pt_created_at (t_plans d))"

definition BillingRepository_list_active_templates :: "plan_template list app" where
  "BillingRepository_list_active_templates =
     sql_select (\<lambda>_ d. sort_key pt_monthly_price_cents (filter pt_active (t_plans d)))"

definition BillingRepository_get_plan_template :: "uuid \<Rightarrow> plan_template option app" where
  "BillingRepository_get_plan_template i = sql_select (\<lambda>_ d. find (\<lambda>x. pt_id x = i) (t_plans d))"

definition fetch_one :: "'r option \<Rightarrow> 'r app" where
  \<comment> \<open>\<open>fetch_one\<close> of no row\<close>
  "fetch_one v = ok_or v (Database RowNotFound)"

definition unwrap_or :: "'a option \<Rightarrow> 'a \<Rightarrow> 'a" where
  "unwrap_or v x = (case v of None \<Rightarrow> x | Some y \<Rightarrow> y)"

definition update_plan :: "uuid \<Rightarrow> plan_template \<Rightarrow> pg \<Rightarrow> sqlx_error + pg" where
  \<comment> \<open>\<open>UPDATE plan_templates SET .. WHERE id\<close>, under the unique constraint of the table\<close>
  "update_plan i new d =
     (if \<not> fits 100 (pt_name new) then Inl (ValueTooLong ''plan_templates'')
      else if i \<notin> ids pt_id (t_plans d) then Inl RowNotFound
      else if list_ex (\<lambda>x. pt_id x \<noteq> i \<and>
                (pt_name x, pt_db_type x, pt_is_bundle x) = (pt_name new, pt_db_type new, pt_is_bundle new))
              (t_plans d)
      then Inl (UniqueViolation ''plan_templates_name_type_bundle_uniq'')
      else Inr (d\<lparr>t_plans := update_where (\<lambda>x. pt_id x = i) (\<lambda>_. new) (t_plans d)\<rparr>))"

definition BillingRepository_update_plan_template ::
  "uuid \<Rightarrow> update_plan_template_request \<Rightarrow> plan_template app" where
  "BillingRepository_update_plan_template i req =
     bind_app (sql_select (\<lambda>_ d. find (\<lambda>x. pt_id x = i) (t_plans d))) (\<lambda>found.
     bind_app (fetch_one found) (\<lambda>current.
       let new = current\<lparr>
         pt_name := unwrap_or (upt_name req) (pt_name current),
         pt_cpu_limit := unwrap_or (upt_cpu_limit req) (pt_cpu_limit current),
         pt_memory_limit_mb := unwrap_or (upt_memory_limit_mb req) (pt_memory_limit_mb current),
         pt_monthly_price_cents := unwrap_or (upt_monthly_price_cents req) (pt_monthly_price_cents current),
         pt_hourly_price_cents := unwrap_or (upt_hourly_price_cents req) (pt_hourly_price_cents current),
         pt_is_bundle := unwrap_or (upt_is_bundle req) (pt_is_bundle current),
         pt_active := unwrap_or (upt_active req) (pt_active current)\<rparr>
       in run_sql (\<lambda>_ _ d. with_result new (update_plan i new d))))"

definition BillingRepository_delete_plan_template :: "uuid \<Rightarrow> unit app" where
  "BillingRepository_delete_plan_template i =
     sql_execute (\<lambda>_ d. d\<lparr>t_plans := update_where (\<lambda>x. pt_id x = i)
                              (\<lambda>x. x\<lparr>pt_active := False\<rparr>) (t_plans d)\<rparr>)"

section \<open>Usage events\<close>

definition BillingRepository_record_usage_event ::
  "uuid \<Rightarrow> string \<Rightarrow> uuid \<Rightarrow> string \<Rightarrow> uuid option \<Rightarrow> usage_event app" where
  "BillingRepository_record_usage_event database_id event_type user_id database_name plan_template_id =
     sql_insert insert_usage_event (\<lambda>new now.
       \<lparr>ue_id = new, ue_database_id = database_id, ue_event_type = event_type,
        ue_recorded_at = now, ue_user_id = Some user_id, ue_database_name = Some database_name,
        ue_plan_template_id = plan_template_id\<rparr>)"

definition usage_events_between :: "pg \<Rightarrow> uuid \<Rightarrow> time \<Rightarrow> time \<Rightarrow> usage_event list" where
  "usage_events_between d database_id from to' =
     sort_key ue_recorded_at
       (filter (\<lambda>x. ue_database_id x = database_id \<and> from \<le> ue_recorded_at x \<and> ue_recorded_at x \<le> to')
          (t_usage_events d))"

definition BillingRepository_get_usage_events :: "uuid \<Rightarrow> time \<Rightarrow> time \<Rightarrow> usage_event list app" where
  "BillingRepository_get_usage_events database_id from to' =
     sql_select (\<lambda>_ d. usage_events_between d database_id from to')"

definition usage_entries :: "pg \<Rightarrow> uuid \<Rightarrow> time \<Rightarrow> time \<Rightarrow> (uuid \<times> string option \<times> uuid option) list" where
  \<comment> \<open>\<open>SELECT DISTINCT\<close>: one tuple per database, name and plan\<close>
  "usage_entries d u from to' =
     remdups (map (\<lambda>x. (ue_database_id x, ue_database_name x, ue_plan_template_id x))
       (filter (\<lambda>x. ue_user_id x = Some u \<and> from \<le> ue_recorded_at x \<and> ue_recorded_at x \<le> to')
          (t_usage_events d)))"

definition BillingRepository_get_databases_with_usage_in_period ::
  "uuid \<Rightarrow> time \<Rightarrow> time \<Rightarrow> (uuid \<times> string option \<times> uuid option) list app" where
  "BillingRepository_get_databases_with_usage_in_period u from to' =
     sql_select (\<lambda>_ d. usage_entries d u from to')"

section \<open>Billing periods\<close>

definition BillingRepository_create_billing_period ::
  "uuid \<Rightarrow> time \<Rightarrow> time \<Rightarrow> i32 \<Rightarrow> billing_period app" where
  "BillingRepository_create_billing_period u period_start period_end total_cents =
     sql_insert insert_billing_period (\<lambda>new now.
       \<lparr>bp_id = new, bp_user_id = u, bp_period_start = period_start, bp_period_end = period_end,
        bp_total_cents = total_cents, bp_stripe_invoice_id = None, bp_status = ''pending'',
        bp_created_at = now\<rparr>)"

definition BillingRepository_add_line_item ::
  "uuid \<Rightarrow> uuid \<Rightarrow> uuid option \<Rightarrow> f64 \<Rightarrow> i32 \<Rightarrow> billing_line_item app" where
  "BillingRepository_add_line_item period_id database_id plan_template_id hours_used amount_cents =
     sql_insert insert_line_item (\<lambda>new now.
       \<lparr>li_id = new, li_billing_period_id = period_id, li_database_id = database_id,
        li_plan_template_id = plan_template_id, li_hours_used = hours_used,
        li_amount_cents = amount_cents, li_created_at = now\<rparr>)"

definition BillingRepository_update_period_status :: "uuid \<Rightarrow> string \<Rightarrow> string option \<Rightarrow> unit app" where
  "BillingRepository_update_period_status i status stripe_invoice_id =
     run_sql (\<lambda>_ _ d.
       if \<not> (fits 20 status \<and> fits_opt 255 stripe_invoice_id) then Inl (ValueTooLong ''billing_periods'')
       else if i \<in> ids bp_id (t_billing_periods d) \<and>
               status \<notin> {''pending'', ''invoiced'', ''paid'', ''failed''}
       then Inl (CheckViolation ''billing_periods_status_check'')
       else Inr ((), d\<lparr>t_billing_periods := update_where (\<lambda>x. bp_id x = i)
              (\<lambda>x. x\<lparr>bp_status := status,
                     bp_stripe_invoice_id := (case stripe_invoice_id of
                        None \<Rightarrow> bp_stripe_invoice_id x | Some v \<Rightarrow> Some v)\<rparr>)
              (t_billing_periods d)\<rparr>))"

definition BillingRepository_get_user_billing_periods :: "uuid \<Rightarrow> billing_period list app" where
  "BillingRepository_get_user_billing_periods u =
     sql_select (\<lambda>_ d. newest_first bp_period_start (filter (\<lambda>x. bp_user_id x = u) (t_billing_periods d)))"

definition BillingRepository_get_all_billing_periods :: "billing_period list app" where
  "BillingRepository_get_all_billing_periods =
     sql_select (\<lambda>_ d. newest_first bp_period_start (t_billing_periods d))"

definition BillingRepository_get_line_items_for_period :: "uuid \<Rightarrow> billing_line_item list app" where
  "BillingRepository_get_line_items_for_period i =
     sql_select (\<lambda>_ d. sort_key li_created_at (filter (\<lambda>x. li_billing_period_id x = i) (t_line_items d)))"

section \<open>What the statements keep\<close>

lemma BillingRepository_reads_keep [preserves_intro]:
  "keeps_db P BillingRepository_list_plan_templates"
  "keeps_db P BillingRepository_list_active_templates"
  "keeps_db P (BillingRepository_get_plan_template i)"
  "keeps_db P (BillingRepository_get_usage_events i from to')"
  "keeps_db P (BillingRepository_get_databases_with_usage_in_period i from to')"
  "keeps_db P (BillingRepository_get_user_billing_periods i)"
  "keeps_db P BillingRepository_get_all_billing_periods"
  "keeps_db P (BillingRepository_get_line_items_for_period i)"
  unfolding BillingRepository_list_plan_templates_def BillingRepository_list_active_templates_def
    BillingRepository_get_plan_template_def BillingRepository_get_usage_events_def
    BillingRepository_get_databases_with_usage_in_period_def
    BillingRepository_get_user_billing_periods_def BillingRepository_get_all_billing_periods_def
    BillingRepository_get_line_items_for_period_def
  by (rule keeps_db_select)+

lemma preserves_fetch_one [preserves_intro]: "preserves I (fetch_one v)"
  unfolding fetch_one_def by (rule preserves_control)

lemma BillingRepository_schema [preserves_intro]:
  "keeps_db schema_ok (BillingRepository_create_plan_template req)"
  "keeps_db schema_ok (BillingRepository_record_usage_event i ev u nm pl)"
  "keeps_db schema_ok (BillingRepository_create_billing_period u from to' cents)"
  "keeps_db schema_ok (BillingRepository_add_line_item p i pl h a)"
  "keeps_db schema_ok (BillingRepository_delete_plan_template i)"
  unfolding BillingRepository_create_plan_template_def BillingRepository_record_usage_event_def
    BillingRepository_create_billing_period_def BillingRepository_add_line_item_def
    BillingRepository_delete_plan_template_def
  by ((rule keeps_db_insert, erule (1) schema_insert_rules [rotated])
      | (rule keeps_db_execute, simp add: schema_ok_def schema_parts_def))+

lemma list_all_set:
  "list_all P rs \<Longrightarrow> (\<And>x. x \<in> set rs \<Longrightarrow> p x \<Longrightarrow> P (f x)) \<Longrightarrow> list_all P (update_where p f rs)"
  by (auto simp: list_all_iff update_where_def)

lemma BillingRepository_update_period_status_schema [preserves_intro]:
  "keeps_db schema_ok (BillingRepository_update_period_status i status stripe)"
  unfolding BillingRepository_update_period_status_def
proof (rule keeps_db_run_sql, goal_cases)
  case (1 i' t d x d')
  then show ?case
    by (clarsimp simp: schema_ok_def schema_parts_def split: if_split_asm)
       (auto intro!: list_all_set simp: ids_def)
qed

lemma keyed_replace:
  assumes "keyed k rs" "keyed j rs" "\<not> list_ex (\<lambda>x. j x \<noteq> i \<and> k x = v) rs"
  shows "k new = v \<Longrightarrow> keyed k (update_where (\<lambda>x. j x = i) (\<lambda>_. new) rs)"
  using assms
proof (induction rs)
  case (Cons r rs)
  have img: "w \<in> ids k (update_where (\<lambda>x. j x = i) (\<lambda>_. new) rs) \<Longrightarrow>
      w \<in> ids k rs \<or> (w = v \<and> i \<in> ids j rs)" for w
    using Cons.prems(1) by (auto simp: ids_def update_where_def split: if_splits)
  have IH: "keyed k (update_where (\<lambda>x. j x = i) (\<lambda>_. new) rs)"
    using Cons.prems by (intro Cons.IH) (auto simp: keyed_def)
  show ?case
  proof (cases "j r = i")
    case True
    then have same: "update_where (\<lambda>x. j x = i) (\<lambda>_. new) rs = rs"
      using Cons.prems(3) by (intro update_where_id) (auto simp: keyed_def image_iff)
    have "v \<notin> ids k rs"
    proof
      assume "v \<in> ids k rs"
      then obtain x where "x \<in> set rs" "k x = v" by (auto simp: ids_def)
      moreover have "j x \<noteq> i"
        using Cons.prems(3) True \<open>x \<in> set rs\<close> by (auto simp: keyed_def image_iff)
      ultimately show False using Cons.prems(4) by (auto simp: list_ex_iff)
    qed
    with same True Cons.prems(1,2) show ?thesis
      by (simp add: keyed_def ids_def update_where_def)
  next
    case False
    then have "k r \<noteq> v" using Cons.prems(4) by simp
    with False IH img [of "k r"] Cons.prems(2) show ?thesis
      by (auto simp: keyed_def ids_def update_where_def)
  qed
qed (simp add: update_where_def)

lemma update_plan_ok:
  assumes "update_plan i new d = Inr d'" "schema_ok d" "pt_id new = i"
  shows "schema_ok d'"
proof -
  let ?k = "\<lambda>x. (pt_name x, pt_db_type x, pt_is_bundle x)"
  have d': "d' = d\<lparr>t_plans := update_where (\<lambda>x. pt_id x = i) (\<lambda>_. new) (t_plans d)\<rparr>"
    and ex: "\<not> list_ex (\<lambda>x. pt_id x \<noteq> i \<and> ?k x = ?k new) (t_plans d)"
    using assms(1) by (auto simp: update_plan_def split: if_split_asm)
  have "keyed pt_id (t_plans d)" "keyed ?k (t_plans d)"
    using assms(2) by (simp_all add: schema_ok_def schema_parts_def)
  note uniq = keyed_replace [OF this(2,1) ex refl]
  have "ids pt_id (update_where (\<lambda>x. pt_id x = i) (\<lambda>_. new) (t_plans d)) = ids pt_id (t_plans d)"
    "keyed pt_id (update_where (\<lambda>x. pt_id x = i) (\<lambda>_. new) (t_plans d)) = keyed pt_id (t_plans d)"
    by (rule ids_update keyed_update, simp add: assms(3))+
  with uniq assms(2) show ?thesis
    by (simp add: d' schema_ok_def schema_parts_def)
qed


lemma BillingRepository_update_plan_template_schema [preserves_intro]:
  "keeps_db schema_ok (BillingRepository_update_plan_template i req)"
  unfolding preserves_def
proof (intro allI impI)
  fix e and s :: app_state assume ok: "schema_ok (db s)"
  show "schema_ok (db (snd (BillingRepository_update_plan_template i req e s)))"
  proof (cases "find (\<lambda>x. pt_id x = i) (t_plans (db s))")
    case None
    with ok show ?thesis
      by (cases "db_up e (tick s)")
         (simp_all add: BillingRepository_update_plan_template_def bind_app_eval fetch_one_def)
  next
    case (Some cur)
    then have "pt_id cur = i" by (auto dest: find_Some_mem)
    with ok Some show ?thesis
      by (cases "db_up e (tick s)"; cases "db_up e (Suc (tick s))")
         (auto simp: BillingRepository_update_plan_template_def bind_app_eval fetch_one_def
            run_sql_up Let_def split: sum.split intro: update_plan_ok)
  qed
qed

end
