(* ===== verification/Server_Repository.thy ===== *)
theory Server_Repository
  imports Billing_Repository
begin

text \<open>
  \<open>src/api/src/repository/docker_server_repo.rs\<close>: the registered Docker servers, the number of
  containers each one carries and the choice of the server for a new database.
\<close>

definition DockerServerRepository_create :: "create_docker_server_request \<Rightarrow> docker_server app" where
  "DockerServerRepository_create req =
     sql_insert insert_server (\<lambda>new now.
       \<lparr>ds_id = new, ds_name = cds_name req, ds_url = cds_url req, ds_tls_ca = cds_tls_ca req,
        ds_tls_cert = cds_tls_cert req, ds_tls_key = cds_tls_key req,
        ds_max_containers = unwrap_or (cds_max_containers req) 50, ds_active = True,
        ds_region = cds_region req, ds_notes = cds_notes req,
        ds_server_type = unwrap_or (cds_server_type req) ''client'',
        ds_last_seen_at = None, ds_created_at = now\<rparr>)"

definition DockerServerRepository_list_all :: "docker_server list app" where
  "DockerServerRepository_list_all = sql_select (\<lambda>_ d. newest_first ds_created_at (t_servers d))"

definition DockerServerRepository_list_active :: "docker_server list app" where
  "DockerServerRepository_list_active =
     sql_select (\<lambda>_ d. newest_first ds_created_at (filter ds_active (t_servers d)))"

definition DockerServerRepository_find_by_id :: "uuid \<Rightarrow> docker_server option app" where
  "DockerServerRepository_find_by_id i = sql_select (\<lambda>_ d. find (\<lambda>x. ds_id x = i) (t_servers d))"

definition or_else :: "'a option \<Rightarrow> 'a option \<Rightarrow> 'a option" where
  "or_else v w = (case v of None \<Rightarrow> w | Some _ \<Rightarrow> v)"

definition update_server :: "uuid \<Rightarrow> docker_server \<Rightarrow> pg \<Rightarrow> sqlx_error + pg" where
  "update_server i new d =
     (if \<not> (fits 100 (ds_name new) \<and> fits 500 (ds_url new) \<and> fits_opt 100 (ds_region new) \<and>
             fits 20 (ds_server_type new))
      then Inl (ValueTooLong ''docker_servers'')
      else if i \<notin> ids ds_id (t_servers d) then Inl RowNotFound
      else if ds_server_type new \<notin> {''platform'', ''client''}
      then Inl (CheckViolation ''docker_servers_server_type_check'')
      else Inr (d\<lparr>t_servers := update_where (\<lambda>x. ds_id x = i) (\<lambda>_. new) (t_servers d)\<rparr>))"

definition DockerServerRepository_update ::
  "uuid \<Rightarrow> update_docker_server_request \<Rightarrow> docker_server app" where
  "DockerServerRepository_update i req =
     bind_app (sql_select (\<lambda>_ d. find (\<lambda>x. ds_id x = i) (t_servers d))) (\<lambda>found.
     bind_app (fetch_one found) (\<lambda>current.
       let new = current\<lparr>
         ds_name := unwrap_or (uds_name req) (ds_name current),
         ds_url := unwrap_or (uds_url req) (ds_url current),
         ds_tls_ca := or_else (uds_tls_ca req) (ds_tls_ca current),
         ds_tls_cert := or_else (uds_tls_cert req) (ds_tls_cert current),
         ds_tls_key := or_else (uds_tls_key req) (ds_tls_key current),
         ds_max_containers := unwrap_or (uds_max_containers req) (ds_max_containers current),
         ds_active := unwrap_or (uds_active req) (ds_active current),
         ds_region := or_else (uds_region req) (ds_region current),
         ds_notes := or_else (uds_notes req) (ds_notes current),
         ds_server_type := unwrap_or (uds_server_type req) (ds_server_type current)\<rparr>
       in run_sql (\<lambda>_ _ d. with_result new (update_server i new d))))"

definition DockerServerRepository_delete :: "uuid \<Rightarrow> unit app" where
  "DockerServerRepository_delete i = run_sql (\<lambda>_ _ d. with_result () (delete_server_row i d))"

definition DockerServerRepository_update_last_seen :: "uuid \<Rightarrow> unit app" where
  "DockerServerRepository_update_last_seen i =
     sql_execute (\<lambda>now d. d\<lparr>t_servers := update_where (\<lambda>x. ds_id x = i)
                                (\<lambda>x. x\<lparr>ds_last_seen_at := Some now\<rparr>) (t_servers d)\<rparr>)"

definition server_load :: "pg \<Rightarrow> uuid \<Rightarrow> i64" where
  "server_load d i =
     count_rows (\<lambda>x. di_docker_server_id x = Some i \<and> di_status x \<notin> {Error, Deleting}) (t_databases d)"

definition DockerServerRepository_count_containers_on_server :: "uuid \<Rightarrow> i64 app" where
  "DockerServerRepository_count_containers_on_server i = sql_select (\<lambda>_ d. server_load d i)"

definition DockerServerRepository_find_active_client_by_id :: "uuid \<Rightarrow> docker_server option app" where
  "DockerServerRepository_find_active_client_by_id i =
     sql_select (\<lambda>_ d. find (\<lambda>x. ds_id x = i \<and> ds_active x \<and> ds_server_type x = ''client'') (t_servers d))"

definition DockerServerRepository_list_active_client :: "docker_server list app" where
  \<comment> \<open>\<open>ORDER BY name ASC\<close> under the collation of the database is not observed further\<close>
  "DockerServerRepository_list_active_client =
     sql_select (\<lambda>_ d. filter (\<lambda>x. ds_active x \<and> ds_server_type x = ''client'') (t_servers d))"

definition best_client_server :: "pg \<Rightarrow> docker_server option" where
  \<comment> \<open>\<open>ORDER BY (max_containers - cnt) DESC LIMIT 1\<close> over the servers with room\<close>
  "best_client_server d =
     (let room = (\<lambda>x. ds_max_containers x - server_load d (ds_id x));
          candidates = filter (\<lambda>x. ds_active x \<and> ds_server_type x = ''client'' \<and>
                                   server_load d (ds_id x) < ds_max_containers x) (t_servers d)
      in case sort_key (\<lambda>x. - room x) candidates of [] \<Rightarrow> None | x # _ \<Rightarrow> Some x)"

definition DockerServerRepository_select_best_client_server :: "docker_server option app" where
  "DockerServerRepository_select_best_client_server = sql_select (\<lambda>_. best_client_server)"

section \<open>What the statements keep\<close>

lemma DockerServerRepository_reads_keep [preserves_intro]:
  "keeps_db P DockerServerRepository_list_all"
  "keeps_db P DockerServerRepository_list_active"
  "keeps_db P (DockerServerRepository_find_by_id i)"
  "keeps_db P (DockerServerRepository_count_containers_on_server i)"
  "keeps_db P (DockerServerRepository_find_active_client_by_id i)"
  "keeps_db P DockerServerRepository_list_active_client"
  "keeps_db P DockerServerRepository_select_best_client_server"
  unfolding DockerServerRepository_list_all_def DockerServerRepository_list_active_def
    DockerServerRepository_find_by_id_def DockerServerRepository_count_containers_on_server_def
    DockerServerRepository_find_active_client_by_id_def DockerServerRepository_list_active_client_def
    DockerServerRepository_select_best_client_server_def
  by (rule keeps_db_select)+

lemma DockerServerRepository_schema [preserves_intro]:
  "keeps_db schema_ok (DockerServerRepository_create req)"
  "keeps_db schema_ok (DockerServerRepository_update_last_seen i)"
  unfolding DockerServerRepository_create_def DockerServerRepository_update_last_seen_def
  by ((rule keeps_db_insert, erule (1) schema_insert_rules [rotated])
      | (rule keeps_db_execute, simp add: schema_ok_def schema_parts_def))+

lemma DockerServerRepository_delete_schema [preserves_intro]:
  "keeps_db schema_ok (DockerServerRepository_delete i)"
  unfolding DockerServerRepository_delete_def
  by (rule keeps_db_run_sql) (auto dest: delete_server_row_ok)

lemma update_server_ok:
  assumes "update_server i new d = Inr d'" "schema_ok d" "ds_id new = i"
  shows "schema_ok d'"
proof -
  let ?up = "update_where (\<lambda>x. ds_id x = i) (\<lambda>_. new) (t_servers d)"
  have d': "d' = d\<lparr>t_servers := ?up\<rparr>" and ty: "ds_server_type new \<in> {''platform'', ''client''}"
    using assms(1) by (auto simp: update_server_def split: if_split_asm)
  have "ids ds_id ?up = ids ds_id (t_servers d)" "keyed ds_id ?up = keyed ds_id (t_servers d)"
    by (rule ids_update keyed_update, simp add: assms(3))+
  moreover have "list_all (\<lambda>x. ds_server_type x \<in> {''platform'', ''client''}) ?up"
    using assms(2) ty unfolding schema_ok_def servers_ok_def by (intro list_all_set) blast+
  ultimately show ?thesis
    using assms(2) by (simp add: d' schema_ok_def schema_parts_def)
qed

lemma DockerServerRepository_update_schema [preserves_intro]:
  "keeps_db schema_ok (DockerServerRepository_update i req)"
  unfolding preserves_def
proof (intro allI impI)
  fix e and s :: app_state assume ok: "schema_ok (db s)"
  show "schema_ok (db (snd (DockerServerRepository_update i req e s)))"
  proof (cases "find (\<lambda>x. ds_id x = i) (t_servers (db s))")
    case None
    with ok show ?thesis
      by (cases "db_up e (tick s)")
         (simp_all add: DockerServerRepository_update_def bind_app_eval fetch_one_def)
  next
    case (Some cur)
    then have "ds_id cur = i" by (auto dest: find_Some_mem)
    with ok Some show ?thesis
      by (cases "db_up e (tick s)"; cases "db_up e (Suc (tick s))")
         (auto simp: DockerServerRepository_update_def bind_app_eval fetch_one_def
            run_sql_up Let_def split: sum.split intro: update_server_ok)
  qed
qed

section \<open>The choice of a server\<close>

lemma best_client_server_Some:
  assumes "best_client_server d = Some x"
  shows "x \<in> set (t_servers d)" "ds_active x" "ds_server_type x = ''client''"
    "server_load d (ds_id x) < ds_max_containers x"
    "y \<in> set (t_servers d) \<Longrightarrow> ds_active y \<Longrightarrow> ds_server_type y = ''client'' \<Longrightarrow>
     ds_max_containers y - server_load d (ds_id y) \<le> ds_max_containers x - server_load d (ds_id x)"
proof -
  define room where "room x = ds_max_containers x - server_load d (ds_id x)" for x :: docker_server
  define cs where "cs = filter (\<lambda>x. ds_active x \<and> ds_server_type x = ''client'' \<and>
                                   server_load d (ds_id x) < ds_max_containers x) (t_servers d)"
  obtain rest where srt: "sort_key (\<lambda>x. - room x) cs = x # rest"
    using assms by (auto simp: best_client_server_def Let_def room_def cs_def split: list.splits)
  then have "x \<in> set cs" by (metis list.set_intros(1) set_sort)
  then show x: "x \<in> set (t_servers d)" "ds_active x" "ds_server_type x = ''client''"
    "server_load d (ds_id x) < ds_max_containers x" by (auto simp: cs_def)
  have le: "room y \<le> room x" if "y \<in> set cs" for y
  proof -
    have "sorted (map (\<lambda>x. - room x) (x # rest))" by (simp flip: srt)
    moreover have "y \<in> set (x # rest)" using that by (metis set_sort srt)
    ultimately show ?thesis by (auto simp: sorted_simps)
  qed
  assume y: "y \<in> set (t_servers d)" "ds_active y" "ds_server_type y = ''client''"
  show "ds_max_containers y - server_load d (ds_id y) \<le> ds_max_containers x - server_load d (ds_id x)"
    using le [of y] y x(4) by (cases "server_load d (ds_id y) < ds_max_containers y")
      (auto simp: cs_def room_def)
qed

lemma best_client_server_None:
  "best_client_server d = None \<longleftrightarrow>
   (\<forall>y \<in> set (t_servers d). ds_active y \<longrightarrow> ds_server_type y = ''client'' \<longrightarrow>
      ds_max_containers y \<le> server_load d (ds_id y))"
proof -
  have "sort_key k xs = [] \<longleftrightarrow> xs = []" for k :: "docker_server \<Rightarrow> int" and xs
    by (metis length_0_conv length_sort)
  then show ?thesis
    by (simp add: best_client_server_def Let_def filter_empty_conv not_less list.case_eq_if) blast
qed

end
