(* ===== verification/Misc_Repository.thy ===== *)
theory Misc_Repository
  imports Billing_Repository
begin

text \<open>
  The repositories of the smaller tables: alert rules and their history (\<open>alert_repo.rs\<close>),
  audit logs (\<open>audit_repo.rs\<close>), backup schedules (\<open>backup_schedule_repo.rs\<close>), favourites
  (\<open>favorite_repo.rs\<close>) and the records of applied migrations (\<open>services/migration.rs\<close>).
\<close>

section \<open>Alerts\<close>

definition AlertRepository_create_rule ::
  "uuid \<Rightarrow> uuid option \<Rightarrow> string \<Rightarrow> string option \<Rightarrow> string option \<Rightarrow> bool \<Rightarrow> alert_rule app" where
  "AlertRepository_create_rule user_id database_id event_type webhook_url email enabled =
     sql_insert insert_alert_rule (\<lambda>new now.
       \<lparr>alr_id = new, alr_user_id = user_id, alr_database_id = database_id,
        alr_event_type = event_type, alr_webhook_url = webhook_url, alr_email = email,
        alr_enabled = enabled, alr_created_at = now\<rparr>)"

definition AlertRepository_list_by_user :: "uuid \<Rightarrow> alert_rule list app" where
  "AlertRepository_list_by_user u =
     sql_select (\<lambda>_ d. newest_first alr_created_at (filter (\<lambda>x. alr_user_id x = u) (t_alert_rules d)))"

definition AlertRepository_find_by_id :: "uuid \<Rightarrow> alert_rule option app" where
  "AlertRepository_find_by_id i = sql_select (\<lambda>_ d. find (\<lambda>x. alr_id x = i) (t_alert_rules d))"

definition coalesce :: "'a option \<Rightarrow> 'a option \<Rightarrow> 'a option" where
  "coalesce v w = (case v of None \<Rightarrow> w | Some _ \<Rightarrow> v)"

definition AlertRepository_update_rule ::
  "uuid \<Rightarrow> string option \<Rightarrow> string option \<Rightarrow> bool option \<Rightarrow> alert_rule app" where
  "AlertRepository_update_rule i webhook_url email enabled =
     run_sql (\<lambda>_ _ d.
       let up = (\<lambda>x. x\<lparr>alr_webhook_url := coalesce webhook_url (alr_webhook_url x),
                       alr_email := coalesce email (alr_email x),
                       alr_enabled := unwrap_or enabled (alr_enabled x)\<rparr>)
       in if \<not> fits_opt 255 email then Inl (ValueTooLong ''alert_rules'')
          else (case find (\<lambda>x. alr_id x = i) (t_alert_rules d) of
                  None \<Rightarrow> Inl RowNotFound
                | Some x \<Rightarrow> Inr (up x, d\<lparr>t_alert_rules := update_where (\<lambda>x. alr_id x = i) up (t_alert_rules d)\<rparr>)))"

definition AlertRepository_delete_rule :: "uuid \<Rightarrow> unit app" where
  "AlertRepository_delete_rule i = sql_execute (\<lambda>_. delete_alert_rule_row i)"

definition AlertRepository_insert_history :: "uuid \<Rightarrow> string \<Rightarrow> string \<Rightarrow> unit app" where
  "AlertRepository_insert_history rule_id event_type message =
     then_app (sql_insert insert_alert_history (\<lambda>new now.
       \<lparr>alh_id = new, alh_alert_rule_id = rule_id, alh_event_type = event_type,
        alh_message = message, alh_sent_at = now\<rparr>)) (return_app ())"

definition AlertRepository_list_history_by_user :: "uuid \<Rightarrow> nat \<Rightarrow> alert_history list app" where
  "AlertRepository_list_history_by_user u limit =
     sql_select (\<lambda>_ d. take limit (newest_first alh_sent_at
       (filter (\<lambda>h. list_ex (\<lambda>r. alr_id r = alh_alert_rule_id h \<and> alr_user_id r = u) (t_alert_rules d))
          (t_alert_history d))))"

definition AlertRepository_find_enabled_rules :: "alert_rule list app" where
  "AlertRepository_find_enabled_rules = sql_select (\<lambda>_ d. filter alr_enabled (t_alert_rules d))"

section \<open>Audit logs\<close>

definition AuditRepository_insert ::
  "uuid option \<Rightarrow> string \<Rightarrow> string \<Rightarrow> uuid option \<Rightarrow> string option \<Rightarrow> string option \<Rightarrow> unit app" where
  "AuditRepository_insert user_id action resource_type resource_id details ip_address =
     then_app (sql_insert insert_audit_log (\<lambda>new now.
       \<lparr>aul_id = new, aul_user_id = user_id, aul_action = action, aul_resource_type = resource_type,
        aul_resource_id = resource_id, aul_details = details, aul_ip_address = ip_address,
        aul_created_at = now\<rparr>)) (return_app ())"

definition AuditRepository_log_async ::
  "uuid option \<Rightarrow> string \<Rightarrow> string \<Rightarrow> uuid option \<Rightarrow> string option \<Rightarrow> string option \<Rightarrow> unit app" where
  "AuditRepository_log_async user_id action resource_type resource_id details ip_address =
     spawn (WriteAudit user_id action resource_type resource_id details ip_address)"

definition run_write_audit ::
  "uuid option \<Rightarrow> string \<Rightarrow> string \<Rightarrow> uuid option \<Rightarrow> string option \<Rightarrow> string option \<Rightarrow> unit app" where
  "run_write_audit user_id action resource_type resource_id details ip_address =
     ignore (AuditRepository_insert user_id action resource_type resource_id details ip_address) (return_app ())"

definition page_of :: "i64 \<Rightarrow> i64 \<Rightarrow> 'r list \<Rightarrow> sqlx_error + 'r list" where
  \<comment> \<open>\<open>LIMIT .. OFFSET ..\<close>; PostgreSQL refuses negative counts\<close>
  "page_of limit offset rows =
     (if limit < 0 \<or> offset < 0 then Inl NegativeRowCount
      else Inr (take (nat limit) (drop (nat offset) rows)))"

definition read_page :: "(pg \<Rightarrow> sqlx_error + 'a) \<Rightarrow> 'a app" where
  "read_page q = run_sql (\<lambda>_ _ d. case q d of Inl er \<Rightarrow> Inl er | Inr rows \<Rightarrow> Inr (rows, d))"

definition AuditRepository_list_by_user :: "uuid \<Rightarrow> i64 \<Rightarrow> i64 \<Rightarrow> audit_log list app" where
  "AuditRepository_list_by_user u limit offset =
     read_page (\<lambda>d. page_of limit offset
       (newest_first aul_created_at (filter (\<lambda>x. aul_user_id x = Some u) (t_audit_logs d))))"

text \<open>
  \<open>list_all\<close> writes its query as text: the clauses that are present, each with the number
  of its parameter, against the values it binds in order.
\<close>

definition list_all_placeholders :: "string option \<Rightarrow> string option \<Rightarrow> nat list" where
  \<comment> \<open>the placeholder numbers in the text of the query, in their order\<close>
  "list_all_placeholders action_filter resource_type_filter =
     (let p1 = (1 :: nat);
          p2 = (if action_filter = None then p1 else p1 + 1);
          p3 = (if resource_type_filter = None then p2 else p2 + 1)
      in (if action_filter = None then [] else [p2]) @
         (if resource_type_filter = None then [] else [p3]) @ [p3 + 1, p3 + 2])"

definition list_all_bind_count :: "string option \<Rightarrow> string option \<Rightarrow> nat" where
  "list_all_bind_count action_filter resource_type_filter =
     (if action_filter = None then 0 else 1) + (if resource_type_filter = None then 0 else 1) + 2"

definition AuditRepository_list_all ::
  "i64 \<Rightarrow> i64 \<Rightarrow> string option \<Rightarrow> string option \<Rightarrow> audit_log list app" where
  \<comment> \<open>PostgreSQL refuses a query whose highest placeholder has no bound value\<close>
  "AuditRepository_list_all limit offset action_filter resource_type_filter =
     read_page (\<lambda>d.
       if list_all_bind_count action_filter resource_type_filter
            < Max (set (list_all_placeholders action_filter resource_type_filter))
       then Inl ParameterMismatch
       else page_of limit offset (newest_first aul_created_at (filter (\<lambda>x.
              (case action_filter of None \<Rightarrow> True | Some a \<Rightarrow> aul_action x = a) \<and>
              (case resource_type_filter of None \<Rightarrow> True | Some r \<Rightarrow> aul_resource_type x = r))
            (t_audit_logs d))))"

section \<open>Backup schedules\<close>

definition BackupScheduleRepository_create :: "uuid \<Rightarrow> i32 \<Rightarrow> i32 \<Rightarrow> bool \<Rightarrow> backup_schedule app" where
  "BackupScheduleRepository_create database_id interval_hours retention_count enabled =
     sql_insert insert_schedule (\<lambda>new now.
       \<lparr>bs_id = new, bs_database_id = database_id, bs_interval_hours = interval_hours,
        bs_retention_count = retention_count, bs_enabled = enabled, bs_last_run_at = None,
        bs_created_at = now\<rparr>)"

definition BackupScheduleRepository_find_by_database :: "uuid \<Rightarrow> backup_schedule option app" where
  "BackupScheduleRepository_find_by_database i =
     sql_select (\<lambda>_ d. find (\<lambda>x. bs_database_id x = i) (t_schedules d))"

definition BackupScheduleRepository_update ::
  "uuid \<Rightarrow> i32 option \<Rightarrow> i32 option \<Rightarrow> bool option \<Rightarrow> backup_schedule app" where
  "BackupScheduleRepository_update database_id interval_hours retention_count enabled =
     run_sql (\<lambda>_ _ d.
       let up = (\<lambda>x. x\<lparr>bs_interval_hours := unwrap_or interval_hours (bs_interval_hours x),
                       bs_retention_count := unwrap_or retention_count (bs_retention_count x),
                       bs_enabled := unwrap_or enabled (bs_enabled x)\<rparr>)
       in (case find (\<lambda>x. bs_database_id x = database_id) (t_schedules d) of
             None \<Rightarrow> Inl RowNotFound
           | Some x \<Rightarrow> Inr (up x, d\<lparr>t_schedules := update_where (\<lambda>x. bs_database_id x = database_id) up (t_schedules d)\<rparr>)))"

definition BackupScheduleRepository_delete :: "uuid \<Rightarrow> unit app" where
  "BackupScheduleRepository_delete database_id =
     sql_execute (\<lambda>_ d. d\<lparr>t_schedules := delete_where (\<lambda>x. bs_database_id x = database_id) (t_schedules d)\<rparr>)"

definition BackupScheduleRepository_update_last_run :: "uuid \<Rightarrow> unit app" where
  "BackupScheduleRepository_update_last_run i =
     sql_execute (\<lambda>now d. d\<lparr>t_schedules := update_where (\<lambda>x. bs_id x = i)
                                  (\<lambda>x. x\<lparr>bs_last_run_at := Some now\<rparr>) (t_schedules d)\<rparr>)"

definition hour_ns :: time where
  "hour_ns = 3600 * 10 ^ 9"

definition schedule_due :: "time \<Rightarrow> backup_schedule \<Rightarrow> bool" where
  "schedule_due now x \<longleftrightarrow> bs_enabled x \<and>
     (case bs_last_run_at x of None \<Rightarrow> True | Some t \<Rightarrow> t + bs_interval_hours x * hour_ns < now)"

definition BackupScheduleRepository_find_due_schedules :: "backup_schedule list app" where
  "BackupScheduleRepository_find_due_schedules =
     sql_select (\<lambda>now d. filter (schedule_due now) (t_schedules d))"

section \<open>Favourites and migration records\<close>

definition FavoriteRepository_add :: "uuid \<Rightarrow> uuid \<Rightarrow> unit app" where
  \<comment> \<open>\<open>ON CONFLICT DO NOTHING\<close>\<close>
  "FavoriteRepository_add user_id database_id =
     run_sql (\<lambda>_ _ d.
       if (user_id, database_id) \<in> set (t_favorites d) then Inr ((), d)
       else if user_id \<notin> ids u_id (t_users d)
       then Inl (ForeignKeyViolation ''user_favorites_user_id_fkey'')
       else if database_id \<notin> ids di_id (t_databases d)
       then Inl (ForeignKeyViolation ''user_favorites_database_id_fkey'')
       else Inr ((), d\<lparr>t_favorites := t_favorites d @ [(user_id, database_id)]\<rparr>))"

definition FavoriteRepository_remove :: "uuid \<Rightarrow> uuid \<Rightarrow> unit app" where
  "FavoriteRepository_remove user_id database_id =
     sql_execute (\<lambda>_ d. d\<lparr>t_favorites := delete_where (\<lambda>x. x = (user_id, database_id)) (t_favorites d)\<rparr>)"

definition FavoriteRepository_list_by_user :: "uuid \<Rightarrow> uuid list app" where
  "FavoriteRepository_list_by_user u =
     sql_select (\<lambda>_ d. map snd (filter (\<lambda>x. fst x = u) (t_favorites d)))"

definition MigrationService_record_migration :: "uuid \<Rightarrow> string \<Rightarrow> string \<Rightarrow> migration_record app" where
  "MigrationService_record_migration database_id filename checksum =
     sql_insert insert_migration (\<lambda>new now.
       \<lparr>mr_id = new, mr_database_id = database_id, mr_filename = filename,
        mr_checksum = checksum, mr_applied_at = now\<rparr>)"

definition MigrationService_list_migrations :: "uuid \<Rightarrow> migration_record list app" where
  "MigrationService_list_migrations i =
     sql_select (\<lambda>_ d. sort_key mr_applied_at (filter (\<lambda>x. mr_database_id x = i) (t_migrations d)))"

section \<open>What the statements keep\<close>

lemma Misc_reads_keep [preserves_intro]:
  "keeps_db P (AlertRepository_list_by_user i)"
  "keeps_db P (AlertRepository_find_by_id i)"
  "keeps_db P (AlertRepository_list_history_by_user i n)"
  "keeps_db P AlertRepository_find_enabled_rules"
  "keeps_db P (BackupScheduleRepository_find_by_database i)"
  "keeps_db P BackupScheduleRepository_find_due_schedules"
  "keeps_db P (FavoriteRepository_list_by_user i)"
  "keeps_db P (MigrationService_list_migrations i)"
  unfolding AlertRepository_list_by_user_def AlertRepository_find_by_id_def
    AlertRepository_list_history_by_user_def AlertRepository_find_enabled_rules_def
    BackupScheduleRepository_find_by_database_def
    BackupScheduleRepository_find_due_schedules_def FavoriteRepository_list_by_user_def
    MigrationService_list_migrations_def
  by (rule keeps_db_select)+

lemma keeps_db_read_page [preserves_intro]: "keeps_db P (read_page q)"
  unfolding read_page_def by (rule keeps_db_run_sql) (simp split: sum.split_asm)

lemma AuditRepository_pages_keep [preserves_intro]:
  "keeps_db P (AuditRepository_list_by_user i n m)" "keeps_db P (AuditRepository_list_all n m a r)"
  unfolding AuditRepository_list_by_user_def AuditRepository_list_all_def by (intro preserves_intro)+

lemma Misc_schema [preserves_intro]:
  "keeps_db schema_ok (AlertRepository_create_rule u j ev wh em en)"
  "keeps_db schema_ok (BackupScheduleRepository_create i h r en)"
  "keeps_db schema_ok (MigrationService_record_migration i file checksum)"
  "keeps_db schema_ok (AlertRepository_delete_rule i)"
  unfolding AlertRepository_create_rule_def BackupScheduleRepository_create_def
    MigrationService_record_migration_def AlertRepository_delete_rule_def
  by ((rule keeps_db_insert, erule (1) schema_insert_rules [rotated])
      | (rule keeps_db_execute, erule delete_alert_rule_row_ok))+

lemma Misc_insert_schema [preserves_intro]:
  "keeps_db schema_ok (AlertRepository_insert_history i ev msg)"
  "keeps_db schema_ok (AuditRepository_insert u a rt ri de ip)"
  unfolding AlertRepository_insert_history_def AuditRepository_insert_def
  by (intro preserves_intro, rule keeps_db_insert, erule (1) schema_insert_rules [rotated])+

lemma Misc_schema' [preserves_intro]:
  "keeps_db schema_ok (BackupScheduleRepository_delete i)"
  "keeps_db schema_ok (BackupScheduleRepository_update_last_run i)"
  "keeps_db schema_ok (FavoriteRepository_remove u i)"
  unfolding BackupScheduleRepository_delete_def BackupScheduleRepository_update_last_run_def
    FavoriteRepository_remove_def
  by (rule keeps_db_execute, simp add: schema_ok_def schema_parts_def)+

lemma Misc_update_schema [preserves_intro]:
  "keeps_db schema_ok (AlertRepository_update_rule i wh em aen)"
  "keeps_db schema_ok (BackupScheduleRepository_update i h r en)"
  unfolding AlertRepository_update_rule_def BackupScheduleRepository_update_def Let_def
  by (rule keeps_db_run_sql, clarsimp simp: schema_ok_def schema_parts_def split: if_split_asm option.splits)+

lemma FavoriteRepository_add_schema [preserves_intro]:
  "keeps_db schema_ok (FavoriteRepository_add u i)"
  unfolding FavoriteRepository_add_def
  by (rule keeps_db_run_sql)
     (clarsimp simp: schema_ok_def schema_parts_def ids_def [where k = "\<lambda>x. x"] split: if_split_asm)

end
