(* ===== verification/Network_Repository.thy ===== *)
theory Network_Repository
  imports Calculus
begin

text \<open>
  \<open>src/api/src/repository/private_network_repo.rs\<close>: private networks and their members, the
  peerings between two networks and the firewall rules of a peering.
\<close>

section \<open>Networks\<close>

definition PrivateNetworkRepository_create :: "uuid \<Rightarrow> string \<Rightarrow> private_network app" where
  "PrivateNetworkRepository_create u name =
     sql_insert insert_network (\<lambda>new now.
       \<lparr>pn_id = new, pn_user_id = u, pn_name = name, pn_docker_network_id = None,
        pn_docker_server_id = None, pn_subnet = None, pn_gateway = None, pn_created_at = now\<rparr>)"

definition PrivateNetworkRepository_find_by_id :: "uuid \<Rightarrow> private_network option app" where
  "PrivateNetworkRepository_find_by_id i = sql_select (\<lambda>_ d. find (\<lambda>x. pn_id x = i) (t_networks d))"

definition PrivateNetworkRepository_find_by_user :: "uuid \<Rightarrow> private_network list app" where
  "PrivateNetworkRepository_find_by_user u =
     sql_select (\<lambda>_ d. newest_first pn_created_at (filter (\<lambda>x. pn_user_id x = u) (t_networks d)))"

definition PrivateNetworkRepository_list_all :: "private_network list app" where
  "PrivateNetworkRepository_list_all = sql_select (\<lambda>_ d. newest_first pn_created_at (t_networks d))"

definition PrivateNetworkRepository_count_by_user :: "uuid \<Rightarrow> i64 app" where
  "PrivateNetworkRepository_count_by_user u =
     sql_select (\<lambda>_ d. count_rows (\<lambda>x. pn_user_id x = u) (t_networks d))"

definition PrivateNetworkRepository_delete :: "uuid \<Rightarrow> unit app" where
  "PrivateNetworkRepository_delete i = sql_execute (\<lambda>_. delete_network_row i)"

abbreviation update_networks :: "uuid \<Rightarrow> (private_network \<Rightarrow> private_network) \<Rightarrow> pg \<Rightarrow> pg" where
  "update_networks i f d \<equiv> d\<lparr>t_networks := update_where (\<lambda>x. pn_id x = i) f (t_networks d)\<rparr>"

definition PrivateNetworkRepository_update_docker_network_id :: "uuid \<Rightarrow> string \<Rightarrow> unit app" where
  "PrivateNetworkRepository_update_docker_network_id i docker_network_id =
     sql_update (fits 128 docker_network_id) ''private_networks''
       (\<lambda>_. update_networks i (\<lambda>x. x\<lparr>pn_docker_network_id := Some docker_network_id\<rparr>))"

definition PrivateNetworkRepository_update_subnet_info ::
  "uuid \<Rightarrow> string option \<Rightarrow> string option \<Rightarrow> unit app" where
  "PrivateNetworkRepository_update_subnet_info i subnet gateway =
     sql_update (fits_opt 43 subnet \<and> fits_opt 39 gateway) ''private_networks''
       (\<lambda>_. update_networks i (\<lambda>x. x\<lparr>pn_subnet := subnet, pn_gateway := gateway\<rparr>))"

definition PrivateNetworkRepository_update_docker_server_id :: "uuid \<Rightarrow> uuid \<Rightarrow> unit app" where
  "PrivateNetworkRepository_update_docker_server_id i server_id =
     run_sql (\<lambda>_ _ d.
       if i \<in> ids pn_id (t_networks d) \<and> server_id \<notin> ids ds_id (t_servers d)
       then Inl (ForeignKeyViolation ''private_networks_docker_server_id_fkey'')
       else Inr ((), update_networks i (\<lambda>x. x\<lparr>pn_docker_server_id := Some server_id\<rparr>) d))"

section \<open>Members\<close>

definition PrivateNetworkRepository_add_member :: "uuid \<Rightarrow> uuid \<Rightarrow> private_network_member app" where
  "PrivateNetworkRepository_add_member network_id database_id =
     sql_insert insert_member (\<lambda>new now.
       \<lparr>pm_id = new, pm_network_id = network_id, pm_database_id = database_id, pm_joined_at = now\<rparr>)"

definition PrivateNetworkRepository_remove_member :: "uuid \<Rightarrow> uuid \<Rightarrow> unit app" where
  "PrivateNetworkRepository_remove_member network_id database_id =
     sql_execute (\<lambda>_ d. d\<lparr>t_members := delete_where
       (\<lambda>x. pm_network_id x = network_id \<and> pm_database_id x = database_id) (t_members d)\<rparr>)"

definition PrivateNetworkRepository_count_members :: "uuid \<Rightarrow> i64 app" where
  "PrivateNetworkRepository_count_members i =
     sql_select (\<lambda>_ d. count_rows (\<lambda>x. pm_network_id x = i) (t_members d))"

definition PrivateNetworkRepository_find_members_with_db_info ::
  "uuid \<Rightarrow> private_network_member_info list app" where
  "PrivateNetworkRepository_find_members_with_db_info i =
     bind_app (asks lib) (\<lambda>l.
     sql_select (\<lambda>_ d.
       List.map_filter (\<lambda>m. map_option (\<lambda>x.
           \<lparr>pmi_database_id = pm_database_id m, pmi_database_name = di_name x,
            pmi_db_type = di_db_type x, pmi_hostname = ''sb-'' @ l_uuid_str l (di_id x),
            pmi_port = di_port x, pmi_joined_at = pm_joined_at m\<rparr>)
         (find (\<lambda>x. di_id x = pm_database_id m) (t_databases d)))
       (sort_key pm_joined_at (filter (\<lambda>m. pm_network_id m = i) (t_members d)))))"

definition PrivateNetworkRepository_find_networks_for_database :: "uuid \<Rightarrow> private_network list app" where
  "PrivateNetworkRepository_find_networks_for_database i =
     sql_select (\<lambda>_ d. List.map_filter (\<lambda>m. find (\<lambda>n. pn_id n = pm_network_id m) (t_networks d))
       (filter (\<lambda>m. pm_database_id m = i) (t_members d)))"

definition PrivateNetworkRepository_is_member :: "uuid \<Rightarrow> uuid \<Rightarrow> bool app" where
  "PrivateNetworkRepository_is_member network_id database_id =
     sql_select (\<lambda>_ d. list_ex (\<lambda>x. pm_network_id x = network_id \<and> pm_database_id x = database_id)
       (t_members d))"

section \<open>Peerings\<close>

definition PrivateNetworkRepository_create_peering ::
  "uuid \<Rightarrow> uuid \<Rightarrow> uuid \<Rightarrow> uuid option \<Rightarrow> network_peering app" where
  "PrivateNetworkRepository_create_peering u network_a_id network_b_id docker_server_id =
     sql_insert insert_peering (\<lambda>new now.
       \<lparr>np_id = new, np_user_id = u, np_network_a_id = network_a_id,
        np_network_b_id = network_b_id, np_docker_bridge_id = None,
        np_docker_server_id = docker_server_id, np_status = ''pending'', np_created_at = now\<rparr>)"

definition PrivateNetworkRepository_find_peering_by_id :: "uuid \<Rightarrow> network_peering option app" where
  "PrivateNetworkRepository_find_peering_by_id i = sql_select (\<lambda>_ d. find (\<lambda>x. np_id x = i) (t_peerings d))"

definition PrivateNetworkRepository_find_peerings_by_user :: "uuid \<Rightarrow> network_peering list app" where
  "PrivateNetworkRepository_find_peerings_by_user u =
     sql_select (\<lambda>_ d. newest_first np_created_at (filter (\<lambda>x. np_user_id x = u) (t_peerings d)))"

definition PrivateNetworkRepository_find_peerings_for_network :: "uuid \<Rightarrow> network_peering list app" where
  "PrivateNetworkRepository_find_peerings_for_network i =
     sql_select (\<lambda>_ d. filter (\<lambda>x. np_network_a_id x = i \<or> np_network_b_id x = i) (t_peerings d))"

definition PrivateNetworkRepository_peering_exists :: "uuid \<Rightarrow> uuid \<Rightarrow> bool app" where
  "PrivateNetworkRepository_peering_exists a b =
     sql_select (\<lambda>_ d. list_ex (\<lambda>x. peering_key x = (min a b, max a b)) (t_peerings d))"

abbreviation update_peerings :: "uuid \<Rightarrow> (network_peering \<Rightarrow> network_peering) \<Rightarrow> pg \<Rightarrow> pg" where
  "update_peerings i f d \<equiv> d\<lparr>t_peerings := update_where (\<lambda>x. np_id x = i) f (t_peerings d)\<rparr>"

definition PrivateNetworkRepository_update_peering_status :: "uuid \<Rightarrow> string \<Rightarrow> unit app" where
  "PrivateNetworkRepository_update_peering_status i status =
     sql_update (fits 20 status) ''network_peerings''
       (\<lambda>_. update_peerings i (\<lambda>x. x\<lparr>np_status := status\<rparr>))"

definition PrivateNetworkRepository_update_peering_bridge :: "uuid \<Rightarrow> string \<Rightarrow> unit app" where
  "PrivateNetworkRepository_update_peering_bridge i bridge_id =
     sql_update (fits 128 bridge_id) ''network_peerings''
       (\<lambda>_. update_peerings i (\<lambda>x. x\<lparr>np_docker_bridge_id := Some bridge_id\<rparr>))"

definition PrivateNetworkRepository_delete_peering :: "uuid \<Rightarrow> unit app" where
  "PrivateNetworkRepository_delete_peering i = sql_execute (\<lambda>_. delete_peering_row i)"

definition PrivateNetworkRepository_count_peerings_by_user :: "uuid \<Rightarrow> i64 app" where
  "PrivateNetworkRepository_count_peerings_by_user u =
     sql_select (\<lambda>_ d. count_rows (\<lambda>x. np_user_id x = u) (t_peerings d))"

definition PrivateNetworkRepository_list_all_peerings :: "network_peering list app" where
  "PrivateNetworkRepository_list_all_peerings =
     sql_select (\<lambda>_ d. newest_first np_created_at (t_peerings d))"

section \<open>Firewall rules\<close>

definition PrivateNetworkRepository_create_firewall_rule ::
  "uuid \<Rightarrow> i32 \<Rightarrow> string \<Rightarrow> uuid \<Rightarrow> uuid \<Rightarrow> i32 option \<Rightarrow> string option \<Rightarrow> string option \<Rightarrow> firewall_rule app" where
  "PrivateNetworkRepository_create_firewall_rule peering_id priority action source_network_id
     dest_network_id port protocol description =
     sql_insert insert_rule (\<lambda>new now.
       \<lparr>fr_id = new, fr_peering_id = peering_id, fr_priority = priority, fr_action = action,
        fr_source_network_id = source_network_id, fr_dest_network_id = dest_network_id,
        fr_port = port, fr_protocol = protocol, fr_description = description,
        fr_created_at = now\<rparr>)"

definition rules_of_peering :: "pg \<Rightarrow> uuid \<Rightarrow> firewall_rule list" where
  \<comment> \<open>\<open>ORDER BY priority, created_at\<close>\<close>
  "rules_of_peering d i =
     sort_key fr_priority (sort_key fr_created_at (filter (\<lambda>x. fr_peering_id x = i) (t_rules d)))"

definition PrivateNetworkRepository_find_rules_by_peering :: "uuid \<Rightarrow> firewall_rule list app" where
  "PrivateNetworkRepository_find_rules_by_peering i = sql_select (\<lambda>_ d. rules_of_peering d i)"

definition PrivateNetworkRepository_find_rule_by_id :: "uuid \<Rightarrow> firewall_rule option app" where
  "PrivateNetworkRepository_find_rule_by_id i = sql_select (\<lambda>_ d. find (\<lambda>x. fr_id x = i) (t_rules d))"

definition PrivateNetworkRepository_delete_firewall_rule :: "uuid \<Rightarrow> unit app" where
  "PrivateNetworkRepository_delete_firewall_rule i =
     sql_execute (\<lambda>_ d. d\<lparr>t_rules := delete_where (\<lambda>x. fr_id x = i) (t_rules d)\<rparr>)"

definition PrivateNetworkRepository_count_rules_by_peering :: "uuid \<Rightarrow> i64 app" where
  "PrivateNetworkRepository_count_rules_by_peering i =
     sql_select (\<lambda>_ d. count_rows (\<lambda>x. fr_peering_id x = i) (t_rules d))"

lemmas PrivateNetworkRepository_reads =
  PrivateNetworkRepository_find_by_id_def PrivateNetworkRepository_find_by_user_def
  PrivateNetworkRepository_list_all_def PrivateNetworkRepository_count_by_user_def
  PrivateNetworkRepository_count_members_def
  PrivateNetworkRepository_find_networks_for_database_def PrivateNetworkRepository_is_member_def
  PrivateNetworkRepository_find_peering_by_id_def PrivateNetworkRepository_find_peerings_by_user_def
  PrivateNetworkRepository_find_peerings_for_network_def PrivateNetworkRepository_peering_exists_def
  PrivateNetworkRepository_count_peerings_by_user_def PrivateNetworkRepository_list_all_peerings_def
  PrivateNetworkRepository_find_rules_by_peering_def PrivateNetworkRepository_find_rule_by_id_def
  PrivateNetworkRepository_count_rules_by_peering_def

lemmas PrivateNetworkRepository_writes =
  PrivateNetworkRepository_create_def PrivateNetworkRepository_delete_def
  PrivateNetworkRepository_update_docker_network_id_def PrivateNetworkRepository_update_subnet_info_def
  PrivateNetworkRepository_add_member_def PrivateNetworkRepository_remove_member_def
  PrivateNetworkRepository_create_peering_def PrivateNetworkRepository_update_peering_status_def
  PrivateNetworkRepository_update_peering_bridge_def PrivateNetworkRepository_delete_peering_def
  PrivateNetworkRepository_create_firewall_rule_def PrivateNetworkRepository_delete_firewall_rule_def

section \<open>What the statements keep\<close>

lemma PrivateNetworkRepository_reads_keep [preserves_intro]:
  "keeps_db P (PrivateNetworkRepository_find_by_id i)"
  "keeps_db P (PrivateNetworkRepository_find_by_user i)"
  "keeps_db P PrivateNetworkRepository_list_all"
  "keeps_db P (PrivateNetworkRepository_count_by_user i)"
  "keeps_db P (PrivateNetworkRepository_count_members i)"
  "keeps_db P (PrivateNetworkRepository_find_networks_for_database i)"
  "keeps_db P (PrivateNetworkRepository_is_member i j)"
  "keeps_db P (PrivateNetworkRepository_find_peering_by_id i)"
  "keeps_db P (PrivateNetworkRepository_find_peerings_by_user i)"
  "keeps_db P (PrivateNetworkRepository_find_peerings_for_network i)"
  "keeps_db P (PrivateNetworkRepository_peering_exists i j)"
  "keeps_db P (PrivateNetworkRepository_count_peerings_by_user i)"
  "keeps_db P PrivateNetworkRepository_list_all_peerings"
  "keeps_db P (PrivateNetworkRepository_find_rules_by_peering i)"
  "keeps_db P (PrivateNetworkRepository_find_rule_by_id i)"
  "keeps_db P (PrivateNetworkRepository_count_rules_by_peering i)"
  unfolding PrivateNetworkRepository_reads by (rule keeps_db_select)+

lemma PrivateNetworkRepository_members_keep [preserves_intro]:
  "keeps_db P (PrivateNetworkRepository_find_members_with_db_info i)"
  unfolding PrivateNetworkRepository_find_members_with_db_info_def by (intro preserves_intro)

lemma update_networks_ok:
  assumes "\<And>x. pn_id (f x) = pn_id x \<and> pn_user_id (f x) = pn_user_id x \<and> pn_name (f x) = pn_name x \<and>
      pn_docker_server_id (f x) = pn_docker_server_id x"
    and "schema_ok d"
  shows "schema_ok (update_networks i f d)"
  using assms by (simp add: schema_ok_def schema_parts_def)

lemma update_peerings_ok:
  assumes "\<And>x. np_id (f x) = np_id x \<and> np_user_id (f x) = np_user_id x \<and>
      np_network_a_id (f x) = np_network_a_id x \<and> np_network_b_id (f x) = np_network_b_id x \<and>
      np_docker_server_id (f x) = np_docker_server_id x"
    and "schema_ok d"
  shows "schema_ok (update_peerings i f d)"
  using assms by (simp add: schema_ok_def schema_parts_def peering_key_def)

lemma PrivateNetworkRepository_schema [preserves_intro]:
  "keeps_db schema_ok (PrivateNetworkRepository_create u nm)"
  "keeps_db schema_ok (PrivateNetworkRepository_delete i)"
  "keeps_db schema_ok (PrivateNetworkRepository_update_docker_network_id i net)"
  "keeps_db schema_ok (PrivateNetworkRepository_update_subnet_info i sub gw)"
  "keeps_db schema_ok (PrivateNetworkRepository_add_member i j)"
  "keeps_db schema_ok (PrivateNetworkRepository_create_peering u i j srv)"
  "keeps_db schema_ok (PrivateNetworkRepository_update_peering_status i st)"
  "keeps_db schema_ok (PrivateNetworkRepository_update_peering_bridge i br)"
  "keeps_db schema_ok (PrivateNetworkRepository_delete_peering i)"
  "keeps_db schema_ok (PrivateNetworkRepository_create_firewall_rule p prio act src dst po pr de)"
  unfolding PrivateNetworkRepository_writes
  by ((rule keeps_db_insert, erule (1) schema_insert_rules [rotated])
      | (rule keeps_db_update keeps_db_execute,
         (rule update_networks_ok update_peerings_ok delete_network_row_ok delete_peering_row_ok; simp)))+

lemma PrivateNetworkRepository_schema' [preserves_intro]:
  "keeps_db schema_ok (PrivateNetworkRepository_remove_member i j)"
  "keeps_db schema_ok (PrivateNetworkRepository_delete_firewall_rule i)"
  unfolding PrivateNetworkRepository_writes
  by (rule keeps_db_execute, simp add: schema_ok_def schema_parts_def)+

lemma fk_opt_assign:
  "fk_opt k rs A \<Longrightarrow> (\<And>x. x \<in> set rs \<Longrightarrow> p x \<Longrightarrow> opt_in (k (f x)) A) \<Longrightarrow> fk_opt k (update_where p f rs) A"
  by (auto simp: fk_opt_def list_all_iff update_where_def)

lemma PrivateNetworkRepository_update_docker_server_id_schema [preserves_intro]:
  "keeps_db schema_ok (PrivateNetworkRepository_update_docker_server_id i srv)"
  unfolding PrivateNetworkRepository_update_docker_server_id_def
proof (rule keeps_db_run_sql, goal_cases)
  case (1 i' t d x d')
  then show ?case
    by (clarsimp simp: schema_ok_def schema_parts_def split: if_split_asm)
       (auto intro!: fk_opt_assign simp: ids_def)
qed

section \<open>The order of the rules\<close>

lemma rules_of_peering_sorted: "sorted (map fr_priority (rules_of_peering d i))"
  by (simp add: rules_of_peering_def)

lemma set_rules_of_peering: "set (rules_of_peering d i) = {x \<in> set (t_rules d). fr_peering_id x = i}"
  by (simp add: rules_of_peering_def)

end
