(* ===== verification/Services.thy ===== *)
theory Services
  imports Provisioner_Exec Database_Repository Server_Repository Misc_Repository Network_Repository
begin

text \<open>
  The remaining services of \<open>src/api/src/services\<close>: the dynamic configuration of Traefik
  (\<open>traefik.rs\<close>), the platform's certificate authority (\<open>tls.rs\<close>), scheduled backups and
  their retention (\<open>backup.rs\<close>), the clean-up of stale containers (\<open>cleanup.rs\<close>), the
  gauges (\<open>metrics.rs\<close>) and the execution of a customer's migration (\<open>migration.rs\<close>).
\<close>

section \<open>Traefik\<close>

definition text_lines :: "string list \<Rightarrow> string" where
  "text_lines ls = concat (map (\<lambda>l. l @ [CHR 0x0A]) ls)"

definition dquoted :: "string \<Rightarrow> string" where
  "dquoted s = dq # s @ [dq]"

definition standard_port_for_db_type :: "db_type \<Rightarrow> i32" where
  "standard_port_for_db_type type = (case type of Postgresql \<Rightarrow> 5432 | Redis \<Rightarrow> 6379 | Mariadb \<Rightarrow> 3306)"

definition certificate_lines :: "string \<Rightarrow> string list" where
  "certificate_lines db_id =
     [''[[tls.certificates]]'',
      ''  certFile = '' @ dquoted (''/etc/traefik/dynamic/certs/'' @ db_id @ ''.crt''),
      ''  keyFile = '' @ dquoted (''/etc/traefik/dynamic/certs/'' @ db_id @ ''.key'')]"

definition port_config :: "string \<Rightarrow> db_type \<Rightarrow> u16 \<Rightarrow> bool \<Rightarrow> string" where
  "port_config db_id type port tls_enabled =
     (let protocol = (case type of Postgresql \<Rightarrow> ''postgresql'' | Redis \<Rightarrow> ''redis'' | Mariadb \<Rightarrow> ''mariadb'')
      in text_lines
       ([''# Auto-generated config for '' @ protocol @ '' instance '' @ db_id,
         [],
         ''[tcp.routers.'' @ db_id @ '']'',
         ''  rule = '' @ dquoted (''HostSNI('' @ quoted bt ''*'' @ '')''),
         ''  entryPoints = ['' @ dquoted (protocol @ ''-'' @ int_to_string (uint port)) @ '']'',
         ''  service = '' @ dquoted db_id]
        @ (if tls_enabled
           then [''  [tcp.routers.'' @ db_id @ ''.tls]'', []] @ certificate_lines db_id else [])
        @ [[],
         ''[tcp.services.'' @ db_id @ ''.loadBalancer]'',
         ''  terminationDelay = 5000'',
         ''  [[tcp.services.'' @ db_id @ ''.loadBalancer.servers]]'',
         ''    address = '' @ dquoted (''sb-'' @ db_id @ '':'' @ int_to_string (standard_port_for_db_type type))]))"

definition write_certs :: "string \<Rightarrow> string \<Rightarrow> string \<Rightarrow> string \<Rightarrow> unit app" where
  "write_certs dir db_id cert_pem key_pem =
     (let certs_dir = path_join dir ''certs'' in
      then_app (fs_create_dir_all certs_dir ''Failed to create certs dir'')
      (then_app (fs_write (path_join certs_dir (db_id @ ''.crt'')) cert_pem ''Failed to write cert'')
      (fs_write (path_join certs_dir (db_id @ ''.key'')) key_pem ''Failed to write key'')))"

definition TraefikService_generate_config ::
  "string \<Rightarrow> db_type \<Rightarrow> u16 \<Rightarrow> string \<Rightarrow> string option \<Rightarrow> string option \<Rightarrow> unit app" where
  "TraefikService_generate_config db_id type port tls_mode cert_pem key_pem =
     bind_app (asks (\<lambda>e. traefik_dynamic_dir (cfg e))) (\<lambda>dir.
     then_app (fs_create_dir_all dir ''Failed to create traefik dir'')
     (let tls_enabled = (tls_mode = ''enabled'') in
     then_app (fs_write (path_join dir (db_id @ ''.toml'')) (port_config db_id type port tls_enabled)
        ''Failed to write traefik config'')
     (if tls_enabled
      then case (cert_pem, key_pem) of
          (Some cert, Some key) \<Rightarrow> write_certs dir db_id cert key
        | _ \<Rightarrow> return_app ()
      else return_app ())))"

definition sni_config :: "string \<Rightarrow> db_type \<Rightarrow> string \<Rightarrow> string \<Rightarrow> string" where
  "sni_config db_id type fqdn backend_address =
     (let entrypoint = (case type of Postgresql \<Rightarrow> ''postgres'' | Redis \<Rightarrow> ''redis'' | Mariadb \<Rightarrow> ''mariadb'')
      in text_lines
       ([''# Auto-generated SNI config for '' @ db_id,
         [],
         ''[tcp.routers.'' @ db_id @ '']'',
         ''  rule = '' @ dquoted (''HostSNI('' @ quoted bt fqdn @ '')''),
         ''  entryPoints = ['' @ dquoted entrypoint @ '']'',
         ''  service = '' @ dquoted db_id,
         ''  [tcp.routers.'' @ db_id @ ''.tls]'',
         [],
         ''[tcp.services.'' @ db_id @ ''.loadBalancer]'',
         ''  terminationDelay = 5000'',
         ''  [[tcp.services.'' @ db_id @ ''.loadBalancer.servers]]'',
         ''    address = '' @ dquoted backend_address,
         []] @ certificate_lines db_id))"

definition TraefikService_generate_sni_config ::
  "string \<Rightarrow> db_type \<Rightarrow> string \<Rightarrow> string \<Rightarrow> string \<Rightarrow> string \<Rightarrow> unit app" where
  "TraefikService_generate_sni_config db_id type fqdn cert_pem key_pem backend_address =
     bind_app (asks (\<lambda>e. traefik_dynamic_dir (cfg e))) (\<lambda>dir.
     then_app (fs_create_dir_all dir ''Failed to create traefik dir'')
     (then_app (fs_write (path_join dir (db_id @ ''.toml'')) (sni_config db_id type fqdn backend_address)
        ''Failed to write traefik config'')
     (write_certs dir db_id cert_pem key_pem)))"

definition TraefikService_remove_config :: "string \<Rightarrow> unit app" where
  "TraefikService_remove_config db_id =
     bind_app (asks (\<lambda>e. traefik_dynamic_dir (cfg e))) (\<lambda>dir.
     let config_path = path_join dir (db_id @ ''.toml''); certs_dir = path_join dir ''certs'' in
     bind_app (fs_exists config_path) (\<lambda>present.
     then_app (if present then fs_remove_file config_path ''Failed to remove traefik config'' else return_app ())
     (ignore (fs_remove_file (path_join certs_dir (db_id @ ''.crt'')) [])
     (ignore (fs_remove_file (path_join certs_dir (db_id @ ''.key'')) [])
     (return_app ())))))"

section \<open>Certificates\<close>

record cert_pair =
  cert_pem :: string
  key_pem :: string

definition TlsService_init_ca :: "unit app" where
  "TlsService_init_ca =
     bind_app (asks (\<lambda>e. tls_ca_dir (cfg e))) (\<lambda>dir.
     let cert_path = path_join dir ''ca.crt''; key_path = path_join dir ''ca.key'' in
     bind_app (fs_exists cert_path) (\<lambda>has_cert.
     bind_app (fs_exists key_path) (\<lambda>has_key.
     if has_cert \<and> has_key then return_app ()
     else then_app (fs_create_dir_all dir ''Failed to create CA dir'')
       (bind_app (\<lambda>e s. lift_result (case l_new_ca (lib e) (tick s) ''DBSaaS Internal CA'' ''DBSaaS Platform'' of
            None \<Rightarrow> Inl (Internal ''Failed to generate CA key'') | Some pair \<Rightarrow> Inr pair) e (next_tick e s))
         (\<lambda>(cert, key).
        then_app (fs_write cert_path cert ''Failed to write CA cert'')
        (fs_write key_path key ''Failed to write CA key'')))))) "

definition issue_cert :: "string \<Rightarrow> string list \<Rightarrow> cert_pair app" where
  \<comment> \<open>with the authority's certificate and key read from disk\<close>
  "issue_cert name alternatives =
     bind_app (asks (\<lambda>e. tls_ca_dir (cfg e))) (\<lambda>dir.
     bind_app (fs_read (path_join dir ''ca.crt'') (Internal ''Failed to read CA cert'')) (\<lambda>ca_cert.
     bind_app (fs_read (path_join dir ''ca.key'') (Internal ''Failed to read CA key'')) (\<lambda>ca_key.
     \<lambda>e s. lift_result (case l_new_cert (lib e) (tick s) ca_cert ca_key name alternatives of
         None \<Rightarrow> Inl (Internal ''Failed to sign server cert'')
       | Some (cert, key) \<Rightarrow> Inr \<lparr>cert_pem = cert, key_pem = key\<rparr>) e (next_tick e s))))"

definition TlsService_generate_server_cert :: "string \<Rightarrow> u16 \<Rightarrow> cert_pair app" where
  "TlsService_generate_server_cert hostname port =
     issue_cert hostname [hostname, hostname @ ''-'' @ int_to_string (uint port)]"

definition TlsService_generate_cert_for_subdomain :: "string \<Rightarrow> cert_pair app" where
  "TlsService_generate_cert_for_subdomain fqdn = issue_cert fqdn [fqdn]"

definition TlsService_get_ca_cert :: "string app" where
  "TlsService_get_ca_cert =
     bind_app (asks (\<lambda>e. tls_ca_dir (cfg e))) (\<lambda>dir.
       fs_read (path_join dir ''ca.crt'') (Internal ''Failed to read CA cert''))"

section \<open>The Docker client of an instance\<close>

definition resolve_docker_for_server :: "string \<Rightarrow> uuid option \<Rightarrow> docker_client option app" where
  \<comment> \<open>the message tells the two copies of the function apart\<close>
  "resolve_docker_for_server msg server_id = (case server_id of
      None \<Rightarrow> return_app None
    | Some sid \<Rightarrow>
        bind_app (DockerServerRepository_find_by_id sid) (\<lambda>found.
        bind_app (ok_or found (Internal msg)) (\<lambda>server.
        bind_app (connect_to_server server) (\<lambda>c. return_app (Some c)))))"

definition resolve_docker_for_instance :: "database_instance \<Rightarrow> docker_client option app" where
  "resolve_docker_for_instance inst =
     resolve_docker_for_server ''Docker server not found for instance'' (di_docker_server_id inst)"

definition docker_or_local :: "uuid option \<Rightarrow> docker_client option app" where
  \<comment> \<open>\<open>.ok().flatten().and_then(..connect_to_server..ok())\<close>\<close>
  "docker_or_local server_id = (case server_id of
      None \<Rightarrow> return_app None
    | Some sid \<Rightarrow>
        bind_app (attempt (DockerServerRepository_find_by_id sid)) (\<lambda>found.
          case found of
            Inr (Some server) \<Rightarrow>
              bind_app (attempt (connect_to_server server)) (\<lambda>r.
                return_app (case r of Inl _ \<Rightarrow> None | Inr c \<Rightarrow> Some c))
          | _ \<Rightarrow> return_app None))"

section \<open>Scheduled backups\<close>

definition cleanup_old_backups :: "uuid \<Rightarrow> i32 \<Rightarrow> string \<Rightarrow> unit app" where
  \<comment> \<open>\<open>retention_count as usize\<close> of a negative count is larger than any list\<close>
  "cleanup_old_backups database_id retention_count dir =
     bind_app (attempt (DatabaseRepository_find_backups_by_database database_id)) (\<lambda>found.
       case found of
         Inl _ \<Rightarrow> return_app ()
       | Inr backups \<Rightarrow>
           if wrap_i32 (int (length backups)) \<le> retention_count then return_app ()
           else for_each (if retention_count < 0 then [] else drop (nat retention_count) backups)
             (\<lambda>backup.
               ignore (fs_remove_file (dir @ ''/'' @ br_filename backup) [])
               (ignore (DatabaseRepository_delete_backup (br_id backup))
               (return_app ()))))"

definition backup_instance ::
  "docker_client option \<Rightarrow> database_instance \<Rightarrow> string \<Rightarrow> string \<Rightarrow> string \<Rightarrow> string \<Rightarrow> nat app" where
  \<comment> \<open>with the container, the owner's password, the directory and the file\<close>
  "backup_instance target inst container_id password dir filename =
     (let db_name = unwrap_or (di_database_name inst) (di_name inst) in
      case di_db_type inst of
        Postgresql \<Rightarrow> backup_postgres target container_id (di_username inst) db_name dir filename
      | Mariadb \<Rightarrow> backup_mariadb target container_id (di_username inst) password db_name dir filename
      | Redis \<Rightarrow> backup_redis target container_id password dir filename)"

definition timestamped :: "string \<Rightarrow> string app" where
  \<comment> \<open>\<open>chrono::Utc::now().format("%Y%m%d_%H%M%S")\<close> between a name and a suffix\<close>
  "timestamped suffix = bind_app (asks lib) (\<lambda>l. bind_app utc_now (\<lambda>now.
     return_app (l_format_timestamp l now @ suffix)))"

definition scheduled_backup :: "backup_schedule \<Rightarrow> unit app" where
  \<comment> \<open>one round of the loop over the due schedules\<close>
  "scheduled_backup schedule =
     bind_app (attempt (DatabaseRepository_find_by_id (bs_database_id schedule))) (\<lambda>found.
       case found of Inl _ \<Rightarrow> return_app () | Inr None \<Rightarrow> return_app () | Inr (Some inst) \<Rightarrow>
       (case di_container_id inst of None \<Rightarrow> return_app () | Some container_id \<Rightarrow>
        bind_app (docker_or_local (di_docker_server_id inst)) (\<lambda>target.
        bind_app (attempt (decrypt (di_password_encrypted inst))) (\<lambda>decrypted.
        case decrypted of Inl _ \<Rightarrow> return_app () | Inr password \<Rightarrow>
        bind_app (asks (\<lambda>e. backup_dir (cfg e))) (\<lambda>dir.
        bind_app (timestamped ''.sql'') (\<lambda>stamp.
        let filename = di_name inst @ ''_'' @ stamp in
        bind_app (attempt (backup_instance target inst container_id password dir filename)) (\<lambda>r.
        case r of Inl _ \<Rightarrow> return_app () | Inr size_bytes \<Rightarrow>
          ignore (DatabaseRepository_create_backup (di_id inst) filename (wrap_i64 (int size_bytes)))
          (ignore (BackupScheduleRepository_update_last_run (bs_id schedule))
          (cleanup_old_backups (di_id inst) (bs_retention_count schedule) dir)))))))))"

definition BackupService_run_scheduled_backups :: "unit app" where
  "BackupService_run_scheduled_backups =
     bind_app (attempt BackupScheduleRepository_find_due_schedules) (\<lambda>due.
       case due of Inl _ \<Rightarrow> return_app () | Inr schedules \<Rightarrow> for_each schedules scheduled_backup)"

section \<open>Stale containers\<close>

definition stale_containers :: "pg \<Rightarrow> (string \<times> string) list" where
  "stale_containers d = List.map_filter (\<lambda>x.
     if di_status x = Deleting
     then (case (di_container_id x, di_network_id x) of
         (Some c, Some n) \<Rightarrow> Some (c, n) | _ \<Rightarrow> None)
     else None) (t_databases d)"

definition cleanup_stale_containers :: "unit app" where
  "cleanup_stale_containers =
     bind_app (attempt (sql_select (\<lambda>_. stale_containers))) (\<lambda>stale.
       case stale of
         Inl _ \<Rightarrow> return_app ()
       | Inr rows \<Rightarrow> for_each rows (\<lambda>(container_id, network_id).
           ignore (remove_container None container_id network_id) (return_app ())))"

section \<open>Gauges\<close>

definition group_counts :: "('r \<Rightarrow> 'k) \<Rightarrow> 'k list \<Rightarrow> 'r list \<Rightarrow> ('k \<times> i64) list" where
  \<comment> \<open>\<open>SELECT k, COUNT(*) .. GROUP BY k\<close>, the groups in the order of the given values\<close>
  "group_counts key keys rs =
     filter (\<lambda>(k, n). n > 0) (map (\<lambda>k. (k, count_rows (\<lambda>r. key r = k) rs)) keys)"

definition sum_cents :: "(billing_period \<Rightarrow> bool) \<Rightarrow> pg \<Rightarrow> i64" where
  "sum_cents p d = sum_list (map bp_total_cents (filter p (t_billing_periods d)))"

definition refresh_gauge :: "'a app \<Rightarrow> ('a \<Rightarrow> gauge_values \<Rightarrow> gauge_values) \<Rightarrow> unit app" where
  \<comment> \<open>\<open>if let Ok(v) = query { GAUGE.set(v) }\<close>\<close>
  "refresh_gauge query f =
     bind_app (attempt query) (\<lambda>r. case r of Inl _ \<Rightarrow> return_app () | Inr v \<Rightarrow> set_gauges (f v))"

definition refresh_platform_metrics :: "unit app" where
  "refresh_platform_metrics = bind_app (asks lib) (\<lambda>l.
     then_app (refresh_gauge (sql_select (\<lambda>_ d. int (length (t_users d))))
       (\<lambda>n g. g\<lparr>ga_total_users := n\<rparr>))
     (then_app (refresh_gauge (sql_select (\<lambda>_ d. int (length (t_databases d))))
       (\<lambda>n g. g\<lparr>ga_total_databases := n\<rparr>))
     (then_app (refresh_gauge (sql_select (\<lambda>_ d.
         group_counts di_status [Provisioning, Running, Stopped, Error, Deleting] (t_databases d)))
       (\<lambda>rows g. g\<lparr>ga_by_status := rows\<rparr>))
     (then_app (refresh_gauge (sql_select (\<lambda>_ d.
         group_counts di_db_type [Postgresql, Redis, Mariadb] (t_databases d)))
       (\<lambda>rows g. g\<lparr>ga_by_type := rows\<rparr>))
     (then_app (refresh_gauge (sql_select (\<lambda>now.
         sum_cents (\<lambda>x. bp_status x = ''paid'' \<and> l_month_start l now \<le> bp_period_start x)))
       (\<lambda>n g. g\<lparr>ga_monthly_revenue := n\<rparr>))
     (refresh_gauge (sql_select (\<lambda>_. sum_cents (\<lambda>x. bp_status x = ''pending'')))
       (\<lambda>n g. g\<lparr>ga_pending_revenue := n\<rparr>)))))))"

section \<open>Migrations of a customer\<close>

definition MigrationService_execute_migration ::
  "string \<Rightarrow> i32 \<Rightarrow> string \<Rightarrow> string \<Rightarrow> string \<Rightarrow> string \<Rightarrow> unit app" where
  "MigrationService_execute_migration host port username password database sql =
     client_sql (''postgres://'' @ username @ '':'' @ password @ ''@'' @ host @ '':'' @ int_to_string port
       @ ''/'' @ database) sql"

end
