(* ===== verification/User_Repository.thy ===== *)
theory User_Repository
  imports Calculus
begin

text \<open>
  \<open>src/api/src/repository/user_repo.rs\<close> and \<open>invitation_repo.rs\<close>: platform users, looked up
  by identifier, email or the SHA-256 of their API key, and the invitation codes of the
  closed registration.
\<close>

definition hash_api_key :: "libraries \<Rightarrow> string \<Rightarrow> string" where
  "hash_api_key l api_key = l_sha256_hex l api_key"

definition UserRepository_create :: "string \<Rightarrow> string \<Rightarrow> user_role \<Rightarrow> user app" where
  "UserRepository_create email password_hash role =
     sql_insert insert_user (\<lambda>new now.
       \<lparr>u_id = new, u_email = email, u_password_hash = password_hash, u_role = role,
        u_api_key = None, u_max_databases = 5, u_created_at = now, u_updated_at = now,
        u_stripe_customer_id = None\<rparr>)"

definition UserRepository_find_by_email :: "string \<Rightarrow> user option app" where
  "UserRepository_find_by_email email = sql_select (\<lambda>_ d. find (\<lambda>x. u_email x = email) (t_users d))"

definition UserRepository_find_by_id :: "uuid \<Rightarrow> user option app" where
  "UserRepository_find_by_id i = sql_select (\<lambda>_ d. find (\<lambda>x. u_id x = i) (t_users d))"

definition UserRepository_find_by_api_key :: "string \<Rightarrow> user option app" where
  "UserRepository_find_by_api_key api_key =
     bind_app (asks lib) (\<lambda>l. let key_hash = hash_api_key l api_key in
       sql_select (\<lambda>_ d. find (\<lambda>x. u_api_key x = Some key_hash) (t_users d)))"

definition UserRepository_set_api_key :: "uuid \<Rightarrow> string \<Rightarrow> unit app" where
  "UserRepository_set_api_key i api_key =
     bind_app (asks lib) (\<lambda>l. let key_hash = hash_api_key l api_key in
       run_sql (\<lambda>_ now d.
         if \<not> fits 64 key_hash then Inl (ValueTooLong ''users'')
         else if i \<in> ids u_id (t_users d) \<and> list_ex (\<lambda>x. u_api_key x = Some key_hash \<and> u_id x \<noteq> i) (t_users d)
         then Inl (UniqueViolation ''users_api_key_key'')
         else Inr ((), d\<lparr>t_users := update_where (\<lambda>x. u_id x = i)
                (\<lambda>x. x\<lparr>u_api_key := Some key_hash, u_updated_at := now\<rparr>) (t_users d)\<rparr>)))"

definition UserRepository_list_all :: "user list app" where
  "UserRepository_list_all = sql_select (\<lambda>_ d. newest_first u_created_at (t_users d))"

definition UserRepository_update_role :: "uuid \<Rightarrow> user_role \<Rightarrow> unit app" where
  "UserRepository_update_role i role =
     sql_execute (\<lambda>now d. d\<lparr>t_users := update_where (\<lambda>x. u_id x = i)
       (\<lambda>x. x\<lparr>u_role := role, u_updated_at := now\<rparr>) (t_users d)\<rparr>)"

definition UserRepository_update_max_databases :: "uuid \<Rightarrow> i32 \<Rightarrow> unit app" where
  "UserRepository_update_max_databases i max_dbs =
     sql_execute (\<lambda>now d. d\<lparr>t_users := update_where (\<lambda>x. u_id x = i)
       (\<lambda>x. x\<lparr>u_max_databases := max_dbs, u_updated_at := now\<rparr>) (t_users d)\<rparr>)"

definition UserRepository_delete :: "uuid \<Rightarrow> unit app" where
  "UserRepository_delete i = run_sql (\<lambda>_ _ d. with_result () (delete_user_row i d))"

definition UserRepository_count :: "i64 app" where
  "UserRepository_count = sql_select (\<lambda>_ d. int (length (t_users d)))"

section \<open>Invitations\<close>

definition InvitationRepository_create ::
  "string \<Rightarrow> uuid \<Rightarrow> i32 \<Rightarrow> time option \<Rightarrow> invitation app" where
  "InvitationRepository_create code created_by max_uses expires_at =
     sql_insert insert_invitation (\<lambda>new now.
       \<lparr>inv_id = new, inv_code = code, inv_created_by = created_by, inv_used_by = None,
        inv_max_uses = max_uses, inv_use_count = 0, inv_expires_at = expires_at,
        inv_created_at = now\<rparr>)"

definition InvitationRepository_find_by_code :: "string \<Rightarrow> invitation option app" where
  "InvitationRepository_find_by_code code =
     sql_select (\<lambda>_ d. find (\<lambda>x. inv_code x = code) (t_invitations d))"

definition invitation_usable :: "time \<Rightarrow> invitation \<Rightarrow> bool" where
  "invitation_usable now x \<longleftrightarrow> inv_use_count x < inv_max_uses x \<and>
     (case inv_expires_at x of None \<Rightarrow> True | Some t \<Rightarrow> now < t)"

definition InvitationRepository_use_invitation :: "string \<Rightarrow> uuid \<Rightarrow> bool app" where
  "InvitationRepository_use_invitation code user_id =
     run_sql (\<lambda>_ now d.
       let hit = (\<lambda>x. inv_code x = code \<and> invitation_usable now x) in
       if filter hit (t_invitations d) \<noteq> [] \<and> user_id \<notin> ids u_id (t_users d)
       then Inl (ForeignKeyViolation ''invitations_used_by_fkey'')
       else Inr (filter hit (t_invitations d) \<noteq> [],
                 d\<lparr>t_invitations := update_where hit
                    (\<lambda>x. x\<lparr>inv_use_count := inv_use_count x + 1, inv_used_by := Some user_id\<rparr>)
                    (t_invitations d)\<rparr>))"

definition InvitationRepository_list_all :: "invitation list app" where
  "InvitationRepository_list_all = sql_select (\<lambda>_ d. newest_first inv_created_at (t_invitations d))"

definition InvitationRepository_delete :: "uuid \<Rightarrow> unit app" where
  "InvitationRepository_delete i =
     sql_execute (\<lambda>_ d. d\<lparr>t_invitations := delete_where (\<lambda>x. inv_id x = i) (t_invitations d)\<rparr>)"

section \<open>What the statements keep\<close>

lemma UserRepository_reads_keep [preserves_intro]:
  "keeps_db P (UserRepository_find_by_email email)"
  "keeps_db P (UserRepository_find_by_id i)"
  "keeps_db P (UserRepository_find_by_api_key key)"
  "keeps_db P UserRepository_list_all"
  "keeps_db P UserRepository_count"
  "keeps_db P (InvitationRepository_find_by_code code)"
  "keeps_db P InvitationRepository_list_all"
  unfolding UserRepository_find_by_email_def UserRepository_find_by_id_def
    UserRepository_find_by_api_key_def UserRepository_list_all_def UserRepository_count_def
    InvitationRepository_find_by_code_def InvitationRepository_list_all_def
  by (intro preserves_intro)+

lemma keyed_opt_set:
  assumes "keyed_opt k rs" and "keyed j rs"
    and "\<not> list_ex (\<lambda>x. k x = Some v \<and> j x \<noteq> i) rs"
    and "\<And>x. k (f x) = Some v"
  shows "keyed_opt k (update_where (\<lambda>x. j x = i) f rs)"
  using assms
proof (induction rs)
  case (Cons r rs)
  have mem: "w \<in> set (List.map_filter k (update_where (\<lambda>x. j x = i) f rs)) \<Longrightarrow>
      w \<in> set (List.map_filter k rs) \<or> (w = v \<and> i \<in> ids j rs)" for w
    using assms(4) by (auto simp: map_filter_def update_where_def ids_def split: if_splits)
  have absent: "v \<notin> set (List.map_filter k rs)" if "j r = i"
  proof
    assume "v \<in> set (List.map_filter k rs)"
    then obtain x where "x \<in> set rs" "k x = Some v" by (auto simp: map_filter_def)
    moreover from Cons.prems(2) that \<open>x \<in> set rs\<close> have "j x \<noteq> i" by (auto simp: keyed_def image_iff)
    ultimately show False using Cons.prems(3) by (auto simp: list_ex_iff)
  qed
  show ?case
  proof (cases "j r = i")
    case True
    then have "i \<notin> ids j rs" using Cons.prems(2) by (auto simp: keyed_def ids_def)
    then have "update_where (\<lambda>x. j x = i) f rs = rs"
      by (intro update_where_id) (auto simp: ids_def)
    with True absent Cons.prems show ?thesis
      by (auto simp: keyed_opt_def update_where_def split: option.splits)
  next
    case False
    with Cons.prems have "keyed_opt k (update_where (\<lambda>x. j x = i) f rs)"
      by (intro Cons.IH) (auto simp: keyed_opt_def keyed_def split: option.splits)
    with False mem Cons.prems show ?thesis
      by (auto simp: keyed_opt_def update_where_def split: option.splits)
  qed
qed (simp add: update_where_def)

lemma keyed_opt_set_present:
  "keyed_opt k rs \<Longrightarrow> keyed j rs \<Longrightarrow>
   i \<in> ids j rs \<longrightarrow> \<not> list_ex (\<lambda>x. k x = Some v \<and> j x \<noteq> i) rs \<Longrightarrow>
   (\<And>x. k (f x) = Some v) \<Longrightarrow> keyed_opt k (update_where (\<lambda>x. j x = i) f rs)"
proof (cases "i \<in> ids j rs")
  case False
  then have "update_where (\<lambda>x. j x = i) f rs = rs"
    by (intro update_where_id) (auto simp: ids_def)
  then show "keyed_opt k rs \<Longrightarrow> ?thesis" by simp
qed (simp add: keyed_opt_set)

lemma UserRepository_schema [preserves_intro]:
  "keeps_db schema_ok (UserRepository_create email pw role)"
  "keeps_db schema_ok (UserRepository_update_role i role)"
  "keeps_db schema_ok (UserRepository_update_max_databases i m)"
  "keeps_db schema_ok (InvitationRepository_create code i m t)"
  "keeps_db schema_ok (InvitationRepository_delete i)"
  unfolding UserRepository_create_def UserRepository_update_role_def InvitationRepository_create_def
    UserRepository_update_max_databases_def InvitationRepository_delete_def
  by ((rule keeps_db_insert, erule (1) schema_insert_rules [rotated])
      | (rule keeps_db_execute, simp add: schema_ok_def schema_parts_def))+

lemma UserRepository_set_api_key_schema [preserves_intro]:
  "keeps_db schema_ok (UserRepository_set_api_key i key)"
  unfolding UserRepository_set_api_key_def Let_def
  by (intro preserves_intro keeps_db_run_sql)
     (clarsimp simp: schema_ok_def schema_parts_def keyed_opt_set_present split: if_split_asm)

lemma UserRepository_delete_schema [preserves_intro]:
  "keeps_db schema_ok (UserRepository_delete i)"
  unfolding UserRepository_delete_def
  by (rule keeps_db_run_sql) (auto dest: delete_user_row_ok)

lemma fk_opt_set: "fk_opt k rs A \<Longrightarrow> (\<And>x. k (f x) = Some v) \<Longrightarrow> v \<in> A \<Longrightarrow> fk_opt k (update_where p f rs) A"
  by (induction rs) (auto simp: fk_opt_def update_where_def)

lemma InvitationRepository_use_invitation_schema [preserves_intro]:
  "keeps_db schema_ok (InvitationRepository_use_invitation code u)"
  unfolding InvitationRepository_use_invitation_def Let_def
proof (rule keeps_db_run_sql)
  fix i t d and x :: bool and d'
  assume ok: "schema_ok d"
    and run: "(if filter (\<lambda>x. inv_code x = code \<and> invitation_usable t x) (t_invitations d) \<noteq> [] \<and> u \<notin> ids u_id (t_users d)
       then Inl (ForeignKeyViolation ''invitations_used_by_fkey'')
       else Inr (filter (\<lambda>x. inv_code x = code \<and> invitation_usable t x) (t_invitations d) \<noteq> [],
                 d\<lparr>t_invitations := update_where (\<lambda>x. inv_code x = code \<and> invitation_usable t x)
                    (\<lambda>x. x\<lparr>inv_use_count := inv_use_count x + 1, inv_used_by := Some u\<rparr>)
                    (t_invitations d)\<rparr>)) = Inr (x, d')"
  show "schema_ok d'"
  proof (cases "filter (\<lambda>x. inv_code x = code \<and> invitation_usable t x) (t_invitations d) = []")
    case True
    then have "update_where (\<lambda>x. inv_code x = code \<and> invitation_usable t x)
                    (\<lambda>x. x\<lparr>inv_use_count := inv_use_count x + 1, inv_used_by := Some u\<rparr>)
                    (t_invitations d) = t_invitations d"
      by (intro update_where_id) (auto simp: filter_empty_conv)
    with True run ok show ?thesis by simp
  next
    case False
    with run ok show ?thesis
      by (clarsimp simp: schema_ok_def schema_parts_def fk_opt_set split: if_split_asm)
  qed
qed

end
