(* ===== verification/Middleware.thy ===== *)
theory Middleware
  imports User_Repository
begin

text \<open>
  What every request passes (\<open>src/api/src/middleware\<close>): authentication by token or API key,
  the check for administrators, maintenance mode, rate limiting by client address, the
  request metrics with their normalised labels, and the security headers; and the handlers of
  \<open>src/api/src/handlers/auth.rs\<close>.
\<close>

section \<open>Tokens\<close>

record auth_user =
  au_id :: uuid
  au_email :: string
  au_role :: user_role

definition create_token :: "uuid \<Rightarrow> string \<Rightarrow> user_role \<Rightarrow> string app" where
  \<comment> \<open>valid for 24 hours\<close>
  "create_token user_id email role =
     bind_app utc_now (\<lambda>now.
     bind_app (asks (\<lambda>e. l_jwt_encode (lib e) (jwt_secret (cfg e))
         \<lparr>cl_sub = user_id, cl_email = email, cl_role = role,
          cl_exp = nat ((now + 86400 * 10 ^ 9) div 10 ^ 9 mod 2 ^ 64)\<rparr>)) (\<lambda>r.
     lift_result (case r of Inl msg \<Rightarrow> Inl (Jwt msg) | Inr tok \<Rightarrow> Inr tok)))"

definition decode_token :: "string \<Rightarrow> claims app" where
  "decode_token tok = bind_app utc_now (\<lambda>now.
     bind_app (asks (\<lambda>e. l_jwt_decode (lib e) now (jwt_secret (cfg e)) tok)) (\<lambda>r.
     lift_result (case r of Inl msg \<Rightarrow> Inl (Jwt msg) | Inr cl \<Rightarrow> Inr cl)))"

definition auth_user_of :: "user \<Rightarrow> auth_user" where
  "auth_user_of u = \<lparr>au_id = u_id u, au_email = u_email u, au_role = u_role u\<rparr>"

definition auth_middleware :: "string option \<Rightarrow> auth_user app" where
  \<comment> \<open>the \<open>Authorization\<close> header when it is there and visible ASCII; the user it inserts\<close>
  "auth_middleware header =
     bind_app (ok_or header Unauthorized) (\<lambda>auth_header.
     case str_strip_prefix auth_header ''Bearer '' of
       Some tok \<Rightarrow>
         bind_app (decode_token tok) (\<lambda>cl.
         bind_app (UserRepository_find_by_id (cl_sub cl)) (\<lambda>found.
         bind_app (ok_or found Unauthorized) (\<lambda>u. return_app (auth_user_of u))))
     | None \<Rightarrow>
         (case str_strip_prefix auth_header ''ApiKey '' of
            Some api_key \<Rightarrow>
              bind_app (UserRepository_find_by_api_key api_key) (\<lambda>found.
              bind_app (ok_or found Unauthorized) (\<lambda>u. return_app (auth_user_of u)))
          | None \<Rightarrow> throw Unauthorized))"

definition admin_middleware :: "auth_user option \<Rightarrow> unit app" where
  \<comment> \<open>the user an outer layer inserted\<close>
  "admin_middleware inserted =
     bind_app (ok_or inserted Unauthorized) (\<lambda>u. require (au_role u = UserRole_Admin) Forbidden)"

section \<open>Maintenance\<close>

definition maintenance_middleware :: "bool option \<Rightarrow> string \<Rightarrow> string \<Rightarrow> (nat \<times> string) option" where
  \<comment> \<open>the flag of the request's extensions, method and path; \<open>None\<close> lets the request through\<close>
  "maintenance_middleware flag meth path = (case flag of
      None \<Rightarrow> None
    | Some is_maintenance \<Rightarrow>
        if is_maintenance \<and> \<not> (meth = ''GET'' \<or> str_starts_with path ''/api/admin'')
        then Some (503, ''Platform is under maintenance'') else None)"

section \<open>Rate limiting\<close>

definition is_loopback_v4 :: "nat \<Rightarrow> bool" where
  "is_loopback_v4 a \<longleftrightarrow> a = 127"

definition is_private_v4 :: "nat \<Rightarrow> nat \<Rightarrow> bool" where
  "is_private_v4 a b \<longleftrightarrow> a = 10 \<or> (a = 172 \<and> 16 \<le> b \<and> b \<le> 31) \<or> (a = 192 \<and> b = 168)"

fun is_trusted_proxy :: "ip_addr \<Rightarrow> bool" where
  "is_trusted_proxy (V4 a b c d) \<longleftrightarrow> is_loopback_v4 a \<or> is_private_v4 a b"
| "is_trusted_proxy (V6 v) \<longleftrightarrow> v = 1"

definition extract_client_ip ::
  "(string \<Rightarrow> ip_addr option) \<Rightarrow> ip_addr option \<Rightarrow> string option \<Rightarrow> string option \<Rightarrow> ip_addr" where
  \<comment> \<open>parser of addresses, peer address, \<open>X-Forwarded-For\<close>, \<open>X-Real-Ip\<close>\<close>
  "extract_client_ip parse peer_ip xff xri =
     (let peer = (case peer_ip of Some p \<Rightarrow> p | None \<Rightarrow> V4 127 0 0 1);
          real_ip = (case xri of None \<Rightarrow> None | Some v \<Rightarrow> parse (str_trim v));
          forwarded = (case xff of None \<Rightarrow> None | Some v \<Rightarrow> parse (str_trim (hd (str_split v CHR '',''))))
      in if is_trusted_proxy peer
         then (case forwarded of
             Some ip \<Rightarrow> ip
           | None \<Rightarrow> (case real_ip of Some ip \<Rightarrow> ip | None \<Rightarrow> peer))
         else peer)"

definition rate_limit_middleware ::
  "(ip_addr \<Rightarrow> bool) option \<Rightarrow> ip_addr option \<Rightarrow> string option \<Rightarrow> string option \<Rightarrow> unit app" where
  \<comment> \<open>the limiter of the request's extensions tells whether an address is within its quota\<close>
  "rate_limit_middleware limiter peer_ip xff xri = (case limiter of
      None \<Rightarrow> return_app ()
    | Some check \<Rightarrow>
        bind_app (asks (\<lambda>e. l_ip_parse (lib e))) (\<lambda>parse.
          require (check (extract_client_ip parse peer_ip xff xri)) RateLimited))"

section \<open>Metric labels and headers\<close>

definition normalize_path :: "libraries \<Rightarrow> string \<Rightarrow> string" where
  "normalize_path l path =
     str_join (map (\<lambda>part. if l_uuid_parse l part \<noteq> None then ''{id}'' else part)
       (str_split path CHR ''/'')) ''/''"

record http_metrics =
  \<comment> \<open>\<open>dbsaas_http_requests_total\<close> by method, path and status, and the observations of
     \<open>dbsaas_http_request_duration_seconds\<close> by method and path\<close>
  hm_count :: "string \<times> string \<times> string \<Rightarrow> nat"
  hm_durations :: "string \<times> string \<Rightarrow> f64 list"

definition metrics_middleware :: "libraries \<Rightarrow> string \<Rightarrow> string \<Rightarrow> nat \<Rightarrow> f64 \<Rightarrow> http_metrics \<Rightarrow> http_metrics" where
  \<comment> \<open>method and path of the request, status of the answer, seconds between them\<close>
  "metrics_middleware l method path status duration m =
     (let label = normalize_path l path; counted = (method, label, nat_to_string status) in
      m\<lparr>hm_count := (hm_count m)(counted := Suc (hm_count m counted)),
        hm_durations := (hm_durations m)((method, label) := hm_durations m (method, label) @ [duration])\<rparr>)"

type_synonym header_map = "(string \<times> string) list"

definition header_insert :: "string \<Rightarrow> string \<Rightarrow> header_map \<Rightarrow> header_map" where
  \<comment> \<open>replaces every value of the name\<close>
  "header_insert name v hs = filter (\<lambda>(k, _). k \<noteq> name) hs @ [(name, v)]"

definition header_remove :: "string \<Rightarrow> header_map \<Rightarrow> header_map" where
  "header_remove name hs = filter (\<lambda>(k, _). k \<noteq> name) hs"

definition none_source :: string where
  \<comment> \<open>the keyword of a content security policy, in single quotes\<close>
  "none_source = CHR 0x27 # ''none'' @ [CHR 0x27]"

definition security_headers_middleware :: "header_map \<Rightarrow> header_map" where
  "security_headers_middleware hs =
     header_remove ''server''
     (header_insert ''permissions-policy'' ''camera=(), microphone=(), geolocation=()''
     (header_insert ''content-security-policy'' (''default-src '' @ none_source @ ''; frame-ancestors '' @ none_source)
     (header_insert ''strict-transport-security'' ''max-age=31536000; includeSubDomains''
     (header_insert ''referrer-policy'' ''strict-origin-when-cross-origin''
     (header_insert ''x-xss-protection'' ''1; mode=block''
     (header_insert ''x-frame-options'' ''DENY''
     (header_insert ''x-content-type-options'' ''nosniff'' hs)))))))"

section \<open>Passwords and keys\<close>

definition hash_password :: "string \<Rightarrow> string app" where
  "hash_password password = (\<lambda>e s.
     lift_result (case l_argon2 (lib e) (random_bytes e (tick s)) password of
         None \<Rightarrow> Inl (Internal ''Password hashing failed'') | Some h \<Rightarrow> Inr h) e (next_tick e s))"

definition verify_password :: "libraries \<Rightarrow> string \<Rightarrow> string \<Rightarrow> app_error + bool" where
  "verify_password l password hash =
     (if \<not> l_argon2_parse l hash then Inl (Internal ''Invalid password hash'')
      else Inr (l_argon2_verify l password hash))"

definition new_api_key :: "string app" where
  "new_api_key = (\<lambda>e s. (Inr (generate_api_key (random_index e (tick s))), next_tick e s))"

section \<open>The handlers of \<open>handlers/auth.rs\<close>\<close>

definition CreateUserRequest_validate :: "libraries \<Rightarrow> create_user_request \<Rightarrow> bool" where
  "CreateUserRequest_validate l r \<longleftrightarrow>
     l_email_valid l (cur_email r) \<and>
     8 \<le> char_count (cur_password r) \<and> char_count (cur_password r) \<le> 128"

definition check_invitation :: "string option \<Rightarrow> unit app" where
  "check_invitation invitation_code =
     bind_app (ok_or invitation_code
       (BadRequest ''Registration is disabled. Invitation code required.'')) (\<lambda>code.
     bind_app (InvitationRepository_find_by_code code) (\<lambda>found.
     bind_app (ok_or found (BadRequest ''Invalid invitation code'')) (\<lambda>inv.
     then_app (require (inv_use_count inv < inv_max_uses inv) (BadRequest ''Invitation code exhausted''))
     (bind_app utc_now (\<lambda>now.
        require (case inv_expires_at inv of None \<Rightarrow> True | Some expires \<Rightarrow> now \<le> expires)
          (BadRequest ''Invitation code expired''))))))"

definition register :: "create_user_request \<Rightarrow> auth_response app" where
  "register req =
     bind_app (asks lib) (\<lambda>l.
     then_app (require (CreateUserRequest_validate l req) (BadRequest ''validation''))
     (bind_app get_registration (\<lambda>reg_enabled.
     then_app (if reg_enabled then return_app () else check_invitation (cur_invitation_code req))
     (bind_app (UserRepository_find_by_email (cur_email req)) (\<lambda>existing.
     then_app (require (existing = None) (Conflict ''Email already registered''))
     (bind_app (hash_password (cur_password req)) (\<lambda>password_hash.
     bind_app (UserRepository_create (cur_email req) password_hash UserRole_User) (\<lambda>u.
     then_app (case cur_invitation_code req of
         None \<Rightarrow> return_app ()
       | Some code \<Rightarrow> bind_app (InvitationRepository_use_invitation code (u_id u)) (\<lambda>_. return_app ()))
     (bind_app (create_token (u_id u) (u_email u) (u_role u)) (\<lambda>tok.
     return_app \<lparr>ar_token = tok, ar_user = UserInfo_from u\<rparr>)))))))))) "

definition login :: "login_request \<Rightarrow> auth_response app" where
  "login req =
     bind_app (UserRepository_find_by_email (lr_email req)) (\<lambda>found.
     bind_app (ok_or found Unauthorized) (\<lambda>u.
     bind_app (asks lib) (\<lambda>l.
     bind_app (lift_result (verify_password l (lr_password req) (u_password_hash u))) (\<lambda>verified.
     then_app (require verified Unauthorized)
     (bind_app (create_token (u_id u) (u_email u) (u_role u)) (\<lambda>tok.
     return_app \<lparr>ar_token = tok, ar_user = UserInfo_from u\<rparr>))))))"

definition me :: "auth_user \<Rightarrow> user_info app" where
  "me u = return_app \<lparr>ui_id = au_id u, ui_email = au_email u, ui_role = au_role u\<rparr>"

definition generate_api_key_handler :: "auth_user \<Rightarrow> string app" where
  "generate_api_key_handler u =
     bind_app new_api_key (\<lambda>api_key.
     then_app (UserRepository_set_api_key (au_id u) api_key) (return_app api_key))"

end
