(* ===== verification/Database_Service.thy ===== *)
theory Database_Service
  imports Services Middleware
begin

text \<open>
  \<open>src/api/src/handlers/databases.rs\<close>, first part: the helper functions of the handlers
  (server addresses, connection URLs, the view of an instance), the creation of a database, a
  bundle and a clone, and the background tasks that provision, clone and remove them.
\<close>

section \<open>Addresses and URLs\<close>

definition extract_server_ip :: "string \<Rightarrow> string option" where
  "extract_server_ip url =
     (let without_scheme = (case str_find url ''://'' of Some i \<Rightarrow> drop (i + 3) url | None \<Rightarrow> url);
          host = (if CHR '':'' \<in> set without_scheme then hd (str_split without_scheme CHR '':'') else without_scheme)
      in if host = [] \<or> host = ''localhost'' \<or> str_starts_with host ''/'' then None else Some host)"

definition is_remote_server :: "string \<Rightarrow> bool" where
  "is_remote_server url \<longleftrightarrow>
     url \<noteq> ''local'' \<and> \<not> str_starts_with url ''unix://'' \<and>
     \<not> str_contains url ''localhost'' \<and> \<not> str_contains url ''127.0.0.1''"

definition compute_backend_address ::
  "libraries \<Rightarrow> uuid \<Rightarrow> db_type \<Rightarrow> docker_server option \<Rightarrow> u16 option \<Rightarrow> string" where
  "compute_backend_address l db_id type server exposed_port =
     (let local_address = ''sb-'' @ l_uuid_str l db_id @ '':'' @ int_to_string (standard_port_for_db_type type)
      in case server of
           None \<Rightarrow> local_address
         | Some srv \<Rightarrow>
             if is_remote_server (ds_url srv)
             then (case (extract_server_ip (ds_url srv), exposed_port) of
                 (Some ip, Some port) \<Rightarrow> ip @ '':'' @ int_to_string (uint port)
               | _ \<Rightarrow> local_address)
             else local_address)"

definition build_connection_url ::
  "db_type \<Rightarrow> string \<Rightarrow> string \<Rightarrow> string \<Rightarrow> i32 \<Rightarrow> string option \<Rightarrow> string \<Rightarrow> string" where
  "build_connection_url type username password host port db_name tls_mode =
     (let tls_enabled = (tls_mode = ''enabled'') in
      case type of
        Postgresql \<Rightarrow> ''postgresql://'' @ username @ '':'' @ password @ ''@'' @ host @ '':'' @ int_to_string port
          @ ''/'' @ unwrap_or db_name ''postgres'' @ ''?''
          @ (if tls_enabled then ''sslmode=verify-ca'' else ''sslmode=disable'')
      | Redis \<Rightarrow> (if tls_enabled then ''rediss'' else ''redis'') @ ''://:'' @ password @ ''@'' @ host
          @ '':'' @ int_to_string port
      | Mariadb \<Rightarrow> ''mysql://'' @ username @ '':'' @ password @ ''@'' @ host @ '':'' @ int_to_string port
          @ ''/'' @ unwrap_or db_name ''default'' @ (if tls_enabled then ''?ssl-mode=VERIFY_CA'' else []))"

definition build_connection_url_sni ::
  "db_type \<Rightarrow> string \<Rightarrow> string \<Rightarrow> string \<Rightarrow> string option \<Rightarrow> string \<Rightarrow> string" where
  "build_connection_url_sni type username password fqdn db_name ssl_mode =
     (case type of
        Postgresql \<Rightarrow> ''postgresql://'' @ username @ '':'' @ password @ ''@'' @ fqdn @ '':5432/''
          @ unwrap_or db_name ''postgres'' @ ''?''
          @ (if ssl_mode = ''verify-ca'' then ''sslmode=verify-ca'' else ''sslmode=require'')
      | Redis \<Rightarrow> ''rediss://:'' @ password @ ''@'' @ fqdn @ '':6379''
      | Mariadb \<Rightarrow> ''mysql://'' @ username @ '':'' @ password @ ''@'' @ fqdn @ '':3306/''
          @ unwrap_or db_name ''default'' @ ''?''
          @ (if ssl_mode = ''verify-ca'' then ''ssl-mode=VERIFY_CA'' else ''ssl-mode=REQUIRED''))"

section \<open>The owner's view of an instance\<close>

definition database_view :: "config \<Rightarrow> database_instance \<Rightarrow> string \<Rightarrow> database_response" where
  \<comment> \<open>with the decrypted password\<close>
  "database_view cf inst password =
     (let ssl_mode = di_tls_mode inst;
          fqdn = subdomain_fqdn (di_subdomain inst) (platform_domain cf);
          (host, port, url) = (if di_routing_mode inst = ''sni''
            then (fqdn, standard_port_for_db_type (di_db_type inst),
                  build_connection_url_sni (di_db_type inst) (di_username inst) password fqdn
                    (di_database_name inst) ssl_mode)
            else (di_host inst, di_port inst,
                  build_connection_url (di_db_type inst) (di_username inst) password (di_host inst)
                    (di_port inst) (di_database_name inst) (di_tls_mode inst)))
      in \<lparr>dr_id = di_id inst, dr_name = di_name inst, dr_db_type = di_db_type inst,
          dr_status = di_status inst, dr_host = host, dr_port = port, dr_username = di_username inst,
          dr_password = password, dr_database_name = di_database_name inst,
          dr_connection_url = url, dr_tls_enabled = (ssl_mode \<noteq> ''disabled''), dr_ssl_mode = ssl_mode,
          dr_cpu_limit = di_cpu_limit inst, dr_memory_limit_mb = di_memory_limit_mb inst,
          dr_bundle_id = di_bundle_id inst, dr_plan_template_id = di_plan_template_id inst,
          dr_subdomain = Some (di_subdomain inst), dr_routing_mode = di_routing_mode inst,
          dr_created_at = di_created_at inst\<rparr>)"

definition view_of :: "database_instance \<Rightarrow> database_response app" where
  "view_of inst =
     bind_app (attempt (decrypt (di_password_encrypted inst))) (\<lambda>r.
     bind_app (asks cfg) (\<lambda>cf.
     return_app (database_view cf inst (case r of Inl _ \<Rightarrow> ''***'' | Inr password \<Rightarrow> password))))"

definition owned_database :: "auth_user \<Rightarrow> uuid \<Rightarrow> database_instance app" where
  \<comment> \<open>the first lines of every handler of one database\<close>
  "owned_database u i =
     bind_app (DatabaseRepository_find_by_id i) (\<lambda>found.
     bind_app (ok_or found (NotFound ''Database not found'')) (\<lambda>inst.
     then_app (require (di_user_id inst = au_id u) Forbidden)
     (return_app inst)))"

section \<open>Creating a database\<close>

definition status_event :: "uuid \<Rightarrow> uuid \<Rightarrow> db_status \<Rightarrow> db_event" where
  "status_event user_id db_id status =
     \<lparr>ev_user_id = user_id, ev_database_id = db_id, ev_event_type = ''status_changed'',
      ev_status = Some status\<rparr>"

definition checked_ssl_mode :: "string \<Rightarrow> string app" where
  "checked_ssl_mode mode =
     then_app (require (mode \<in> {''verify-ca'', ''require''}) (BadRequest (''ssl_mode must be '' @ quoted sq ''require'' @ '' or '' @ quoted sq ''verify-ca'')))
     (return_app mode)"

definition resolve_plan ::
  "uuid option \<Rightarrow> f64 option \<Rightarrow> i32 option \<Rightarrow> (f64 \<times> i32 \<times> uuid option) app" where
  "resolve_plan plan_template_id cpu_limit memory_limit_mb = (case plan_template_id of
      Some template_id \<Rightarrow>
        bind_app (BillingRepository_get_plan_template template_id) (\<lambda>found.
        bind_app (ok_or found (NotFound ''Plan template not found'')) (\<lambda>template.
        then_app (require (pt_active template) (BadRequest ''Plan template is not active''))
        (return_app (pt_cpu_limit template, pt_memory_limit_mb template, Some template_id))))
    | None \<Rightarrow> return_app (unwrap_or cpu_limit (1 / 2), unwrap_or memory_limit_mb 256, None))"

definition select_server :: "uuid option \<Rightarrow> i64 \<Rightarrow> string \<Rightarrow> docker_server option app" where
  \<comment> \<open>the explicit choice, with room for so many containers, or the best server\<close>
  "select_server server_id slots full_msg = (case server_id of
      Some sid \<Rightarrow>
        bind_app (DockerServerRepository_find_active_client_by_id sid) (\<lambda>found.
        bind_app (ok_or found (BadRequest ''Selected server not found or not available'')) (\<lambda>server.
        bind_app (DockerServerRepository_count_containers_on_server (ds_id server)) (\<lambda>n.
        then_app (require (n + slots \<le> ds_max_containers server) (BadRequest full_msg))
        (return_app (Some server)))))
    | None \<Rightarrow> DockerServerRepository_select_best_client_server)"

definition uuid_string :: "string app" where
  \<comment> \<open>\<open>Uuid::new_v4().to_string()\<close>\<close>
  "uuid_string = bind_app new_uuid (\<lambda>i. asks (\<lambda>e. l_uuid_str (lib e) i))"

definition new_subdomain :: "string \<Rightarrow> string app" where
  "new_subdomain name = bind_app uuid_string (\<lambda>i. unwrap (generate_subdomain name i))"

definition created_view ::
  "database_instance \<Rightarrow> string \<Rightarrow> db_type \<Rightarrow> db_status \<Rightarrow> string \<Rightarrow> string \<Rightarrow> string \<Rightarrow> string option \<Rightarrow>
   string \<Rightarrow> f64 \<Rightarrow> i32 \<Rightarrow> uuid option \<Rightarrow> uuid option \<Rightarrow> database_response" where
  \<comment> \<open>the answer for an instance whose row was just inserted\<close>
  "created_view inst name type status fqdn username password db_name ssl_mode cpu_limit memory_limit_mb
     bundle_id plan_template_id =
     \<lparr>dr_id = di_id inst, dr_name = name, dr_db_type = type, dr_status = status, dr_host = fqdn,
      dr_port = standard_port_for_db_type type, dr_username = username, dr_password = password,
      dr_database_name = db_name,
      dr_connection_url = build_connection_url_sni type username password fqdn db_name ssl_mode,
      dr_tls_enabled = True, dr_ssl_mode = ssl_mode, dr_cpu_limit = cpu_limit,
      dr_memory_limit_mb = memory_limit_mb, dr_bundle_id = bundle_id,
      dr_plan_template_id = plan_template_id, dr_subdomain = Some (di_subdomain inst),
      dr_routing_mode = ''sni'', dr_created_at = di_created_at inst\<rparr>"

definition create_database :: "auth_user \<Rightarrow> create_database_request \<Rightarrow> database_response app" where
  "create_database u req =
     then_app (lift_result (case CreateDatabaseRequest_validate req of
         Inl er \<Rightarrow> Inl (BadRequest er) | Inr _ \<Rightarrow> Inr ()))
     (bind_app (checked_ssl_mode (cdr_ssl_mode req)) (\<lambda>ssl_mode.
     bind_app (DatabaseRepository_count_by_user (au_id u)) (\<lambda>count.
     bind_app (asks cfg) (\<lambda>cf.
     then_app (require (count < max_databases_per_user cf) (BadRequest (''Database limit reached ('' @ int_to_string (max_databases_per_user cf) @ '')'')))
     (bind_app (resolve_plan (cdr_plan_template_id req) (cdr_cpu_limit req) (cdr_memory_limit_mb req))
       (\<lambda>(cpu_limit, memory_limit_mb, plan_template_id).
     bind_app (select_server (cdr_server_id req) 1 ''Selected server is at capacity'') (\<lambda>target_server.
     bind_app (random_string 12) (\<lambda>username_suffix.
     bind_app (random_string 32) (\<lambda>password.
     let username = ''u_'' @ username_suffix;
         db_name = (case cdr_db_type req of Redis \<Rightarrow> None | _ \<Rightarrow> Some (cdr_name req));
         insert = (\<lambda>password_encrypted port subdomain. DatabaseRepository_create (au_id u) (cdr_name req)
             (cdr_db_type req) (platform_domain cf) port username password_encrypted db_name cpu_limit
             memory_limit_mb None ssl_mode plan_template_id (map_option ds_id target_server) subdomain ''sni'')
     in bind_app (encrypt password) (\<lambda>password_encrypted.
     bind_app allocate_port (\<lambda>allocated.
     let port = u16_as_i32 allocated in
     bind_app (new_subdomain (cdr_name req)) (\<lambda>subdomain.
     bind_app (attempt (insert password_encrypted port subdomain)) (\<lambda>created.
     bind_app (case created of
         Inr inst \<Rightarrow> return_app inst
       | Inl _ \<Rightarrow> bind_app (new_subdomain (cdr_name req)) (insert password_encrypted port)) (\<lambda>inst.
     let fqdn = subdomain_fqdn (di_subdomain inst) (platform_domain cf) in
     then_app (spawn (ProvisionDatabase
       \<lparr>pv_server = target_server, pv_db_id = di_id inst, pv_db_type = cdr_db_type req,
        pv_username = username, pv_password = password, pv_db_name = db_name,
        pv_cpu_limit = cpu_limit, pv_memory_limit_mb = memory_limit_mb, pv_port = port,
        pv_fqdn = fqdn, pv_user_id = au_id u, pv_name = cdr_name req, pv_plan_id = plan_template_id\<rparr>))
     (return_app (created_view inst (di_name inst) (cdr_db_type req) (di_status inst) fqdn username password
        db_name ssl_mode cpu_limit memory_limit_mb None plan_template_id))))))))))))))))"

section \<open>Creating a bundle\<close>

definition or_release :: "'a app \<Rightarrow> u16 \<Rightarrow> 'a app" where
  \<comment> \<open>the port goes back when the operation fails\<close>
  "or_release m port = bind_app (attempt m) (\<lambda>r. case r of
      Inr x \<Rightarrow> return_app x
    | Inl er \<Rightarrow> then_app (release_port port) (throw er))"

definition bundle_view ::
  "db_bundle \<Rightarrow> string \<Rightarrow> database_response \<Rightarrow> database_response \<Rightarrow> bundle_response" where
  "bundle_view bundle_row name pg redis =
     \<lparr>bur_id = bu_id bundle_row, bur_name = name, bur_postgresql = pg, bur_redis = redis,
      bur_created_at = bu_created_at bundle_row\<rparr>"

definition create_bundle :: "auth_user \<Rightarrow> create_bundle_request \<Rightarrow> bundle_response app" where
  "create_bundle u req =
     then_app (lift_result (case CreateBundleRequest_validate req of
         Inl er \<Rightarrow> Inl (BadRequest er) | Inr _ \<Rightarrow> Inr ()))
     (bind_app (checked_ssl_mode (cbr_ssl_mode req)) (\<lambda>ssl_mode.
     bind_app (DatabaseRepository_count_by_user (au_id u)) (\<lambda>count.
     bind_app (asks cfg) (\<lambda>cf.
     then_app (require (count + 2 \<le> max_databases_per_user cf)
       (BadRequest (''Database limit reached ('' @ int_to_string (max_databases_per_user cf) @ ''). Bundle requires 2 slots.'')))
     (bind_app (resolve_plan (cbr_plan_template_id req) (cbr_cpu_limit req) (cbr_memory_limit_mb req))
       (\<lambda>(cpu_limit, memory_limit_mb, plan_template_id).
     bind_app (select_server (cbr_server_id req) 2 (''Selected server doesn'' @ sq # ''t have enough capacity for a bundle''))
       (\<lambda>target_server.
     bind_app (DatabaseRepository_create_bundle (au_id u) (cbr_name req)) (\<lambda>bundle_row.
     bind_app (random_string 12) (\<lambda>username_suffix.
     bind_app (random_string 32) (\<lambda>pg_password.
     bind_app (encrypt pg_password) (\<lambda>pg_password_encrypted.
     bind_app allocate_port (\<lambda>pg_port.
     bind_app (random_string 32) (\<lambda>redis_password.
     bind_app (encrypt redis_password) (\<lambda>redis_password_encrypted.
     bind_app (or_release allocate_port pg_port) (\<lambda>redis_port.
     let pg_username = ''u_'' @ username_suffix; pg_db_name = cbr_name req;
         pg_name = cbr_name req @ ''-pg''; redis_name = cbr_name req @ ''-redis'';
         server_id = map_option ds_id target_server
     in bind_app (new_subdomain pg_name) (\<lambda>pg_subdomain.
     bind_app (new_subdomain redis_name) (\<lambda>redis_subdomain.
     bind_app (DatabaseRepository_create (au_id u) pg_name Postgresql (platform_domain cf)
         (u16_as_i32 pg_port) pg_username pg_password_encrypted (Some pg_db_name) cpu_limit
         memory_limit_mb (Some (bu_id bundle_row)) ssl_mode plan_template_id server_id pg_subdomain ''sni'')
       (\<lambda>pg_instance.
     bind_app (DatabaseRepository_create (au_id u) redis_name Redis (platform_domain cf)
         (u16_as_i32 redis_port) ''default'' redis_password_encrypted None cpu_limit
         memory_limit_mb (Some (bu_id bundle_row)) ssl_mode plan_template_id server_id redis_subdomain ''sni'')
       (\<lambda>redis_instance.
     let pg_fqdn = subdomain_fqdn (di_subdomain pg_instance) (platform_domain cf);
         redis_fqdn = subdomain_fqdn (di_subdomain redis_instance) (platform_domain cf)
     in then_app (spawn (ProvisionBundle (bu_id bundle_row)
       \<lparr>pv_server = target_server, pv_db_id = di_id pg_instance, pv_db_type = Postgresql,
        pv_username = pg_username, pv_password = pg_password, pv_db_name = Some pg_db_name,
        pv_cpu_limit = cpu_limit, pv_memory_limit_mb = memory_limit_mb, pv_port = u16_as_i32 pg_port,
        pv_fqdn = pg_fqdn, pv_user_id = au_id u, pv_name = pg_name, pv_plan_id = plan_template_id\<rparr>
       \<lparr>pv_server = target_server, pv_db_id = di_id redis_instance, pv_db_type = Redis,
        pv_username = ''default'', pv_password = redis_password, pv_db_name = None,
        pv_cpu_limit = cpu_limit, pv_memory_limit_mb = memory_limit_mb, pv_port = u16_as_i32 redis_port,
        pv_fqdn = redis_fqdn, pv_user_id = au_id u, pv_name = redis_name, pv_plan_id = plan_template_id\<rparr>))
     (return_app (bundle_view bundle_row (cbr_name req)
        (created_view pg_instance pg_name Postgresql Provisioning pg_fqdn pg_username pg_password
          (Some pg_db_name) ssl_mode cpu_limit memory_limit_mb (Some (bu_id bundle_row)) plan_template_id)
        (created_view redis_instance redis_name Redis Provisioning redis_fqdn ''default'' redis_password
          None ssl_mode cpu_limit memory_limit_mb (Some (bu_id bundle_row)) plan_template_id))))))))))))))))))))))"

section \<open>Provisioning in the background\<close>

definition connect_optional :: "docker_server option \<Rightarrow> docker_client option app" where
  "connect_optional server = (case server of
      None \<Rightarrow> return_app None
    | Some srv \<Rightarrow> bind_app (connect_to_server srv) (\<lambda>c. return_app (Some c)))"

definition server_is_remote :: "docker_server option \<Rightarrow> bool" where
  "server_is_remote server = (case server of None \<Rightarrow> False | Some srv \<Rightarrow> is_remote_server (ds_url srv))"

definition docker_or_fallback :: "docker_client option \<Rightarrow> docker_client app" where
  "docker_or_fallback target = with_docker target return_app"

definition create_container_of :: "docker_client option \<Rightarrow> provision_task \<Rightarrow> provision_result app" where
  \<comment> \<open>\<open>create_database_sni\<close> with the arguments both tasks pass\<close>
  "create_container_of target t =
     (let is_remote = server_is_remote (pv_server t) in
      create_database_sni target (pv_db_id t) (pv_db_type t) (pv_username t) (pv_password t)
        (unwrap_or (pv_db_name t) ''default'') (pv_cpu_limit t) (pv_memory_limit_mb t) is_remote
        (if is_remote then Some (as_u16 (pv_port t)) else None)
        (Option.bind (pv_server t) (\<lambda>srv. extract_server_ip (ds_url srv))))"

definition route_database :: "provision_task \<Rightarrow> provision_result \<Rightarrow> cert_pair \<Rightarrow> unit app" where
  \<comment> \<open>the Traefik configuration of a provisioned database\<close>
  "route_database t res cert = bind_app (asks lib) (\<lambda>l.
     TraefikService_generate_sni_config (l_uuid_str l (pv_db_id t)) (pv_db_type t) (pv_fqdn t)
       (cert_pem cert) (key_pem cert)
       (compute_backend_address l (pv_db_id t) (pv_db_type t) (pv_server t) (pvr_exposed_port res)))"

definition mark_provisioned :: "provision_task \<Rightarrow> provision_result \<Rightarrow> cert_pair \<Rightarrow> unit app" where
  "mark_provisioned t res cert =
     DatabaseRepository_update_provisioned (pv_db_id t) (pvr_container_id res) (pvr_network_id res)
       (Some (cert_pem cert))"

definition record_start :: "provision_task \<Rightarrow> unit app" where
  "record_start t =
     ignore (BillingRepository_record_usage_event (pv_db_id t) ''start'' (pv_user_id t) (pv_name t) (pv_plan_id t))
       (return_app ())"

definition provision_database :: "provision_task \<Rightarrow> unit app" where
  \<comment> \<open>the inner \<open>async\<close> block of the task\<close>
  "provision_database t =
     bind_app (connect_optional (pv_server t)) (\<lambda>target.
     bind_app (TlsService_generate_cert_for_subdomain (pv_fqdn t)) (\<lambda>cert.
     bind_app (create_container_of target t) (\<lambda>res.
     bind_app (docker_or_fallback target) (\<lambda>docker.
     then_app (wait_for_healthy docker (pvr_container_id res) 90)
     (then_app (route_database t res cert)
     (then_app (mark_provisioned t res cert)
     (then_app (record_start t)
     (send_event (status_event (pv_user_id t) (pv_db_id t) Running)))))))))"

definition mark_failed :: "provision_task \<Rightarrow> unit app" where
  "mark_failed t =
     ignore (DatabaseRepository_update_status (pv_db_id t) Error) (return_app ())"

definition run_provision_database :: "provision_task \<Rightarrow> unit app" where
  "run_provision_database t =
     bind_app (attempt (provision_database t)) (\<lambda>r. case r of
       Inr _ \<Rightarrow> return_app ()
     | Inl _ \<Rightarrow>
         then_app (mark_failed t)
         (then_app (send_event (status_event (pv_user_id t) (pv_db_id t) Error))
         (release_port (as_u16 (pv_port t)))))"

definition provision_bundle :: "uuid \<Rightarrow> provision_task \<Rightarrow> provision_task \<Rightarrow> unit app" where
  "provision_bundle bundle_id pg_task redis_task =
     bind_app (connect_optional (pv_server pg_task)) (\<lambda>target.
     bind_app (TlsService_generate_cert_for_subdomain (pv_fqdn pg_task)) (\<lambda>pg_cert.
     bind_app (TlsService_generate_cert_for_subdomain (pv_fqdn redis_task)) (\<lambda>redis_cert.
     bind_app (create_container_of target pg_task) (\<lambda>pg_res.
     bind_app (create_container_of target redis_task) (\<lambda>redis_res.
     bind_app (docker_or_fallback target) (\<lambda>docker.
     then_app (wait_for_healthy docker (pvr_container_id pg_res) 90)
     (then_app (wait_for_healthy docker (pvr_container_id redis_res) 90)
     (then_app (DatabaseRepository_update_bundle_network bundle_id (pvr_network_id pg_res))
     (then_app (route_database pg_task pg_res pg_cert)
     (then_app (route_database redis_task redis_res redis_cert)
     (then_app (mark_provisioned pg_task pg_res pg_cert)
     (then_app (mark_provisioned redis_task redis_res redis_cert)
     (then_app (record_start pg_task)
     (then_app (record_start redis_task)
     (then_app (send_event (status_event (pv_user_id pg_task) (pv_db_id pg_task) Running))
     (send_event (status_event (pv_user_id redis_task) (pv_db_id redis_task) Running)))))))))))))))))"

definition run_provision_bundle :: "uuid \<Rightarrow> provision_task \<Rightarrow> provision_task \<Rightarrow> unit app" where
  "run_provision_bundle bundle_id pg_task redis_task =
     bind_app (attempt (provision_bundle bundle_id pg_task redis_task)) (\<lambda>r. case r of
       Inr _ \<Rightarrow> return_app ()
     | Inl _ \<Rightarrow>
         then_app (mark_failed pg_task)
         (then_app (mark_failed redis_task)
         (then_app (send_event (status_event (pv_user_id pg_task) (pv_db_id pg_task) Error))
         (then_app (send_event (status_event (pv_user_id redis_task) (pv_db_id redis_task) Error))
         (then_app (release_port (as_u16 (pv_port pg_task)))
         (release_port (as_u16 (pv_port redis_task))))))))"

section \<open>Removing in the background\<close>

definition remove_instance :: "docker_client option \<Rightarrow> database_instance \<Rightarrow> unit app" where
  \<comment> \<open>the container and its network, when there are any; failures are logged\<close>
  "remove_instance target inst = (case (di_container_id inst, di_network_id inst) of
      (Some container_id, Some network_id) \<Rightarrow>
        ignore (remove_container target container_id network_id) (return_app ())
    | _ \<Rightarrow> return_app ())"

definition run_cleanup_database :: "database_instance \<Rightarrow> docker_client option \<Rightarrow> bool \<Rightarrow> unit app" where
  "run_cleanup_database inst target announce =
     then_app (remove_instance target inst)
     (bind_app (asks (\<lambda>e. l_uuid_str (lib e) (di_id inst))) (\<lambda>id_str.
     ignore (TraefikService_remove_config id_str)
     (ignore (DatabaseRepository_delete (di_id inst))
     (then_app (release_port (as_u16 (di_port inst)))
     (if announce
      then send_event \<lparr>ev_user_id = di_user_id inst, ev_database_id = di_id inst,
             ev_event_type = ''deleted'', ev_status = None\<rparr>
      else return_app ())))))"

section \<open>Cloning from a backup\<close>

definition clone_database :: "claims option \<Rightarrow> uuid \<Rightarrow> uuid \<Rightarrow> string \<Rightarrow> (uuid \<times> string) app" where
  \<comment> \<open>the first argument is the \<open>Claims\<close> of the request's extensions; the name is not validated\<close>
  "clone_database extension db_id backup_id name =
     bind_app (ok_or extension (Internal ''Missing request extension'')) (\<lambda>cl.
     let user_id = cl_sub cl in
     bind_app (DatabaseRepository_find_by_id db_id) (\<lambda>found.
     bind_app (ok_or found (NotFound ''Source database not found'')) (\<lambda>source.
     then_app (require (di_user_id source = user_id) Forbidden)
     (bind_app (DatabaseRepository_find_backup_by_id backup_id) (\<lambda>found.
     bind_app (ok_or found (NotFound ''Backup not found'')) (\<lambda>backup.
     then_app (require (br_database_id backup = db_id) (BadRequest ''Backup does not belong to this database''))
     (bind_app (DatabaseRepository_count_by_user user_id) (\<lambda>count.
     bind_app (asks cfg) (\<lambda>cf.
     then_app (require (count < max_databases_per_user cf) (BadRequest ''Maximum databases limit reached''))
     (bind_app allocate_port (\<lambda>port.
     bind_app (random_string 24) (\<lambda>password.
     bind_app (map_err (encrypt password) (Internal ''Encryption failed'')) (\<lambda>enc_password.
     bind_app (new_subdomain name) (\<lambda>subdomain.
     bind_app (DatabaseRepository_create user_id name (di_db_type source) (platform_ip cf)
         (u16_as_i32 port) (di_username source) enc_password (di_database_name source)
         (di_cpu_limit source) (di_memory_limit_mb source) None (di_tls_mode source)
         (di_plan_template_id source) (di_docker_server_id source) subdomain ''sni'') (\<lambda>new_db.
     then_app (spawn (CloneDatabase
       \<lparr>ct_source = source, ct_new_id = di_id new_db, ct_user_id = user_id, ct_name = name,
        ct_password = password, ct_port = port, ct_subdomain = subdomain,
        ct_filename = br_filename backup\<rparr>))
     (return_app (di_id new_db, name)))))))))))))))))"

definition find_server_or_none :: "uuid option \<Rightarrow> docker_server option app" where
  \<comment> \<open>\<open>.await.ok().flatten()\<close>\<close>
  "find_server_or_none server_id = (case server_id of
      None \<Rightarrow> return_app None
    | Some sid \<Rightarrow> bind_app (attempt (DockerServerRepository_find_by_id sid)) (\<lambda>r.
        return_app (case r of Inl _ \<Rightarrow> None | Inr found \<Rightarrow> found)))"

definition restore_clone :: "docker_client option \<Rightarrow> clone_task \<Rightarrow> string \<Rightarrow> string \<Rightarrow> unit app" where
  "restore_clone target t container_id backup_path =
     (let source = ct_source t; db_name = unwrap_or (di_database_name source) (ct_name t) in
      case di_db_type source of
        Postgresql \<Rightarrow> restore_postgres target container_id (di_username source) db_name backup_path
      | Mariadb \<Rightarrow> restore_mariadb target container_id (di_username source) (ct_password t) db_name backup_path
      | Redis \<Rightarrow> restore_redis target container_id backup_path)"

definition run_clone_database :: "clone_task \<Rightarrow> unit app" where
  "run_clone_database t =
     (let source = ct_source t; failed = ignore (DatabaseRepository_update_status (ct_new_id t) Error) (return_app ())
      in bind_app (find_server_or_none (di_docker_server_id source)) (\<lambda>target_server.
     bind_app (case target_server of
         None \<Rightarrow> return_app None
       | Some srv \<Rightarrow> bind_app (attempt (connect_to_server srv)) (\<lambda>r.
           return_app (case r of Inl _ \<Rightarrow> None | Inr c \<Rightarrow> Some c))) (\<lambda>target.
     let is_remote = is_remote_server (case target_server of None \<Rightarrow> ''local'' | Some srv \<Rightarrow> ds_url srv) in
     bind_app (attempt (create_database_sni target (ct_new_id t) (di_db_type source) (di_username source)
         (ct_password t) (unwrap_or (di_database_name source) (ct_name t)) (di_cpu_limit source)
         (di_memory_limit_mb source) is_remote (if is_remote then Some (ct_port t) else None) None)) (\<lambda>r.
     case r of
       Inl _ \<Rightarrow> failed
     | Inr res \<Rightarrow>
         bind_app (asks (\<lambda>e. (cfg e, lib e))) (\<lambda>(cf, l).
         let fqdn = subdomain_fqdn (ct_subdomain t) (platform_domain cf);
             backup_path = backup_dir cf @ ''/'' @ ct_filename t
         in bind_app (attempt (TlsService_generate_cert_for_subdomain fqdn)) (\<lambda>r.
         case r of
           Inl _ \<Rightarrow> failed
         | Inr cert \<Rightarrow>
             ignore (TraefikService_generate_sni_config (l_uuid_str l (ct_new_id t)) (di_db_type source) fqdn
                 (cert_pem cert) (key_pem cert)
                 (compute_backend_address l (ct_new_id t) (di_db_type source) target_server (pvr_exposed_port res)))
             (ignore (DatabaseRepository_update_provisioned (ct_new_id t) (pvr_container_id res)
                 (pvr_network_id res) (Some (cert_pem cert)))
             (bind_app (docker_or_fallback target) (\<lambda>docker.
             ignore (wait_for_healthy docker (pvr_container_id res) 60)
             (ignore (restore_clone target t (pvr_container_id res) backup_path)
             (ignore (BillingRepository_record_usage_event (ct_new_id t) ''start'' (ct_user_id t) (ct_name t)
                 (di_plan_template_id source))
             (send_event \<lparr>ev_user_id = ct_user_id t, ev_database_id = ct_new_id t,
                ev_event_type = ''created'', ev_status = Some Running\<rparr>))))))))))))"

end
