(* ===== verification/Database_Handlers.thy ===== *)
theory Database_Handlers
  imports Database_Service
begin

text \<open>
  \<open>src/api/src/handlers/databases.rs\<close>, second part: what the owner of a database does with it
  (lifecycle, users, passwords, backups, statistics, schedules, export, scaling, favourites,
  renaming, events), and \<open>src/api/src/handlers/migrations.rs\<close>.
\<close>

section \<open>Events\<close>

definition database_events :: "string \<Rightarrow> uuid app" where
  \<comment> \<open>the token of the query; the user whose events the stream carries\<close>
  "database_events tok =
     bind_app (attempt (decode_token tok)) (\<lambda>r.
       case r of Inl _ \<Rightarrow> throw Unauthorized | Inr cl \<Rightarrow> return_app (cl_sub cl))"

definition sse_stream :: "uuid \<Rightarrow> db_event list \<Rightarrow> db_event list" where
  \<comment> \<open>what the stream yields of the events broadcast after it subscribed\<close>
  "sse_stream user_id evs = filter (\<lambda>ev. ev_user_id ev = user_id) evs"

section \<open>Lifecycle\<close>

definition container_action_handler :: "auth_user \<Rightarrow> uuid \<Rightarrow> container_action \<Rightarrow> unit app" where
  "container_action_handler u i action =
     bind_app (owned_database u i) (\<lambda>inst.
     bind_app (ok_or (di_container_id inst) (BadRequest ''Container not provisioned yet'')) (\<lambda>container_id.
     bind_app (resolve_docker_for_instance inst) (\<lambda>target.
     bind_app (docker_or_fallback target) (\<lambda>docker.
     let record = (\<lambda>ty. ignore (BillingRepository_record_usage_event i ty (di_user_id inst) (di_name inst)
             (di_plan_template_id inst)) (return_app ()))
     in bind_app (case action of
         Start \<Rightarrow>
           then_app (start_container target container_id)
           (then_app (wait_for_healthy docker container_id 60)
           (then_app (DatabaseRepository_update_status i Running)
           (then_app (record ''start'') (return_app Running))))
       | Stop \<Rightarrow>
           then_app (stop_container target container_id)
           (then_app (DatabaseRepository_update_status i Stopped)
           (then_app (record ''stop'') (return_app Stopped)))
       | Restart \<Rightarrow>
           then_app (restart_container target container_id)
           (then_app (wait_for_healthy docker container_id 60)
           (then_app (DatabaseRepository_update_status i Running) (return_app Running)))) (\<lambda>new_status.
     send_event (status_event (di_user_id inst) i new_status))))))"

definition detach_from_networks :: "docker_client option \<Rightarrow> database_instance \<Rightarrow> unit app" where
  "detach_from_networks target inst = (case di_container_id inst of
      None \<Rightarrow> return_app ()
    | Some container_id \<Rightarrow>
        bind_app (attempt (PrivateNetworkRepository_find_networks_for_database (di_id inst))) (\<lambda>r.
          case r of
            Inl _ \<Rightarrow> return_app ()
          | Inr networks \<Rightarrow> for_each networks (\<lambda>net.
              case pn_docker_network_id net of
                None \<Rightarrow> return_app ()
              | Some docker_net_id \<Rightarrow>
                  ignore (detach_container_from_network target container_id docker_net_id) (return_app ()))))"

definition delete_database :: "auth_user \<Rightarrow> uuid \<Rightarrow> unit app" where
  "delete_database u i =
     bind_app (owned_database u i) (\<lambda>inst.
     ignore (BillingRepository_record_usage_event i ''stop'' (di_user_id inst) (di_name inst)
         (di_plan_template_id inst))
     (then_app (DatabaseRepository_update_status i Deleting)
     (bind_app (resolve_docker_for_instance inst) (\<lambda>target.
     then_app (detach_from_networks target inst)
     (then_app (send_event (status_event (di_user_id inst) i Deleting))
     (spawn (CleanupDatabase inst target True)))))))"

definition list_databases :: "auth_user \<Rightarrow> database_response list app" where
  "list_databases u =
     bind_app (DatabaseRepository_find_by_user (au_id u)) (\<lambda>instances.
       fold_app instances [] (\<lambda>inst responses.
         bind_app (view_of inst) (\<lambda>r. return_app (responses @ [r]))))"

definition get_database :: "auth_user \<Rightarrow> uuid \<Rightarrow> database_response app" where
  "get_database u i = bind_app (owned_database u i) view_of"

definition get_ca_cert :: "auth_user \<Rightarrow> string app" where
  "get_ca_cert u = TlsService_get_ca_cert"

section \<open>Users of a database\<close>

definition list_database_users :: "auth_user \<Rightarrow> uuid \<Rightarrow> database_user_list_item list app" where
  "list_database_users u i =
     bind_app (owned_database u i) (\<lambda>_.
     bind_app (DatabaseRepository_find_database_users i) (\<lambda>rows.
     return_app (map (\<lambda>x. \<lparr>dul_id = du_id x, dul_database_id = du_database_id x,
       dul_username = du_username x, dul_permission = du_permission x,
       dul_created_at = du_created_at x\<rparr>) rows)))"

definition require_running :: "database_instance \<Rightarrow> string \<Rightarrow> unit app" where
  "require_running inst msg = require (di_status inst = Running) (BadRequest msg)"

definition create_database_user ::
  "auth_user \<Rightarrow> uuid \<Rightarrow> create_database_user_request \<Rightarrow> database_user_response app" where
  "create_database_user u i req =
     then_app (lift_result (case CreateDatabaseUserRequest_validate req of
         Inl er \<Rightarrow> Inl (BadRequest er) | Inr _ \<Rightarrow> Inr ()))
     (bind_app (owned_database u i) (\<lambda>inst.
     then_app (require_running inst ''Database must be running to create users'')
     (bind_app (ok_or (di_container_id inst) (BadRequest ''Container not provisioned'')) (\<lambda>container_id.
     bind_app (resolve_docker_for_instance inst) (\<lambda>target.
     bind_app (random_string 32) (\<lambda>password.
     bind_app (encrypt password) (\<lambda>password_encrypted.
     bind_app (decrypt (di_password_encrypted inst)) (\<lambda>owner_password.
     then_app (case di_db_type inst of
         Postgresql \<Rightarrow>
           bind_app (ok_or (di_database_name inst) (Internal ''PG instance missing database_name'')) (\<lambda>db_name.
             create_pg_user target container_id (di_username inst) db_name (cdu_username req) password
               (cdu_permission req))
       | Redis \<Rightarrow>
           create_redis_user target container_id owner_password (cdu_username req) password (cdu_permission req)
       | Mariadb \<Rightarrow>
           bind_app (ok_or (di_database_name inst) (Internal ''MariaDB instance missing database_name'')) (\<lambda>db_name.
             create_mariadb_user target container_id owner_password db_name (cdu_username req) password
               (cdu_permission req)))
     (bind_app (DatabaseRepository_create_database_user i (cdu_username req) password_encrypted
         (cdu_permission req)) (\<lambda>row.
     return_app \<lparr>dur_id = du_id row, dur_database_id = du_database_id row, dur_username = du_username row,
       dur_password = password, dur_permission = du_permission row, dur_created_at = du_created_at row\<rparr>)))))))))) "

definition user_of_database :: "uuid \<Rightarrow> uuid \<Rightarrow> database_user app" where
  "user_of_database db_id user_id =
     bind_app (DatabaseRepository_find_database_user_by_id user_id) (\<lambda>found.
     bind_app (ok_or found (NotFound ''Database user not found'')) (\<lambda>row.
     then_app (require (du_database_id row = db_id) (NotFound ''Database user not found''))
     (return_app row)))"

definition delete_database_user :: "auth_user \<Rightarrow> uuid \<Rightarrow> uuid \<Rightarrow> unit app" where
  "delete_database_user u db_id user_id =
     bind_app (owned_database u db_id) (\<lambda>inst.
     bind_app (user_of_database db_id user_id) (\<lambda>row.
     then_app (if di_status inst \<noteq> Running then return_app ()
       else let container_id = unwrap_or (di_container_id inst) [] in
         bind_app (decrypt (di_password_encrypted inst)) (\<lambda>owner_password.
         bind_app (resolve_docker_for_instance inst) (\<lambda>target.
         ignore (case di_db_type inst of
             Postgresql \<Rightarrow> remove_pg_user target container_id (di_username inst)
               (unwrap_or (di_database_name inst) ''postgres'') (du_username row)
           | Redis \<Rightarrow> remove_redis_user target container_id owner_password (du_username row)
           | Mariadb \<Rightarrow> remove_mariadb_user target container_id owner_password (du_username row))
         (return_app ()))))
     (DatabaseRepository_delete_database_user user_id)))"

definition rotate_user_password :: "auth_user \<Rightarrow> uuid \<Rightarrow> uuid \<Rightarrow> string app" where
  "rotate_user_password u db_id user_id =
     bind_app (owned_database u db_id) (\<lambda>inst.
     then_app (require_running inst ''Database must be running to rotate passwords'')
     (bind_app (user_of_database db_id user_id) (\<lambda>row.
     let container_id = unwrap_or (di_container_id inst) [] in
     bind_app (decrypt (di_password_encrypted inst)) (\<lambda>owner_password.
     bind_app (random_string 32) (\<lambda>new_password.
     bind_app (resolve_docker_for_instance inst) (\<lambda>target.
     then_app (case di_db_type inst of
         Postgresql \<Rightarrow> rotate_pg_password target container_id (di_username inst)
           (unwrap_or (di_database_name inst) ''postgres'') (du_username row) new_password
       | Redis \<Rightarrow> rotate_redis_password target container_id owner_password (du_username row) new_password
       | Mariadb \<Rightarrow> rotate_mariadb_password target container_id owner_password (du_username row) new_password)
     (bind_app (encrypt new_password) (\<lambda>new_encrypted.
     then_app (DatabaseRepository_update_database_user_password user_id new_encrypted)
     (return_app new_password)))))))))"

definition rotate_owner_password :: "auth_user \<Rightarrow> uuid \<Rightarrow> string app" where
  "rotate_owner_password u i =
     bind_app (owned_database u i) (\<lambda>inst.
     then_app (require_running inst ''Database must be running to rotate passwords'')
     (let container_id = unwrap_or (di_container_id inst) [] in
     bind_app (decrypt (di_password_encrypted inst)) (\<lambda>old_password.
     bind_app (random_string 32) (\<lambda>new_password.
     bind_app (resolve_docker_for_instance inst) (\<lambda>target.
     then_app (case di_db_type inst of
         Postgresql \<Rightarrow> rotate_pg_password target container_id (di_username inst)
           (unwrap_or (di_database_name inst) ''postgres'') (di_username inst) new_password
       | Redis \<Rightarrow>
           then_app (exec_in_container target container_id
             (redis_cli old_password [''CONFIG SET requirepass '' @ new_password]))
           (run_in_container target container_id (redis_cli new_password [''CONFIG'', ''REWRITE'']))
       | Mariadb \<Rightarrow> rotate_mariadb_password target container_id old_password (di_username inst) new_password)
     (bind_app (encrypt new_password) (\<lambda>new_encrypted.
     then_app (DatabaseRepository_update_owner_password i new_encrypted)
     (return_app new_password))))))))"

section \<open>Backups\<close>

definition create_backup :: "auth_user \<Rightarrow> uuid \<Rightarrow> backup_record app" where
  "create_backup u i =
     bind_app (owned_database u i) (\<lambda>inst.
     then_app (require_running inst ''Database must be running to create backups'')
     (bind_app (ok_or (di_container_id inst) (BadRequest ''Container not provisioned'')) (\<lambda>container_id.
     bind_app (resolve_docker_for_instance inst) (\<lambda>target.
     bind_app (timestamped (case di_db_type inst of
         Postgresql \<Rightarrow> ''.dump'' | Redis \<Rightarrow> ''.rdb'' | Mariadb \<Rightarrow> ''.sql'')) (\<lambda>stamp.
     let filename = di_name inst @ ''_'' @ DatabaseInstance_db_type_str (di_db_type inst) @ ''_'' @ stamp in
     bind_app (asks (\<lambda>e. backup_dir (cfg e))) (\<lambda>dir.
     bind_app (decrypt (di_password_encrypted inst)) (\<lambda>owner_password.
     bind_app (case di_db_type inst of
         Postgresql \<Rightarrow> backup_postgres target container_id (di_username inst)
           (unwrap_or (di_database_name inst) ''postgres'') dir filename
       | Redis \<Rightarrow> backup_redis target container_id owner_password dir filename
       | Mariadb \<Rightarrow> backup_mariadb target container_id (di_username inst) owner_password
           (unwrap_or (di_database_name inst) ''default'') dir filename) (\<lambda>size_bytes.
     DatabaseRepository_create_backup i filename (wrap_i64 (int size_bytes))))))))))"

definition list_backups :: "auth_user \<Rightarrow> uuid \<Rightarrow> backup_record list app" where
  "list_backups u i =
     bind_app (owned_database u i) (\<lambda>_. DatabaseRepository_find_backups_by_database i)"

definition path_components :: "string \<Rightarrow> string list" where
  \<comment> \<open>\<open>Path::components\<close> after the root: \<open>.\<close> and repeated separators are dropped, \<open>..\<close> is kept\<close>
  "path_components path = filter (\<lambda>c. c \<noteq> [] \<and> c \<noteq> ''.'') (str_split path CHR ''/'')"

definition path_starts_with :: "string \<Rightarrow> string \<Rightarrow> bool" where
  \<comment> \<open>\<open>Path::starts_with\<close>\<close>
  "path_starts_with path base \<longleftrightarrow>
     str_starts_with path ''/'' = str_starts_with base ''/'' \<and>
     take (length (path_components base)) (path_components path) = path_components base"

definition backup_path_guard :: "string \<Rightarrow> string \<Rightarrow> string option" where
  \<comment> \<open>the file \<open>delete_backup\<close> removes, unless its check for path traversal stops it\<close>
  "backup_path_guard dir filename =
     (let path = path_join dir filename in if path_starts_with path dir then Some path else None)"

definition backup_of_database :: "uuid \<Rightarrow> uuid \<Rightarrow> backup_record app" where
  "backup_of_database db_id backup_id =
     bind_app (DatabaseRepository_find_backup_by_id backup_id) (\<lambda>found.
     bind_app (ok_or found (NotFound ''Backup not found'')) (\<lambda>backup.
     then_app (require (br_database_id backup = db_id) (NotFound ''Backup not found''))
     (return_app backup)))"

definition delete_backup :: "auth_user \<Rightarrow> uuid \<Rightarrow> uuid \<Rightarrow> unit app" where
  "delete_backup u db_id backup_id =
     bind_app (owned_database u db_id) (\<lambda>_.
     bind_app (backup_of_database db_id backup_id) (\<lambda>backup.
     bind_app (asks (\<lambda>e. unwrap_or (l_canonicalize (lib e) (backup_dir (cfg e))) (backup_dir (cfg e)))) (\<lambda>dir.
     then_app (case backup_path_guard dir (br_filename backup) of
         None \<Rightarrow> return_app ()
       | Some path \<Rightarrow> ignore (fs_remove_file path []) (return_app ()))
     (DatabaseRepository_delete_backup backup_id))))"

definition export_database :: "auth_user \<Rightarrow> uuid \<Rightarrow> (string \<times> nat) app" where
  "export_database u i =
     bind_app (owned_database u i) (\<lambda>inst.
     bind_app (ok_or (di_container_id inst) (BadRequest ''Container not provisioned'')) (\<lambda>container_id.
     bind_app (resolve_docker_for_instance inst) (\<lambda>target.
     bind_app (map_err (decrypt (di_password_encrypted inst)) (Internal ''Decryption failed'')) (\<lambda>password.
     bind_app (timestamped ''.sql'') (\<lambda>stamp.
     let filename = di_name inst @ ''_'' @ stamp in
     bind_app (asks (\<lambda>e. backup_dir (cfg e))) (\<lambda>dir.
     bind_app (backup_instance target inst container_id password dir filename) (\<lambda>size_bytes.
     return_app (filename, size_bytes))))))))"

definition export_filename_ok :: "libraries \<Rightarrow> string \<Rightarrow> bool" where
  "export_filename_ok l filename \<longleftrightarrow>
     \<not> str_contains filename ''..'' \<and> CHR ''/'' \<notin> set filename \<and> CHR 0x5C \<notin> set filename \<and>
     list_all (\<lambda>c. char_is_alphanumeric l c \<or> c \<in> {''.'', ''_'', ''-''}) (utf8_chars filename)"

definition download_export :: "auth_user \<Rightarrow> uuid \<Rightarrow> string \<Rightarrow> string app" where
  "download_export u i filename =
     bind_app (owned_database u i) (\<lambda>_.
     bind_app (asks lib) (\<lambda>l.
     then_app (require (export_filename_ok l filename) (BadRequest ''Invalid filename''))
     (bind_app (asks (\<lambda>e. backup_dir (cfg e))) (\<lambda>dir.
     fs_read (dir @ ''/'' @ filename) (NotFound ''Export file not found'')))))"

section \<open>Backup schedules\<close>

definition create_backup_schedule ::
  "auth_user \<Rightarrow> uuid \<Rightarrow> create_backup_schedule_request \<Rightarrow> backup_schedule app" where
  "create_backup_schedule u i req =
     bind_app (owned_database u i) (\<lambda>_.
     BackupScheduleRepository_create i (unwrap_or (cbs_interval_hours req) 24)
       (unwrap_or (cbs_retention_count req) 7) (unwrap_or (cbs_enabled req) True))"

definition get_backup_schedule :: "auth_user \<Rightarrow> uuid \<Rightarrow> backup_schedule option app" where
  "get_backup_schedule u i =
     bind_app (owned_database u i) (\<lambda>_. BackupScheduleRepository_find_by_database i)"

definition update_backup_schedule ::
  "auth_user \<Rightarrow> uuid \<Rightarrow> create_backup_schedule_request \<Rightarrow> backup_schedule app" where
  \<comment> \<open>the request has the fields of the one that creates\<close>
  "update_backup_schedule u i req =
     bind_app (owned_database u i) (\<lambda>_.
     BackupScheduleRepository_update i (cbs_interval_hours req) (cbs_retention_count req) (cbs_enabled req))"

definition delete_backup_schedule :: "auth_user \<Rightarrow> uuid \<Rightarrow> unit app" where
  "delete_backup_schedule u i =
     bind_app (owned_database u i) (\<lambda>_. BackupScheduleRepository_delete i)"

section \<open>Statistics\<close>

record stats_view =
  st_status :: db_status
  st_cpu_percent :: f64
  st_memory_usage :: i64
  st_memory_limit :: i64
  st_disk_usage :: "nat option" \<comment> \<open>absent when the database does not run\<close>

definition one_shot_stats :: "docker_client \<Rightarrow> string \<Rightarrow> (f64 \<times> i64 \<times> i64) app" where
  "one_shot_stats docker container_id =
     bind_app (attempt (docker_request docker (ContainerStatsOnce container_id))) (\<lambda>r.
       return_app (case r of
         Inr reply \<Rightarrow> (case rp_stats reply of
             Some stats \<Rightarrow> (let st = container_stats_of stats in
               (cst_cpu_percent st, wrap_i64 (int (cst_memory_usage st)), wrap_i64 (int (cst_memory_limit st))))
           | None \<Rightarrow> (0, 0, 0))
       | Inl _ \<Rightarrow> (0, 0, 0)))"

definition database_stats :: "auth_user \<Rightarrow> uuid \<Rightarrow> stats_view app" where
  "database_stats u i =
     bind_app (owned_database u i) (\<lambda>inst.
     bind_app (ok_or (di_container_id inst) (BadRequest ''Container not provisioned yet'')) (\<lambda>container_id.
     if di_status inst \<noteq> Running
     then return_app \<lparr>st_status = di_status inst, st_cpu_percent = 0, st_memory_usage = 0,
       st_memory_limit = 0, st_disk_usage = None\<rparr>
     else bind_app (resolve_docker_for_instance inst) (\<lambda>target.
     bind_app (case target of
         Some d \<Rightarrow> return_app d
       | None \<Rightarrow> bind_app (asks (\<lambda>e. docker_host (cfg e))) create_docker_client) (\<lambda>docker.
     bind_app (one_shot_stats docker container_id) (\<lambda>(cpu, used, limit).
     bind_app (attempt (get_disk_usage target container_id (di_db_type inst))) (\<lambda>disk.
     return_app \<lparr>st_status = di_status inst, st_cpu_percent = cpu, st_memory_usage = used,
       st_memory_limit = limit, st_disk_usage = Some (case disk of Inl _ \<Rightarrow> 0 | Inr n \<Rightarrow> n)\<rparr>))))))"

definition list_available_servers :: "auth_user \<Rightarrow> (uuid \<times> string \<times> string option) list app" where
  "list_available_servers u =
     bind_app DockerServerRepository_list_active_client (\<lambda>servers.
     return_app (map (\<lambda>x. (ds_id x, ds_name x, ds_region x)) servers))"

section \<open>Scaling, favourites, renaming\<close>

definition set_plan :: "uuid \<Rightarrow> uuid \<Rightarrow> plan_template \<Rightarrow> unit app" where
  "set_plan i plan_template_id new_plan =
     run_sql (\<lambda>_ now d.
       if i \<in> ids di_id (t_databases d) \<and> plan_template_id \<notin> ids pt_id (t_plans d)
       then Inl (ForeignKeyViolation ''database_instances_plan_template_id_fkey'')
       else Inr ((), update_databases (\<lambda>x. di_id x = i)
         (\<lambda>x. x\<lparr>di_plan_template_id := Some plan_template_id, di_cpu_limit := pt_cpu_limit new_plan,
                di_memory_limit_mb := pt_memory_limit_mb new_plan, di_updated_at := now\<rparr>) d))"

definition scale_database :: "auth_user \<Rightarrow> uuid \<Rightarrow> uuid \<Rightarrow> unit app" where
  "scale_database u i plan_template_id =
     bind_app (owned_database u i) (\<lambda>inst.
     bind_app (ok_or (di_container_id inst) (BadRequest ''Container not provisioned'')) (\<lambda>container_id.
     bind_app (BillingRepository_get_plan_template plan_template_id) (\<lambda>found.
     bind_app (ok_or found (NotFound ''Plan not found'')) (\<lambda>new_plan.
     then_app (require (pt_db_type new_plan = di_db_type inst)
       (BadRequest ''Plan db_type does not match database type''))
     (then_app (require (pt_active new_plan) (BadRequest ''Plan is not active''))
     (bind_app (resolve_docker_for_instance inst) (\<lambda>target.
     then_app (update_container_resources target container_id (pt_cpu_limit new_plan)
       (pt_memory_limit_mb new_plan))
     (ignore (BillingRepository_record_usage_event i ''stop'' (au_id u) (di_name inst) (di_plan_template_id inst))
     (ignore (BillingRepository_record_usage_event i ''start'' (au_id u) (di_name inst) (Some plan_template_id))
     (set_plan i plan_template_id new_plan))))))))))"

definition add_favorite :: "auth_user \<Rightarrow> uuid \<Rightarrow> unit app" where
  "add_favorite u i = bind_app (owned_database u i) (\<lambda>_. FavoriteRepository_add (au_id u) i)"

definition remove_favorite :: "auth_user \<Rightarrow> uuid \<Rightarrow> unit app" where
  "remove_favorite u i = FavoriteRepository_remove (au_id u) i"

definition list_favorites :: "auth_user \<Rightarrow> uuid list app" where
  "list_favorites u = FavoriteRepository_list_by_user (au_id u)"

definition set_name :: "uuid \<Rightarrow> string \<Rightarrow> unit app" where
  "set_name i name =
     run_sql (\<lambda>_ now d.
       if \<not> fits 63 name then Inl (ValueTooLong ''database_instances'')
       else if list_ex (\<lambda>x. di_id x = i \<and> list_ex (\<lambda>y. di_id y \<noteq> i \<and> di_user_id y = di_user_id x \<and> di_name y = name)
                 (t_databases d)) (t_databases d)
       then Inl (UniqueViolation ''database_instances_user_id_name_key'')
       else Inr ((), update_databases (\<lambda>x. di_id x = i)
         (\<lambda>x. x\<lparr>di_name := name, di_updated_at := now\<rparr>) d))"

definition rename_database :: "auth_user \<Rightarrow> uuid \<Rightarrow> string \<Rightarrow> unit app" where
  "rename_database u i name =
     bind_app (owned_database u i) (\<lambda>_.
     then_app (require (name \<noteq> [] \<and> length name \<le> 63) (BadRequest ''Name must be 1-63 characters''))
     (set_name i name))"

section \<open>Migrations\<close>

record multipart_field =
  mf_name :: "string option"
  mf_file_name :: "string option"
  mf_bytes :: "string + string" \<comment> \<open>or what reading it reports\<close>

fun utf8_valid :: "string \<Rightarrow> bool" where
  \<comment> \<open>\<open>String::from_utf8\<close>: well-formed sequences, shortest forms, no surrogates\<close>
  "utf8_valid [] = True"
| "utf8_valid (a # rest) =
     (let n = (of_char a :: nat); cont = is_continuation; code = (\<lambda>c. of_char c :: nat) in
      if n < 128 then utf8_valid rest
      else if 0xC2 \<le> n \<and> n \<le> 0xDF then
        (case rest of b # r \<Rightarrow> cont b \<and> utf8_valid r | _ \<Rightarrow> False)
      else if 0xE0 \<le> n \<and> n \<le> 0xEF then
        (case rest of b # c # r \<Rightarrow> cont b \<and> cont c \<and> (n = 0xE0 \<longrightarrow> 0xA0 \<le> code b) \<and>
             (n = 0xED \<longrightarrow> code b < 0xA0) \<and> utf8_valid r
         | _ \<Rightarrow> False)
      else if 0xF0 \<le> n \<and> n \<le> 0xF4 then
        (case rest of b # c # d # r \<Rightarrow> cont b \<and> cont c \<and> cont d \<and> (n = 0xF0 \<longrightarrow> 0x90 \<le> code b) \<and>
             (n = 0xF4 \<longrightarrow> code b < 0x90) \<and> utf8_valid r
         | _ \<Rightarrow> False)
      else False)"

definition read_field :: "string + multipart_field \<Rightarrow> string \<times> string \<Rightarrow> app_error + (string \<times> string)" where
  \<comment> \<open>one round of the loop over the fields: file name and SQL text\<close>
  "read_field next acc = (case next of
     Inl e \<Rightarrow> Inl (BadRequest (''Multipart error: '' @ e))
   | Inr field \<Rightarrow>
     if unwrap_or (mf_name field) [] \<noteq> ''file'' then Inr acc
     else let filename = unwrap_or (mf_file_name field) ''migration.sql'' in
       if \<not> str_ends_with filename ''.sql'' then Inl (BadRequest ''Only .sql files accepted'')
       else (case mf_bytes field of
         Inl e \<Rightarrow> Inl (BadRequest (''Failed to read file: '' @ e))
       | Inr bytes \<Rightarrow>
         if length bytes > 10 * 1024 * 1024 then Inl (BadRequest ''File too large (max 10MB)'')
         else if \<not> utf8_valid bytes then Inl (BadRequest ''File must be valid UTF-8'')
         else Inr (filename, bytes)))"

definition upload_migration :: "auth_user \<Rightarrow> uuid \<Rightarrow> (string + multipart_field) list \<Rightarrow> migration_record app" where
  "upload_migration u db_id multipart =
     bind_app (owned_database u db_id) (\<lambda>inst.
     bind_app (ok_or (di_database_name inst)
       (BadRequest ''Migrations only supported for PostgreSQL databases'')) (\<lambda>database.
     bind_app (fold_app multipart ([], []) (\<lambda>field acc. lift_result (read_field field acc)))
       (\<lambda>(filename, sql_content).
     then_app (require (sql_content \<noteq> []) (BadRequest ''No SQL file provided''))
     (bind_app (asks (\<lambda>e. l_sha256_hex (lib e) sql_content)) (\<lambda>checksum.
     bind_app (decrypt (di_password_encrypted inst)) (\<lambda>password.
     then_app (MigrationService_execute_migration (di_host inst) (di_port inst) (di_username inst) password
       database sql_content)
     (MigrationService_record_migration db_id filename checksum)))))))"

definition list_migrations :: "auth_user \<Rightarrow> uuid \<Rightarrow> migration_record list app" where
  "list_migrations u db_id =
     bind_app (owned_database u db_id) (\<lambda>_. MigrationService_list_migrations db_id)"

end
