(* ===== verification/Network_Handlers.thy ===== *)
theory Network_Handlers
  imports Middleware Services
begin

text \<open>
  \<open>src/api/src/handlers/private_networks.rs\<close>: private networks, their members, the peerings of
  two networks, the firewall rules of a peering, and the background task that activates one.
\<close>

definition MAX_NETWORKS_PER_USER :: i64 where "MAX_NETWORKS_PER_USER = 10"
definition MAX_MEMBERS_PER_NETWORK :: i64 where "MAX_MEMBERS_PER_NETWORK = 20"
definition MAX_PEERINGS_PER_USER :: i64 where "MAX_PEERINGS_PER_USER = 10"
definition MAX_RULES_PER_PEERING :: i64 where "MAX_RULES_PER_PEERING = 20"

definition resolve_docker :: "uuid option \<Rightarrow> docker_client option app" where
  "resolve_docker server_id = resolve_docker_for_server ''Docker server not found'' server_id"

section \<open>Private networks\<close>

definition owned_network :: "auth_user \<Rightarrow> uuid \<Rightarrow> private_network app" where
  \<comment> \<open>the first lines of every handler of one network\<close>
  "owned_network u i =
     bind_app (PrivateNetworkRepository_find_by_id i) (\<lambda>found.
     bind_app (ok_or found (NotFound ''Network not found'')) (\<lambda>network.
     then_app (require (pn_user_id network = au_id u) Forbidden)
     (return_app network)))"

definition network_view :: "private_network \<Rightarrow> private_network_member_info list \<Rightarrow> private_network_response" where
  "network_view network members =
     \<lparr>pnr_id = pn_id network, pnr_name = pn_name network,
      pnr_docker_server_id = pn_docker_server_id network, pnr_subnet = pn_subnet network,
      pnr_gateway = pn_gateway network, pnr_members = members, pnr_created_at = pn_created_at network\<rparr>"

definition network_with_members :: "private_network \<Rightarrow> private_network_response app" where
  "network_with_members network =
     bind_app (PrivateNetworkRepository_find_members_with_db_info (pn_id network)) (\<lambda>members.
     return_app (network_view network members))"

definition create_network_handler :: "auth_user \<Rightarrow> string \<Rightarrow> private_network_response app" where
  "create_network_handler u requested_name =
     (let name = str_trim requested_name in
      then_app (require (name \<noteq> [] \<and> length name \<le> 63) (BadRequest ''Name must be 1-63 characters''))
      (bind_app (PrivateNetworkRepository_count_by_user (au_id u)) (\<lambda>count.
      then_app (require (count < MAX_NETWORKS_PER_USER) (BadRequest ''Maximum 10 networks per user''))
      (bind_app (PrivateNetworkRepository_create (au_id u) name) (\<lambda>network.
      return_app (network_view network []))))))"

definition collect :: "'x list \<Rightarrow> ('x \<Rightarrow> 'y app) \<Rightarrow> 'y list app" where
  "collect xs f = fold_app xs [] (\<lambda>x acc. bind_app (f x) (\<lambda>y. return_app (acc @ [y])))"

definition list_networks :: "auth_user \<Rightarrow> private_network_response list app" where
  "list_networks u =
     bind_app (PrivateNetworkRepository_find_by_user (au_id u)) (\<lambda>networks.
     collect networks network_with_members)"

definition get_network :: "auth_user \<Rightarrow> uuid \<Rightarrow> private_network_response app" where
  "get_network u i = bind_app (owned_network u i) network_with_members"

definition with_container :: "uuid \<Rightarrow> (string \<Rightarrow> unit app) \<Rightarrow> unit app" where
  \<comment> \<open>\<open>if let Ok(Some(db)) = ..find_by_id { if let Some(ref cid) = db.container_id {..} }\<close>\<close>
  "with_container database_id f =
     bind_app (attempt (DatabaseRepository_find_by_id database_id)) (\<lambda>r. case r of
       Inr (Some inst) \<Rightarrow> (case di_container_id inst of None \<Rightarrow> return_app () | Some cid \<Rightarrow> f cid)
     | _ \<Rightarrow> return_app ())"

definition detach_members :: "docker_client option \<Rightarrow> string \<Rightarrow> uuid \<Rightarrow> unit app" where
  "detach_members target docker_net_id net_id =
     bind_app (PrivateNetworkRepository_find_members_with_db_info net_id) (\<lambda>members.
     for_each members (\<lambda>m. with_container (pmi_database_id m) (\<lambda>cid.
       ignore (detach_container_from_network target cid docker_net_id) (return_app ()))))"

definition teardown_bridge :: "network_peering \<Rightarrow> string \<Rightarrow> uuid list \<Rightarrow> unit app" where
  \<comment> \<open>the rules, the members of the networks, the bridge\<close>
  "teardown_bridge peering bridge_id net_ids =
     bind_app (resolve_docker (np_docker_server_id peering)) (\<lambda>target.
     bind_app (asks (\<lambda>e. l_uuid_str (lib e) (np_id peering))) (\<lambda>id_str.
     ignore (remove_firewall_rules target id_str)
     (then_app (for_each net_ids (detach_members target bridge_id))
     (ignore (remove_private_network target bridge_id) (return_app ())))))"

definition delete_network :: "auth_user \<Rightarrow> uuid \<Rightarrow> unit app" where
  "delete_network u i =
     bind_app (owned_network u i) (\<lambda>network.
     bind_app (PrivateNetworkRepository_find_peerings_for_network i) (\<lambda>peerings.
     then_app (for_each peerings (\<lambda>peering.
        then_app (case np_docker_bridge_id peering of
            None \<Rightarrow> return_app ()
          | Some bridge_id \<Rightarrow> teardown_bridge peering bridge_id
              [i, if np_network_a_id peering = i then np_network_b_id peering else np_network_a_id peering])
        (PrivateNetworkRepository_delete_peering (np_id peering))))
     (then_app (case pn_docker_network_id network of
         None \<Rightarrow> return_app ()
       | Some docker_net_id \<Rightarrow>
           bind_app (resolve_docker (pn_docker_server_id network)) (\<lambda>target.
           then_app (detach_members target docker_net_id (pn_id network))
           (ignore (remove_private_network target docker_net_id) (return_app ()))))
     (PrivateNetworkRepository_delete i))))"

section \<open>Members\<close>

definition for_active_bridges :: "uuid \<Rightarrow> (string \<Rightarrow> unit app) \<Rightarrow> unit app" where
  "for_active_bridges network_id f =
     bind_app (PrivateNetworkRepository_find_peerings_for_network network_id) (\<lambda>peerings.
     for_each peerings (\<lambda>peering.
       if np_status peering = ''active''
       then (case np_docker_bridge_id peering of None \<Rightarrow> return_app () | Some bridge_id \<Rightarrow> f bridge_id)
       else return_app ()))"

definition adopt_server :: "private_network \<Rightarrow> database_instance \<Rightarrow> private_network app" where
  \<comment> \<open>a network without a server takes the one of its first database\<close>
  "adopt_server network inst =
     (case (pn_docker_server_id network, di_docker_server_id inst) of
        (None, Some server_id) \<Rightarrow>
          then_app (PrivateNetworkRepository_update_docker_server_id (pn_id network) server_id)
          (return_app (network\<lparr>pn_docker_server_id := Some server_id\<rparr>))
      | _ \<Rightarrow> return_app network)"

definition ensure_docker_network :: "docker_client option \<Rightarrow> private_network \<Rightarrow> (private_network \<times> string) app" where
  "ensure_docker_network target network = (case pn_docker_network_id network of
      Some docker_net_id \<Rightarrow> return_app (network, docker_net_id)
    | None \<Rightarrow>
        bind_app (asks (\<lambda>e. ''sb-pn-'' @ l_uuid_str (lib e) (pn_id network))) (\<lambda>net_name.
        bind_app (create_private_network target net_name) (\<lambda>(docker_net_id, subnet, gateway).
        then_app (PrivateNetworkRepository_update_docker_network_id (pn_id network) docker_net_id)
        (then_app (PrivateNetworkRepository_update_subnet_info (pn_id network) subnet gateway)
        (return_app (network\<lparr>pn_docker_network_id := Some docker_net_id, pn_subnet := subnet,
           pn_gateway := gateway\<rparr>, docker_net_id))))))"

definition join_network :: "private_network \<Rightarrow> database_instance \<Rightarrow> string \<Rightarrow> private_network_response app" where
  \<comment> \<open>after the checks: the server, the Docker network, the member, the active bridges\<close>
  "join_network network inst container_id =
     bind_app (adopt_server network inst) (\<lambda>network.
     bind_app (resolve_docker (pn_docker_server_id network)) (\<lambda>target.
     bind_app (ensure_docker_network target network) (\<lambda>(network, docker_net_id).
     then_app (attach_container_to_network target container_id docker_net_id)
     (bind_app (PrivateNetworkRepository_add_member (pn_id network) (di_id inst)) (\<lambda>_.
     then_app (for_active_bridges (pn_id network) (\<lambda>bridge_id.
         ignore (attach_container_to_network target container_id bridge_id) (return_app ())))
     (network_with_members network))))))"

definition attach_database :: "auth_user \<Rightarrow> uuid \<Rightarrow> uuid \<Rightarrow> private_network_response app" where
  "attach_database u network_id database_id =
     bind_app (owned_network u network_id) (\<lambda>network.
     bind_app (DatabaseRepository_find_by_id database_id) (\<lambda>found.
     bind_app (ok_or found (NotFound ''Database not found'')) (\<lambda>inst.
     then_app (require (di_user_id inst = au_id u) Forbidden)
     (then_app (require (di_status inst = Running) (BadRequest ''Database must be running to attach''))
     (bind_app (ok_or (di_container_id inst) (BadRequest ''Database has no container'')) (\<lambda>container_id.
     then_app (require (pn_docker_server_id network = None \<or> di_docker_server_id inst = pn_docker_server_id network)
       (BadRequest ''Database must be on the same Docker server as the network''))
     (bind_app (PrivateNetworkRepository_is_member network_id database_id) (\<lambda>member.
     then_app (require (\<not> member) (Conflict ''Database is already a member of this network''))
     (bind_app (PrivateNetworkRepository_count_members network_id) (\<lambda>member_count.
     then_app (require (member_count < MAX_MEMBERS_PER_NETWORK) (BadRequest ''Maximum 20 members per network''))
     (join_network network inst container_id)))))))))))"

definition detach_database :: "auth_user \<Rightarrow> uuid \<Rightarrow> uuid \<Rightarrow> private_network_response app" where
  "detach_database u network_id database_id =
     bind_app (owned_network u network_id) (\<lambda>network.
     then_app (with_container database_id (\<lambda>container_id.
       case pn_docker_network_id network of
         None \<Rightarrow> return_app ()
       | Some docker_net_id \<Rightarrow>
           bind_app (resolve_docker (pn_docker_server_id network)) (\<lambda>target.
           ignore (detach_container_from_network target container_id docker_net_id)
           (for_active_bridges network_id (\<lambda>bridge_id.
              ignore (detach_container_from_network target container_id bridge_id) (return_app ()))))))
     (then_app (PrivateNetworkRepository_remove_member network_id database_id)
     (network_with_members network)))"

section \<open>Peerings\<close>

definition owned_peering :: "auth_user \<Rightarrow> uuid \<Rightarrow> network_peering app" where
  "owned_peering u i =
     bind_app (PrivateNetworkRepository_find_peering_by_id i) (\<lambda>found.
     bind_app (ok_or found (NotFound ''Peering not found'')) (\<lambda>peering.
     then_app (require (np_user_id peering = au_id u) Forbidden)
     (return_app peering)))"

definition build_peering_response :: "network_peering \<Rightarrow> peering_response app" where
  "build_peering_response peering =
     bind_app (PrivateNetworkRepository_find_by_id (np_network_a_id peering)) (\<lambda>found.
     bind_app (ok_or found (Internal ''Network A not found'')) (\<lambda>net_a.
     bind_app (PrivateNetworkRepository_find_by_id (np_network_b_id peering)) (\<lambda>found.
     bind_app (ok_or found (Internal ''Network B not found'')) (\<lambda>net_b.
     bind_app (PrivateNetworkRepository_count_members (np_network_a_id peering)) (\<lambda>count_a.
     bind_app (PrivateNetworkRepository_count_members (np_network_b_id peering)) (\<lambda>count_b.
     bind_app (PrivateNetworkRepository_find_rules_by_peering (np_id peering)) (\<lambda>rules.
     return_app
       \<lparr>ppr_id = np_id peering,
        ppr_network_a = \<lparr>pni_id = pn_id net_a, pni_name = pn_name net_a, pni_member_count = count_a\<rparr>,
        ppr_network_b = \<lparr>pni_id = pn_id net_b, pni_name = pn_name net_b, pni_member_count = count_b\<rparr>,
        ppr_status = np_status peering, ppr_rules = rules, ppr_created_at = np_created_at peering\<rparr>)))))))"

definition own_network_named :: "auth_user \<Rightarrow> uuid \<Rightarrow> string \<Rightarrow> private_network app" where
  "own_network_named u i msg =
     bind_app (PrivateNetworkRepository_find_by_id i) (\<lambda>found.
     bind_app (ok_or found (NotFound msg)) (\<lambda>network.
     then_app (require (pn_user_id network = au_id u) Forbidden)
     (return_app network)))"

definition create_peering :: "auth_user \<Rightarrow> create_peering_request \<Rightarrow> peering_response app" where
  "create_peering u req =
     (let a = cpr_network_a_id req; b = cpr_network_b_id req in
     then_app (require (a \<noteq> b) (BadRequest ''Cannot peer a network with itself''))
     (bind_app (own_network_named u a ''Network A not found'') (\<lambda>net_a.
     bind_app (own_network_named u b ''Network B not found'') (\<lambda>net_b.
     then_app (require (case (pn_docker_server_id net_a, pn_docker_server_id net_b) of
         (Some x, Some y) \<Rightarrow> x = y | _ \<Rightarrow> True)
       (BadRequest ''Networks must be on the same Docker server''))
     (bind_app (PrivateNetworkRepository_peering_exists a b) (\<lambda>already.
     then_app (require (\<not> already) (Conflict ''Peering already exists between these networks''))
     (bind_app (PrivateNetworkRepository_count_peerings_by_user (au_id u)) (\<lambda>count.
     then_app (require (count < MAX_PEERINGS_PER_USER) (BadRequest ''Maximum 10 peerings per user''))
     (let server_id = (case pn_docker_server_id net_a of
            Some s \<Rightarrow> Some s | None \<Rightarrow> pn_docker_server_id net_b)
      in bind_app (PrivateNetworkRepository_create_peering (au_id u) a b server_id) (\<lambda>peering.
      then_app (spawn (ActivatePeering (np_id peering) server_id a b))
      (build_peering_response peering)))))))))))"

definition set_peering_status :: "uuid \<Rightarrow> string \<Rightarrow> unit app" where
  "set_peering_status i status =
     ignore (PrivateNetworkRepository_update_peering_status i status) (return_app ())"

definition attach_members :: "docker_client option \<Rightarrow> string \<Rightarrow> uuid \<Rightarrow> unit app" where
  "attach_members target bridge_id net_id =
     bind_app (attempt (PrivateNetworkRepository_find_members_with_db_info net_id)) (\<lambda>r. case r of
       Inl _ \<Rightarrow> return_app ()
     | Inr members \<Rightarrow> for_each members (\<lambda>m. with_container (pmi_database_id m) (\<lambda>cid.
         ignore (attach_container_to_network target cid bridge_id) (return_app ()))))"

definition run_activate_peering :: "uuid \<Rightarrow> uuid option \<Rightarrow> uuid \<Rightarrow> uuid \<Rightarrow> unit app" where
  "run_activate_peering peering_id server_id net_a_id net_b_id =
     bind_app (asks (\<lambda>e. ''sb-peer-'' @ l_uuid_str (lib e) peering_id)) (\<lambda>bridge_name.
     bind_app (attempt (resolve_docker server_id)) (\<lambda>r. case r of
       Inl _ \<Rightarrow> set_peering_status peering_id ''error''
     | Inr target \<Rightarrow>
         bind_app (attempt (create_peering_network target bridge_name)) (\<lambda>r. case r of
           Inl _ \<Rightarrow> set_peering_status peering_id ''error''
         | Inr bridge_id \<Rightarrow>
             ignore (PrivateNetworkRepository_update_peering_bridge peering_id bridge_id)
             (then_app (for_each [net_a_id, net_b_id] (attach_members target bridge_id))
             (set_peering_status peering_id ''active'')))))"

definition list_peerings :: "auth_user \<Rightarrow> peering_response list app" where
  "list_peerings u =
     bind_app (PrivateNetworkRepository_find_peerings_by_user (au_id u)) (\<lambda>peerings.
     collect peerings build_peering_response)"

definition get_peering :: "auth_user \<Rightarrow> uuid \<Rightarrow> peering_response app" where
  "get_peering u i = bind_app (owned_peering u i) build_peering_response"

definition delete_peering :: "auth_user \<Rightarrow> uuid \<Rightarrow> unit app" where
  "delete_peering u i =
     bind_app (owned_peering u i) (\<lambda>peering.
     then_app (case np_docker_bridge_id peering of
         None \<Rightarrow> return_app ()
       | Some bridge_id \<Rightarrow> teardown_bridge peering bridge_id [np_network_a_id peering, np_network_b_id peering])
     (PrivateNetworkRepository_delete_peering i))"

section \<open>Firewall rules\<close>

definition rule_for_nft :: "network_peering \<Rightarrow> string \<Rightarrow> string \<Rightarrow> firewall_rule \<Rightarrow> nft_rule" where
  "rule_for_nft peering subnet_a subnet_b r =
     (if fr_source_network_id r = np_network_a_id peering then subnet_a else subnet_b,
      if fr_dest_network_id r = np_network_a_id peering then subnet_a else subnet_b,
      fr_port r, fr_protocol r, fr_action r)"

definition subnet_of :: "private_network option \<Rightarrow> string" where
  "subnet_of net = unwrap_or (Option.bind net pn_subnet) ''0.0.0.0/0''"

definition apply_peering_iptables :: "network_peering \<Rightarrow> unit app" where
  "apply_peering_iptables peering =
     bind_app (asks (\<lambda>e. l_uuid_str (lib e) (np_id peering))) (\<lambda>id_str.
     bind_app (resolve_docker (np_docker_server_id peering)) (\<lambda>target.
     bind_app (PrivateNetworkRepository_find_rules_by_peering (np_id peering)) (\<lambda>rules.
     bind_app (PrivateNetworkRepository_find_by_id (np_network_a_id peering)) (\<lambda>net_a.
     bind_app (PrivateNetworkRepository_find_by_id (np_network_b_id peering)) (\<lambda>net_b.
     apply_firewall_rules target id_str (''sb-peer-'' @ id_str)
       (map (rule_for_nft peering (subnet_of net_a) (subnet_of net_b)) rules))))))"

definition reapply_when_active :: "network_peering \<Rightarrow> unit app" where
  "reapply_when_active peering =
     (if np_status peering = ''active'' then apply_peering_iptables peering else return_app ())"

definition create_firewall_rule ::
  "auth_user \<Rightarrow> uuid \<Rightarrow> create_firewall_rule_request \<Rightarrow> firewall_rule app" where
  "create_firewall_rule u peering_id req =
     bind_app (owned_peering u peering_id) (\<lambda>peering.
     let part = {np_network_a_id peering, np_network_b_id peering} in
     then_app (require (cfr_action req \<in> {''allow'', ''deny''}) (BadRequest (''Action must be '' @ quoted sq ''allow'' @ '' or '' @ quoted sq ''deny'')))
     (then_app (require (cfr_source_network_id req \<in> part)
       (BadRequest ''Source network must be part of this peering''))
     (then_app (require (cfr_dest_network_id req \<in> part)
       (BadRequest ''Destination network must be part of this peering''))
     (then_app (require (case cfr_port req of None \<Rightarrow> True | Some port \<Rightarrow> 0 < port \<and> port < 65536)
       (BadRequest ''Port must be between 1 and 65535''))
     (then_app (require (case cfr_protocol req of None \<Rightarrow> True | Some proto \<Rightarrow> proto \<in> {''tcp'', ''udp''})
       (BadRequest (''Protocol must be '' @ quoted sq ''tcp'' @ '' or '' @ quoted sq ''udp'')))
     (bind_app (PrivateNetworkRepository_count_rules_by_peering peering_id) (\<lambda>count.
     then_app (require (count < MAX_RULES_PER_PEERING) (BadRequest ''Maximum 20 rules per peering''))
     (bind_app (PrivateNetworkRepository_create_firewall_rule peering_id (unwrap_or (cfr_priority req) 100)
         (cfr_action req) (cfr_source_network_id req) (cfr_dest_network_id req) (cfr_port req)
         (cfr_protocol req) (cfr_description req)) (\<lambda>rule.
     then_app (reapply_when_active peering) (return_app rule))))))))))"

definition rule_of_peering :: "uuid \<Rightarrow> uuid \<Rightarrow> firewall_rule app" where
  "rule_of_peering peering_id rule_id =
     bind_app (PrivateNetworkRepository_find_rule_by_id rule_id) (\<lambda>found.
     bind_app (ok_or found (NotFound ''Rule not found'')) (\<lambda>rule.
     then_app (require (fr_peering_id rule = peering_id) (NotFound ''Rule not found in this peering''))
     (return_app rule)))"

definition delete_firewall_rule :: "auth_user \<Rightarrow> uuid \<Rightarrow> uuid \<Rightarrow> unit app" where
  "delete_firewall_rule u peering_id rule_id =
     bind_app (owned_peering u peering_id) (\<lambda>peering.
     bind_app (rule_of_peering peering_id rule_id) (\<lambda>rule.
     then_app (PrivateNetworkRepository_delete_firewall_rule rule_id)
     (reapply_when_active peering)))"

section \<open>For administrators\<close>

definition admin_list_peerings :: "peering_response list app" where
  "admin_list_peerings =
     bind_app PrivateNetworkRepository_list_all_peerings (\<lambda>peerings.
     collect peerings build_peering_response)"

definition admin_list_networks :: "(uuid \<times> private_network_response) list app" where
  \<comment> \<open>the owner beside the view of each network; the member count is the length of its members\<close>
  "admin_list_networks =
     bind_app PrivateNetworkRepository_list_all (\<lambda>networks.
     collect networks (\<lambda>network.
       bind_app (network_with_members network) (\<lambda>view. return_app (pn_user_id network, view))))"

end
