(* ===== verification/Administration.thy ===== *)
theory Administration
  imports Database_Handlers Network_Handlers
begin

text \<open>
  The handlers for administrators: \<open>src/api/src/handlers/admin.rs\<close> (statistics, users,
  invitations, forced deletion, the move to SNI routing, maintenance, health) and
  \<open>handlers/docker_servers.rs\<close> (Docker servers and their state), with the audit log of
  \<open>handlers/audit.rs\<close>. They run behind \<open>admin_middleware\<close> and take no user.
\<close>

section \<open>Statistics\<close>

definition or_default :: "'a app \<Rightarrow> 'a \<Rightarrow> 'a app" where
  \<comment> \<open>\<open>.await.unwrap_or_default()\<close>\<close>
  "or_default m dflt = bind_app (attempt m) (\<lambda>r. return_app (case r of Inl _ \<Rightarrow> dflt | Inr x \<Rightarrow> x))"

definition grouped :: "('r \<Rightarrow> int) \<Rightarrow> ('r list \<Rightarrow> i64) \<Rightarrow> 'r list \<Rightarrow> (int \<times> i64) list" where
  \<comment> \<open>\<open>GROUP BY k ORDER BY k\<close>\<close>
  "grouped key agg rs =
     map (\<lambda>k. (k, agg (filter (\<lambda>r. key r = k) rs))) (sorted_list_of_set (set (map key rs)))"

definition day_ns :: time where "day_ns = 86400 * 10 ^ 9"

definition day_of :: "time \<Rightarrow> int" where
  "day_of t = t div day_ns"

definition growth :: "('r \<Rightarrow> time) \<Rightarrow> time \<Rightarrow> 'r list \<Rightarrow> (int \<times> i64) list" where
  \<comment> \<open>rows of the last thirty days, counted by day\<close>
  "growth created now rs =
     grouped (\<lambda>r. day_of (created r)) (\<lambda>g. int (length g))
       (filter (\<lambda>r. now - 30 * day_ns < created r) rs)"

definition monthly_revenue :: "libraries \<Rightarrow> pg \<Rightarrow> (time \<times> i64) list" where
  "monthly_revenue l d =
     grouped (\<lambda>x. l_month_start l (bp_period_start x)) (\<lambda>g. sum_list (map bp_total_cents g))
       (filter (\<lambda>x. bp_status x = ''paid'') (t_billing_periods d))"

record stats_overview =
  as_users :: i64
  as_databases :: i64
  as_registration_enabled :: bool
  as_user_growth :: "(string \<times> i64) list"
  as_db_growth :: "(string \<times> i64) list"
  as_status_breakdown :: "(db_status \<times> i64) list"
  as_type_breakdown :: "(db_type \<times> i64) list"
  as_revenue_monthly :: "(string \<times> i64) list"

definition admin_stats :: "stats_overview app" where
  "admin_stats = bind_app (asks lib) (\<lambda>l.
     bind_app UserRepository_count (\<lambda>user_count.
     bind_app DatabaseRepository_count_all (\<lambda>db_count.
     bind_app get_registration (\<lambda>reg_enabled.
     bind_app (or_default (sql_select (\<lambda>now d. growth u_created_at now (t_users d))) []) (\<lambda>user_growth.
     bind_app (or_default (sql_select (\<lambda>now d. growth di_created_at now (t_databases d))) []) (\<lambda>db_growth.
     bind_app (or_default (sql_select (\<lambda>_ d.
         group_counts di_status [Provisioning, Running, Stopped, Error, Deleting] (t_databases d))) []) (\<lambda>by_status.
     bind_app (or_default (sql_select (\<lambda>_ d.
         group_counts di_db_type [Postgresql, Redis, Mariadb] (t_databases d))) []) (\<lambda>by_type.
     bind_app (or_default (sql_select (\<lambda>_ d. monthly_revenue l d)) []) (\<lambda>revenue.
     return_app \<lparr>as_users = user_count, as_databases = db_count, as_registration_enabled = reg_enabled,
       as_user_growth = map (\<lambda>(k, n). (l_date l k, n)) user_growth,
       as_db_growth = map (\<lambda>(k, n). (l_date l k, n)) db_growth,
       as_status_breakdown = by_status, as_type_breakdown = by_type,
       as_revenue_monthly = map (\<lambda>(k, n). (l_year_month l k, n)) revenue\<rparr>)))))))))"

definition toggle_registration :: "bool option \<Rightarrow> bool app" where
  \<comment> \<open>the member \<open>enabled\<close> of the body, when it is a boolean\<close>
  "toggle_registration body =
     bind_app (ok_or body (BadRequest ''enabled (bool) is required'')) (\<lambda>enabled.
     then_app (set_registration enabled) (return_app enabled))"

section \<open>Users\<close>

definition list_users :: "(user \<times> i64) list app" where
  "list_users =
     bind_app UserRepository_list_all (\<lambda>users.
     bind_app (or_default (sql_select (\<lambda>_ d u. count_rows (\<lambda>x. di_user_id x = u) (t_databases d))) (\<lambda>_. 0)) (\<lambda>dbs.
     return_app (map (\<lambda>u. (u, dbs (u_id u))) users)))"

definition update_user_role :: "uuid \<Rightarrow> string option \<Rightarrow> unit app" where
  "update_user_role user_id body =
     bind_app (ok_or body (BadRequest ''role is required'')) (\<lambda>role_str.
     if role_str = ''admin'' then UserRepository_update_role user_id UserRole_Admin
     else if role_str = ''user'' then UserRepository_update_role user_id UserRole_User
     else throw (BadRequest ''Invalid role''))"

definition remove_user_database :: "database_instance \<Rightarrow> unit app" where
  \<comment> \<open>one round of the loop of \<open>delete_user\<close>\<close>
  "remove_user_database inst =
     ignore (BillingRepository_record_usage_event (di_id inst) ''stop'' (di_user_id inst) (di_name inst)
         (di_plan_template_id inst))
     (then_app (DatabaseRepository_update_status (di_id inst) Deleting)
     (bind_app (docker_or_local (di_docker_server_id inst)) (\<lambda>target.
     then_app (detach_from_networks target inst)
     (then_app (send_event \<lparr>ev_user_id = di_user_id inst, ev_database_id = di_id inst,
         ev_event_type = ''deleted'', ev_status = None\<rparr>)
     (spawn (CleanupDatabase inst target False))))))"

definition remove_user_network :: "private_network \<Rightarrow> unit app" where
  "remove_user_network net =
     then_app (case pn_docker_network_id net of
         None \<Rightarrow> return_app ()
       | Some docker_net_id \<Rightarrow> ignore (remove_private_network None docker_net_id) (return_app ()))
     (ignore (PrivateNetworkRepository_delete (pn_id net)) (return_app ()))"

definition delete_user :: "uuid \<Rightarrow> nat app" where
  "delete_user user_id =
     bind_app (DatabaseRepository_find_by_user user_id) (\<lambda>databases.
     then_app (for_each databases remove_user_database)
     (bind_app (or_default (PrivateNetworkRepository_find_by_user user_id) []) (\<lambda>networks.
     then_app (for_each networks remove_user_network)
     (then_app (UserRepository_delete user_id)
     (return_app (length databases))))))"

definition user_resources :: "uuid \<Rightarrow> (f64 \<times> i32 \<times> database_instance list) app" where
  "user_resources user_id =
     bind_app (DatabaseRepository_find_by_user user_id) (\<lambda>databases.
     return_app
       (fold (\<lambda>x acc. f64_round (acc + di_cpu_limit x)) databases 0,
        fold (\<lambda>x acc. wrap_i32 (acc + di_memory_limit_mb x)) databases 0, databases))"

section \<open>Databases of everyone\<close>

definition list_all_databases :: "(database_instance \<times> string \<times> string) list app" where
  \<comment> \<open>each instance with the e-mail of its owner and the name of its server\<close>
  "list_all_databases =
     bind_app DatabaseRepository_list_all (\<lambda>dbs.
     bind_app (or_default UserRepository_list_all []) (\<lambda>users.
     bind_app (or_default DockerServerRepository_list_all []) (\<lambda>servers.
     return_app (map (\<lambda>x. (x,
         unwrap_or (map_of (map (\<lambda>u. (u_id u, u_email u)) users) (di_user_id x)) [],
         unwrap_or (Option.bind (di_docker_server_id x)
           (map_of (map (\<lambda>v. (ds_id v, ds_name v)) servers))) ''Local'')) dbs))))"

definition force_delete_database :: "uuid \<Rightarrow> unit app" where
  "force_delete_database i =
     bind_app (DatabaseRepository_find_by_id i) (\<lambda>found.
     bind_app (ok_or found (NotFound ''Database not found'')) (\<lambda>inst.
     bind_app (docker_or_local (di_docker_server_id inst)) (\<lambda>target.
     then_app (detach_from_networks target inst)
     (then_app (remove_instance target inst)
     (ignore (BillingRepository_record_usage_event i ''stop'' (di_user_id inst) (di_name inst)
         (di_plan_template_id inst))
     (bind_app (asks (\<lambda>e. l_uuid_str (lib e) i)) (\<lambda>id_str.
     ignore (TraefikService_remove_config id_str)
     (then_app (DatabaseRepository_delete i)
     (release_port (as_u16 (di_port inst)))))))))))"

section \<open>Invitations\<close>

definition nil_uuid :: uuid where
  "nil_uuid = 0"

definition create_invitation :: "create_invitation_request \<Rightarrow> invitation app" where
  \<comment> \<open>an expiry outside the dates of \<open>chrono\<close> panics\<close>
  "create_invitation req =
     bind_app (random_string 16) (\<lambda>code.
     bind_app utc_now (\<lambda>now.
     bind_app (asks lib) (\<lambda>l.
     bind_app (case cir_expires_in_hours req of
         None \<Rightarrow> return_app None
       | Some h \<Rightarrow> (let t = now + h * hour_ns in
           if l_time_ok l t then return_app (Some t) else panic)) (\<lambda>expires_at.
     InvitationRepository_create code nil_uuid (unwrap_or (cir_max_uses req) 1) expires_at))))"

definition list_invitations :: "invitation list app" where
  "list_invitations = InvitationRepository_list_all"

definition delete_invitation :: "uuid \<Rightarrow> unit app" where
  "delete_invitation i = InvitationRepository_delete i"

section \<open>From port routing to SNI routing\<close>

definition host_of_url :: "string \<Rightarrow> string" where
  "host_of_url url =
     (let without_scheme = (case str_find url ''://'' of Some i \<Rightarrow> drop (i + 3) url | None \<Rightarrow> url)
      in if CHR '':'' \<in> set without_scheme then hd (str_split without_scheme CHR '':'') else without_scheme)"

definition migration_backend :: "libraries \<Rightarrow> database_instance \<Rightarrow> docker_server option \<Rightarrow> string" where
  "migration_backend l inst server = (case server of
      Some srv \<Rightarrow> if is_remote_server (ds_url srv)
        then host_of_url (ds_url srv) @ '':'' @ int_to_string (di_port inst)
        else ''sb-'' @ l_uuid_str l (di_id inst) @ '':'' @ int_to_string (standard_port_for_db_type (di_db_type inst))
    | None \<Rightarrow> ''sb-'' @ l_uuid_str l (di_id inst) @ '':'' @ int_to_string (standard_port_for_db_type (di_db_type inst)))"

definition server_of_instance :: "database_instance \<Rightarrow> docker_server option app" where
  "server_of_instance inst = (case di_docker_server_id inst of
      None \<Rightarrow> return_app None
    | Some server_id \<Rightarrow>
        bind_app (DockerServerRepository_find_by_id server_id) (\<lambda>found.
        bind_app (ok_or found (Internal ''Docker server not found for instance'')) (\<lambda>srv. return_app (Some srv))))"

definition migrate_to_sni :: "uuid \<Rightarrow> (string \<times> string) app" where
  "migrate_to_sni i =
     bind_app (DatabaseRepository_find_by_id i) (\<lambda>found.
     bind_app (ok_or found (NotFound ''Database not found'')) (\<lambda>inst.
     then_app (require (di_routing_mode inst \<noteq> ''sni'') (BadRequest ''Database is already using SNI routing''))
     (bind_app (ok_or (di_container_id inst) (BadRequest ''Container not provisioned yet'')) (\<lambda>container_id.
     bind_app (server_of_instance inst) (\<lambda>target_server.
     bind_app (connect_optional target_server) (\<lambda>target.
     bind_app (asks (\<lambda>e. (cfg e, lib e))) (\<lambda>(cf, l).
     let fqdn = subdomain_fqdn (di_subdomain inst) (platform_domain cf) in
     bind_app (TlsService_generate_cert_for_subdomain fqdn) (\<lambda>cert.
     then_app (if server_is_remote target_server then return_app ()
       else connect_to_proxy_network target container_id ''sb-proxy'')
     (then_app (TraefikService_generate_sni_config (l_uuid_str l i) (di_db_type inst) fqdn
         (cert_pem cert) (key_pem cert) (migration_backend l inst target_server))
     (then_app (DatabaseRepository_update_routing_mode i ''sni'')
     (then_app (DatabaseRepository_update_provisioned i container_id (unwrap_or (di_network_id inst) [])
         (Some (cert_pem cert)))
     (return_app (di_subdomain inst, fqdn)))))))))))))"

section \<open>Maintenance and health\<close>

definition upsert_setting :: "string \<Rightarrow> string \<Rightarrow> pg \<Rightarrow> pg" where
  "upsert_setting key val d =
     d\<lparr>t_settings := (key, val) # filter (\<lambda>(k, _). k \<noteq> key) (t_settings d)\<rparr>"

definition toggle_maintenance :: "bool option \<Rightarrow> bool app" where
  "toggle_maintenance body =
     bind_app (ok_or body (BadRequest ''enabled (bool) is required'')) (\<lambda>enabled.
     then_app (set_maintenance enabled)
     (ignore (sql_execute (\<lambda>_. upsert_setting ''maintenance_mode'' (if enabled then ''true'' else ''false'')))
     (return_app enabled)))"

definition server_online :: "docker_server \<Rightarrow> bool app" where
  "server_online server =
     bind_app (attempt (connect_to_server server)) (\<lambda>r. case r of
       Inl _ \<Rightarrow> return_app False
     | Inr c \<Rightarrow> bind_app (attempt (docker_request c Ping)) (\<lambda>p.
         return_app (case p of Inl _ \<Rightarrow> False | Inr _ \<Rightarrow> True)))"

record health_view =
  sh_servers :: "(docker_server \<times> bool) list"
  sh_databases :: "database_instance list"
  sh_maintenance_mode :: bool

definition system_health :: "health_view app" where
  "system_health =
     bind_app DockerServerRepository_list_all (\<lambda>servers.
     bind_app DatabaseRepository_list_all (\<lambda>databases.
     bind_app (collect servers (\<lambda>server. bind_app (server_online server) (\<lambda>b. return_app (server, b)))) (\<lambda>health.
     bind_app get_maintenance (\<lambda>maintenance.
     return_app \<lparr>sh_servers = health, sh_databases = databases, sh_maintenance_mode = maintenance\<rparr>))))"

section \<open>Docker servers\<close>

definition list_servers :: "docker_server list app" where
  "list_servers = DockerServerRepository_list_all"

definition create_server :: "create_docker_server_request \<Rightarrow> docker_server app" where
  "create_server req = DockerServerRepository_create req"

definition update_server_handler :: "uuid \<Rightarrow> update_docker_server_request \<Rightarrow> docker_server app" where
  "update_server_handler i req = DockerServerRepository_update i req"

definition delete_server :: "uuid \<Rightarrow> unit app" where
  "delete_server i =
     bind_app (DockerServerRepository_count_containers_on_server i) (\<lambda>count.
     then_app (require (count \<le> 0) (BadRequest (''Server still has '' @ int_to_string count
       @ '' active containers. Migrate them first.'')))
     (DockerServerRepository_delete i))"

definition offline_status :: "docker_server \<Rightarrow> docker_server_status" where
  "offline_status server =
     \<lparr>dss_id = ds_id server, dss_name = ds_name server, dss_url = ds_url server,
      dss_region = ds_region server, dss_active = ds_active server,
      dss_server_type = ds_server_type server, dss_max_containers = ds_max_containers server,
      dss_online = False, dss_containers_running = None, dss_containers_total = None,
      dss_cpu_count = None, dss_memory_bytes = None, dss_docker_version = None,
      dss_last_seen_at = ds_last_seen_at server, dss_error = None\<rparr>"

definition check_server_health :: "docker_server \<Rightarrow> docker_server_status app" where
  \<comment> \<open>the text of the error stands for its kind only\<close>
  "check_server_health server =
     (let status = offline_status server in
     bind_app (attempt (connect_to_server server)) (\<lambda>r. case r of
       Inl _ \<Rightarrow> return_app (status\<lparr>dss_error := Some ''Connection failed''\<rparr>)
     | Inr docker \<Rightarrow>
     bind_app (attempt (docker_request docker Ping)) (\<lambda>r. case r of
       Inl _ \<Rightarrow> return_app (status\<lparr>dss_error := Some ''Ping failed''\<rparr>)
     | Inr _ \<Rightarrow>
     bind_app (attempt (docker_request docker Info)) (\<lambda>info.
     bind_app (attempt (docker_request docker Version)) (\<lambda>version.
     ignore (DockerServerRepository_update_last_seen (ds_id server))
     (bind_app utc_now (\<lambda>now.
     let status = (case info of Inl _ \<Rightarrow> status | Inr reply \<Rightarrow> (let i = rp_info reply in
           status\<lparr>dss_containers_running := in_containers_running i, dss_containers_total := in_containers i,
             dss_cpu_count := in_ncpu i, dss_memory_bytes := in_mem_total i\<rparr>));
         status = (case version of Inl _ \<Rightarrow> status
           | Inr reply \<Rightarrow> status\<lparr>dss_docker_version := rp_version reply\<rparr>)
     in return_app (status\<lparr>dss_online := True, dss_last_seen_at := Some now\<rparr>))))))))"

definition servers_status :: "docker_server_status list app" where
  "servers_status =
     bind_app DockerServerRepository_list_all (\<lambda>servers. collect servers check_server_health)"

definition find_server :: "uuid \<Rightarrow> docker_server app" where
  "find_server i =
     bind_app (DockerServerRepository_find_by_id i) (\<lambda>found. ok_or found (NotFound ''Server not found''))"

definition server_status :: "uuid \<Rightarrow> docker_server_status app" where
  "server_status i = bind_app (find_server i) check_server_health"

record server_container =
  sc_id :: string
  sc_name :: string
  sc_image :: string
  sc_state :: string
  sc_cpu_percent :: f64
  sc_memory_usage :: i64
  sc_memory_limit :: i64
  sc_is_dbaas :: bool

definition describe_container :: "docker_client \<Rightarrow> container_summary \<Rightarrow> server_container app" where
  "describe_container docker c =
     (let container_id = unwrap_or (su_id c) [];
          name = (case su_names c of Some (n # _) \<Rightarrow> dropWhile (\<lambda>ch. ch = CHR ''/'') n | _ \<Rightarrow> [])
      in bind_app (one_shot_stats docker container_id) (\<lambda>(cpu, used, limit).
      return_app \<lparr>sc_id = container_id, sc_name = name, sc_image = unwrap_or (su_image c) ''unknown'',
        sc_state = unwrap_or (su_state c) ''unknown'', sc_cpu_percent = cpu, sc_memory_usage = used,
        sc_memory_limit = limit, sc_is_dbaas = str_starts_with name ''sb-''\<rparr>))"

definition docker_internal :: "docker_client \<Rightarrow> docker_call \<Rightarrow> string \<Rightarrow> docker_reply app" where
  \<comment> \<open>a call whose error is reported as an internal one\<close>
  "docker_internal docker call msg = map_err (docker_request docker call) (Internal msg)"

definition server_containers :: "uuid \<Rightarrow> server_container list app" where
  "server_containers i =
     bind_app (find_server i) (\<lambda>server.
     bind_app (connect_to_server server) (\<lambda>docker.
     bind_app (docker_internal docker ListRunningContainers ''Failed to list containers'') (\<lambda>reply.
     collect (rp_containers reply) (describe_container docker))))"

definition server_resources :: "uuid \<Rightarrow> (docker_info \<times> i64 \<times> i64 \<times> i64 \<times> i64) app" where
  \<comment> \<open>the host, the numbers of images and volumes, the sizes of images and containers\<close>
  "server_resources i =
     bind_app (find_server i) (\<lambda>server.
     bind_app (connect_to_server server) (\<lambda>docker.
     bind_app (docker_internal docker Info ''Failed to get server info'') (\<lambda>info.
     bind_app (attempt (docker_request docker DataUsage)) (\<lambda>r.
     let field = (\<lambda>sel. case r of Inl _ \<Rightarrow> 0 | Inr df \<Rightarrow> unwrap_or (sel (rp_disk df)) 0) in
     return_app (rp_info info, field df_images_count mod 2 ^ 64, field df_volumes_count mod 2 ^ 64,
       field df_images_size, field df_containers_size)))))"

section \<open>Audit logs\<close>

definition page_bounds :: "audit_log_query \<Rightarrow> i64 \<times> i64" where
  \<comment> \<open>rows per page and offset; the arithmetic is that of \<open>i64\<close>\<close>
  "page_bounds q =
     (let per_page = min (unwrap_or (alq_per_page q) 50) 100;
          page = max (unwrap_or (alq_page q) 1) 1
      in (per_page, wrap_i64 ((page - 1) * per_page)))"

definition list_user_audit_logs :: "auth_user \<Rightarrow> audit_log_query \<Rightarrow> audit_log list app" where
  "list_user_audit_logs u q =
     (let (per_page, offset) = page_bounds q in AuditRepository_list_by_user (au_id u) per_page offset)"

definition list_admin_audit_logs :: "audit_log_query \<Rightarrow> audit_log list app" where
  "list_admin_audit_logs q =
     (let (per_page, offset) = page_bounds q
      in AuditRepository_list_all per_page offset (alq_action q) (alq_resource_type q))"

end
