(* ===== verification/Alerts.thy ===== *)
theory Alerts
  imports Database_Service
begin

text \<open>
  \<open>src/api/src/services/alert.rs\<close> and \<open>handlers/alerts.rs\<close>: the check of a webhook's
  address, the rules a user keeps, and the periodic check of the containers they watch.
\<close>

unbundle bit_operations_syntax

section \<open>Addresses of webhooks\<close>

fun is_internal_ip :: "ip_addr \<Rightarrow> bool" where
  "is_internal_ip (V4 a b c d) \<longleftrightarrow>
     a = 127 \<or> is_private_v4 a b \<or> (a = 169 \<and> b = 254) \<or>
     (a = 255 \<and> b = 255 \<and> c = 255 \<and> d = 255) \<or> (a = 0 \<and> b = 0 \<and> c = 0 \<and> d = 0) \<or>
     (a = 169 \<and> b = 254) \<or> (a = 100 \<and> b AND 0xC0 = 64)"
| "is_internal_ip (V6 v) \<longleftrightarrow> v = 1 \<or> v = 0"

definition blocked_hosts :: "string list" where
  "blocked_hosts = [''localhost'', ''127.0.0.1'', ''0.0.0.0'', ''[::1]'', ''metadata.google.internal'',
     ''169.254.169.254'']"

definition resolve_host :: "string \<Rightarrow> ip_addr list option app" where
  \<comment> \<open>\<open>to_socket_addrs\<close> of a host and a port; the addresses without the port\<close>
  "resolve_host host_port = (\<lambda>e s. (Inr (resolve e (tick s) host_port), next_tick e s))"

definition validate_webhook_url :: "string \<Rightarrow> unit app" where
  "validate_webhook_url url =
     bind_app (asks (\<lambda>e. l_url_parse (lib e) url)) (\<lambda>p.
     bind_app (ok_or p (BadRequest ''Invalid webhook URL'')) (\<lambda>parsed.
     then_app (require (url_scheme parsed = ''https'') (BadRequest ''Webhook URL must use HTTPS''))
     (bind_app (ok_or (url_host parsed) (BadRequest ''Webhook URL must have a host'')) (\<lambda>host.
     then_app (require (host \<notin> set blocked_hosts) (BadRequest ''Webhook URL cannot target internal addresses''))
     (bind_app (resolve_host (host @ '':'' @ int_to_string (int (unwrap_or (url_port parsed) 443)))) (\<lambda>addrs.
     require (case addrs of None \<Rightarrow> True | Some ips \<Rightarrow> \<not> list_ex is_internal_ip ips)
       (BadRequest ''Webhook URL resolves to an internal IP address'')))))))"

section \<open>Rules\<close>

definition valid_alert_types :: "string list" where
  "valid_alert_types = [''db_down'', ''db_error'', ''backup_failed'', ''high_cpu'', ''high_memory'']"

definition list_alerts :: "auth_user \<Rightarrow> alert_rule list app" where
  "list_alerts u = AlertRepository_list_by_user (au_id u)"

definition validate_webhook_opt :: "string option \<Rightarrow> unit app" where
  "validate_webhook_opt url = (case url of None \<Rightarrow> return_app () | Some v \<Rightarrow> validate_webhook_url v)"

definition create_alert :: "auth_user \<Rightarrow> create_alert_rule_request \<Rightarrow> alert_rule app" where
  "create_alert u req =
     then_app (require (car_event_type req \<in> set valid_alert_types)
       (BadRequest (''Invalid event_type. Must be one of: '' @ str_join valid_alert_types '', '')))
     (then_app (require (car_webhook_url req \<noteq> None \<or> car_email req \<noteq> None)
       (BadRequest ''At least one of webhook_url or email is required''))
     (then_app (case car_database_id req of
         None \<Rightarrow> return_app ()
       | Some db_id \<Rightarrow> bind_app (owned_database u db_id) (\<lambda>_. return_app ()))
     (then_app (validate_webhook_opt (car_webhook_url req))
     (AlertRepository_create_rule (au_id u) (car_database_id req) (car_event_type req) (car_webhook_url req)
       (car_email req) (unwrap_or (car_enabled req) True)))))"

definition owned_alert :: "auth_user \<Rightarrow> uuid \<Rightarrow> alert_rule app" where
  "owned_alert u i =
     bind_app (AlertRepository_find_by_id i) (\<lambda>found.
     bind_app (ok_or found (NotFound ''Alert rule not found'')) (\<lambda>existing.
     then_app (require (alr_user_id existing = au_id u) Forbidden)
     (return_app existing)))"

definition update_alert :: "auth_user \<Rightarrow> uuid \<Rightarrow> update_alert_rule_request \<Rightarrow> alert_rule app" where
  "update_alert u i req =
     bind_app (owned_alert u i) (\<lambda>_.
     then_app (validate_webhook_opt (uar_webhook_url req))
     (AlertRepository_update_rule i (uar_webhook_url req) (uar_email req) (uar_enabled req)))"

definition delete_alert :: "auth_user \<Rightarrow> uuid \<Rightarrow> unit app" where
  "delete_alert u i = bind_app (owned_alert u i) (\<lambda>_. AlertRepository_delete_rule i)"

definition list_history :: "auth_user \<Rightarrow> alert_history list app" where
  "list_history u = AlertRepository_list_history_by_user (au_id u) 100"

section \<open>Firing an alert\<close>

definition send_webhook :: "string \<Rightarrow> string \<Rightarrow> string \<Rightarrow> unit app" where
  "send_webhook url event_type message =
     bind_app (asks lib) (\<lambda>l.
     bind_app utc_now (\<lambda>now.
     json_post url [(''event_type'', event_type), (''message'', message), (''timestamp'', l_rfc3339 l now)]))"

definition send_email :: "string \<Rightarrow> string \<Rightarrow> string \<Rightarrow> unit app" where
  \<comment> \<open>only when a relay is configured and the recipient is a mailbox\<close>
  "send_email to event_type message =
     bind_app (asks (\<lambda>e. smtp_host (cfg e))) (\<lambda>relay.
     bind_app (asks (\<lambda>e. l_mailbox_valid (lib e) to)) (\<lambda>valid.
     if relay \<in> {None, Some []} \<or> \<not> valid then return_app ()
     else send_mail to (''DBSaaS Alert: '' @ event_type) message))"

definition fire_alert :: "alert_rule \<Rightarrow> string \<Rightarrow> unit app" where
  "fire_alert rule message =
     ignore (AlertRepository_insert_history (alr_id rule) (alr_event_type rule) message)
     (then_app (case alr_webhook_url rule of
         None \<Rightarrow> return_app () | Some url \<Rightarrow> send_webhook url (alr_event_type rule) message)
     (case alr_email rule of
         None \<Rightarrow> return_app () | Some email \<Rightarrow> send_email email (alr_event_type rule) message))"

section \<open>Watching the containers\<close>

definition one_decimal :: "f64 \<Rightarrow> string" where
  \<comment> \<open>\<open>{:.1}\<close> of a positive number: the nearest tenth, ties to even\<close>
  "one_decimal x =
     (let n = \<lfloor>x * 10\<rfloor>; r = x * 10 - of_int n;
          m = (if r > 1 / 2 \<or> (r = 1 / 2 \<and> odd n) then n + 1 else n)
      in int_to_string (m div 10) @ ''.'' @ int_to_string (m mod 10))"

definition percent_message :: "string \<Rightarrow> string \<Rightarrow> f64 \<Rightarrow> string" where
  "percent_message name what x =
     ''Database '' @ quoted sq name @ '' '' @ what @ '' at '' @ one_decimal x @ ''%''"

definition check_rule :: "alert_rule \<Rightarrow> database_instance \<Rightarrow> string \<Rightarrow> docker_client option \<Rightarrow> unit app" where
  \<comment> \<open>the \<open>match\<close> on the type of the rule\<close>
  "check_rule rule inst container_id target =
     (if alr_event_type rule = ''db_down'' then
        bind_app (attempt (is_container_running target container_id)) (\<lambda>r.
        if (case r of Inl _ \<Rightarrow> False | Inr running \<Rightarrow> running) then return_app ()
        else fire_alert rule (''Database '' @ quoted sq (di_name inst) @ '' is down''))
      else if alr_event_type rule = ''high_cpu'' \<or> alr_event_type rule = ''high_memory'' then
        bind_app (attempt (get_container_stats_once target container_id)) (\<lambda>r. case r of
          Inr (Some stats) \<Rightarrow>
            then_app (if alr_event_type rule = ''high_cpu'' \<and> cst_cpu_percent stats > 90
              then fire_alert rule (percent_message (di_name inst) ''CPU'' (cst_cpu_percent stats))
              else return_app ())
            (if alr_event_type rule = ''high_memory'' \<and> cst_memory_percent stats > 90
              then fire_alert rule (percent_message (di_name inst) ''memory'' (cst_memory_percent stats))
              else return_app ())
        | _ \<Rightarrow> return_app ())
      else return_app ())"

definition check_rule_target :: "alert_rule \<Rightarrow> unit app" where
  \<comment> \<open>one round of the loop over the enabled rules\<close>
  "check_rule_target rule = (case alr_database_id rule of
      None \<Rightarrow> return_app ()
    | Some database_id \<Rightarrow>
        bind_app (attempt (DatabaseRepository_find_by_id database_id)) (\<lambda>r. case r of
          Inr (Some inst) \<Rightarrow>
            (case di_container_id inst of
               None \<Rightarrow> return_app ()
             | Some container_id \<Rightarrow>
                 bind_app (docker_or_local (di_docker_server_id inst)) (check_rule rule inst container_id))
        | _ \<Rightarrow> return_app ()))"

definition check_container_health :: "unit app" where
  "check_container_health =
     bind_app (attempt AlertRepository_find_enabled_rules) (\<lambda>r. case r of
       Inl _ \<Rightarrow> return_app () | Inr rules \<Rightarrow> for_each rules check_rule_target)"

end
