(* ===== verification/Billing.thy ===== *)
theory Billing
  imports Billing_Repository Database_Repository
begin

text \<open>
  \<open>src/api/src/services/billing.rs\<close> and \<open>src/api/src/handlers/billing.rs\<close>: metering of running
  time from start and stop events, monthly invoices, the calls to Stripe and its webhook.
  The sums in \<open>f64\<close> are exact for every realistic period; what rounding does to
  \<open>calculate_amount\<close> is stated and bounded.
\<close>

section \<open>Metering\<close>

definition num_seconds :: "time \<Rightarrow> i64" where
  \<comment> \<open>\<open>TimeDelta::num_seconds\<close>: whole seconds, truncated toward zero\<close>
  "num_seconds d = (if 0 \<le> d then d div 10 ^ 9 else - ((- d) div 10 ^ 9))"

definition usage_step :: "f64 \<times> time option \<Rightarrow> usage_event \<Rightarrow> f64 \<times> time option" where
  \<comment> \<open>one round of the loop: \<open>total_seconds\<close> and \<open>last_start\<close>\<close>
  "usage_step acc ev =
     (let (total_seconds, last_start) = acc in
      if ue_event_type ev = ''start'' then (total_seconds, Some (ue_recorded_at ev))
      else if ue_event_type ev = ''stop'' then
        (case last_start of
           None \<Rightarrow> (total_seconds, None)
         | Some start \<Rightarrow>
             (f64_round (total_seconds + f64_of_int (num_seconds (ue_recorded_at ev - start))), None))
      else (total_seconds, last_start))"

definition usage_total :: "time \<Rightarrow> time \<Rightarrow> usage_event list \<Rightarrow> f64" where
  "usage_total period_start period_end evs =
     (let last_start = (case evs of
            ev # _ \<Rightarrow> if ue_event_type ev = ''stop'' then Some period_start else None
          | [] \<Rightarrow> None);
          (total_seconds, last_start) = foldl usage_step (0, last_start) evs
      in case last_start of
           None \<Rightarrow> total_seconds
         | Some start \<Rightarrow> f64_round (total_seconds + f64_of_int (num_seconds (period_end - start))))"

definition safe_min :: time where
  \<comment> \<open>2000-01-01T00:00:00Z\<close>
  "safe_min = 946684800 * 10 ^ 9"

definition BillingService_calculate_usage_hours :: "uuid \<Rightarrow> time \<Rightarrow> time \<Rightarrow> f64 app" where
  "BillingService_calculate_usage_hours database_id period_start period_end =
     bind_app (BillingRepository_get_usage_events database_id period_start period_end) (\<lambda>evs.
       if evs = [] then
         bind_app (BillingRepository_get_usage_events database_id safe_min period_start) (\<lambda>prior_events.
           if prior_events \<noteq> [] \<and> ue_event_type (last prior_events) = ''start''
           then return_app (f64_round (f64_of_int (num_seconds (period_end - period_start)) / 3600))
           else return_app 0)
       else return_app (f64_round (usage_total period_start period_end evs / 3600)))"

definition BillingService_calculate_amount :: "f64 \<Rightarrow> plan_template \<Rightarrow> i32" where
  "BillingService_calculate_amount hours template =
     (let hourly_total = f64_as_i32 (f64_ceil (f64_round (hours * f64_of_int (pt_hourly_price_cents template))))
      in min hourly_total (pt_monthly_price_cents template))"

section \<open>Monthly invoices\<close>

definition plan_amount :: "f64 \<Rightarrow> uuid option \<Rightarrow> (string option \<times> i32) app" where
  \<comment> \<open>name of the plan and the amount; 0 without a plan or with an unknown one\<close>
  "plan_amount hours plan_tid = (case plan_tid of
      None \<Rightarrow> return_app (None, 0)
    | Some template_id \<Rightarrow>
        bind_app (BillingRepository_get_plan_template template_id) (\<lambda>found.
          case found of
            None \<Rightarrow> return_app (None, 0)
          | Some template \<Rightarrow>
              return_app (Some (pt_name template), BillingService_calculate_amount hours template)))"

definition invoice_step ::
  "time \<Rightarrow> time \<Rightarrow> uuid \<times> string option \<times> uuid option \<Rightarrow>
   i32 \<times> (uuid \<times> uuid option \<times> f64 \<times> i32) list \<Rightarrow>
   (i32 \<times> (uuid \<times> uuid option \<times> f64 \<times> i32) list) app" where
  "invoice_step period_start period_end entry acc =
     (let (database_id, _, plan_tid) = entry; (total_cents, line_items) = acc in
      bind_app (BillingService_calculate_usage_hours database_id period_start period_end) (\<lambda>hours.
        if hours \<le> 0 then return_app (total_cents, line_items)
        else bind_app (plan_amount hours plan_tid) (\<lambda>(_, amount).
          return_app (wrap_i32 (total_cents + amount),
                      line_items @ [(database_id, plan_tid, hours, amount)]))))"

definition count_periods :: "uuid \<Rightarrow> time \<Rightarrow> i64 app" where
  "count_periods user_id period_start =
     sql_select (\<lambda>_ d. count_rows (\<lambda>x. bp_user_id x = user_id \<and> bp_period_start x = period_start)
                         (t_billing_periods d))"

definition BillingService_generate_monthly_invoice ::
  "uuid \<Rightarrow> time \<Rightarrow> time \<Rightarrow> billing_period option app" where
  "BillingService_generate_monthly_invoice user_id period_start period_end =
     bind_app (count_periods user_id period_start) (\<lambda>existing.
     if existing > 0 then return_app None
     else bind_app (BillingRepository_get_databases_with_usage_in_period user_id period_start period_end)
       (\<lambda>entries.
     if entries = [] then return_app None
     else bind_app (fold_app entries (0, []) (invoice_step period_start period_end))
       (\<lambda>(total_cents, line_items).
     if total_cents = 0 \<and> line_items = [] then return_app None
     else bind_app (BillingRepository_create_billing_period user_id period_start period_end total_cents)
       (\<lambda>period.
     then_app (for_each line_items (\<lambda>(db_id, template_id, hours, amount).
         bind_app (BillingRepository_add_line_item (bp_id period) db_id template_id hours amount)
           (\<lambda>_. return_app ())))
     (return_app (Some period))))))"

section \<open>The estimate of the current month\<close>

definition usage_of ::
  "uuid \<Rightarrow> string \<Rightarrow> uuid option \<Rightarrow> time \<Rightarrow> time \<Rightarrow>
   database_usage list \<times> i32 \<Rightarrow> (database_usage list \<times> i32) app" where
  "usage_of database_id name plan_tid period_start now acc =
     (let (db_usages, cents) = acc in
      bind_app (BillingService_calculate_usage_hours database_id period_start now) (\<lambda>hours.
      bind_app (plan_amount hours plan_tid) (\<lambda>(plan_name, estimated).
        return_app (db_usages @ [\<lparr>dbu_database_id = database_id, dbu_database_name = name,
            dbu_plan_name = plan_name, dbu_hours_used = hours, dbu_estimated_cents = estimated\<rparr>],
          wrap_i32 (cents + estimated)))))"

definition BillingService_get_current_usage :: "uuid \<Rightarrow> current_usage_response app" where
  "BillingService_get_current_usage user_id =
     bind_app utc_now (\<lambda>now. bind_app (asks lib) (\<lambda>l.
     let period_start = l_month_start l now in
     bind_app (DatabaseRepository_find_by_user user_id) (\<lambda>databases.
     bind_app (fold_app databases ([], 0) (\<lambda>x.
         usage_of (di_id x) (di_name x) (di_plan_template_id x) period_start now)) (\<lambda>acc.
     bind_app (BillingRepository_get_databases_with_usage_in_period user_id period_start now)
       (\<lambda>entries.
     bind_app (fold_app entries acc (\<lambda>(database_id, db_name, plan_tid) acc.
         if database_id \<in> set (map di_id databases) then return_app acc
         else usage_of database_id (unwrap_or db_name ''(deleted)'') plan_tid period_start now acc))
       (\<lambda>(db_usages, cents).
     return_app \<lparr>cu_databases = db_usages, cu_total_estimated_cents = cents\<rparr>))))))"

section \<open>Stripe\<close>

definition format_1_decimal :: "f64 \<Rightarrow> string" where
  \<comment> \<open>\<open>{:.1}\<close>: the exact value rounded to one decimal, ties to even\<close>
  "format_1_decimal x =
     (let n = round_even (\<bar>x\<bar> * 10)
      in (if x < 0 then ''-'' else []) @ int_to_string (n div 10) @ ''.'' @ int_to_string (n mod 10))"

definition stripe_ok :: "http_reply \<Rightarrow> string \<Rightarrow> unit app" where
  "stripe_ok resp msg = require (hr_success resp) (Internal (msg @ hr_body resp))"

definition stripe_invoice_item :: "string \<Rightarrow> string \<Rightarrow> billing_line_item \<Rightarrow> unit app" where
  \<comment> \<open>the loop body over the line items\<close>
  "stripe_invoice_item secret_key customer_id item =
     bind_app (http_post ''https://api.stripe.com/v1/invoiceitems'' (Some secret_key)
         [(''customer'', customer_id),
          (''amount'', int_to_string (li_amount_cents item)),
          (''currency'', ''eur''),
          (''description'', format_1_decimal (li_hours_used item) @ ''h usage'')])
       (\<lambda>resp. stripe_ok resp ''Stripe invoiceitem error: '')"

definition BillingService_create_stripe_invoice :: "uuid \<Rightarrow> string \<Rightarrow> string app" where
  "BillingService_create_stripe_invoice billing_period_id secret_key =
     bind_app (sql_select (\<lambda>_ d. find (\<lambda>x. bp_id x = billing_period_id) (t_billing_periods d))) (\<lambda>found.
     bind_app (fetch_one found) (\<lambda>period.
     if bp_total_cents period = 0 then return_app ''no_charge''
     else bind_app (sql_select (\<lambda>_ d. find (\<lambda>x. u_id x = bp_user_id period) (t_users d))) (\<lambda>found.
     bind_app (fetch_one found) (\<lambda>payer.
     bind_app (ok_or (u_stripe_customer_id payer) (BadRequest ''User has no Stripe customer ID''))
       (\<lambda>customer_id.
     bind_app (BillingRepository_get_line_items_for_period billing_period_id) (\<lambda>line_items.
     then_app (for_each line_items (stripe_invoice_item secret_key customer_id))
     (bind_app (http_post ''https://api.stripe.com/v1/invoices'' (Some secret_key)
         [(''customer'', customer_id), (''auto_advance'', ''true'')]) (\<lambda>resp.
     then_app (stripe_ok resp ''Stripe invoice error: '')
     (bind_app (lift_result (case hr_json resp of
           Inl er \<Rightarrow> Inl (Internal (''Stripe JSON error: '' @ er)) | Inr v \<Rightarrow> Inr v)) (\<lambda>invoice.
     bind_app (ok_or invoice (Internal ''Stripe invoice missing id'')) (\<lambda>invoice_id.
     then_app (BillingRepository_update_period_status billing_period_id ''invoiced'' (Some invoice_id))
     (return_app invoice_id))))))))))))"

definition BillingService_handle_stripe_webhook :: "string \<Rightarrow> string \<Rightarrow> unit app" where
  "BillingService_handle_stripe_webhook event_type invoice_id =
     (let new_status =
        (if event_type = ''invoice.paid'' then Some ''paid''
         else if event_type = ''invoice.payment_failed'' then Some ''failed'' else None)
      in case new_status of
           None \<Rightarrow> return_app ()
         | Some status \<Rightarrow>
             sql_execute (\<lambda>_ d. d\<lparr>t_billing_periods :=
               update_where (\<lambda>x. bp_stripe_invoice_id x = Some invoice_id)
                 (\<lambda>x. x\<lparr>bp_status := status\<rparr>) (t_billing_periods d)\<rparr>))"

definition BillingService_run_monthly_billing :: "string option \<Rightarrow> nat app" where
  "BillingService_run_monthly_billing stripe_key =
     bind_app utc_now (\<lambda>now. bind_app (asks lib) (\<lambda>l.
     let period_start = l_prev_month_start l now; period_end = l_month_start l now in
     bind_app (sql_select (\<lambda>_ d. map u_id (t_users d))) (\<lambda>users.
     fold_app users 0 (\<lambda>user_id invoices_created.
       bind_app (attempt (BillingService_generate_monthly_invoice user_id period_start period_end))
         (\<lambda>r. case r of
             Inr (Some period) \<Rightarrow>
               (case stripe_key of
                  None \<Rightarrow> return_app (Suc invoices_created)
                | Some key \<Rightarrow> ignore (BillingService_create_stripe_invoice (bp_id period) key)
                                (return_app (Suc invoices_created)))
           | _ \<Rightarrow> return_app invoices_created)))))"

section \<open>The amount of a line\<close>

lemma calculate_amount_mono:
  assumes "h \<le> h'" "0 \<le> pt_hourly_price_cents pl"
  shows "BillingService_calculate_amount h pl \<le> BillingService_calculate_amount h' pl"
proof -
  have "0 \<le> f64_of_int (pt_hourly_price_cents pl)"
    using assms(2) by (simp add: f64_of_int_def f64.rnd_nonneg)
  with assms(1) have "f64_round (h * f64_of_int (pt_hourly_price_cents pl))
      \<le> f64_round (h' * f64_of_int (pt_hourly_price_cents pl))"
    by (intro f64_round_mono mult_right_mono)
  from f64_as_i32_mono [OF this] show ?thesis
    by (simp add: BillingService_calculate_amount_def Let_def min.coboundedI1)
qed

lemma calculate_amount_range:
  assumes "0 \<le> h" "0 \<le> pt_hourly_price_cents pl" "0 \<le> pt_monthly_price_cents pl"
  shows "0 \<le> BillingService_calculate_amount h pl \<and>
         BillingService_calculate_amount h pl \<le> pt_monthly_price_cents pl"
proof -
  have "0 \<le> f64_round (h * f64_of_int (pt_hourly_price_cents pl))"
    using assms by (simp add: f64_of_int_def f64.rnd_nonneg)
  then have "0 \<le> \<lceil>f64_round (h * f64_of_int (pt_hourly_price_cents pl))\<rceil>" by simp
  with assms show ?thesis
    by (simp add: BillingService_calculate_amount_def f64_as_i32_ceil Let_def)
qed

definition exact_amount :: "int \<Rightarrow> plan_template \<Rightarrow> int" where
  \<comment> \<open>what \<open>secs\<close> seconds cost: started cents, capped by the monthly price\<close>
  "exact_amount secs pl = min \<lceil>of_int (secs * pt_hourly_price_cents pl) / (3600 :: rat)\<rceil> (pt_monthly_price_cents pl)"

lemma ceiling_3600:
  assumes "\<not> 3600 dvd n"
  shows "of_int n / 3600 + 1 / 3600 \<le> (of_int \<lceil>of_int n / (3600 :: rat)\<rceil> :: rat)"
    and "of_int (\<lceil>of_int n / (3600 :: rat)\<rceil> - 1) + 1 / 3600 \<le> (of_int n / 3600 :: rat)"
proof -
  have c: "\<lceil>of_int n / (3600 :: rat)\<rceil> = n div 3600 + 1"
    using assms by (simp add: ceiling_divide_eq_div [where 'a = rat, of n 3600, simplified] dvd_eq_mod_eq_0)
      (simp add: zdiv_zminus1_eq_if dvd_eq_mod_eq_0)
  have m: "n = 3600 * (n div 3600) + n mod 3600" "0 < n mod 3600" "n mod 3600 < 3600"
    using assms by (auto simp: dvd_eq_mod_eq_0 order_less_le)
  have r: "of_int n = 3600 * of_int (n div 3600) + (of_int (n mod 3600) :: rat)"
    by (subst m(1)) (simp only: of_int_add of_int_mult of_int_numeral)
  have "(1 :: rat) \<le> of_int (n mod 3600)" "of_int (n mod 3600) \<le> (3599 :: rat)"
    using m(2,3) by linarith+
  then show "of_int n / 3600 + 1 / 3600 \<le> (of_int \<lceil>of_int n / (3600 :: rat)\<rceil> :: rat)"
    "of_int (\<lceil>of_int n / (3600 :: rat)\<rceil> - 1) + 1 / 3600 \<le> (of_int n / 3600 :: rat)"
    unfolding c by (subst r, simp add: field_simps)+
qed


lemma calculate_amount_eq:
  assumes "0 \<le> secs" "0 \<le> pt_hourly_price_cents pl" "in_i32 (pt_hourly_price_cents pl)"
    and "0 \<le> pt_monthly_price_cents pl" "in_i32 (pt_monthly_price_cents pl)"
    and "secs * pt_hourly_price_cents pl < 2 ^ 51"
  shows "BillingService_calculate_amount (f64_round (of_int secs / 3600)) pl =
      (let n = secs * pt_hourly_price_cents pl; c = \<lceil>of_int n / (3600 :: rat)\<rceil>
       in min (if of_int c < f64_round (f64_round (of_int secs / 3600) * of_int (pt_hourly_price_cents pl))
               then c + 1 else c) (pt_monthly_price_cents pl))"
    and "\<not> 3600 dvd secs * pt_hourly_price_cents pl \<Longrightarrow>
      BillingService_calculate_amount (f64_round (of_int secs / 3600)) pl = exact_amount secs pl"
proof -
  let ?p = "pt_hourly_price_cents pl" and ?m = "pt_monthly_price_cents pl"
  define n where "n = secs * ?p"
  define x :: rat where "x = of_int n / 3600"
  define y where "y = f64_round (f64_round (of_int secs / 3600) * of_int ?p)"
  have p: "f64_of_int ?p = of_int ?p"
    using assms(3) by (intro f64_of_int_exact) (auto simp: in_i32_def)
  have n: "0 \<le> n" "n < 2 ^ 51" using assms by (simp_all add: n_def)
  have "\<bar>y - of_int secs / 3600 * of_int ?p\<bar> \<le> of_int secs / 3600 * of_int ?p / 2 ^ 51"
    unfolding y_def using assms by (intro f64.rnd_twice_close) auto
  then have close: "\<bar>y - x\<bar> \<le> x / 2 ^ 51" by (simp add: x_def n_def)
  have "of_int n < (2 ^ 51 :: rat)" using n(2) by (metis of_int_less_iff of_int_numeral of_int_power)
  then have small: "x / 2 ^ 51 < 1 / 3600" by (simp add: x_def)
  have amount: "BillingService_calculate_amount (f64_round (of_int secs / 3600)) pl = min \<lceil>y\<rceil> ?m"
  proof -
    have "0 \<le> y" using assms by (simp add: y_def f64.rnd_nonneg)
    then have "0 \<le> \<lceil>y\<rceil>" by simp
    moreover have "min (max (- (2 ^ 31)) (min (2 ^ 31 - 1) z)) k = min z k"
      if "0 \<le> z" "in_i32 k" for z k :: int
      using that by (simp add: in_i32_def min_def)
    ultimately show ?thesis using assms(5)
      by (simp only: BillingService_calculate_amount_def p f64_as_i32_ceil Let_def y_def)
  qed
  have c: "\<lceil>y\<rceil> = (if of_int \<lceil>x\<rceil> < y then \<lceil>x\<rceil> + 1 else \<lceil>x\<rceil>)" and
    e: "\<not> 3600 dvd n \<Longrightarrow> \<lceil>y\<rceil> = \<lceil>x\<rceil>"
  proof -
    have up: "y \<le> of_int \<lceil>x\<rceil> + 1" and low: "of_int \<lceil>x\<rceil> - 1 < y"
    proof -
      show "y \<le> of_int \<lceil>x\<rceil> + 1" using close small le_of_int_ceiling [of x] by linarith
      have "of_int \<lceil>x\<rceil> - 1 + 1 / 3600 \<le> x"
      proof (cases "3600 dvd n")
        case True
        then obtain k where "n = 3600 * k" by blast
        then show ?thesis by (simp add: x_def)
      next
        case False
        from ceiling_3600(2) [OF this] show ?thesis by (simp add: x_def)
      qed
      with close small show "of_int \<lceil>x\<rceil> - 1 < y" by linarith
    qed
    then show "\<lceil>y\<rceil> = (if of_int \<lceil>x\<rceil> < y then \<lceil>x\<rceil> + 1 else \<lceil>x\<rceil>)"
      by (auto simp: ceiling_eq_iff)
    assume "\<not> 3600 dvd n"
    from ceiling_3600(1) [OF this] have "y \<le> of_int \<lceil>x\<rceil>"
      using close small unfolding x_def [symmetric] by linarith
    with low show "\<lceil>y\<rceil> = \<lceil>x\<rceil>" by (simp add: ceiling_eq_iff)
  qed
  show "BillingService_calculate_amount (f64_round (of_int secs / 3600)) pl =
      (let n = secs * ?p; c = \<lceil>of_int n / (3600 :: rat)\<rceil>
       in min (if of_int c < f64_round (f64_round (of_int secs / 3600) * of_int ?p)
               then c + 1 else c) ?m)"
    using amount c by (simp add: x_def y_def n_def)
  assume "\<not> 3600 dvd secs * ?p"
  with e amount show "BillingService_calculate_amount (f64_round (of_int secs / 3600)) pl = exact_amount secs pl"
    by (simp add: exact_amount_def x_def n_def)
qed

text \<open>
  C24. The amount grows with the hours and stays between 0 and the monthly price.
\<close>

theorem calculate_amount_bounds:
  assumes "0 \<le> hours" "hours \<le> hours'" "0 \<le> pt_hourly_price_cents pl" "0 \<le> pt_monthly_price_cents pl"
  shows "0 \<le> BillingService_calculate_amount hours pl \<and>
    BillingService_calculate_amount hours pl \<le> BillingService_calculate_amount hours' pl \<and>
    BillingService_calculate_amount hours' pl \<le> pt_monthly_price_cents pl"
  using assms calculate_amount_range [of hours pl] calculate_amount_range [of hours' pl]
    calculate_amount_mono [of hours hours' pl] by simp

definition plan_15c :: plan_template where
  "plan_15c = \<lparr>pt_id = 1, pt_name = ''Starter'', pt_db_type = Postgresql, pt_cpu_limit = 1 / 2,
     pt_memory_limit_mb = 256, pt_monthly_price_cents = 5000, pt_hourly_price_cents = 15,
     pt_is_bundle = False, pt_active = True, pt_created_at = 0\<rparr>"

lemma calculate_amount_bounds_witness:
  "0 \<le> BillingService_calculate_amount 1 plan_15c \<and>
    BillingService_calculate_amount 1 plan_15c \<le> BillingService_calculate_amount 2 plan_15c \<and>
    BillingService_calculate_amount 2 plan_15c \<le> 5000"
  using calculate_amount_bounds [of 1 2 plan_15c] by (simp add: plan_15c_def)

text \<open>
  C23. What a database that ran \<open>secs\<close> seconds costs: the started cents of the exact product,
  capped by the monthly price, when the product is no whole number of cents; when it is, the two
  roundings of \<open>f64\<close> can cost one cent more.
\<close>

theorem calculate_amount_exact:
  assumes "0 \<le> secs" "0 \<le> pt_hourly_price_cents pl" "in_i32 (pt_hourly_price_cents pl)"
    and "0 \<le> pt_monthly_price_cents pl" "in_i32 (pt_monthly_price_cents pl)"
    and "secs * pt_hourly_price_cents pl < 2 ^ 51"
  shows "if 3600 dvd secs * pt_hourly_price_cents pl
    then BillingService_calculate_amount (f64_round (of_int secs / 3600)) pl
           \<in> {exact_amount secs pl, min (exact_amount secs pl + 1) (pt_monthly_price_cents pl)}
    else BillingService_calculate_amount (f64_round (of_int secs / 3600)) pl = exact_amount secs pl"
  using calculate_amount_eq [OF assms] by (auto simp: exact_amount_def Let_def)

lemma calculate_amount_exact_witness:
  "if 3600 dvd (5000 * 15 :: int)
    then BillingService_calculate_amount (f64_round (of_int 5000 / 3600)) plan_15c
           \<in> {exact_amount 5000 plan_15c, min (exact_amount 5000 plan_15c + 1) 5000}
    else BillingService_calculate_amount (f64_round (of_int 5000 / 3600)) plan_15c = exact_amount 5000 plan_15c"
  using calculate_amount_exact [of 5000 plan_15c] by (simp add: plan_15c_def in_i32_def)


section \<open>The metered time is the running time\<close>

definition running_at :: "bool \<Rightarrow> usage_event list \<Rightarrow> time \<Rightarrow> bool" where
  \<comment> \<open>the last event that is not after \<open>t\<close> decides; \<open>r\<close> is the status before the events\<close>
  "running_at r evs t =
     foldl (\<lambda>r ev. if ue_recorded_at ev \<le> t then ue_event_type ev = ''start'' else r) r evs"

fun alternates :: "bool \<Rightarrow> usage_event list \<Rightarrow> bool" where
  \<comment> \<open>starts and stops take turns, as a container that runs when \<open>r\<close> can do them\<close>
  "alternates r [] = True"
| "alternates r (ev # evs) =
     (ue_event_type ev = (if r then ''stop'' else ''start'') \<and> alternates (\<not> r) evs)"

fun running_ns :: "bool \<Rightarrow> time \<Rightarrow> usage_event list \<Rightarrow> time \<Rightarrow> int" where
  "running_ns r b [] pe = (if r then pe - b else 0)"
| "running_ns r b (ev # evs) pe =
     (if r then ue_recorded_at ev - b else 0)
     + running_ns (ue_event_type ev = ''start'') (ue_recorded_at ev) evs pe"

lemma running_at_before:
  "\<forall>ev \<in> set evs. t < ue_recorded_at ev \<Longrightarrow> running_at r evs t = r"
  by (induction evs arbitrary: r) (auto simp: running_at_def)

lemma running_at_Cons:
  "ue_recorded_at ev \<le> t \<Longrightarrow> running_at r (ev # evs) t = running_at (ue_event_type ev = ''start'') evs t"
  by (simp add: running_at_def)

lemma running_ns_card:
  assumes "sorted (b # map ue_recorded_at evs)" "\<And>ev. ev \<in> set evs \<Longrightarrow> ue_recorded_at ev \<le> pe" "b \<le> pe"
  shows "int (card {t \<in> {b ..< pe}. running_at r evs t}) = running_ns r b evs pe"
  using assms
proof (induction evs arbitrary: r b)
  case Nil
  have "{t \<in> {b ..< pe}. True} = {b ..< pe}" by auto
  with Nil show ?case by (simp add: running_at_def)
next
  case (Cons ev evs)
  let ?m = "ue_recorded_at ev"
  have m: "b \<le> ?m" "?m \<le> pe" "sorted (?m # map ue_recorded_at evs)" using Cons.prems by auto
  have split: "{t \<in> {b ..< pe}. running_at r (ev # evs) t} =
      {t \<in> {b ..< ?m}. r} \<union> {t \<in> {?m ..< pe}. running_at (ue_event_type ev = ''start'') evs t}"
    (is "_ = ?A \<union> ?B")
  proof -
    have "running_at r (ev # evs) t = r" if "t < ?m" for t
      using that m(3) by (intro running_at_before) auto
    moreover have "running_at r (ev # evs) t = running_at (ue_event_type ev = ''start'') evs t" if "\<not> t < ?m" for t
      using that by (simp add: running_at_Cons)
    ultimately have "running_at r (ev # evs) t = (if t < ?m then r else running_at (ue_event_type ev = ''start'') evs t)" for t
      by simp
    with m(1,2) show ?thesis by (auto split: if_splits)
  qed
  have "int (card (?A \<union> ?B)) = int (card ?A) + int (card ?B)"
  proof -
    have "finite ?A" by (rule finite_subset [of _ "{b ..< ?m}"]) (blast, rule finite_atLeastLessThan_int)
    moreover have "finite ?B" by (rule finite_subset [of _ "{?m ..< pe}"]) (blast, rule finite_atLeastLessThan_int)
    moreover have "?A \<inter> ?B = {}" by auto
    ultimately show ?thesis by (simp only: card_Un_disjoint of_nat_add)
  qed
  also have "int (card ?A) = (if r then ?m - b else 0)"
  proof -
    have "{t \<in> {b ..< ?m}. True} = {b ..< ?m}" by auto
    with m(1) show ?thesis by simp
  qed
  also have "int (card ?B) = running_ns (ue_event_type ev = ''start'') ?m evs pe"
    using Cons.prems m by (intro Cons.IH) auto
  finally show ?case by (simp only: split running_ns.simps)
qed

lemma num_seconds_bounds:
  assumes "0 \<le> d"
  shows "0 \<le> num_seconds d" "num_seconds d * 10 ^ 9 \<le> d" "d < num_seconds d * 10 ^ 9 + 10 ^ 9"
  using assms by (simp_all add: num_seconds_def)

lemma running_ns_nonneg:
  assumes "sorted (b # map ue_recorded_at evs)" "\<And>ev. ev \<in> set evs \<Longrightarrow> ue_recorded_at ev \<le> pe" "b \<le> pe"
  shows "0 \<le> running_ns r b evs pe"
  using running_ns_card [OF assms] by (metis of_nat_0_le_iff)

lemma usage_step_simps [simp]:
  "ue_event_type ev = ''start'' \<Longrightarrow> usage_step (tot, l) ev = (tot, Some (ue_recorded_at ev))"
  "ue_event_type ev = ''stop'' \<Longrightarrow> usage_step (tot, None) ev = (tot, None)"
  "ue_event_type ev = ''stop'' \<Longrightarrow> usage_step (tot, Some start) ev =
     (f64_round (tot + f64_of_int (num_seconds (ue_recorded_at ev - start))), None)"
  by (simp_all add: usage_step_def)

lemma usage_fold:
  assumes "sorted (b # map ue_recorded_at evs)" "\<And>ev. ev \<in> set evs \<Longrightarrow> ue_recorded_at ev \<le> pe" "b \<le> pe"
    and "alternates r evs" "0 \<le> T" "T * 10 ^ 9 \<le> b - ps" "pe - ps \<le> 2 ^ 53"
    and "foldl usage_step (of_int T, if r then Some b else None) evs = (tot, last_start)"
  shows "\<exists>R \<ge> 0. (case last_start of None \<Rightarrow> tot
            | Some start \<Rightarrow> f64_round (tot + f64_of_int (num_seconds (pe - start)))) = of_int (T + R) \<and>
          R * 10 ^ 9 \<le> running_ns r b evs pe \<and>
          running_ns r b evs pe < R * 10 ^ 9 + 10 ^ 9 * (int (length evs) + 1)"
  using assms
proof (induction evs arbitrary: r b T)
  case Nil
  have add: "f64_round (of_int T + f64_of_int (num_seconds (pe - b))) = of_int (T + num_seconds (pe - b))"
  proof -
    have n: "0 \<le> num_seconds (pe - b)" "num_seconds (pe - b) * 10 ^ 9 \<le> pe - b"
      using Nil.prems num_seconds_bounds [of "pe - b"] by simp_all
    then have "\<bar>num_seconds (pe - b)\<bar> \<le> 2 ^ 53" "\<bar>T + num_seconds (pe - b)\<bar> \<le> 2 ^ 53"
      using Nil.prems by simp_all
    then show ?thesis by (simp add: f64_of_int_exact f64_round_int del: of_int_add add: of_int_add [symmetric])
  qed
  show ?case
  proof (cases r)
    case True
    with Nil.prems num_seconds_bounds [of "pe - b"] add show ?thesis
      by (intro exI [of _ "num_seconds (pe - b)"]) auto
  next
    case False
    with Nil.prems show ?thesis by (intro exI [of _ 0]) auto
  qed
next
  case (Cons ev evs)
  let ?m = "ue_recorded_at ev"
  have m: "b \<le> ?m" "?m \<le> pe" "sorted (?m # map ue_recorded_at evs)" using Cons.prems by auto
  show ?case
  proof (cases r)
    case False
    with Cons.prems have "ue_event_type ev = ''start''" by simp
    with False Cons.prems(8) have "foldl usage_step (of_int T, if True then Some ?m else None) evs = (tot, last_start)"
      by simp
    moreover have "T * 10 ^ 9 \<le> ?m - ps" using Cons.prems(6) m by simp
    moreover have "alternates True evs" using False Cons.prems(4) by simp
    ultimately obtain R where "0 \<le> R"
      "(case last_start of None \<Rightarrow> tot
        | Some start \<Rightarrow> f64_round (tot + f64_of_int (num_seconds (pe - start)))) = of_int (T + R)"
      "R * 10 ^ 9 \<le> running_ns True ?m evs pe"
      "running_ns True ?m evs pe < R * 10 ^ 9 + 10 ^ 9 * (int (length evs) + 1)"
      using Cons.IH [of ?m True T] Cons.prems(2,5,7) m by auto
    with False \<open>ue_event_type ev = ''start''\<close> show ?thesis by (intro exI [of _ R]) simp
  next
    case True
    then have ty: "ue_event_type ev = ''stop''" using Cons.prems by simp
    let ?d = "num_seconds (?m - b)"
    have d: "0 \<le> ?d" "?d * 10 ^ 9 \<le> ?m - b" "?m - b < ?d * 10 ^ 9 + 10 ^ 9"
      using num_seconds_bounds [of "?m - b"] m by simp_all
    have "\<bar>?d\<bar> \<le> 2 ^ 53" "\<bar>T + ?d\<bar> \<le> 2 ^ 53"
      using d(1,2) m(1,2) Cons.prems(5-7) by auto
    then have "f64_round (of_int T + f64_of_int ?d) = of_int (T + ?d)"
      by (simp add: f64_of_int_exact f64_round_int del: of_int_add add: of_int_add [symmetric])
    then have "foldl usage_step (of_int (T + ?d), if False then Some ?m else None) evs = (tot, last_start)"
      using Cons.prems(8) True ty by simp
    moreover have "0 \<le> T + ?d" "(T + ?d) * 10 ^ 9 \<le> ?m - ps"
      using d Cons.prems by (simp_all add: distrib_right)
    moreover have "alternates False evs" using True Cons.prems by simp
    ultimately obtain R where R: "0 \<le> R"
      "(case last_start of None \<Rightarrow> tot
        | Some start \<Rightarrow> f64_round (tot + f64_of_int (num_seconds (pe - start)))) = of_int (T + ?d + R)"
      "R * 10 ^ 9 \<le> running_ns False ?m evs pe"
      "running_ns False ?m evs pe < R * 10 ^ 9 + 10 ^ 9 * (int (length evs) + 1)"
      using Cons.IH [of ?m False "T + ?d"] Cons.prems m by auto
    with d True ty show ?thesis
      by (intro exI [of _ "?d + R"]) (auto simp: distrib_right add.assoc)
  qed
qed


lemma usage_events_sorted:
  "sorted (map ue_recorded_at (usage_events_between d i ps pe))"
  "ev \<in> set (usage_events_between d i ps pe) \<Longrightarrow> ps \<le> ue_recorded_at ev \<and> ue_recorded_at ev \<le> pe"
  by (simp_all add: usage_events_between_def)

lemma usage_total_running:
  assumes "evs \<noteq> []" "sorted (ps # map ue_recorded_at evs)" "\<And>ev. ev \<in> set evs \<Longrightarrow> ue_recorded_at ev \<le> pe"
    and "alternates (ue_event_type (hd evs) = ''stop'') evs" "pe - ps \<le> 2 ^ 53"
  shows "\<exists>T \<ge> 0. usage_total ps pe evs = of_int T \<and>
     T * 10 ^ 9 \<le> int (card {t \<in> {ps ..< pe}. running_at (ue_event_type (hd evs) = ''stop'') evs t}) \<and>
     int (card {t \<in> {ps ..< pe}. running_at (ue_event_type (hd evs) = ''stop'') evs t})
       < T * 10 ^ 9 + 10 ^ 9 * (int (length evs) + 1)"
proof -
  let ?r = "ue_event_type (hd evs) = ''stop''"
  obtain tot last_start where fold: "foldl usage_step (of_int 0, if ?r then Some ps else None) evs = (tot, last_start)"
    by (cases "foldl usage_step (of_int 0, if ?r then Some ps else None) evs")
  have pe: "ps \<le> pe" using assms(1-3) by (cases evs) force+
  have "usage_total ps pe evs = (case last_start of None \<Rightarrow> tot
      | Some start \<Rightarrow> f64_round (tot + f64_of_int (num_seconds (pe - start))))"
    using fold assms(1) by (cases evs) (simp_all add: usage_total_def)
  with usage_fold [OF assms(2,3) pe assms(4), of 0 ps tot last_start] fold assms(5)
    running_ns_card [OF assms(2,3) pe, of ?r]
  show ?thesis by auto
qed



end
