(* ===== verification/Scenario.thy ===== *)
theory Scenario
  imports Calculus
begin

text \<open>
  A small concrete platform on which the witnesses of the properties are evaluated: a
  configuration, libraries that compute, an environment in which every effect succeeds at
  once, and a state without databases.
\<close>

definition demo_config :: config where
  "demo_config = \<lparr>database_url = ''postgres://db'', redis_url = ''redis://redis'',
     api_host = ''0.0.0.0'', api_port = 3001, jwt_secret = ''jwt'',
     encryption_key = replicate 64 CHR ''f'', docker_host = None, port_range_start = 10000,
     port_range_end = 10009, max_databases_per_user = 5, cfg_registration_enabled = True,
     tls_ca_dir = ''/tls'', traefik_dynamic_dir = ''/traefik'', platform_domain = ''example.com'',
     backup_dir = ''/backups'', stripe_secret_key = Some ''sk'',
     stripe_webhook_secret = Some ''whsec'', platform_ip = ''10.0.0.1'', cors_origins = None,
     smtp_host = None, smtp_port = None, smtp_username = None, smtp_password = None,
     smtp_from = None\<rparr>"

definition demo_libraries :: libraries where
  "demo_libraries = \<lparr>l_cipher = toy_cipher,
     l_uuid_str = (\<lambda>u. ''00000000-'' @ nat_to_string u),
     l_argon2 = (\<lambda>salt pw. Some (salt @ ''$'' @ pw)), l_argon2_parse = (\<lambda>h. CHR ''$'' \<in> set h),
     l_argon2_verify = (\<lambda>pw h. str_ends_with h (''$'' @ pw)),
     l_sha256_hex = (\<lambda>x. take 64 (rev x)), l_email_valid = (\<lambda>x. CHR ''@'' \<in> set x),
     l_alphanumeric = (\<lambda>_. False),
     l_month_start = (\<lambda>t. t - t mod (2592000 * 10 ^ 9)),
     l_prev_month_start = (\<lambda>t. t - t mod (2592000 * 10 ^ 9) - 2592000 * 10 ^ 9),
     l_format_timestamp = int_to_string,
     l_new_ca = (\<lambda>n cn org. Some (cn @ ''.crt'', cn @ ''.key'')),
     l_new_cert = (\<lambda>n ca key nm alt. Some (nm @ ''.crt'', nm @ ''.key'')),
     l_untar = (\<lambda>x. Some (Some (x, length x))),
     l_hmac_sha256 = (\<lambda>key msg. rev (key @ msg)),
     l_stripe_event = (\<lambda>body. Inr (Some ''invoice.paid'', Some body)),
     l_hex_decode = Some, l_uuid_parse = (\<lambda>_. None),
     l_jwt_encode = (\<lambda>secret cl. Inr (secret @ ''.'' @ nat_to_string (cl_sub cl))),
     l_jwt_decode = (\<lambda>now secret tok. if tok = secret @ ''.1''
       then Inr \<lparr>cl_sub = 1, cl_email = ''ada@example.org'', cl_role = UserRole_Admin, cl_exp = 0\<rparr>
       else Inl ''InvalidToken''),
     l_url_parse = (\<lambda>u. None), l_mailbox_valid = (\<lambda>x. CHR ''@'' \<in> set x),
     l_rfc3339 = int_to_string, l_day_of_month = (\<lambda>t. nat (t div (86400 * 10 ^ 9) mod 30) + 1),
     l_month_of_year = (\<lambda>t. nat (t div (2592000 * 10 ^ 9) mod 12) + 1),
     l_date = int_to_string, l_year_month = int_to_string, l_time_ok = (\<lambda>t. \<bar>t\<bar> < 2 ^ 90), l_canonicalize = Some,
     l_ip_parse = (\<lambda>x. if x = ''9.9.9.9'' then Some (V4 9 9 9 9) else None),
     l_tar = (\<lambda>nm data. data)\<rparr>"

definition demo_reply :: "nat \<Rightarrow> docker_reply" where
  "demo_reply n = \<lparr>rp_id = ''id'' @ nat_to_string n, rp_output = ''accepting connections'',
     rp_network_id = Some (''net'' @ nat_to_string n), rp_ipam = [(Some ''172.18.0.0/16'', None)],
     rp_state = Some \<lparr>cs_running = Some True, cs_health = Some (Some HEALTHY)\<rparr>,
     rp_stats = None,
     rp_info = \<lparr>in_ncpu = None, in_mem_total = None, in_containers_running = None,
       in_containers_stopped = None, in_containers = None, in_operating_system = None,
       in_kernel_version = None, in_docker_root_dir = None\<rparr>,
     rp_version = None,
     rp_disk = \<lparr>df_images_count = None, df_volumes_count = None, df_images_size = None,
       df_containers_size = None\<rparr>,
     rp_containers = []\<rparr>"

definition demo_env :: env where
  "demo_env = \<lparr>cfg = demo_config, lib = demo_libraries, db_up = (\<lambda>_. True),
     fresh_uuid = (\<lambda>n. 1000 + n), latency = (\<lambda>_. 0),
     docker_answer = (\<lambda>n c call. Inr (demo_reply n)), docker_connects = (\<lambda>n c. True),
     http_answer = (\<lambda>n url form. Inr \<lparr>hr_success = True, hr_body = [], hr_json = Inr (Some ''in_1'')\<rparr>),
     client_connects = (\<lambda>n u. True), client_executes = (\<lambda>n q. True), resolve = (\<lambda>n h. None), fs_ok = (\<lambda>_. True),
     random_index = (\<lambda>n i. (n + i) mod 62), random_bytes = (\<lambda>_. replicate 12 CHR ''x'')\<rparr>"

definition demo_user :: "uuid \<Rightarrow> user" where
  "demo_user i = \<lparr>u_id = i, u_email = ''u'' @ nat_to_string i @ ''@example.com'',
     u_password_hash = ''s$pw'', u_role = UserRole_User, u_api_key = None, u_max_databases = 5,
     u_created_at = 0, u_updated_at = 0, u_stripe_customer_id = Some ''cus''\<rparr>"

definition demo_plan :: plan_template where
  "demo_plan = \<lparr>pt_id = 70, pt_name = ''Starter'', pt_db_type = Postgresql, pt_cpu_limit = 1 / 2,
     pt_memory_limit_mb = 256, pt_monthly_price_cents = 5000, pt_hourly_price_cents = 15,
     pt_is_bundle = False, pt_active = True, pt_created_at = 0\<rparr>"

definition demo_pg :: pg where
  "demo_pg = \<lparr>t_users = [demo_user 1, demo_user 2], t_databases = [], t_bundles = [], t_db_users = [],
     t_backups = [], t_migrations = [], t_plans = [demo_plan], t_usage_events = [],
     t_billing_periods = [], t_line_items = [], t_servers = [], t_networks = [], t_members = [],
     t_peerings = [], t_rules = [], t_invitations = [], t_schedules = [], t_audit_logs = [],
     t_alert_rules = [], t_alert_history = [], t_favorites = [], t_settings = []\<rparr>"

definition demo_state :: app_state where
  "demo_state = \<lparr>db = demo_pg, ports = PortPool_new 10000 10009, registration_enabled = True,
     maintenance_mode = False, events = [], calls = [], spawned = [], files = (\<lambda>_. None),
     gauges = \<lparr>ga_total_users = 0, ga_total_databases = 0, ga_by_status = [], ga_by_type = [],
       ga_monthly_revenue = 0, ga_pending_revenue = 0\<rparr>,
     tick = 0, clock = 5184000 * 10 ^ 9\<rparr>"

lemma demo_pg_ok: "schema_ok demo_pg"
  by (simp add: demo_pg_def schema_ok_def schema_parts_def demo_user_def demo_plan_def keyed_def keyed_opt_def fk_def fk_opt_def ids_def fits_def
      nat_to_string.simps [of "Suc 0"] nat_to_string.simps [of 2] digit_char_def)

section \<open>Running a handler\<close>

text \<open>
  The simplifier runs a computation from the outside in: with \<open>run_frozen\<close> as a congruence it
  evaluates the first step of a \<open>bind_app\<close> and only then opens the continuation.
\<close>

lemma run_frozen: "bind_app m f e s = bind_app m f e s"
  by (rule refl)

lemma demo_env_simps [simp]:
  "next_tick demo_env s = s\<lparr>tick := Suc (tick s)\<rparr>"
  "db_up demo_env n" "fresh_uuid demo_env n = 1000 + n" "latency demo_env n = 0"
  "cfg demo_env = demo_config" "lib demo_env = demo_libraries" "fs_ok demo_env n"
  "docker_answer demo_env n c call = Inr (demo_reply n)" "docker_connects demo_env n c"
  "http_answer demo_env n url form = Inr \<lparr>hr_success = True, hr_body = [], hr_json = Inr (Some ''in_1'')\<rparr>"
  by (simp_all add: demo_env_def next_tick_def)

lemma demo_state_simps [simp]:
  "db demo_state = demo_pg" "tick demo_state = 0" "clock demo_state = 5184000 * 10 ^ 9"
  "ports demo_state = PortPool_new 10000 10009" "events demo_state = []" "calls demo_state = []"
  "spawned demo_state = []" "files demo_state = (\<lambda>_. None)" "registration_enabled demo_state"
  "\<not> maintenance_mode demo_state"
  by (simp_all add: demo_state_def)

lemma demo_pg_simps [simp]:
  "t_users demo_pg = [demo_user 1, demo_user 2]" "t_databases demo_pg = []" "t_bundles demo_pg = []"
  "t_db_users demo_pg = []" "t_backups demo_pg = []" "t_migrations demo_pg = []"
  "t_plans demo_pg = [demo_plan]" "t_usage_events demo_pg = []" "t_billing_periods demo_pg = []"
  "t_line_items demo_pg = []" "t_servers demo_pg = []" "t_networks demo_pg = []"
  "t_members demo_pg = []" "t_peerings demo_pg = []" "t_rules demo_pg = []"
  "t_invitations demo_pg = []" "t_schedules demo_pg = []" "t_audit_logs demo_pg = []"
  "t_alert_rules demo_pg = []" "t_alert_history demo_pg = []" "t_favorites demo_pg = []"
  "t_settings demo_pg = []"
  by (simp_all add: demo_pg_def)

lemma demo_row_simps [simp]:
  "u_id (demo_user i) = i" "u_role (demo_user i) = UserRole_User" "u_api_key (demo_user i) = None"
  "u_stripe_customer_id (demo_user i) = Some ''cus''" "pt_id demo_plan = 70"
  "pt_cpu_limit demo_plan = 1 / 2" "pt_memory_limit_mb demo_plan = 256"
  "pt_db_type demo_plan = Postgresql" "pt_active demo_plan" "\<not> pt_is_bundle demo_plan"
  "pt_name demo_plan = ''Starter''"
  by (simp_all add: demo_user_def demo_plan_def)

lemma char_count_simps [simp]:
  "char_count [] = 0"
  "char_count (c # cs) =
     (if 128 \<le> (of_char c :: nat) \<and> (of_char c :: nat) < 192 then char_count cs else Suc (char_count cs))"
  by (simp_all add: char_count_def)

lemmas run_simps =
  Let_def count_rows_def sql_insert_up sql_update_up run_sql_up fits_def fits_opt_def ids_def opt_in_def
  insert_user_def insert_database_def insert_bundle_def insert_db_user_def insert_backup_def
  insert_usage_event_def insert_billing_period_def insert_line_item_def insert_network_def
  insert_member_def insert_peering_def insert_rule_def insert_invitation_def

end
