(* ===== verification/Billing_Handlers.thy ===== *)
theory Billing_Handlers
  imports Billing Scenario
begin

text \<open>
  \<open>src/api/src/handlers/billing.rs\<close>: the plan catalogue, billing history and overview, and the
  webhook of Stripe with its signature check. What an invoice holds is proved here too.
\<close>

section \<open>Plans and periods\<close>

definition public_list_plans :: "plan_template list app" where
  "public_list_plans = BillingRepository_list_active_templates"

definition list_plans :: "plan_template list app" where
  "list_plans = BillingRepository_list_active_templates"

definition billing_periods :: "uuid \<Rightarrow> billing_period list app" where
  "billing_periods user_id = BillingRepository_get_user_billing_periods user_id"

definition billing_current :: "uuid \<Rightarrow> current_usage_response app" where
  "billing_current user_id = BillingService_get_current_usage user_id"

definition admin_list_plans :: "plan_template list app" where
  "admin_list_plans = BillingRepository_list_plan_templates"

definition admin_create_plan :: "create_plan_template_request \<Rightarrow> plan_template app" where
  "admin_create_plan req = BillingRepository_create_plan_template req"

definition admin_update_plan :: "uuid \<Rightarrow> update_plan_template_request \<Rightarrow> plan_template app" where
  "admin_update_plan i req = BillingRepository_update_plan_template i req"

definition admin_delete_plan :: "uuid \<Rightarrow> string app" where
  "admin_delete_plan i =
     then_app (BillingRepository_delete_plan_template i) (return_app ''deactivated'')"

record billing_overview =
  bo_total_revenue_cents :: i32
  bo_pending_revenue_cents :: i32
  bo_total_periods :: nat
  bo_periods :: "billing_period list"

definition sum_i32 :: "i32 list \<Rightarrow> i32" where
  \<comment> \<open>\<open>Iterator::sum\<close> on \<open>i32\<close>\<close>
  "sum_i32 xs = foldl (\<lambda>acc x. wrap_i32 (acc + x)) 0 xs"

definition admin_billing_overview :: "billing_overview app" where
  "admin_billing_overview =
     bind_app BillingRepository_get_all_billing_periods (\<lambda>periods.
       return_app \<lparr>
         bo_total_revenue_cents = sum_i32 (map bp_total_cents (filter (\<lambda>p. bp_status p = ''paid'') periods)),
         bo_pending_revenue_cents = sum_i32 (map bp_total_cents
            (filter (\<lambda>p. bp_status p = ''pending'' \<or> bp_status p = ''invoiced'') periods)),
         bo_total_periods = length periods,
         bo_periods = periods\<rparr>)"

definition admin_generate_billing :: "nat app" where
  "admin_generate_billing =
     bind_app (asks (\<lambda>e. stripe_secret_key (cfg e))) BillingService_run_monthly_billing"

section \<open>The webhook\<close>

fun signature_parts :: "string list \<Rightarrow> string option \<times> string option \<Rightarrow> string option \<times> string option" where
  \<comment> \<open>the loop over the parts of the header: timestamp and signature\<close>
  "signature_parts [] acc = acc"
| "signature_parts (part # parts) (timestamp, signature) =
     signature_parts parts
       (case str_strip_prefix (str_trim part) ''t='' of
          Some t \<Rightarrow> (Some t, signature)
        | None \<Rightarrow> (case str_strip_prefix (str_trim part) ''v1='' of
              Some v \<Rightarrow> (timestamp, Some v)
            | None \<Rightarrow> (timestamp, signature)))"

definition verify_stripe_signature ::
  "libraries \<Rightarrow> time \<Rightarrow> string \<Rightarrow> string \<Rightarrow> string \<Rightarrow> app_error + unit" where
  "verify_stripe_signature l now payload sig_header secret =
     (case signature_parts (str_split sig_header CHR '','') (None, None) of
        (None, _) \<Rightarrow> Inl (BadRequest ''Missing timestamp in Stripe signature'')
      | (Some timestamp, None) \<Rightarrow> Inl (BadRequest ''Missing v1 signature in Stripe header'')
      | (Some timestamp, Some expected_sig) \<Rightarrow>
          (case parse_i64 timestamp of
             None \<Rightarrow> Inl (BadRequest ''Invalid timestamp in Stripe signature'')
           | Some ts \<Rightarrow>
               if \<bar>wrap_i64 (now div 10 ^ 9 - ts)\<bar> > 300
               then Inl (BadRequest ''Stripe webhook timestamp too old'')
               else (case l_hex_decode l expected_sig of
                       None \<Rightarrow> Inl (BadRequest ''Invalid hex in Stripe signature'')
                     | Some expected_bytes \<Rightarrow>
                         if l_hmac_sha256 l secret (timestamp @ ''.'' @ payload) = expected_bytes
                         then Inr ()
                         else Inl (BadRequest ''Invalid Stripe webhook signature''))))"

definition stripe_webhook :: "string option \<Rightarrow> string \<Rightarrow> unit app" where
  \<comment> \<open>the header, when it is there and visible ASCII, and the body\<close>
  "stripe_webhook signature body =
     bind_app (asks (\<lambda>e. stripe_webhook_secret (cfg e))) (\<lambda>configured.
     bind_app (ok_or configured (Internal ''Stripe webhook secret not configured'')) (\<lambda>webhook_secret.
     bind_app (ok_or signature (BadRequest ''Missing Stripe-Signature header'')) (\<lambda>sig_header.
     bind_app (asks lib) (\<lambda>l. bind_app utc_now (\<lambda>now.
     then_app (lift_result (verify_stripe_signature l now body sig_header webhook_secret))
     (bind_app (lift_result (case l_stripe_event l body of
          Inl er \<Rightarrow> Inl (BadRequest (''Invalid JSON: '' @ er)) | Inr v \<Rightarrow> Inr v))
       (\<lambda>(ty, object_id).
     let event_type = unwrap_or ty []; invoice_id = unwrap_or object_id [] in
     if invoice_id \<noteq> [] then BillingService_handle_stripe_webhook event_type invoice_id
     else return_app ())))))))"

section \<open>What an invoice holds\<close>

lemma wrap_i32_add: "wrap_i32 (wrap_i32 x + y) = wrap_i32 (x + y)"
proof -
  have "(x + 2 ^ 31) mod 2 ^ 32 - 2 ^ 31 + y + 2 ^ 31 = (x + 2 ^ 31) mod 2 ^ 32 + y" by simp
  then show ?thesis by (simp add: wrap_i32_def mod_simps algebra_simps)
qed

lemma sum_i32_eq: "sum_i32 xs = wrap_i32 (sum_list xs)"
proof -
  have "foldl (\<lambda>acc x. wrap_i32 (acc + x)) (wrap_i32 a) xs = wrap_i32 (a + sum_list xs)" for a
    by (induction xs arbitrary: a) (simp_all add: wrap_i32_add add.assoc)
  from this [of 0] show ?thesis by (simp add: sum_i32_def wrap_i32_def)
qed

lemma billing_reads [preserves_intro]:
  "keeps_db P (BillingService_calculate_usage_hours i ps pe)"
  "keeps_db P (plan_amount h pl)"
  "keeps_db P (count_periods u ps)"
  unfolding BillingService_calculate_usage_hours_def plan_amount_def count_periods_def
  by (intro preserves_intro)+

lemma keeps_db_invoice_step [preserves_intro]: "keeps_db P (invoice_step ps pe entry acc)"
  unfolding invoice_step_def by (simp add: split_beta Let_def) (intro preserves_intro)

lemma reads_invoice_step: "reads (invoice_step ps pe entry acc)"
  by (intro readsI preserves_intro)

definition lines_sum :: "(uuid \<times> uuid option \<times> f64 \<times> i32) list \<Rightarrow> int" where
  "lines_sum items = sum_list (map (\<lambda>(_, _, _, amount). amount) items)"

lemma invoice_step_total:
  assumes "cents = wrap_i32 (lines_sum items)"
  shows "wp (invoice_step ps pe entry (cents, items))
     (on_ok (\<lambda>(cents, items) s'. cents = wrap_i32 (lines_sum items) \<and> db s' = db s)
        (\<lambda>s'. db s' = db s)) e s"
proof (cases "invoice_step ps pe entry (cents, items) e s")
  case (Pair r s')
  then have "db s' = db s" using readsD [OF reads_invoice_step] by blast
  moreover have "tot = wrap_i32 (lines_sum its)" if "r = Inr (tot, its)" for tot its
    using Pair that assms
    by (auto simp: invoice_step_def lines_sum_def split_beta Let_def bind_app_eval wrap_i32_add
        split: prod.splits sum.splits if_splits)
  ultimately show ?thesis using Pair by (auto simp: wp_def on_ok_def split: sum.split)
qed

lemma invoice_lines_total:
  "wp (fold_app entries (0, []) (invoice_step ps pe))
     (on_ok (\<lambda>(cents, items) s'. cents = wrap_i32 (lines_sum items) \<and> db s' = db s)
        (\<lambda>s'. db s' = db s)) e s"
proof -
  have "wp (invoice_step ps pe x acc)
     (on_ok (\<lambda>(cents, items) s'. cents = wrap_i32 (lines_sum items) \<and> db s' = db s)
        (\<lambda>s'. db s' = db s)) e s''"
    if "(\<lambda>(cents, items) s'. cents = wrap_i32 (lines_sum items) \<and> db s' = db s) acc s''"
    for x acc s''
    using invoice_step_total [of "fst acc" "snd acc" ps pe x s'' e] that
    by (cases acc) simp
  then show ?thesis
    by (rule wp_fold_app [rotated, where acc = "(0, [])"]) (simp_all add: wrap_i32_def lines_sum_def)
qed


definition period_items :: "pg \<Rightarrow> uuid \<Rightarrow> billing_line_item list" where
  "period_items d i = filter (\<lambda>x. li_billing_period_id x = i) (t_line_items d)"

lemma add_line_item_wp:
  assumes "Q (db s)"
    and "\<And>row d. li_billing_period_id row = p \<Longrightarrow> li_amount_cents row = a \<Longrightarrow>
      d = (db s)\<lparr>t_line_items := t_line_items (db s) @ [row]\<rparr> \<Longrightarrow> Q' d"
  shows "wp (BillingRepository_add_line_item p i pl h a) (on_ok (\<lambda>_ s'. Q' (db s')) (\<lambda>s'. Q (db s'))) e s"
  unfolding BillingRepository_add_line_item_def
proof (rule wp_insert_ok, goal_cases)
  case (1 n t d)
  show ?case by (rule assms(2)) (use 1 in \<open>auto simp: insert_line_item_def split: if_split_asm\<close>)
qed (simp add: assms(1))

lemma fresh_period_has_no_items:
  assumes "schema_ok d" "insert_billing_period r d = Inr d'"
  shows "period_items d' (bp_id r) = [] \<and> t_billing_periods d' = t_billing_periods d @ [r]"
proof -
  have "bp_id r \<notin> ids bp_id (t_billing_periods d)"
    and d': "d' = d\<lparr>t_billing_periods := t_billing_periods d @ [r]\<rparr>"
    using assms(2) by (auto simp: insert_billing_period_def split: if_splits)
  moreover have "\<forall>x \<in> set (t_line_items d). li_billing_period_id x \<in> ids bp_id (t_billing_periods d)"
    using assms(1) by (auto simp: schema_ok_def billing_ok_def fk_def ids_def)
  ultimately show ?thesis by (auto simp: period_items_def filter_empty_conv)
qed


definition invoice_ok :: "uuid \<Rightarrow> time \<Rightarrow> time \<Rightarrow> billing_period \<Rightarrow> pg \<Rightarrow> bool" where
  "invoice_ok u ps pe period d \<longleftrightarrow>
     period \<in> set (t_billing_periods d) \<and> bp_user_id period = u \<and> bp_period_start period = ps \<and>
     bp_period_end period = pe \<and> bp_status period = ''pending'' \<and>
     bp_total_cents period = sum_i32 (map li_amount_cents (period_items d (bp_id period)))"

lemma invoice_write_wp:
  assumes "schema_ok (db s)" "cents = wrap_i32 (lines_sum items)"
  shows "wp (bind_app (BillingRepository_create_billing_period u ps pe cents) (\<lambda>period.
     then_app (for_each items (\<lambda>(db_id, template_id, hours, amount).
         bind_app (BillingRepository_add_line_item (bp_id period) db_id template_id hours amount)
           (\<lambda>_. return_app ())))
     (return_app (Some period))))
     (on_ok (\<lambda>r s'. \<exists>period. r = Some period \<and> invoice_ok u ps pe period (db s') \<and>
            t_billing_periods (db s') = t_billing_periods (db s) @ [period])
       (\<lambda>_. True)) e s"
  unfolding BillingRepository_create_billing_period_def
proof (rule wp_bind_ok, rule wp_insert_ok, goal_cases)
  case (1 i t d)
  let ?r = "\<lparr>bp_id = i, bp_user_id = u, bp_period_start = ps, bp_period_end = pe, bp_total_cents = cents,
      bp_stripe_invoice_id = None, bp_status = ''pending'', bp_created_at = t\<rparr>"
  let ?amount = "\<lambda>(_, _, _, a). a"
  let ?J = "\<lambda>n d'. t_billing_periods d' = t_billing_periods (db s) @ [?r] \<and>
      map li_amount_cents (period_items d' i) = map ?amount (take n items)"
  have d: "period_items d i = []" "t_billing_periods d = t_billing_periods (db s) @ [?r]"
    using fresh_period_has_no_items [OF assms(1) 1] by simp_all
  have step: "wp ((\<lambda>(db_id, template_id, hours, amount).
         bind_app (BillingRepository_add_line_item i db_id template_id hours amount)
           (\<lambda>_. return_app ())) (items ! n))
       (on_ok (\<lambda>_ s'. ?J (Suc n) (db s')) (\<lambda>_. True)) e s''"
    if n: "n < length items" and J: "?J n (db s'')" for n s''
  proof -
    obtain di ti h a where item: "items ! n = (di, ti, h, a)" by (cases "items ! n")
    have "wp (BillingRepository_add_line_item i di ti h a)
        (on_ok (\<lambda>_ s'. ?J (Suc n) (db s')) (\<lambda>s'. True)) e s''"
    proof (rule add_line_item_wp [where Q = "\<lambda>_. True"], goal_cases)
      case (2 row d')
      with n J item show ?case by (simp add: period_items_def take_Suc_conv_app_nth)
    qed simp
    then show ?thesis
      by (simp add: item) (rule wp_bind_ok, erule wp_weaken, simp_all add: wp_return)
  qed
  show ?case
  proof (rule wp_bind_ok, rule wp_weaken,
      rule wp_for_each [where J = "\<lambda>n s'. ?J n (db s')" and E = "\<lambda>_. True"], goal_cases)
    case 1
    with d show ?case by simp
  next
    case (2 n s'')
    with step show ?case by simp
  next
    case (3 x s'')
    then show ?case
      using assms(2) by (simp add: wp_return invoice_ok_def sum_i32_eq lines_sum_def)
  qed simp
qed simp

lemma generate_monthly_invoice_wp:
  assumes "schema_ok (db s)"
  shows "wp (BillingService_generate_monthly_invoice u ps pe)
     (on_ok (\<lambda>r s'. case r of
          None \<Rightarrow> db s' = db s
        | Some period \<Rightarrow> invoice_ok u ps pe period (db s') \<and>
            t_billing_periods (db s') = t_billing_periods (db s) @ [period] \<and>
            (\<forall>x \<in> set (t_billing_periods (db s)). (bp_user_id x, bp_period_start x) \<noteq> (u, ps)))
       (\<lambda>_. True)) e s"
    (is "wp _ (on_ok ?Q _) e s")
  unfolding BillingService_generate_monthly_invoice_def count_periods_def
    BillingRepository_get_databases_with_usage_in_period_def
proof (rule wp_bind_ok, rule wp_select_ok, goal_cases)
  case (1 t)
  show ?case
  proof (cases "count_rows (\<lambda>x. bp_user_id x = u \<and> bp_period_start x = ps) (t_billing_periods (db s)) > 0")
    case True
    then show ?thesis by (simp add: wp_simple)
  next
    case False
    then have fresh: "\<forall>x \<in> set (t_billing_periods (db s)). (bp_user_id x, bp_period_start x) \<noteq> (u, ps)"
      by (auto simp: count_rows_def filter_empty_conv)
    have start: "(0 :: int) = wrap_i32 (lines_sum [])" by (simp add: wrap_i32_def lines_sum_def)
    show ?thesis
    proof (simp add: False, rule wp_bind_ok, rule wp_select_ok, goal_cases)
      case (1 t)
      show ?case
      proof (cases "usage_entries (db s) u ps pe = []")
        case True
        then show ?thesis by (simp add: wp_return)
      next
        case entries: False
        have tail: "wp (case acc of (total_cents, line_items) \<Rightarrow>
              if total_cents = 0 \<and> line_items = [] then return_app None
              else bind_app (BillingRepository_create_billing_period u ps pe total_cents) (\<lambda>period.
                then_app (for_each line_items (\<lambda>(db_id, template_id, hours, amount).
                    then_app (BillingRepository_add_line_item (bp_id period) db_id template_id hours amount)
                      (return_app ())))
                (return_app (Some period))))
            (on_ok ?Q (\<lambda>_. True)) e s'"
          if "(\<lambda>(cents, items) s'. cents = wrap_i32 (lines_sum items) \<and> db s' = db (next_tick e (next_tick e s))) acc s'"
          for acc s'
        proof -
          obtain cents items where acc: "acc = (cents, items)" by (cases acc)
          with that have "cents = wrap_i32 (lines_sum items)" "db s' = db s" by simp_all
          note written = wp_weaken [OF invoice_write_wp, of s' cents items, where Q = ?Q]
          show ?thesis
          proof (cases "cents = 0 \<and> items = []")
            case True
            then show ?thesis using \<open>db s' = db s\<close> by (simp add: acc wp_return)
          next
            case False
            show ?thesis
              unfolding acc prod.case if_not_P [OF False]
            proof (rule written)
              show "schema_ok (db s')" using assms \<open>db s' = db s\<close> by simp
              show "cents = wrap_i32 (lines_sum items)" by fact
            next
              fix r and s'' :: app_state
              assume "\<exists>period. r = Some period \<and> invoice_ok u ps pe period (db s'') \<and>
                t_billing_periods (db s'') = t_billing_periods (db s') @ [period]"
              then show "?Q r s''" using fresh \<open>db s' = db s\<close> by auto
            qed simp
          qed
        qed
        show ?thesis
        proof (simp add: entries, rule wp_bind_ok, rule wp_weaken [OF invoice_lines_total], goal_cases)
          case (1 acc s')
          then show ?case by (rule tail)
        qed simp
      qed
    qed simp
  qed
qed simp

section \<open>A concrete month\<close>

definition demo_event :: "uuid \<Rightarrow> string \<Rightarrow> time \<Rightarrow> string \<Rightarrow> usage_event" where
  "demo_event i ty t name = \<lparr>ue_id = i, ue_database_id = 5, ue_event_type = ty, ue_recorded_at = t * 10 ^ 9,
     ue_user_id = Some 1, ue_database_name = Some name, ue_plan_template_id = Some 70\<rparr>"

definition renamed_events :: "usage_event list" where
  \<comment> \<open>a database that runs for ten hours and is renamed after five\<close>
  "renamed_events = [demo_event 1 ''start'' 0 ''shop'', demo_event 2 ''stop'' 18000 ''shop'',
     demo_event 3 ''start'' 18000 ''store'']"

definition usage_state :: app_state where
  "usage_state = demo_state\<lparr>db := demo_pg\<lparr>t_usage_events := renamed_events\<rparr>\<rparr>"

lemma usage_demo:
  assumes "t_usage_events (db s) = renamed_events"
  shows "BillingService_calculate_usage_hours 5 0 36000000000000 demo_env s = (Inr 10, s\<lparr>tick := Suc (tick s)\<rparr>)"
proof -
  have "usage_events_between (db s) 5 0 36000000000000 = renamed_events"
    by (simp add: usage_events_between_def assms renamed_events_def demo_event_def)
  moreover have "f64_round (usage_total 0 36000000000000 renamed_events / 3600) = 10" by code_simp
  moreover have "renamed_events \<noteq> []" by (simp add: renamed_events_def)
  ultimately show ?thesis
    by (simp add: BillingService_calculate_usage_hours_def BillingRepository_get_usage_events_def)
qed

lemma invoice_step_demo:
  assumes "t_usage_events (db s) = renamed_events" "t_plans (db s) = [demo_plan]"
  shows "invoice_step 0 36000000000000 (5, nm, Some 70) (cents, items) demo_env s =
    (Inr (wrap_i32 (cents + 150), items @ [(5, Some 70, 10, 150)]), s\<lparr>tick := tick s + 2\<rparr>)"
proof -
  have "BillingService_calculate_amount 10 demo_plan = 150" by code_simp
  then show ?thesis
    by (simp add: invoice_step_def usage_demo assms plan_amount_def
        BillingRepository_get_plan_template_def Let_def cong: run_frozen)
qed

lemma usage_entries_demo:
  "t_usage_events d = renamed_events \<Longrightarrow>
   usage_entries d 1 0 36000000000000 = [(5, Some ''shop'', Some 70), (5, Some ''store'', Some 70)]"
  by (simp add: usage_entries_def renamed_events_def demo_event_def)

definition demo_line :: "uuid \<Rightarrow> billing_line_item" where
  "demo_line i = \<lparr>li_id = i, li_billing_period_id = 1006, li_database_id = 5,
     li_plan_template_id = Some 70, li_hours_used = 10, li_amount_cents = 150,
     li_created_at = 5184000000000000\<rparr>"

definition demo_period :: billing_period where
  "demo_period = \<lparr>bp_id = 1006, bp_user_id = 1, bp_period_start = 0, bp_period_end = 36000000000000,
     bp_total_cents = 300, bp_stripe_invoice_id = None, bp_status = ''pending'',
     bp_created_at = 5184000000000000\<rparr>"

lemma demo_invoice_run:
  "BillingService_generate_monthly_invoice 1 0 36000000000000 demo_env usage_state =
    (Inr (Some demo_period), usage_state\<lparr>tick := 9,
       db := (db usage_state)\<lparr>t_billing_periods := [demo_period], t_line_items := [demo_line 1007, demo_line 1008]\<rparr>\<rparr>)"
  by (simp add: BillingService_generate_monthly_invoice_def count_periods_def
      BillingRepository_get_databases_with_usage_in_period_def usage_state_def
      usage_entries_demo [simplified] invoice_step_demo wrap_i32_def demo_line_def demo_period_def
      BillingRepository_create_billing_period_def BillingRepository_add_line_item_def run_simps
      cong: run_frozen)

lemma usage_state_ok: "schema_ok (db usage_state)"
  using demo_pg_ok by (simp add: usage_state_def schema_ok_def schema_parts_def renamed_events_def
      demo_event_def ids_def keyed_def)

section \<open>Properties of the invoices\<close>

text \<open>
  C13. The total of a monthly invoice is the sum of its line items, in the wrapping arithmetic of
  \<open>i32\<close>; the invoice is a new pending period of the user for exactly the requested dates.
\<close>

theorem invoice_total_is_sum_of_lines:
  assumes "schema_ok (db s)"
    and "fst (BillingService_generate_monthly_invoice u ps pe e s) = Inr (Some period)"
  shows "invoice_ok u ps pe period (db (snd (BillingService_generate_monthly_invoice u ps pe e s)))"
  using generate_monthly_invoice_wp [OF assms(1), of u ps pe e] assms(2)
  by (cases "BillingService_generate_monthly_invoice u ps pe e s") (simp add: wp_def)

lemma invoice_total_is_sum_of_lines_witness:
  "invoice_ok 1 0 36000000000000 demo_period
     (db (snd (BillingService_generate_monthly_invoice 1 0 36000000000000 demo_env usage_state)))"
  by (rule invoice_total_is_sum_of_lines [OF usage_state_ok]) (simp add: demo_invoice_run [simplified])


section \<open>One invoice per user and month\<close>

definition one_invoice :: "pg \<Rightarrow> bool" where
  "one_invoice d \<longleftrightarrow> keyed (\<lambda>x. (bp_user_id x, bp_period_start x)) (t_billing_periods d)"

lemma one_invoice_cong: "t_billing_periods d' = t_billing_periods d \<Longrightarrow> one_invoice d \<Longrightarrow> one_invoice d'"
  by (simp add: one_invoice_def)

lemma add_line_item_one_invoice [preserves_intro]:
  "keeps_db one_invoice (BillingRepository_add_line_item p i pl h a)"
  unfolding BillingRepository_add_line_item_def
  by (rule keeps_db_insert, erule one_invoice_cong [rotated])
     (auto simp: insert_line_item_def split: if_split_asm)

lemma keyed_same_keys:
  "map k rs' = map k rs \<Longrightarrow> keyed k rs \<Longrightarrow> keyed k rs'"
  by (simp add: keyed_def)

lemma update_period_status_one_invoice [preserves_intro]:
  "keeps_db one_invoice (BillingRepository_update_period_status i st stripe)"
  unfolding BillingRepository_update_period_status_def
  by (rule keeps_db_run_sql) (auto simp: one_invoice_def map_update_where split: if_split_asm elim!: keyed_same_keys [rotated])

lemma create_stripe_invoice_one_invoice [preserves_intro]:
  "keeps_db one_invoice (BillingService_create_stripe_invoice i key)"
  unfolding BillingService_create_stripe_invoice_def stripe_invoice_item_def stripe_ok_def by (intro preserves_intro)

lemma create_billing_period_one_invoice:
  assumes "one_invoice (db s)" "\<forall>x \<in> set (t_billing_periods (db s)). (bp_user_id x, bp_period_start x) \<noteq> (u, ps)"
  shows "one_invoice (db (snd (BillingRepository_create_billing_period u ps pe cents e s)))"
  using assms
  by (cases "db_up e (tick s)")
     (auto simp: BillingRepository_create_billing_period_def sql_insert_up Let_def insert_billing_period_def
       one_invoice_def keyed_def split: sum.split)

lemma generate_monthly_invoice_one_invoice [preserves_intro]:
  "keeps_db one_invoice (BillingService_generate_monthly_invoice u ps pe)"
  unfolding preserves_iff_wp BillingService_generate_monthly_invoice_def count_periods_def
proof (intro allI impI, rule wp_bind_ok, rule wp_select_ok, goal_cases)
  case (1 e s t)
  show ?case
  proof (cases "count_rows (\<lambda>x. bp_user_id x = u \<and> bp_period_start x = ps) (t_billing_periods (db s)) > 0")
    case True
    with 1 show ?thesis by (simp add: wp_return)
  next
    case False
    then have fresh: "\<forall>x \<in> set (t_billing_periods (db s)). (bp_user_id x, bp_period_start x) \<noteq> (u, ps)"
      by (auto simp: count_rows_def filter_empty_conv)
    have tail: "wp (bind_app (BillingRepository_create_billing_period u ps pe cents) (\<lambda>period.
        then_app (for_each line_items (\<lambda>(db_id, template_id, hours, amount).
          then_app (BillingRepository_add_line_item (bp_id period) db_id template_id hours amount) (return_app ())))
        (return_app (Some period))))
        (on_ok (\<lambda>_ s'. one_invoice (db s')) (\<lambda>s'. one_invoice (db s'))) e s'"
      if "db s' = db s" for cents line_items s'
    proof (rule wp_bind_ok)
      have "one_invoice (db (snd (BillingRepository_create_billing_period u ps pe cents e s')))"
        using 1 fresh that by (intro create_billing_period_one_invoice) auto
      then have "wp (BillingRepository_create_billing_period u ps pe cents)
          (on_ok (\<lambda>_ s'. one_invoice (db s')) (\<lambda>s'. one_invoice (db s'))) e s'"
        by (simp add: wp_def on_ok_def split_beta split: sum.split)
      then show "wp (BillingRepository_create_billing_period u ps pe cents)
          (on_ok (\<lambda>period s'. wp (then_app (for_each line_items (\<lambda>(db_id, template_id, hours, amount).
              then_app (BillingRepository_add_line_item (bp_id period) db_id template_id hours amount) (return_app ())))
            (return_app (Some period))) (on_ok (\<lambda>_ s'. one_invoice (db s')) (\<lambda>s'. one_invoice (db s'))) e s')
            (\<lambda>s'. one_invoice (db s'))) e s'"
        by (rule wp_weaken, intro wp_preserved preserves_intro)
    qed
    show ?thesis
      unfolding if_not_P [OF False]
    proof (rule wp_bind_ok, rule wp_reads, goal_cases)
      case 1 show ?case by (intro readsI preserves_intro)
    next
      case (2 entries s1)
      have "wp (fold_app entries (0, []) (invoice_step ps pe)) (on_ok (\<lambda>_ s'. db s' = db s) (\<lambda>s'. db s' = db s)) e s1"
        using 2 by (intro wp_reads) (auto intro!: readsI preserves_intro)
      with tail 2 \<open>one_invoice (db s)\<close> show ?case
        by (auto simp: wp_return intro!: wp_bind_ok elim!: wp_weaken split: prod.split)
    qed (use 1 in simp)
  qed
qed simp

text \<open>The monthly run keeps one invoice per user and month, whatever fails in it.\<close>

lemma run_monthly_billing_one_invoice:
  "keeps_db one_invoice (BillingService_run_monthly_billing stripe_key)"
  unfolding BillingService_run_monthly_billing_def by (intro preserves_intro)

section \<open>What Stripe is asked and what it may change\<close>

text \<open>
  C14. A webhook changes the database only when its header carries the HMAC of the timestamp and
  the body under the configured secret, with a timestamp at most five minutes away; what it then
  changes is the status of the periods of the named invoice, to paid or failed.
\<close>

theorem stripe_webhook_is_signed:
  assumes "db (snd (stripe_webhook header body e s)) \<noteq> db s"
  shows "\<exists>secret sig_header timestamp v1 ts ty invoice_id status.
    stripe_webhook_secret (cfg e) = Some secret \<and> header = Some sig_header \<and>
    signature_parts (str_split sig_header CHR '','') (None, None) = (Some timestamp, Some v1) \<and>
    parse_i64 timestamp = Some ts \<and> \<bar>wrap_i64 (clock s div 10 ^ 9 - ts)\<bar> \<le> 300 \<and>
    l_hex_decode (lib e) v1 = Some (l_hmac_sha256 (lib e) secret (timestamp @ ''.'' @ body)) \<and>
    l_stripe_event (lib e) body = Inr (Some ty, Some invoice_id) \<and>
    (ty, status) \<in> {(''invoice.paid'', ''paid''), (''invoice.payment_failed'', ''failed'')} \<and>
    db (snd (stripe_webhook header body e s)) = (db s)\<lparr>t_billing_periods :=
      update_where (\<lambda>x. bp_stripe_invoice_id x = Some invoice_id) (\<lambda>x. x\<lparr>bp_status := status\<rparr>)
        (t_billing_periods (db s))\<rparr>"
proof (cases "stripe_webhook_secret (cfg e)")
  case None
  with assms show ?thesis by (simp add: stripe_webhook_def bind_app_eval)
next
  case secret: (Some secret)
  show ?thesis
  proof (cases header)
    case None
    with secret assms show ?thesis by (simp add: stripe_webhook_def bind_app_eval)
  next
    case (Some sig_header)
    show ?thesis
    proof (cases "verify_stripe_signature (lib e) (clock s) body sig_header secret")
      case (Inl er)
      with secret Some assms show ?thesis by (simp add: stripe_webhook_def bind_app_eval)
    next
      case (Inr u)
      then obtain timestamp v1 ts where
        sig: "signature_parts (str_split sig_header CHR '','') (None, None) = (Some timestamp, Some v1)"
        "parse_i64 timestamp = Some ts" "\<bar>wrap_i64 (clock s div 10 ^ 9 - ts)\<bar> \<le> 300"
        "l_hex_decode (lib e) v1 = Some (l_hmac_sha256 (lib e) secret (timestamp @ ''.'' @ body))"
        by (auto simp: verify_stripe_signature_def split: prod.splits option.splits if_splits)
      obtain ty oid where ev: "l_stripe_event (lib e) body = Inr (ty, oid)"
        using assms secret Some Inr
        by (cases "l_stripe_event (lib e) body") (auto simp: stripe_webhook_def bind_app_eval)
      have run: "stripe_webhook header body e s =
          (if unwrap_or oid [] \<noteq> [] then BillingService_handle_stripe_webhook (unwrap_or ty []) (unwrap_or oid []) e s
           else (Inr (), s))"
        using secret Some Inr ev by (simp add: stripe_webhook_def bind_app_eval Let_def)
      obtain invoice_id where oid: "oid = Some invoice_id"
        using assms run by (cases oid) (auto simp: unwrap_or_def)
      obtain status where ty: "(unwrap_or ty [], status) \<in> {(''invoice.paid'', ''paid''), (''invoice.payment_failed'', ''failed'')}"
        using assms run by (auto simp: BillingService_handle_stripe_webhook_def Let_def split: if_splits)
      then obtain ty' where ty': "ty = Some ty'" by (cases ty) (auto simp: unwrap_or_def)
      have mem: "(ty', status) \<in> {(''invoice.paid'', ''paid''), (''invoice.payment_failed'', ''failed'')}"
        using ty ty' by (simp add: unwrap_or_def)
      have run': "stripe_webhook header body e s = BillingService_handle_stripe_webhook ty' invoice_id e s"
        using assms run oid ty' by (simp add: unwrap_or_def split: if_splits)
      have changed: "db (snd (stripe_webhook header body e s)) = (db s)\<lparr>t_billing_periods :=
          update_where (\<lambda>x. bp_stripe_invoice_id x = Some invoice_id) (\<lambda>x. x\<lparr>bp_status := status\<rparr>)
            (t_billing_periods (db s))\<rparr>"
        using assms mem unfolding run'
        by (cases "db_up e (tick s)") (auto simp: BillingService_handle_stripe_webhook_def)
      have ev': "l_stripe_event (lib e) body = Inr (Some ty', Some invoice_id)"
        using ev oid ty' by simp
      show ?thesis
        by (intro exI conjI; rule secret Some sig ev' mem changed)
    qed
  qed
qed

definition invoiced_state :: app_state where
  "invoiced_state = demo_state\<lparr>db := demo_pg\<lparr>t_billing_periods :=
     [demo_period\<lparr>bp_stripe_invoice_id := Some ''in_1'', bp_status := ''invoiced''\<rparr>]\<rparr>\<rparr>"

lemma stripe_webhook_is_signed_witness:
  "parse_i64 ''5184000'' = Some 5184000 \<and>
   (\<exists>ty status. (ty, status) \<in> {(''invoice.paid'', ''paid''), (''invoice.payment_failed'', ''failed'')} \<and>
    db (snd (stripe_webhook (Some ''t=5184000,v1=1_ni.0004815ceshw'') ''in_1'' demo_env invoiced_state)) =
      (db invoiced_state)\<lparr>t_billing_periods :=
        update_where (\<lambda>x. bp_stripe_invoice_id x = Some ''in_1'') (\<lambda>x. x\<lparr>bp_status := status\<rparr>)
          (t_billing_periods (db invoiced_state))\<rparr>)"
proof -
  have sig: "verify_stripe_signature demo_libraries (5184000 * 10 ^ 9) ''in_1'' ''t=5184000,v1=1_ni.0004815ceshw'' ''whsec'' = Inr ()"
    by code_simp
  have ev: "l_stripe_event demo_libraries ''in_1'' = Inr (Some ''invoice.paid'', Some ''in_1'')"
    by (simp add: demo_libraries_def)
  have "map bp_status (t_billing_periods (db (snd (stripe_webhook (Some ''t=5184000,v1=1_ni.0004815ceshw'') ''in_1''
      demo_env invoiced_state)))) = [''paid'']"
    using sig ev
    by (simp add: stripe_webhook_def bind_app_eval invoiced_state_def demo_config_def unwrap_or_def
        BillingService_handle_stripe_webhook_def update_where_def Let_def)
  then have changed: "db (snd (stripe_webhook (Some ''t=5184000,v1=1_ni.0004815ceshw'') ''in_1'' demo_env invoiced_state))
      \<noteq> db invoiced_state"
    by (auto simp: invoiced_state_def)
  have "parse_i64 ''5184000'' = Some 5184000" by code_simp
  with stripe_webhook_is_signed [OF changed] ev show ?thesis by auto
qed


definition item_charge :: "string \<Rightarrow> string \<Rightarrow> billing_line_item \<Rightarrow> external" where
  "item_charge key customer_id item =
     HttpPost ''https://api.stripe.com/v1/invoiceitems'' (Some key)
       [(''customer'', customer_id), (''amount'', int_to_string (li_amount_cents item)),
        (''currency'', ''eur''), (''description'', format_1_decimal (li_hours_used item) @ ''h usage'')]"

lemma http_post_Inr:
  "http_post url key form e s = (Inr resp, s') \<Longrightarrow>
   calls s' = calls s @ [HttpPost url key form] \<and> db s' = db s"
  by (auto simp: http_post_def Let_def split: sum.splits)

lemma stripe_invoice_item_Inr:
  "stripe_invoice_item key customer_id item e s = (Inr u, s') \<Longrightarrow>
   calls s' = calls s @ [item_charge key customer_id item] \<and> db s' = db s"
  by (auto simp: stripe_invoice_item_def bind_Inr_iff stripe_ok_def item_charge_def split: if_splits
      dest!: http_post_Inr)

lemma charge_items:
  "for_each items (stripe_invoice_item key customer_id) e s = (Inr u, s') \<Longrightarrow>
   calls s' = calls s @ map (item_charge key customer_id) items \<and> db s' = db s"
  by (induction items arbitrary: s) (auto simp: bind_Inr_iff dest!: stripe_invoice_item_Inr)

text \<open>
  C22. When an invoice was created at Stripe, the requests were one item per line of the period,
  with the amount of the line and the customer of the user who is billed, and then one invoice;
  and the period is marked as invoiced under the identifier Stripe gave.
\<close>

theorem stripe_charges_the_lines:
  assumes "fst (BillingService_create_stripe_invoice i key e s) = Inr invoice_id"
    and "find (\<lambda>x. bp_id x = i) (t_billing_periods (db s)) = Some period" "bp_total_cents period \<noteq> 0"
    and "find (\<lambda>x. u_id x = bp_user_id period) (t_users (db s)) = Some payer"
  shows "\<exists>customer_id. u_stripe_customer_id payer = Some customer_id \<and>
    calls (snd (BillingService_create_stripe_invoice i key e s)) = calls s
      @ map (item_charge key customer_id) (sort_key li_created_at (period_items (db s) i))
      @ [HttpPost ''https://api.stripe.com/v1/invoices'' (Some key)
           [(''customer'', customer_id), (''auto_advance'', ''true'')]] \<and>
    t_billing_periods (db (snd (BillingService_create_stripe_invoice i key e s))) =
      update_where (\<lambda>x. bp_id x = i)
        (\<lambda>x. x\<lparr>bp_status := ''invoiced'', bp_stripe_invoice_id := Some invoice_id\<rparr>) (t_billing_periods (db s))"
proof -
  obtain s' where run: "BillingService_create_stripe_invoice i key e s = (Inr invoice_id, s')"
    using assms(1) by (cases "BillingService_create_stripe_invoice i key e s") auto
  then have up: "db_up e (tick s)"
    by (cases "db_up e (tick s)") (auto simp: BillingService_create_stripe_invoice_def bind_Inr_iff)
  have up2: "db_up e (Suc (tick s))"
    using run up by (cases "db_up e (Suc (tick s))")
      (auto simp: BillingService_create_stripe_invoice_def bind_Inr_iff fetch_one_def assms)
  obtain customer_id items resp s2 s3 s4 where steps:
    "u_stripe_customer_id payer = Some customer_id"
    "BillingRepository_get_line_items_for_period i e (next_tick e (next_tick e s)) = (Inr items, s2)"
    "for_each items (stripe_invoice_item key customer_id) e s2 = (Inr (), s3)"
    "http_post ''https://api.stripe.com/v1/invoices'' (Some key)
       [(''customer'', customer_id), (''auto_advance'', ''true'')] e s3 = (Inr resp, s4)"
    "BillingRepository_update_period_status i ''invoiced'' (Some invoice_id) e s4 = (Inr (), s')"
    using run up up2
    by (auto simp: BillingService_create_stripe_invoice_def bind_Inr_iff fetch_one_def assms
        control_Inr_iff stripe_ok_def require_Inr_iff simp del: app_simps)
  note lines = sql_select_Inr [OF steps(2) [unfolded BillingRepository_get_line_items_for_period_def]]
  have "calls s4 = calls s @ map (item_charge key customer_id) (sort_key li_created_at (period_items (db s) i))
      @ [HttpPost ''https://api.stripe.com/v1/invoices'' (Some key)
           [(''customer'', customer_id), (''auto_advance'', ''true'')]]" "db s4 = db s"
    using lines charge_items [OF steps(3)] http_post_Inr [OF steps(4)]
    by (auto simp: period_items_def)
  moreover have "calls s' = calls s4 \<and> t_billing_periods (db s') = update_where (\<lambda>x. bp_id x = i)
      (\<lambda>x. x\<lparr>bp_status := ''invoiced'', bp_stripe_invoice_id := Some invoice_id\<rparr>) (t_billing_periods (db s4))"
    using steps(5) by (cases "db_up e (tick s4)")
      (auto simp: BillingRepository_update_period_status_def run_sql_up split: if_splits)
  ultimately show ?thesis using run steps(1) by simp
qed


definition billed_state :: app_state where
  "billed_state = demo_state\<lparr>db := demo_pg\<lparr>t_billing_periods := [demo_period],
     t_line_items := [demo_line 1007, demo_line 1008]\<rparr>\<rparr>"

lemma stripe_charges_the_lines_witness:
  "\<exists>customer_id. Some ''cus'' = Some customer_id \<and>
    calls (snd (BillingService_create_stripe_invoice 1006 ''sk'' demo_env billed_state)) = calls billed_state
      @ map (item_charge ''sk'' customer_id) (sort_key li_created_at (period_items (db billed_state) 1006))
      @ [HttpPost ''https://api.stripe.com/v1/invoices'' (Some ''sk'')
           [(''customer'', customer_id), (''auto_advance'', ''true'')]] \<and>
    t_billing_periods (db (snd (BillingService_create_stripe_invoice 1006 ''sk'' demo_env billed_state))) =
      update_where (\<lambda>x. bp_id x = 1006)
        (\<lambda>x. x\<lparr>bp_status := ''invoiced'', bp_stripe_invoice_id := Some ''in_1''\<rparr>) (t_billing_periods (db billed_state))"
proof -
  have "fst (BillingService_create_stripe_invoice 1006 ''sk'' demo_env billed_state) = Inr ''in_1''"
    by (simp add: BillingService_create_stripe_invoice_def billed_state_def fetch_one_def demo_period_def
        BillingRepository_get_line_items_for_period_def demo_line_def stripe_invoice_item_def stripe_ok_def
        http_post_def BillingRepository_update_period_status_def run_simps cong: run_frozen)
  from stripe_charges_the_lines [OF this, of demo_period "demo_user 1"] show ?thesis
    by (simp add: billed_state_def demo_period_def)
qed



end
