(* ===== verification/Server.thy ===== *)
theory Server
  imports Configuration Administration Alerts Billing_Handlers
begin

text \<open>
  \<open>src/api/src/main.rs\<close>: the routes and the layers in front of them, the start of the process,
  the migrations of the platform's own schema, and the loops in the background. A request is
  what the extractors of \<open>axum\<close> made of it; \<open>serve\<close> runs the layers and the handler, and keeps
  of the answer that it was a success or which error it was.
\<close>

section \<open>Routes\<close>

datatype http_method = GET | POST | PUT | DELETE

definition limited_routes :: "(http_method \<times> string) list" where
  "limited_routes =
     [(POST, ''/api/auth/register''),
      (POST, ''/api/auth/login'')]"

definition open_routes :: "(http_method \<times> string) list" where
  "open_routes =
     [(GET, ''/api/health''),
      (POST, ''/api/stripe/webhook''),
      (GET, ''/api/public/plans''),
      (GET, ''/api/metrics'')]"

definition user_routes :: "(http_method \<times> string) list" where
  "user_routes =
     [(GET, ''/api/auth/me''),
      (POST, ''/api/auth/api-key''),
      (GET, ''/api/audit-logs''),
      (GET, ''/api/alerts''),
      (POST, ''/api/alerts''),
      (GET, ''/api/alerts/history''),
      (PUT, ''/api/alerts/{id}''),
      (DELETE, ''/api/alerts/{id}''),
      (GET, ''/api/databases/favorites''),
      (GET, ''/api/databases/events''),
      (GET, ''/api/databases''),
      (POST, ''/api/databases''),
      (POST, ''/api/databases/bundle''),
      (GET, ''/api/databases/ca-cert''),
      (GET, ''/api/databases/{id}''),
      (DELETE, ''/api/databases/{id}''),
      (GET, ''/api/databases/{id}/stats''),
      (POST, ''/api/databases/{id}/action''),
      (GET, ''/api/databases/{id}/users''),
      (POST, ''/api/databases/{id}/users''),
      (DELETE, ''/api/databases/{db_id}/users/{user_id}''),
      (POST, ''/api/databases/{db_id}/users/{user_id}/rotate-password''),
      (POST, ''/api/databases/{id}/rotate-password''),
      (GET, ''/api/databases/{id}/backups''),
      (POST, ''/api/databases/{id}/backups''),
      (DELETE, ''/api/databases/{db_id}/backups/{backup_id}''),
      (POST, ''/api/databases/{id}/backup-schedule''),
      (GET, ''/api/databases/{id}/backup-schedule''),
      (PUT, ''/api/databases/{id}/backup-schedule''),
      (DELETE, ''/api/databases/{id}/backup-schedule''),
      (POST, ''/api/databases/{id}/export''),
      (GET, ''/api/databases/{id}/export/{filename}''),
      (PUT, ''/api/databases/{id}/scale''),
      (PUT, ''/api/databases/{id}/rename''),
      (POST, ''/api/databases/{db_id}/clone/{backup_id}''),
      (POST, ''/api/databases/{id}/favorite''),
      (DELETE, ''/api/databases/{id}/favorite''),
      (POST, ''/api/databases/{id}/migrations''),
      (GET, ''/api/databases/{id}/migrations''),
      (POST, ''/api/networks''),
      (GET, ''/api/networks''),
      (GET, ''/api/networks/{id}''),
      (DELETE, ''/api/networks/{id}''),
      (POST, ''/api/networks/{id}/attach''),
      (POST, ''/api/networks/{id}/detach''),
      (GET, ''/api/peerings''),
      (POST, ''/api/peerings''),
      (GET, ''/api/peerings/{id}''),
      (DELETE, ''/api/peerings/{id}''),
      (POST, ''/api/peerings/{id}/rules''),
      (DELETE, ''/api/peerings/{peering_id}/rules/{rule_id}''),
      (GET, ''/api/servers''),
      (GET, ''/api/plans''),
      (GET, ''/api/billing/periods''),
      (GET, ''/api/billing/current'')]"

definition admin_routes :: "(http_method \<times> string) list" where
  "admin_routes =
     [(GET, ''/api/admin/stats''),
      (GET, ''/api/admin/users''),
      (PUT, ''/api/admin/users/{id}/role''),
      (DELETE, ''/api/admin/users/{id}''),
      (GET, ''/api/admin/databases''),
      (DELETE, ''/api/admin/databases/{id}''),
      (GET, ''/api/admin/invitations''),
      (POST, ''/api/admin/invitations''),
      (DELETE, ''/api/admin/invitations/{id}''),
      (GET, ''/api/admin/plans''),
      (POST, ''/api/admin/plans''),
      (PUT, ''/api/admin/plans/{id}''),
      (DELETE, ''/api/admin/plans/{id}''),
      (GET, ''/api/admin/billing/overview''),
      (POST, ''/api/admin/billing/generate''),
      (POST, ''/api/admin/databases/{id}/migrate-sni''),
      (PUT, ''/api/admin/settings/registration''),
      (GET, ''/api/admin/servers''),
      (POST, ''/api/admin/servers''),
      (GET, ''/api/admin/servers/status''),
      (PUT, ''/api/admin/servers/{id}''),
      (DELETE, ''/api/admin/servers/{id}''),
      (GET, ''/api/admin/servers/{id}/status''),
      (GET, ''/api/admin/servers/{id}/containers''),
      (GET, ''/api/admin/servers/{id}/resources''),
      (GET, ''/api/admin/networks''),
      (GET, ''/api/admin/peerings''),
      (GET, ''/api/admin/audit-logs''),
      (GET, ''/api/admin/health''),
      (PUT, ''/api/admin/settings/maintenance''),
      (GET, ''/api/admin/users/{id}/resources'')]"

datatype access = Limited | Open | For_user | For_admin

definition all_routes :: "(http_method \<times> string \<times> access) list" where
  "all_routes =
     map (\<lambda>(m, p). (m, p, Limited)) limited_routes @ map (\<lambda>(m, p). (m, p, Open)) open_routes @
     map (\<lambda>(m, p). (m, p, For_user)) user_routes @ map (\<lambda>(m, p). (m, p, For_admin)) admin_routes"

definition segments :: "string \<Rightarrow> string list" where
  "segments path = str_split path CHR ''/''"

definition is_capture :: "string \<Rightarrow> bool" where
  "is_capture seg \<longleftrightarrow> str_starts_with seg ''{''"

definition segment_matches :: "string \<Rightarrow> string \<Rightarrow> bool" where
  "segment_matches pat seg \<longleftrightarrow> (if is_capture pat then seg \<noteq> [] else seg = pat)"

definition path_matches :: "string \<Rightarrow> string \<Rightarrow> bool" where
  "path_matches pattern path \<longleftrightarrow> list_all2 segment_matches (segments pattern) (segments path)"

fun more_literal :: "string list \<Rightarrow> string list \<Rightarrow> bool" where
  \<comment> \<open>at the first difference the segment that captures loses\<close>
  "more_literal (p # ps) (q # qs) =
     (if is_capture p = is_capture q then more_literal ps qs else is_capture q)"
| "more_literal _ _ = False"

fun best_pattern :: "string list \<Rightarrow> string option" where
  "best_pattern [] = None"
| "best_pattern (p # ps) = (case best_pattern ps of
      None \<Rightarrow> Some p
    | Some q \<Rightarrow> Some (if more_literal (segments q) (segments p) then q else p))"

datatype route_result = Not_found | Method_not_allowed | Route string access

definition find_route :: "http_method \<Rightarrow> string \<Rightarrow> route_result" where
  \<comment> \<open>the router takes the pattern first, the method of the pattern second\<close>
  "find_route m path =
     (case best_pattern (filter (\<lambda>p. path_matches p path) (map (\<lambda>(_, p, _). p) all_routes)) of
        None \<Rightarrow> Not_found
      | Some pattern \<Rightarrow>
          (case find (\<lambda>(m', p, _). m' = m \<and> p = pattern) all_routes of
             None \<Rightarrow> Method_not_allowed
           | Some (_, _, a) \<Rightarrow> Route pattern a))"

section \<open>Requests\<close>

definition effects :: "'a app \<Rightarrow> unit app" where
  \<comment> \<open>the answer without its body\<close>
  "effects m = bind_app m (\<lambda>_. return_app ())"

definition health_check :: string where
  "health_check = ''OK''"

datatype public_request =
    R_register create_user_request
  | R_login login_request
  | R_health_check
  | R_stripe_webhook "string option" string
  | R_public_list_plans
  | R_prometheus_metrics

datatype user_request =
    R_me
  | R_generate_api_key_handler
  | R_list_user_audit_logs audit_log_query
  | R_list_alerts
  | R_create_alert create_alert_rule_request
  | R_list_history
  | R_update_alert uuid update_alert_rule_request
  | R_delete_alert uuid
  | R_list_favorites
  | R_database_events string
  | R_list_databases
  | R_create_database create_database_request
  | R_create_bundle create_bundle_request
  | R_get_ca_cert
  | R_get_database uuid
  | R_delete_database uuid
  | R_database_stats uuid
  | R_container_action uuid container_action
  | R_list_database_users uuid
  | R_create_database_user uuid create_database_user_request
  | R_delete_database_user uuid uuid
  | R_rotate_user_password uuid uuid
  | R_rotate_owner_password uuid
  | R_list_backups uuid
  | R_create_backup uuid
  | R_delete_backup uuid uuid
  | R_create_backup_schedule uuid create_backup_schedule_request
  | R_get_backup_schedule uuid
  | R_update_backup_schedule uuid create_backup_schedule_request
  | R_delete_backup_schedule uuid
  | R_export_database uuid
  | R_download_export uuid string
  | R_scale_database uuid uuid
  | R_rename_database uuid string
  | R_clone_database uuid uuid string
  | R_add_favorite uuid
  | R_remove_favorite uuid
  | R_upload_migration uuid "(string + multipart_field) list"
  | R_list_migrations uuid
  | R_create_network string
  | R_list_networks
  | R_get_network uuid
  | R_delete_network uuid
  | R_attach_database uuid uuid
  | R_detach_database uuid uuid
  | R_list_peerings
  | R_create_peering create_peering_request
  | R_get_peering uuid
  | R_delete_peering uuid
  | R_create_firewall_rule uuid create_firewall_rule_request
  | R_delete_firewall_rule uuid uuid
  | R_list_available_servers
  | R_list_plans
  | R_billing_periods
  | R_billing_current

datatype admin_request =
    R_admin_stats
  | R_list_users
  | R_update_user_role uuid "string option"
  | R_delete_user uuid
  | R_list_all_databases
  | R_force_delete_database uuid
  | R_list_invitations
  | R_create_invitation create_invitation_request
  | R_delete_invitation uuid
  | R_admin_list_plans
  | R_admin_create_plan create_plan_template_request
  | R_admin_update_plan uuid update_plan_template_request
  | R_admin_delete_plan uuid
  | R_admin_billing_overview
  | R_admin_generate_billing
  | R_migrate_to_sni uuid
  | R_toggle_registration "bool option"
  | R_list_servers
  | R_create_server create_docker_server_request
  | R_servers_status
  | R_update_server uuid update_docker_server_request
  | R_delete_server uuid
  | R_server_status uuid
  | R_server_containers uuid
  | R_server_resources uuid
  | R_admin_list_networks
  | R_admin_list_peerings
  | R_list_admin_audit_logs audit_log_query
  | R_system_health
  | R_toggle_maintenance "bool option"
  | R_user_resources uuid

primrec run_user :: "user_request \<Rightarrow> auth_user \<Rightarrow> unit app" where
  "run_user R_me u = effects (me u)"
| "run_user R_generate_api_key_handler u = effects (generate_api_key_handler u)"
| "run_user (R_list_user_audit_logs a) u = effects (list_user_audit_logs u a)"
| "run_user R_list_alerts u = effects (list_alerts u)"
| "run_user (R_create_alert a) u = effects (create_alert u a)"
| "run_user R_list_history u = effects (list_history u)"
| "run_user (R_update_alert a b) u = effects (update_alert u a b)"
| "run_user (R_delete_alert a) u = effects (delete_alert u a)"
| "run_user R_list_favorites u = effects (list_favorites u)"
| "run_user (R_database_events a) u = effects (database_events a)"
| "run_user R_list_databases u = effects (list_databases u)"
| "run_user (R_create_database a) u = effects (create_database u a)"
| "run_user (R_create_bundle a) u = effects (create_bundle u a)"
| "run_user R_get_ca_cert u = effects (get_ca_cert u)"
| "run_user (R_get_database a) u = effects (get_database u a)"
| "run_user (R_delete_database a) u = effects (delete_database u a)"
| "run_user (R_database_stats a) u = effects (database_stats u a)"
| "run_user (R_container_action a b) u = effects (container_action_handler u a b)"
| "run_user (R_list_database_users a) u = effects (list_database_users u a)"
| "run_user (R_create_database_user a b) u = effects (create_database_user u a b)"
| "run_user (R_delete_database_user a b) u = effects (delete_database_user u a b)"
| "run_user (R_rotate_user_password a b) u = effects (rotate_user_password u a b)"
| "run_user (R_rotate_owner_password a) u = effects (rotate_owner_password u a)"
| "run_user (R_list_backups a) u = effects (list_backups u a)"
| "run_user (R_create_backup a) u = effects (create_backup u a)"
| "run_user (R_delete_backup a b) u = effects (delete_backup u a b)"
| "run_user (R_create_backup_schedule a b) u = effects (create_backup_schedule u a b)"
| "run_user (R_get_backup_schedule a) u = effects (get_backup_schedule u a)"
| "run_user (R_update_backup_schedule a b) u = effects (update_backup_schedule u a b)"
| "run_user (R_delete_backup_schedule a) u = effects (delete_backup_schedule u a)"
| "run_user (R_export_database a) u = effects (export_database u a)"
| "run_user (R_download_export a b) u = effects (download_export u a b)"
| "run_user (R_scale_database a b) u = effects (scale_database u a b)"
| "run_user (R_rename_database a b) u = effects (rename_database u a b)"
| "run_user (R_clone_database a b c) u = effects (clone_database None a b c)"
| "run_user (R_add_favorite a) u = effects (add_favorite u a)"
| "run_user (R_remove_favorite a) u = effects (remove_favorite u a)"
| "run_user (R_upload_migration a b) u = effects (upload_migration u a b)"
| "run_user (R_list_migrations a) u = effects (list_migrations u a)"
| "run_user (R_create_network a) u = effects (create_network_handler u a)"
| "run_user R_list_networks u = effects (list_networks u)"
| "run_user (R_get_network a) u = effects (get_network u a)"
| "run_user (R_delete_network a) u = effects (delete_network u a)"
| "run_user (R_attach_database a b) u = effects (attach_database u a b)"
| "run_user (R_detach_database a b) u = effects (detach_database u a b)"
| "run_user R_list_peerings u = effects (list_peerings u)"
| "run_user (R_create_peering a) u = effects (create_peering u a)"
| "run_user (R_get_peering a) u = effects (get_peering u a)"
| "run_user (R_delete_peering a) u = effects (delete_peering u a)"
| "run_user (R_create_firewall_rule a b) u = effects (create_firewall_rule u a b)"
| "run_user (R_delete_firewall_rule a b) u = effects (delete_firewall_rule u a b)"
| "run_user R_list_available_servers u = effects (list_available_servers u)"
| "run_user R_list_plans u = effects (list_plans)"
| "run_user R_billing_periods u = effects (billing_periods (au_id u))"
| "run_user R_billing_current u = effects (billing_current (au_id u))"

primrec run_admin :: "admin_request \<Rightarrow> unit app" where
  "run_admin R_admin_stats = effects (admin_stats)"
| "run_admin R_list_users = effects (list_users)"
| "run_admin (R_update_user_role a b) = effects (update_user_role a b)"
| "run_admin (R_delete_user a) = effects (delete_user a)"
| "run_admin R_list_all_databases = effects (list_all_databases)"
| "run_admin (R_force_delete_database a) = effects (force_delete_database a)"
| "run_admin R_list_invitations = effects (list_invitations)"
| "run_admin (R_create_invitation a) = effects (create_invitation a)"
| "run_admin (R_delete_invitation a) = effects (delete_invitation a)"
| "run_admin R_admin_list_plans = effects (admin_list_plans)"
| "run_admin (R_admin_create_plan a) = effects (admin_create_plan a)"
| "run_admin (R_admin_update_plan a b) = effects (admin_update_plan a b)"
| "run_admin (R_admin_delete_plan a) = effects (admin_delete_plan a)"
| "run_admin R_admin_billing_overview = effects (admin_billing_overview)"
| "run_admin R_admin_generate_billing = effects (admin_generate_billing)"
| "run_admin (R_migrate_to_sni a) = effects (migrate_to_sni a)"
| "run_admin (R_toggle_registration a) = effects (toggle_registration a)"
| "run_admin R_list_servers = effects (list_servers)"
| "run_admin (R_create_server a) = effects (create_server a)"
| "run_admin R_servers_status = effects (servers_status)"
| "run_admin (R_update_server a b) = effects (update_server_handler a b)"
| "run_admin (R_delete_server a) = effects (delete_server a)"
| "run_admin (R_server_status a) = effects (server_status a)"
| "run_admin (R_server_containers a) = effects (server_containers a)"
| "run_admin (R_server_resources a) = effects (server_resources a)"
| "run_admin R_admin_list_networks = effects (admin_list_networks)"
| "run_admin R_admin_list_peerings = effects (admin_list_peerings)"
| "run_admin (R_list_admin_audit_logs a) = effects (list_admin_audit_logs a)"
| "run_admin R_system_health = effects (system_health)"
| "run_admin (R_toggle_maintenance a) = effects (toggle_maintenance a)"
| "run_admin (R_user_resources a) = effects (user_resources a)"

primrec route_of_user :: "user_request \<Rightarrow> http_method \<times> string" where
  "route_of_user R_me = (GET, ''/api/auth/me'')"
| "route_of_user R_generate_api_key_handler = (POST, ''/api/auth/api-key'')"
| "route_of_user (R_list_user_audit_logs _) = (GET, ''/api/audit-logs'')"
| "route_of_user R_list_alerts = (GET, ''/api/alerts'')"
| "route_of_user (R_create_alert _) = (POST, ''/api/alerts'')"
| "route_of_user R_list_history = (GET, ''/api/alerts/history'')"
| "route_of_user (R_update_alert _ _) = (PUT, ''/api/alerts/{id}'')"
| "route_of_user (R_delete_alert _) = (DELETE, ''/api/alerts/{id}'')"
| "route_of_user R_list_favorites = (GET, ''/api/databases/favorites'')"
| "route_of_user (R_database_events _) = (GET, ''/api/databases/events'')"
| "route_of_user R_list_databases = (GET, ''/api/databases'')"
| "route_of_user (R_create_database _) = (POST, ''/api/databases'')"
| "route_of_user (R_create_bundle _) = (POST, ''/api/databases/bundle'')"
| "route_of_user R_get_ca_cert = (GET, ''/api/databases/ca-cert'')"
| "route_of_user (R_get_database _) = (GET, ''/api/databases/{id}'')"
| "route_of_user (R_delete_database _) = (DELETE, ''/api/databases/{id}'')"
| "route_of_user (R_database_stats _) = (GET, ''/api/databases/{id}/stats'')"
| "route_of_user (R_container_action _ _) = (POST, ''/api/databases/{id}/action'')"
| "route_of_user (R_list_database_users _) = (GET, ''/api/databases/{id}/users'')"
| "route_of_user (R_create_database_user _ _) = (POST, ''/api/databases/{id}/users'')"
| "route_of_user (R_delete_database_user _ _) = (DELETE, ''/api/databases/{db_id}/users/{user_id}'')"
| "route_of_user (R_rotate_user_password _ _) = (POST, ''/api/databases/{db_id}/users/{user_id}/rotate-password'')"
| "route_of_user (R_rotate_owner_password _) = (POST, ''/api/databases/{id}/rotate-password'')"
| "route_of_user (R_list_backups _) = (GET, ''/api/databases/{id}/backups'')"
| "route_of_user (R_create_backup _) = (POST, ''/api/databases/{id}/backups'')"
| "route_of_user (R_delete_backup _ _) = (DELETE, ''/api/databases/{db_id}/backups/{backup_id}'')"
| "route_of_user (R_create_backup_schedule _ _) = (POST, ''/api/databases/{id}/backup-schedule'')"
| "route_of_user (R_get_backup_schedule _) = (GET, ''/api/databases/{id}/backup-schedule'')"
| "route_of_user (R_update_backup_schedule _ _) = (PUT, ''/api/databases/{id}/backup-schedule'')"
| "route_of_user (R_delete_backup_schedule _) = (DELETE, ''/api/databases/{id}/backup-schedule'')"
| "route_of_user (R_export_database _) = (POST, ''/api/databases/{id}/export'')"
| "route_of_user (R_download_export _ _) = (GET, ''/api/databases/{id}/export/{filename}'')"
| "route_of_user (R_scale_database _ _) = (PUT, ''/api/databases/{id}/scale'')"
| "route_of_user (R_rename_database _ _) = (PUT, ''/api/databases/{id}/rename'')"
| "route_of_user (R_clone_database _ _ _) = (POST, ''/api/databases/{db_id}/clone/{backup_id}'')"
| "route_of_user (R_add_favorite _) = (POST, ''/api/databases/{id}/favorite'')"
| "route_of_user (R_remove_favorite _) = (DELETE, ''/api/databases/{id}/favorite'')"
| "route_of_user (R_upload_migration _ _) = (POST, ''/api/databases/{id}/migrations'')"
| "route_of_user (R_list_migrations _) = (GET, ''/api/databases/{id}/migrations'')"
| "route_of_user (R_create_network _) = (POST, ''/api/networks'')"
| "route_of_user R_list_networks = (GET, ''/api/networks'')"
| "route_of_user (R_get_network _) = (GET, ''/api/networks/{id}'')"
| "route_of_user (R_delete_network _) = (DELETE, ''/api/networks/{id}'')"
| "route_of_user (R_attach_database _ _) = (POST, ''/api/networks/{id}/attach'')"
| "route_of_user (R_detach_database _ _) = (POST, ''/api/networks/{id}/detach'')"
| "route_of_user R_list_peerings = (GET, ''/api/peerings'')"
| "route_of_user (R_create_peering _) = (POST, ''/api/peerings'')"
| "route_of_user (R_get_peering _) = (GET, ''/api/peerings/{id}'')"
| "route_of_user (R_delete_peering _) = (DELETE, ''/api/peerings/{id}'')"
| "route_of_user (R_create_firewall_rule _ _) = (POST, ''/api/peerings/{id}/rules'')"
| "route_of_user (R_delete_firewall_rule _ _) = (DELETE, ''/api/peerings/{peering_id}/rules/{rule_id}'')"
| "route_of_user R_list_available_servers = (GET, ''/api/servers'')"
| "route_of_user R_list_plans = (GET, ''/api/plans'')"
| "route_of_user R_billing_periods = (GET, ''/api/billing/periods'')"
| "route_of_user R_billing_current = (GET, ''/api/billing/current'')"

primrec route_of_admin :: "admin_request \<Rightarrow> http_method \<times> string" where
  "route_of_admin R_admin_stats = (GET, ''/api/admin/stats'')"
| "route_of_admin R_list_users = (GET, ''/api/admin/users'')"
| "route_of_admin (R_update_user_role _ _) = (PUT, ''/api/admin/users/{id}/role'')"
| "route_of_admin (R_delete_user _) = (DELETE, ''/api/admin/users/{id}'')"
| "route_of_admin R_list_all_databases = (GET, ''/api/admin/databases'')"
| "route_of_admin (R_force_delete_database _) = (DELETE, ''/api/admin/databases/{id}'')"
| "route_of_admin R_list_invitations = (GET, ''/api/admin/invitations'')"
| "route_of_admin (R_create_invitation _) = (POST, ''/api/admin/invitations'')"
| "route_of_admin (R_delete_invitation _) = (DELETE, ''/api/admin/invitations/{id}'')"
| "route_of_admin R_admin_list_plans = (GET, ''/api/admin/plans'')"
| "route_of_admin (R_admin_create_plan _) = (POST, ''/api/admin/plans'')"
| "route_of_admin (R_admin_update_plan _ _) = (PUT, ''/api/admin/plans/{id}'')"
| "route_of_admin (R_admin_delete_plan _) = (DELETE, ''/api/admin/plans/{id}'')"
| "route_of_admin R_admin_billing_overview = (GET, ''/api/admin/billing/overview'')"
| "route_of_admin R_admin_generate_billing = (POST, ''/api/admin/billing/generate'')"
| "route_of_admin (R_migrate_to_sni _) = (POST, ''/api/admin/databases/{id}/migrate-sni'')"
| "route_of_admin (R_toggle_registration _) = (PUT, ''/api/admin/settings/registration'')"
| "route_of_admin R_list_servers = (GET, ''/api/admin/servers'')"
| "route_of_admin (R_create_server _) = (POST, ''/api/admin/servers'')"
| "route_of_admin R_servers_status = (GET, ''/api/admin/servers/status'')"
| "route_of_admin (R_update_server _ _) = (PUT, ''/api/admin/servers/{id}'')"
| "route_of_admin (R_delete_server _) = (DELETE, ''/api/admin/servers/{id}'')"
| "route_of_admin (R_server_status _) = (GET, ''/api/admin/servers/{id}/status'')"
| "route_of_admin (R_server_containers _) = (GET, ''/api/admin/servers/{id}/containers'')"
| "route_of_admin (R_server_resources _) = (GET, ''/api/admin/servers/{id}/resources'')"
| "route_of_admin R_admin_list_networks = (GET, ''/api/admin/networks'')"
| "route_of_admin R_admin_list_peerings = (GET, ''/api/admin/peerings'')"
| "route_of_admin (R_list_admin_audit_logs _) = (GET, ''/api/admin/audit-logs'')"
| "route_of_admin R_system_health = (GET, ''/api/admin/health'')"
| "route_of_admin (R_toggle_maintenance _) = (PUT, ''/api/admin/settings/maintenance'')"
| "route_of_admin (R_user_resources _) = (GET, ''/api/admin/users/{id}/resources'')"

fun run_public :: "public_request \<Rightarrow> unit app" where
  "run_public (R_register a) = effects (register a)"
| "run_public (R_login a) = effects (login a)"
| "run_public R_health_check = return_app ()"
| "run_public (R_stripe_webhook a b) = effects (stripe_webhook a b)"
| "run_public R_public_list_plans = effects public_list_plans"
| "run_public R_prometheus_metrics = return_app ()"

fun route_of_public :: "public_request \<Rightarrow> http_method \<times> string" where
  "route_of_public (R_register _) = (POST, ''/api/auth/register'')"
| "route_of_public (R_login _) = (POST, ''/api/auth/login'')"
| "route_of_public R_health_check = (GET, ''/api/health'')"
| "route_of_public (R_stripe_webhook _ _) = (POST, ''/api/stripe/webhook'')"
| "route_of_public R_public_list_plans = (GET, ''/api/public/plans'')"
| "route_of_public R_prometheus_metrics = (GET, ''/api/metrics'')"

datatype request = Public_request public_request | User_request user_request | Admin_request admin_request

fun route_of :: "request \<Rightarrow> http_method \<times> string" where
  "route_of (Public_request r) = route_of_public r"
| "route_of (User_request r) = route_of_user r"
| "route_of (Admin_request r) = route_of_admin r"

record request_head =
  rh_authorization :: "string option"
  rh_forwarded_for :: "string option"
  rh_real_ip :: "string option"

definition serve :: "(ip_addr \<Rightarrow> bool) \<Rightarrow> request_head \<Rightarrow> request \<Rightarrow> unit app" where
  \<comment> \<open>the rate limiter's verdicts, the headers, the request; the server is started without
     \<open>ConnectInfo\<close>, so that the rate limiter sees no peer address\<close>
  "serve within_quota head req = (case req of
      Public_request r \<Rightarrow>
        then_app (if route_of_public r \<in> set limited_routes
          then rate_limit_middleware (Some within_quota) None (rh_forwarded_for head) (rh_real_ip head)
          else return_app ())
        (run_public r)
    | User_request r \<Rightarrow> bind_app (auth_middleware (rh_authorization head)) (run_user r)
    | Admin_request r \<Rightarrow>
        bind_app (auth_middleware (rh_authorization head)) (\<lambda>u.
        then_app (admin_middleware (Some u)) (run_admin r)))"

section \<open>Spawned tasks\<close>

fun run_task :: "task \<Rightarrow> unit app" where
  "run_task (ProvisionDatabase t) = run_provision_database t"
| "run_task (ProvisionBundle b p r) = run_provision_bundle b p r"
| "run_task (CleanupDatabase inst target announce) = run_cleanup_database inst target announce"
| "run_task (CloneDatabase t) = run_clone_database t"
| "run_task (ActivatePeering i server_id a b) = run_activate_peering i server_id a b"
| "run_task (WriteAudit u a ty i details ip) = run_write_audit u a ty i details ip"

section \<open>Loops in the background\<close>

definition billing_round :: "nat option \<Rightarrow> nat option app" where
  \<comment> \<open>one round of the loop; the state is \<open>last_run_month\<close>\<close>
  "billing_round last_run_month =
     then_app (sleep_secs 3600)
     (bind_app utc_now (\<lambda>now.
     bind_app (asks (\<lambda>e. (lib e, stripe_secret_key (cfg e)))) (\<lambda>(l, stripe_key).
     let current_month = l_month_of_year l now in
     if l_day_of_month l now = 1 \<and> last_run_month \<noteq> Some current_month
     then bind_app (attempt (BillingService_run_monthly_billing stripe_key)) (\<lambda>r.
       return_app (case r of Inr _ \<Rightarrow> Some current_month | Inl _ \<Rightarrow> last_run_month))
     else return_app last_run_month)))"

primrec billing_loop :: "nat \<Rightarrow> nat option \<Rightarrow> nat option app" where
  \<comment> \<open>so many rounds\<close>
  "billing_loop 0 prev = return_app prev"
| "billing_loop (Suc n) prev = bind_app (billing_round prev) (billing_loop n)"

definition metrics_round :: "unit app" where
  "metrics_round = then_app refresh_platform_metrics (sleep_secs 60)"

definition backup_round :: "unit app" where
  "backup_round = then_app (sleep_secs 300) BackupService_run_scheduled_backups"

definition alert_round :: "unit app" where
  "alert_round = then_app (sleep_secs 30) check_container_health"

section \<open>Start-up\<close>

definition expect_app :: "'a app \<Rightarrow> 'a app" where
  \<comment> \<open>\<open>.expect(..)\<close>\<close>
  "expect_app m = bind_app (attempt m) (\<lambda>r. case r of Inl _ \<Rightarrow> panic | Inr x \<Rightarrow> return_app x)"

definition load_port_pool :: "unit app" where
  "load_port_pool =
     bind_app (attempt DatabaseRepository_get_allocated_ports) (\<lambda>r.
     bind_app (asks cfg) (\<lambda>cf. \<lambda>e s. (Inr (),
       s\<lparr>ports := PortPool_load_allocated (PortPool_new (port_range_start cf) (port_range_end cf))
          (case r of Inl _ \<Rightarrow> [] | Inr allocated \<Rightarrow> allocated)\<rparr>)))"

definition start_up :: "unit app" where
  \<comment> \<open>between the migrations and the routes\<close>
  "start_up =
     bind_app (asks cfg) (\<lambda>cf.
     bind_app (expect_app (create_docker_client (docker_host cf))) (\<lambda>docker.
     then_app (expect_app TlsService_init_ca)
     (ignore (ensure_proxy_network None)
     (then_app load_port_pool
     (then_app (set_registration (cfg_registration_enabled cf)) (set_maintenance False))))))"

section \<open>Migrations of the platform\<close>

definition migration_statements :: "string \<Rightarrow> string list" where
  "migration_statements sql_file = filter (\<lambda>s. s \<noteq> []) (map str_trim (str_split sql_file CHR '';''))"

fun run_statements :: "('d \<Rightarrow> string \<Rightarrow> string + 'd) \<Rightarrow> 'd \<Rightarrow> string list \<Rightarrow> 'd \<times> bool" where
  \<comment> \<open>the database engine gives the text of an error or the new database; whether it failed\<close>
  "run_statements exec d [] = (d, False)"
| "run_statements exec d (stmt # stmts) = (case exec d stmt of
      Inr d' \<Rightarrow> run_statements exec d' stmts
    | Inl msg \<Rightarrow>
        if str_contains msg ''already exists'' \<or> str_contains msg ''duplicate''
        then run_statements exec d stmts else (d, True))"

fun run_migrations :: "('d \<Rightarrow> string \<Rightarrow> string + 'd) \<Rightarrow> 'd \<Rightarrow> string list \<Rightarrow> 'd \<times> bool list" where
  \<comment> \<open>every file is tried, whether or not those before it failed\<close>
  "run_migrations exec d [] = (d, [])"
| "run_migrations exec d (f # fs) =
     (let (d', failed) = run_statements exec d (migration_statements f);
          (d'', rest) = run_migrations exec d' fs
      in (d'', failed # rest))"

end
