(* ===== verification/Steady.thy ===== *)
theory Steady
  imports Services Middleware
begin

text \<open>
  What the provisioner and the services leave alone. \<open>outside\<close> says of an operation that it
  never panics and never changes a table: it talks to Docker, to the file system or to the
  network, or reads. \<open>no_panic\<close> alone is for the operations that write.
\<close>

named_theorems outside_intro \<open>rules that an operation touches only the outside\<close>
named_theorems no_panic_intro \<open>rules that an operation never panics\<close>

section \<open>Operations that never panic\<close>

definition no_panic :: "'a app \<Rightarrow> bool" where
  "no_panic m \<longleftrightarrow> (\<forall>e s. fst (m e s) \<noteq> Inl Panic)"

lemma no_panicD: "no_panic m \<Longrightarrow> m e s = (r, s') \<Longrightarrow> r \<noteq> Inl Panic"
  unfolding no_panic_def by (metis fst_conv)

lemma no_panicI: "(\<And>e s s'. m e s = (Inl Panic, s') \<Longrightarrow> False) \<Longrightarrow> no_panic m"
  unfolding no_panic_def by (metis prod.collapse)

lemma no_panic_control [no_panic_intro]:
  "no_panic (return_app x)" "no_panic (throw er)" "no_panic (asks f)" "no_panic utc_now"
  "no_panic (require p er)" "no_panic (ok_or v er)" "no_panic (lift_result r)"
  by (auto simp: no_panic_def require_def ok_or_def lift_result_def split: option.split sum.split)

lemma no_panic_bind [no_panic_intro]:
  "no_panic m \<Longrightarrow> (\<And>x. no_panic (f x)) \<Longrightarrow> no_panic (bind_app m f)"
  by (rule no_panicI) (auto simp: bind_app_def dest: no_panicD split: prod.split_asm sum.split_asm)

lemma attempt_returns: "no_panic m \<Longrightarrow> \<exists>r s'. attempt m e s = (Inr r, s')"
  by (cases "m e s") (auto simp: attempt_def dest: no_panicD split: sum.split fault.split)

lemma no_panic_attempt [no_panic_intro]: "no_panic m \<Longrightarrow> no_panic (attempt m)"
  unfolding no_panic_def [of "attempt m"] using attempt_returns [of m] by (metis fst_conv sum.distinct(1))

lemma no_panic_for_each [no_panic_intro]: "(\<And>x. no_panic (f x)) \<Longrightarrow> no_panic (for_each xs f)"
  by (induction xs) (auto intro: no_panic_intro)

lemma no_panic_fold_app [no_panic_intro]:
  "(\<And>x acc. no_panic (f x acc)) \<Longrightarrow> no_panic (fold_app xs acc f)"
  by (induction xs arbitrary: acc) (auto intro: no_panic_intro)

lemma no_panic_run_sql [no_panic_intro]: "no_panic (run_sql q)"
  by (auto simp: no_panic_def run_sql_def Let_def split: sum.split)

lemma no_panic_sql [no_panic_intro]:
  "no_panic (sql_select f)" "no_panic (sql_execute g)" "no_panic (sql_insert ins row)"
  "no_panic (sql_update fit table h)"
  unfolding sql_select_def sql_execute_def sql_insert_def sql_update_def by (rule no_panic_run_sql)+

lemma no_panic_branches [no_panic_intro]:
  "(b \<Longrightarrow> no_panic m) \<Longrightarrow> (\<not> b \<Longrightarrow> no_panic n) \<Longrightarrow> no_panic (if b then m else n)"
  "(\<And>x. no_panic (f x)) \<Longrightarrow> no_panic (Let v f)"
  "no_panic m \<Longrightarrow> (\<And>x. no_panic (f x)) \<Longrightarrow> no_panic (case opt of None \<Rightarrow> m | Some x \<Rightarrow> f x)"
  "(\<And>x. no_panic (f x)) \<Longrightarrow> (\<And>y. no_panic (k y)) \<Longrightarrow> no_panic (case w of Inl x \<Rightarrow> f x | Inr y \<Rightarrow> k y)"
  "(\<And>x y. no_panic (h x y)) \<Longrightarrow> no_panic (case p of (x, y) \<Rightarrow> h x y)"
  by (auto split: option.split sum.split prod.split)

section \<open>Operations on the outside\<close>

definition outside :: "'a app \<Rightarrow> bool" where
  "outside m \<longleftrightarrow> (\<forall>e s. fst (m e s) \<noteq> Inl Panic \<and> db (snd (m e s)) = db s)"

lemma outsideD: "outside m \<Longrightarrow> m e s = (r, s') \<Longrightarrow> r \<noteq> Inl Panic \<and> db s' = db s"
  unfolding outside_def by (metis fst_conv snd_conv)

lemma outsideI:
  "(\<And>e s r s'. m e s = (r, s') \<Longrightarrow> r \<noteq> Inl Panic \<and> db s' = db s) \<Longrightarrow> outside m"
  unfolding outside_def by (metis prod.collapse)

lemma outside_keeps: "outside m \<Longrightarrow> keeps_db P m"
  by (simp add: outside_def preserves_def)

lemma outside_no_panic: "outside m \<Longrightarrow> no_panic m"
  by (simp add: outside_def no_panic_def)

lemma outside_control [outside_intro]:
  "outside (return_app x)" "outside (throw er)" "outside (asks f)" "outside utc_now"
  "outside (require p er)" "outside (ok_or v er)" "outside (lift_result r)"
  by (auto simp: outside_def require_def ok_or_def lift_result_def split: option.split sum.split)

lemma outside_effects [outside_intro]:
  "outside (docker_request c call)" "outside (http_post url bearer form)" "outside (json_post url form)"
  "outside (send_mail to subject body)" "outside (client_sql url sql)" "outside (sleep_secs n)"
  "outside new_uuid" "outside (random_string n)" "outside (encrypt str)" "outside (decrypt str)"
  "outside (release_port port)" "outside (send_event ev)" "outside (spawn t)" "outside (set_gauges gs)"
  "outside (fs_effect msg g)" "outside (fs_create_dir_all dir msg)" "outside (fs_write path data msg)"
  "outside (fs_remove_file path msg)" "outside (fs_read path er)" "outside (fs_exists path)"
  "outside (sql_select sel)" "outside get_registration" "outside get_maintenance"
  by (auto simp: outside_def docker_request_def http_post_def json_post_def send_mail_def client_sql_def
      sleep_secs_def new_uuid_def random_string_def encrypt_def decrypt_def release_port_def send_event_def
      spawn_def set_gauges_def fs_effect_def fs_create_dir_all_def fs_write_def fs_remove_file_def
      fs_read_def fs_exists_def lift_result_def throw_def return_app_def Let_def sql_select_def run_sql_def
      split: sum.split option.split)

lemma outside_bind [outside_intro]:
  "outside m \<Longrightarrow> (\<And>x. outside (f x)) \<Longrightarrow> outside (bind_app m f)"
  by (rule outsideI)
    (fastforce simp: bind_app_def dest: outsideD split: prod.split_asm sum.split_asm)

lemma outside_attempt [outside_intro]: "outside m \<Longrightarrow> outside (attempt m)"
  by (rule outsideI)
    (fastforce simp: attempt_def dest: outsideD split: prod.split_asm sum.split_asm fault.split_asm)

lemma outside_for_each [outside_intro]: "(\<And>x. outside (f x)) \<Longrightarrow> outside (for_each xs f)"
  by (induction xs) (auto intro: outside_intro)

lemma outside_fold_app [outside_intro]:
  "(\<And>x acc. outside (f x acc)) \<Longrightarrow> outside (fold_app xs acc f)"
  by (induction xs arbitrary: acc) (auto intro: outside_intro)

lemma outside_branches [outside_intro]:
  "(b \<Longrightarrow> outside m) \<Longrightarrow> (\<not> b \<Longrightarrow> outside n) \<Longrightarrow> outside (if b then m else n)"
  "(\<And>x. outside (f x)) \<Longrightarrow> outside (Let v f)"
  "outside m \<Longrightarrow> (\<And>x. outside (f x)) \<Longrightarrow> outside (case opt of None \<Rightarrow> m | Some x \<Rightarrow> f x)"
  "(\<And>x. outside (f x)) \<Longrightarrow> (\<And>y. outside (k y)) \<Longrightarrow> outside (case w of Inl x \<Rightarrow> f x | Inr y \<Rightarrow> k y)"
  "(\<And>x y. outside (h x y)) \<Longrightarrow> outside (case p of (x, y) \<Rightarrow> h x y)"
  "(\<And>x y. outside (h' x y acc)) \<Longrightarrow> outside ((case p of (x, y) \<Rightarrow> h' x y) acc)"
  "outside m \<Longrightarrow> (\<And>x xs. outside (l x xs)) \<Longrightarrow> outside (case zs of [] \<Rightarrow> m | x # xs \<Rightarrow> l x xs)"
  "outside m \<Longrightarrow> outside n \<Longrightarrow> outside q \<Longrightarrow>
   outside (case ty of Postgresql \<Rightarrow> m | Redis \<Rightarrow> n | Mariadb \<Rightarrow> q)"
  "outside m \<Longrightarrow> outside n \<Longrightarrow> outside (case flag of True \<Rightarrow> m | False \<Rightarrow> n)"
  by (auto split: option.split sum.split prod.split list.split db_type.split bool.split)

lemma outside_with_docker [outside_intro]:
  "outside (connect_docker c msg)" "(\<And>c. outside (f c)) \<Longrightarrow> outside (with_docker target f)"
  by (simp add: outside_def connect_docker_def) (simp add: with_docker_def outside_intro)

lemma outside_wait_loop: "wait_loop c i t dl e s = (r, s') \<Longrightarrow> r \<noteq> Inl Panic \<and> db s' = db s"
proof (induction c i t dl e s arbitrary: r s' rule: wait_loop.induct)
  case (1 c i t dl e s)
  have req: "outside (docker_request c (InspectContainer i))" by (intro outside_intro)
  have slept: "db (snd (sleep_secs 2 e x)) = db x" for x
    by (simp add: sleep_secs_def)
  show ?case
    using "1.prems" outsideD [OF req]
    by (subst (asm) wait_loop.simps)
      (fastforce simp: slept dest: "1.IH" split: if_split_asm prod.split_asm sum.split_asm health_verdict.split_asm)
qed

lemma outside_wait_for_healthy [outside_intro]: "outside (wait_for_healthy c i t)"
  unfolding wait_for_healthy_def by (intro outside_intro) (rule outsideI, erule outside_wait_loop)

lemma outside_map_err [outside_intro]: "outside m \<Longrightarrow> outside (map_err m er)"
  unfolding map_err_def by (intro outside_intro)

lemma outside_refresh_gauge [outside_intro]: "outside m \<Longrightarrow> outside (refresh_gauge m f)"
  unfolding refresh_gauge_def by (intro outside_intro)

section \<open>The repositories\<close>

lemma outside_steps [outside_intro]:
  "outside (\<lambda>e s. lift_result (f e s) e (next_tick e s))" "outside (\<lambda>e s. (Inr (g e s), next_tick e s))"
  by (auto simp: outside_def lift_result_def split: sum.split)

lemma outside_read [outside_intro]:
  "(\<And>i t d x d'. q i t d = Inr (x, d') \<Longrightarrow> d' = d) \<Longrightarrow> outside (run_sql q)"
  by (auto simp: outside_def run_sql_def Let_def split: sum.split)

lemma outside_read_page [outside_intro]: "outside (read_page q)"
  unfolding read_page_def by (intro outside_read) (simp split: sum.split_asm)

lemma repositories_outside [outside_intro]:
  "outside (DatabaseRepository_find_by_id a1)" "outside (DatabaseRepository_find_by_user aa1)"
  "outside (DatabaseRepository_count_by_user ab1)" "outside DatabaseRepository_list_all"
  "outside DatabaseRepository_get_allocated_ports" "outside (DatabaseRepository_find_by_subdomain b1)"
  "outside DatabaseRepository_count_all" "outside (DatabaseRepository_find_databases_by_bundle bb1)"
  "outside (DatabaseRepository_find_bundle_by_id bc1)"
  "outside (DatabaseRepository_find_bundles_by_user bd1)"
  "outside (DatabaseRepository_find_database_users c1)"
  "outside (DatabaseRepository_find_database_user_by_id ca1)"
  "outside (DatabaseRepository_count_database_users cb1)"
  "outside (DatabaseRepository_find_backups_by_database cc1)"
  "outside (DatabaseRepository_find_backup_by_id cd1)" "outside (UserRepository_find_by_email d1)"
  "outside (UserRepository_find_by_id da1)" "outside (UserRepository_find_by_api_key db1)"
  "outside UserRepository_list_all" "outside UserRepository_count"
  "outside (InvitationRepository_find_by_code f1)" "outside InvitationRepository_list_all"
  "outside BillingRepository_list_plan_templates" "outside BillingRepository_list_active_templates"
  "outside (BillingRepository_get_plan_template fd1)"
  "outside (BillingRepository_get_usage_events g1 g2 g3)"
  "outside (BillingRepository_get_databases_with_usage_in_period ga1 ga2 ga3)"
  "outside (BillingRepository_get_user_billing_periods gb1)"
  "outside BillingRepository_get_all_billing_periods"
  "outside (BillingRepository_get_line_items_for_period gd1)" "outside DockerServerRepository_list_all"
  "outside DockerServerRepository_list_active" "outside (DockerServerRepository_find_by_id hb1)"
  "outside (DockerServerRepository_count_containers_on_server hc1)"
  "outside (DockerServerRepository_find_active_client_by_id hd1)"
  "outside DockerServerRepository_list_active_client"
  "outside DockerServerRepository_select_best_client_server"
  "outside (PrivateNetworkRepository_find_by_id ib1)"
  "outside (PrivateNetworkRepository_find_by_user ic1)" "outside PrivateNetworkRepository_list_all"
  "outside (PrivateNetworkRepository_count_by_user j1)"
  "outside (PrivateNetworkRepository_count_members ja1)"
  "outside (PrivateNetworkRepository_find_networks_for_database jb1)"
  "outside (PrivateNetworkRepository_is_member jc1 jc2)"
  "outside (PrivateNetworkRepository_find_peering_by_id jd1)"
  "outside (PrivateNetworkRepository_find_peerings_by_user k1)"
  "outside (PrivateNetworkRepository_find_peerings_for_network ka1)"
  "outside (PrivateNetworkRepository_peering_exists kb1 kb2)"
  "outside (PrivateNetworkRepository_count_peerings_by_user kc1)"
  "outside PrivateNetworkRepository_list_all_peerings"
  "outside (PrivateNetworkRepository_find_rules_by_peering l1)"
  "outside (PrivateNetworkRepository_find_rule_by_id la1)"
  "outside (PrivateNetworkRepository_count_rules_by_peering lb1)"
  "outside (PrivateNetworkRepository_find_members_with_db_info lc1)"
  "outside (AlertRepository_list_by_user ld1)" "outside (AlertRepository_find_by_id m1)"
  "outside (AlertRepository_list_history_by_user ma1 ma2)" "outside AlertRepository_find_enabled_rules"
  "outside (BackupScheduleRepository_find_by_database mc1)"
  "outside BackupScheduleRepository_find_due_schedules" "outside (FavoriteRepository_list_by_user n1)"
  "outside (MigrationService_list_migrations na1)"
  "outside (AuditRepository_list_by_user nc1 nc2 nc3)"
  "outside (AuditRepository_list_all nd1 nd2 nd3 nd4)"
  unfolding DatabaseRepository_find_by_id_def DatabaseRepository_find_by_user_def
    DatabaseRepository_count_by_user_def DatabaseRepository_list_all_def
    DatabaseRepository_get_allocated_ports_def DatabaseRepository_find_by_subdomain_def
    DatabaseRepository_count_all_def DatabaseRepository_find_databases_by_bundle_def
    DatabaseRepository_find_bundle_by_id_def DatabaseRepository_find_bundles_by_user_def
    DatabaseRepository_find_database_users_def DatabaseRepository_find_database_user_by_id_def
    DatabaseRepository_count_database_users_def DatabaseRepository_find_backups_by_database_def
    DatabaseRepository_find_backup_by_id_def UserRepository_find_by_email_def
    UserRepository_find_by_id_def UserRepository_find_by_api_key_def UserRepository_list_all_def
    UserRepository_count_def InvitationRepository_find_by_code_def InvitationRepository_list_all_def
    BillingRepository_list_plan_templates_def BillingRepository_list_active_templates_def
    BillingRepository_get_plan_template_def BillingRepository_get_usage_events_def
    BillingRepository_get_databases_with_usage_in_period_def
    BillingRepository_get_user_billing_periods_def BillingRepository_get_all_billing_periods_def
    BillingRepository_get_line_items_for_period_def DockerServerRepository_list_all_def
    DockerServerRepository_list_active_def DockerServerRepository_find_by_id_def
    DockerServerRepository_count_containers_on_server_def
    DockerServerRepository_find_active_client_by_id_def DockerServerRepository_list_active_client_def
    DockerServerRepository_select_best_client_server_def PrivateNetworkRepository_find_by_id_def
    PrivateNetworkRepository_find_by_user_def PrivateNetworkRepository_list_all_def
    PrivateNetworkRepository_count_by_user_def PrivateNetworkRepository_count_members_def
    PrivateNetworkRepository_find_networks_for_database_def PrivateNetworkRepository_is_member_def
    PrivateNetworkRepository_find_peering_by_id_def PrivateNetworkRepository_find_peerings_by_user_def
    PrivateNetworkRepository_find_peerings_for_network_def PrivateNetworkRepository_peering_exists_def
    PrivateNetworkRepository_count_peerings_by_user_def PrivateNetworkRepository_list_all_peerings_def
    PrivateNetworkRepository_find_rules_by_peering_def PrivateNetworkRepository_find_rule_by_id_def
    PrivateNetworkRepository_count_rules_by_peering_def
    PrivateNetworkRepository_find_members_with_db_info_def AlertRepository_list_by_user_def
    AlertRepository_find_by_id_def AlertRepository_list_history_by_user_def
    AlertRepository_find_enabled_rules_def BackupScheduleRepository_find_by_database_def
    BackupScheduleRepository_find_due_schedules_def FavoriteRepository_list_by_user_def
    MigrationService_list_migrations_def AuditRepository_list_by_user_def
    AuditRepository_list_all_def
  by (intro outside_intro)+

section \<open>The provisioner\<close>

lemma provisioner_outside_1 [outside_intro]:
  "outside (create_docker_client a1)" "outside (pem_dir_for_server b1)" "outside (write_pem_file c1 c2)"
  "outside (ensure_image d1 d2 d3)" "outside (create_container f1 f2 f3)"
  "outside (create_network_with_opts g1 g2 g3)" "outside (connect_to_proxy_network h1 h2 h3)"
  "outside (ensure_proxy_network i1)" "outside (attach_container_to_network j1 j2 j3)"
  "outside (detach_container_from_network k1 k2 k3)" "outside (remove_private_network l1 l2)"
  "outside (create_peering_network m1 m2)" "outside (restart_container n1 n2)"
  "outside (stop_container o1 o2)" "outside (start_container p1 p2)"
  "outside (remove_container q1 q2 q3)" "outside (is_container_running r1 r2)"
  "outside (update_container_resources t1 t2 t3 t4)"
  unfolding create_docker_client_def pem_dir_for_server_def write_pem_file_def ensure_image_def
    create_container_def create_network_with_opts_def connect_to_proxy_network_def
    ensure_proxy_network_def attach_container_to_network_def detach_container_from_network_def
    remove_private_network_def create_peering_network_def restart_container_def stop_container_def
    start_container_def remove_container_def is_container_running_def update_container_resources_def
    Let_def
  by (intro outside_intro)+

lemma provisioner_outside_2 [outside_intro]:
  "outside (connect_to_server a1)" "outside (create_postgres_container b1 b2 b3 b4 b5 b6 b7 b8 b9 b10)"
  "outside (create_redis_container c1 c2 c3 c4 c5 c6 c7 c8)"
  "outside (create_mariadb_container d1 d2 d3 d4 d5 d6 d7 d8 d9 d10)"
  "outside (create_postgres_container_sni f1 f2 f3 f4 f5 f6 f7 f8)"
  "outside (create_redis_container_sni g1 g2 g3 g4 g5 g6)"
  "outside (create_mariadb_container_sni h1 h2 h3 h4 h5 h6 h7 h8)" "outside (create_network i1 i2)"
  unfolding connect_to_server_def create_postgres_container_def create_redis_container_def
    create_mariadb_container_def create_postgres_container_sni_def create_redis_container_sni_def
    create_mariadb_container_sni_def create_network_def Let_def
  by (intro outside_intro)+

lemma provisioner_outside_3 [outside_intro]:
  "outside (create_private_network a1 a2)" "outside (create_database_docker b1 b2 b3 b4 b5 b6 b7 b8 b9)"
  "outside (create_database_sni c1 c2 c3 c4 c5 c6 c7 c8 c9 c10 c11)"
  unfolding create_private_network_def create_database_docker_def create_database_sni_def Let_def
  by (intro outside_intro)+

lemma exec_outside_1 [outside_intro]:
  "outside (exec_in_container a1 a2 a3)" "outside (upload_file_to_container b1 b2 b3 b4 b5)"
  "outside (remove_pg_user c1 c2 c3 c4 c5)" "outside (rotate_pg_password d1 d2 d3 d4 d5 d6)"
  "outside (remove_mariadb_user f1 f2 f3 f4)" "outside (rotate_mariadb_password g1 g2 g3 g4 g5)"
  "outside (exec_on_host h1 h2)" "outside (get_container_stats_once i1 i2)"
  unfolding exec_in_container_def upload_file_to_container_def remove_pg_user_def rotate_pg_password_def
    remove_mariadb_user_def rotate_mariadb_password_def exec_on_host_def get_container_stats_once_def
    Let_def
  by (intro outside_intro)+

lemma exec_outside_2 [outside_intro]:
  "outside (copy_from_container a1 a2 a3 a4 a5)" "outside (restore_postgres b1 b2 b3 b4 b5)"
  "outside (restore_mariadb c1 c2 c3 c4 c5 c6)" "outside (restore_redis d1 d2 d3)"
  "outside (create_pg_user f1 f2 f3 f4 f5 f6 f7)" "outside (create_redis_user g1 g2 g3 g4 g5 g6)"
  "outside (remove_redis_user h1 h2 h3 h4)" "outside (rotate_redis_password i1 i2 i3 i4 i5)"
  "outside (create_mariadb_user j1 j2 j3 j4 j5 j6 j7)" "outside (apply_firewall_rules k1 k2 k3 k4)"
  "outside (get_disk_usage l1 l2 l3)"
  unfolding copy_from_container_def restore_postgres_def restore_mariadb_def restore_redis_def
    create_pg_user_def create_redis_user_def remove_redis_user_def rotate_redis_password_def
    create_mariadb_user_def apply_firewall_rules_def get_disk_usage_def Let_def
  by (intro outside_intro)+

lemma exec_outside_3 [outside_intro]:
  "outside (backup_postgres a1 a2 a3 a4 a5 a6)" "outside (backup_redis b1 b2 b3 b4 b5)"
  "outside (backup_mariadb c1 c2 c3 c4 c5 c6 c7)"
  unfolding backup_postgres_def backup_redis_def backup_mariadb_def Let_def
  by (intro outside_intro)+

section \<open>The services\<close>

lemma services_outside_1 [outside_intro]:
  "outside (write_certs a1 a2 a3 a4)" "outside (TraefikService_remove_config b1)"
  "outside TlsService_init_ca" "outside (issue_cert d1 d2)" "outside TlsService_get_ca_cert"
  "outside (resolve_docker_for_server g1 g2)" "outside (docker_or_local h1)"
  "outside (backup_instance i1 i2 i3 i4 i5 i6)" "outside (timestamped j1)"
  "outside cleanup_stale_containers" "outside refresh_platform_metrics"
  "outside (MigrationService_execute_migration m1 m2 m3 m4 m5 m6)"
  unfolding write_certs_def TraefikService_remove_config_def TlsService_init_ca_def issue_cert_def
    TlsService_get_ca_cert_def resolve_docker_for_server_def docker_or_local_def backup_instance_def
    timestamped_def cleanup_stale_containers_def refresh_platform_metrics_def
    MigrationService_execute_migration_def Let_def
  by (intro outside_intro)+

lemma services_outside_2 [outside_intro]:
  "outside (TraefikService_generate_config a1 a2 a3 a4 a5 a6)"
  "outside (TraefikService_generate_sni_config b1 b2 b3 b4 b5 b6)"
  "outside (TlsService_generate_server_cert c1 c2)"
  "outside (TlsService_generate_cert_for_subdomain d1)" "outside (resolve_docker_for_instance f1)"
  unfolding TraefikService_generate_config_def TraefikService_generate_sni_config_def
    TlsService_generate_server_cert_def TlsService_generate_cert_for_subdomain_def
    resolve_docker_for_instance_def Let_def
  by (intro outside_intro)+

lemma middleware_outside_1 [outside_intro]:
  "outside (create_token a1 a2 a3)" "outside (decode_token b1)" "outside (admin_middleware c1)"
  "outside (rate_limit_middleware d1 d2 d3 d4)" "outside (hash_password f1)" "outside new_api_key"
  "outside (check_invitation h1)" "outside (me i1)"
  unfolding create_token_def decode_token_def admin_middleware_def rate_limit_middleware_def
    hash_password_def new_api_key_def check_invitation_def me_def Let_def
  by (intro outside_intro)+

lemma middleware_outside_2 [outside_intro]:
  "outside (auth_middleware a1)" "outside (login b1)"
  unfolding auth_middleware_def login_def Let_def
  by (intro outside_intro)+

lemmas everything_outside =
  provisioner_outside_1 provisioner_outside_2 provisioner_outside_3 exec_outside_1 exec_outside_2
  exec_outside_3 services_outside_1 services_outside_2 middleware_outside_1 middleware_outside_2

lemmas everything_keeps [preserves_intro] =
  outside_wait_for_healthy [THEN outside_keeps] outside_with_docker(1) [THEN outside_keeps]
  everything_outside [THEN outside_keeps] repositories_outside [THEN outside_keeps]
  outside_steps [THEN outside_keeps]

lemmas everything_calm [no_panic_intro] =
  outside_wait_for_healthy [THEN outside_no_panic] outside_with_docker(1) [THEN outside_no_panic]
  everything_outside [THEN outside_no_panic] repositories_outside [THEN outside_no_panic]
  outside_effects [THEN outside_no_panic] outside_steps [THEN outside_no_panic]

lemma keeps_db_with_docker [preserves_intro]:
  "(\<And>c. preserves I (f c)) \<Longrightarrow> preserves I (with_docker target f)"
  unfolding with_docker_def by (intro preserves_intro)

lemma preserves_map_err [preserves_intro]: "preserves I m \<Longrightarrow> preserves I (map_err m er)"
  unfolding map_err_def by (intro preserves_intro)

lemma remove_firewall_rules_keeps [preserves_intro]: "keeps_db P (remove_firewall_rules target i)"
  unfolding remove_firewall_rules_def by (intro preserves_intro)

end
