(* ===== verification/Handler_Frame.thy ===== *)
theory Handler_Frame
  imports Steady Administration Alerts Billing_Handlers
begin

text \<open>
  What a user's request can do to the tables. The handlers that only read are listed first. The
  locale \<open>user_frame\<close> is the interface between the handlers and the repositories: a predicate
  of the tables, the rows the user may write, and what the writing statements keep; in it, every
  handler keeps the predicate. Its interpretations give the invariants of the system.
\<close>

section \<open>Handlers that only read\<close>

lemma database_reads_1 [outside_intro]:
  "outside (view_of a1)" "outside (owned_database b1 b2)" "outside (checked_ssl_mode c1)"
  "outside (resolve_plan d1 d2 d3)" "outside (select_server f1 f2 f3)" "outside uuid_string"
  "outside (connect_optional h1)" "outside (docker_or_fallback i1)"
  "outside (create_container_of j1 j2)" "outside (route_database k1 k2 k3)"
  "outside (remove_instance l1 l2)" "outside (find_server_or_none m1)"
  "outside (restore_clone n1 n2 n3 n4)" "outside (database_events o1)"
  "outside (detach_from_networks p1 p2)" "outside (get_ca_cert q1)" "outside (require_running r1 r2)"
  "outside (user_of_database t1 t2)" "outside (backup_of_database u1 u2)"
  "outside (one_shot_stats v1 v2)" "outside (list_available_servers w1)" "outside (list_favorites x1)"
  unfolding view_of_def owned_database_def checked_ssl_mode_def resolve_plan_def select_server_def
    uuid_string_def connect_optional_def docker_or_fallback_def create_container_of_def
    route_database_def remove_instance_def find_server_or_none_def restore_clone_def database_events_def
    detach_from_networks_def get_ca_cert_def require_running_def user_of_database_def
    backup_of_database_def one_shot_stats_def list_available_servers_def list_favorites_def Let_def
  by (intro outside_intro)+

lemma database_reads_2 [outside_intro]:
  "outside (list_databases a1)" "outside (get_database b1 b2)" "outside (list_database_users c1 c2)"
  "outside (list_backups d1 d2)" "outside (export_database f1 f2)" "outside (download_export g1 g2 g3)"
  "outside (get_backup_schedule h1 h2)" "outside (database_stats i1 i2)"
  "outside (list_migrations j1 j2)"
  unfolding list_databases_def get_database_def list_database_users_def list_backups_def
    export_database_def download_export_def get_backup_schedule_def database_stats_def
    list_migrations_def Let_def
  by (intro outside_intro)+

lemma network_loops [outside_intro]:
  "(\<And>x. outside (f x)) \<Longrightarrow> outside (collect xs f)"
  "(\<And>c. outside (g c)) \<Longrightarrow> outside (with_container i g)"
  "(\<And>b. outside (h b)) \<Longrightarrow> outside (for_active_bridges j h)"
  unfolding collect_def with_container_def for_active_bridges_def by (intro outside_intro; assumption)+

lemma network_reads_1 [outside_intro]:
  "outside (resolve_docker a1)" "outside (owned_network b1 b2)" "outside (network_with_members c1)"
  "outside (owned_peering d1 d2)" "outside (build_peering_response f1)"
  "outside (own_network_named g1 g2 g3)" "outside (rule_of_peering h1 h2)"
  unfolding resolve_docker_def owned_network_def network_with_members_def owned_peering_def
    build_peering_response_def own_network_named_def rule_of_peering_def Let_def
  by (intro outside_intro)+

lemma network_reads_2 [outside_intro]:
  "outside (list_networks a1)" "outside (get_network b1 b2)" "outside (detach_members c1 c2 c3)"
  "outside (attach_members d1 d2 d3)" "outside (list_peerings f1)" "outside (get_peering g1 g2)"
  "outside (apply_peering_iptables h1)" "outside admin_list_peerings" "outside admin_list_networks"
  unfolding list_networks_def get_network_def detach_members_def attach_members_def list_peerings_def
    get_peering_def apply_peering_iptables_def admin_list_peerings_def admin_list_networks_def Let_def
  by (intro outside_intro)+

lemma network_reads_3 [outside_intro]:
  "outside (reapply_when_active a1)"
  unfolding reapply_when_active_def Let_def
  by (intro outside_intro)+

lemma alert_reads_1 [outside_intro]:
  "outside (resolve_host a1)" "outside (list_alerts b1)" "outside (owned_alert c1 c2)"
  "outside (list_history d1)" "outside (send_webhook f1 f2 f3)" "outside (send_email g1 g2 g3)"
  unfolding resolve_host_def list_alerts_def owned_alert_def list_history_def send_webhook_def
    send_email_def Let_def
  by (intro outside_intro)+

lemma alert_reads_2 [outside_intro]:
  "outside (validate_webhook_url a1)"
  unfolding validate_webhook_url_def Let_def
  by (intro outside_intro)+

lemma alert_reads_3 [outside_intro]:
  "outside (validate_webhook_opt a1)"
  unfolding validate_webhook_opt_def Let_def
  by (intro outside_intro)+

lemma outside_or_default [outside_intro]: "outside m \<Longrightarrow> outside (or_default m dflt)"
  unfolding or_default_def by (intro outside_intro)

lemma admin_reads_1 [outside_intro]:
  "outside (user_resources a1)" "outside list_invitations" "outside (server_of_instance c1)"
  "outside (server_online d1)" "outside list_servers" "outside (find_server g1)"
  "outside (describe_container h1 h2)" "outside (docker_internal i1 i2 i3)"
  "outside (list_user_audit_logs j1 j2)" "outside (list_admin_audit_logs k1)"
  unfolding user_resources_def list_invitations_def server_of_instance_def server_online_def
    list_servers_def find_server_def describe_container_def docker_internal_def list_user_audit_logs_def
    list_admin_audit_logs_def Let_def
  by (intro outside_intro)+

lemma admin_reads_2 [outside_intro]:
  "outside admin_stats" "outside list_users" "outside list_all_databases" "outside system_health"
  "outside (server_containers f1)" "outside (server_resources g1)"
  unfolding admin_stats_def list_users_def list_all_databases_def system_health_def
    server_containers_def server_resources_def Let_def
  by (intro outside_intro)+

lemma billing_outside_1 [outside_intro]:
  "outside (BillingService_calculate_usage_hours a1 a2 a3)" "outside (plan_amount b1 b2)"
  "outside (count_periods c1 c2)" "outside (stripe_ok d1 d2)" "outside public_list_plans"
  "outside list_plans" "outside (billing_periods h1)" "outside admin_list_plans"
  "outside admin_billing_overview"
  unfolding BillingService_calculate_usage_hours_def plan_amount_def count_periods_def stripe_ok_def
    public_list_plans_def list_plans_def billing_periods_def admin_list_plans_def
    admin_billing_overview_def Let_def
  by (intro outside_intro)+

lemma billing_outside_2 [outside_intro]:
  "outside (usage_of a1 a2 a3 a4 a5 a6)" "outside (stripe_invoice_item b1 b2 b3)"
  unfolding usage_of_def stripe_invoice_item_def Let_def
  by (intro outside_intro)+

lemma billing_outside_3 [outside_intro]:
  "outside (BillingService_get_current_usage a1)"
  unfolding BillingService_get_current_usage_def Let_def
  by (intro outside_intro)+

lemma billing_outside_4 [outside_intro]:
  "outside (billing_current a1)"
  unfolding billing_current_def Let_def
  by (intro outside_intro)+

lemmas handlers_outside =
  database_reads_1 database_reads_2 network_reads_1 network_reads_2 network_reads_3 alert_reads_1
  alert_reads_2 alert_reads_3 admin_reads_1 admin_reads_2 billing_outside_1 billing_outside_2
  billing_outside_3 billing_outside_4

lemmas handlers_keep [preserves_intro] = handlers_outside [THEN outside_keeps]

lemmas handlers_calm [no_panic_intro] = handlers_outside [THEN outside_no_panic]

lemma preserves_for_each_mem:
  "(\<And>x. x \<in> set xs \<Longrightarrow> preserves I (f x)) \<Longrightarrow> preserves I (for_each xs f)"
  by (induction xs) (auto intro: preserves_intro)

lemma network_loops_keep [preserves_intro]:
  "(\<And>x. preserves I (f x)) \<Longrightarrow> preserves I (collect xs f)"
  unfolding collect_def by (intro preserves_intro)

lemma owned_network_id: "owned_network u i e s = (Inr net, s') \<Longrightarrow> pn_id net = i"
  by (auto simp: owned_network_def PrivateNetworkRepository_find_by_id_def bind_Inr_iff control_Inr_iff
      split: if_split_asm dest!: sql_select_Inr dest: sym [of "Some net"] simp: find_Some_iff)

section \<open>The interface of the handlers and the repositories\<close>

locale user_frame =
  fixes P :: "pg \<Rightarrow> bool" and u :: auth_user
    and may_db may_net may_alert may_user may_backup may_peer may_rule :: "uuid \<Rightarrow> bool"
  assumes owned_db: "P (db s) \<Longrightarrow> owned_database u i e s = (Inr inst, s') \<Longrightarrow> may_db i"
    and owned_net: "P (db s) \<Longrightarrow> owned_network u i e s = (Inr net, s') \<Longrightarrow> may_net i"
    and owned_rule: "P (db s) \<Longrightarrow> owned_alert u i e s = (Inr rule, s') \<Longrightarrow> may_alert i"
    and owned_peer: "P (db s) \<Longrightarrow> owned_peering u i e s = (Inr peering, s') \<Longrightarrow> may_peer i"
    and peers_of_net: "P (db s) \<Longrightarrow> may_net i \<Longrightarrow>
      PrivateNetworkRepository_find_peerings_for_network i e s = (Inr peerings, s') \<Longrightarrow>
      peering \<in> set peerings \<Longrightarrow> may_peer (np_id peering)"
    and owned_fw_rule: "P (db s) \<Longrightarrow> may_peer j \<Longrightarrow> rule_of_peering j i e s = (Inr fw, s') \<Longrightarrow> may_rule i"
    and owned_user: "P (db s) \<Longrightarrow> may_db j \<Longrightarrow> user_of_database j i e s = (Inr row, s') \<Longrightarrow> may_user i"
    and owned_backup: "P (db s) \<Longrightarrow> may_db j \<Longrightarrow> backup_of_database j i e s = (Inr backup, s') \<Longrightarrow> may_backup i"
    and writes_account [preserves_intro]:
      "keeps_db P (UserRepository_set_api_key (au_id u) key)"
      "keeps_db P (FavoriteRepository_add (au_id u) i)"
      "keeps_db P (FavoriteRepository_remove (au_id u) i)"
      "keeps_db P (BillingRepository_record_usage_event i event_type v name plan)"
    and writes_database [preserves_intro]:
      "may_db i \<Longrightarrow> keeps_db P (DatabaseRepository_update_status i st)"
      "may_db i \<Longrightarrow> keeps_db P (DatabaseRepository_update_owner_password i secret)"
      "may_db i \<Longrightarrow> keeps_db P (set_plan i plan_id template)"
      "may_db i \<Longrightarrow> keeps_db P (set_name i name)"
      "may_db i \<Longrightarrow> keeps_db P (DatabaseRepository_create_database_user i name secret permission)"
      "may_db i \<Longrightarrow> keeps_db P (DatabaseRepository_create_backup i name n)"
      "may_db i \<Longrightarrow> keeps_db P (BackupScheduleRepository_create i hours retention enabled)"
      "may_db i \<Longrightarrow> keeps_db P (BackupScheduleRepository_update i hours' retention' enabled')"
      "may_db i \<Longrightarrow> keeps_db P (BackupScheduleRepository_delete i)"
      "may_db i \<Longrightarrow> keeps_db P (MigrationService_record_migration i name checksum)"
      "may_user j \<Longrightarrow> keeps_db P (DatabaseRepository_delete_database_user j)"
      "may_user j \<Longrightarrow> keeps_db P (DatabaseRepository_update_database_user_password j secret)"
      "may_backup j \<Longrightarrow> keeps_db P (DatabaseRepository_delete_backup j)"
    and creates_database [preserves_intro]:
      "keeps_db P (create_database u request)"
      "keeps_db P (create_bundle u bundle_request)"
    and writes_alert [preserves_intro]:
      "keeps_db P (AlertRepository_create_rule (au_id u) target event_type hook email on)"
      "may_alert i \<Longrightarrow> keeps_db P (AlertRepository_update_rule i hook email on')"
      "may_alert i \<Longrightarrow> keeps_db P (AlertRepository_delete_rule i)"
    and writes_network [preserves_intro]:
      "keeps_db P (PrivateNetworkRepository_create (au_id u) name)"
      "may_net i \<Longrightarrow> keeps_db P (PrivateNetworkRepository_delete i)"
      "may_net i \<Longrightarrow> keeps_db P (PrivateNetworkRepository_update_docker_server_id i sid)"
      "may_net i \<Longrightarrow> keeps_db P (PrivateNetworkRepository_update_docker_network_id i name)"
      "may_net i \<Longrightarrow> keeps_db P (PrivateNetworkRepository_update_subnet_info i subnet gateway)"
      "may_net i \<Longrightarrow> keeps_db P (PrivateNetworkRepository_add_member i j)"
      "may_net i \<Longrightarrow> keeps_db P (PrivateNetworkRepository_remove_member i j)"
    and writes_peering [preserves_intro]:
      "keeps_db P (create_peering u pr)"
      "may_peer i \<Longrightarrow> keeps_db P (PrivateNetworkRepository_delete_peering i)"
      "keeps_db P (create_firewall_rule u i fr)"
      "may_rule i \<Longrightarrow> keeps_db P (PrivateNetworkRepository_delete_firewall_rule i)"
begin

lemma gate:
  assumes "outside m" and "\<And>x e s s'. P (db s) \<Longrightarrow> m e s = (Inr x, s') \<Longrightarrow> Q x"
    and "\<And>x. Q x \<Longrightarrow> keeps_db P (f x)"
  shows "keeps_db P (bind_app m f)"
  unfolding preserves_def
proof (intro allI impI)
  fix e and s :: app_state assume "P (db s)"
  then show "P (db (snd (bind_app m f e s)))"
  proof (cases "m e s")
    case (Pair r s1)
    with outsideD [OF assms(1)] \<open>P (db s)\<close> have s1: "P (db s1)" by simp
    show ?thesis
    proof (cases r)
      case (Inl er)
      with Pair s1 show ?thesis by (simp add: bind_app_def)
    next
      case (Inr x)
      with Pair \<open>P (db s)\<close> have "Q x" by (intro assms(2)) auto
      then have "P (db (snd (f x e s1)))"
        using assms(3) s1 unfolding preserves_def by blast
      with Pair Inr show ?thesis by (simp add: bind_app_def)
    qed
  qed
qed

lemma gate_db: "(\<And>inst. may_db i \<Longrightarrow> keeps_db P (f inst)) \<Longrightarrow> keeps_db P (bind_app (owned_database u i) f)"
  by (rule gate [where Q = "\<lambda>_. may_db i"]) (auto intro: outside_intro owned_db)

lemma gate_net:
  "(\<And>net. may_net i \<Longrightarrow> pn_id net = i \<Longrightarrow> keeps_db P (f net)) \<Longrightarrow> keeps_db P (bind_app (owned_network u i) f)"
  by (rule gate [where Q = "\<lambda>net. may_net i \<and> pn_id net = i"]) (auto intro: outside_intro owned_net owned_network_id)

lemma gate_alert:
  "(\<And>rule. may_alert i \<Longrightarrow> keeps_db P (f rule)) \<Longrightarrow> keeps_db P (bind_app (owned_alert u i) f)"
  by (rule gate [where Q = "\<lambda>_. may_alert i"]) (auto intro: outside_intro owned_rule)

lemma gate_user:
  "may_db j \<Longrightarrow> (\<And>row. may_user i \<Longrightarrow> keeps_db P (f row)) \<Longrightarrow>
   keeps_db P (bind_app (user_of_database j i) f)"
  by (rule gate [where Q = "\<lambda>_. may_user i"]) (auto intro: outside_intro owned_user)

lemma gate_backup:
  "may_db j \<Longrightarrow> (\<And>backup. may_backup i \<Longrightarrow> keeps_db P (f backup)) \<Longrightarrow>
   keeps_db P (bind_app (backup_of_database j i) f)"
  by (rule gate [where Q = "\<lambda>_. may_backup i"]) (auto intro: outside_intro owned_backup)

lemma gate_peer:
  "(\<And>peering. may_peer i \<Longrightarrow> keeps_db P (f peering)) \<Longrightarrow> keeps_db P (bind_app (owned_peering u i) f)"
  by (rule gate [where Q = "\<lambda>_. may_peer i"]) (auto intro: outside_intro owned_peer)

lemma gate_rule:
  "may_peer j \<Longrightarrow> (\<And>fw. may_rule i \<Longrightarrow> keeps_db P (f fw)) \<Longrightarrow>
   keeps_db P (bind_app (rule_of_peering j i) f)"
  by (rule gate [where Q = "\<lambda>_. may_rule i"]) (auto intro: outside_intro owned_fw_rule)

lemma gate_peers:
  assumes "may_net i" "\<And>peerings. \<forall>p \<in> set peerings. may_peer (np_id p) \<Longrightarrow> keeps_db P (f peerings)"
  shows "keeps_db P (bind_app (PrivateNetworkRepository_find_peerings_for_network i) f)"
  by (rule gate [where Q = "\<lambda>peerings. \<forall>p \<in> set peerings. may_peer (np_id p)"])
     (use assms in \<open>auto intro: outside_intro peers_of_net\<close>)

section \<open>Databases\<close>

lemma database_frames [preserves_intro]:
  "keeps_db P (container_action_handler u i act)" "keeps_db P (delete_database u i)"
  "keeps_db P (create_backup u i)"
  "keeps_db P (create_backup_schedule u i schedule)" "keeps_db P (update_backup_schedule u i schedule)"
  "keeps_db P (delete_backup_schedule u i)" "keeps_db P (scale_database u i plan_id)"
  "keeps_db P (rename_database u i name)" "keeps_db P (upload_migration u i parts)"
  "keeps_db P (add_favorite u i)" "keeps_db P (rotate_owner_password u i)"
  unfolding container_action_handler_def delete_database_def create_backup_def create_backup_schedule_def
    update_backup_schedule_def delete_backup_schedule_def scale_database_def rename_database_def
    upload_migration_def add_favorite_def rotate_owner_password_def Let_def
  by (rule gate_db, (intro preserves_intro; assumption?))+

lemma create_database_user_frame [preserves_intro]: "keeps_db P (create_database_user u i r)"
  unfolding create_database_user_def
  by (rule preserves_bind) (intro preserves_intro, rule gate_db, (intro preserves_intro; assumption?))

lemma database_user_frames [preserves_intro]:
  "keeps_db P (delete_database_user u i j)" "keeps_db P (rotate_user_password u i j)"
proof -
  show "keeps_db P (delete_database_user u i j)"
    unfolding delete_database_user_def Let_def
    by (rule gate_db, rule gate_user, assumption, (intro preserves_intro; assumption?))
  show "keeps_db P (rotate_user_password u i j)"
    unfolding rotate_user_password_def Let_def
    by (rule gate_db, rule preserves_bind, intro preserves_intro, rule gate_user, assumption,
        (intro preserves_intro; assumption?))
qed

lemma delete_backup_frame [preserves_intro]: "keeps_db P (delete_backup u i j)"
  unfolding delete_backup_def
  by (rule gate_db, rule gate_backup, assumption, (intro preserves_intro; assumption?))

lemma account_frames [preserves_intro]:
  "keeps_db P (generate_api_key_handler u)" "keeps_db P (remove_favorite u i)"
  unfolding generate_api_key_handler_def remove_favorite_def by (intro preserves_intro)+

section \<open>Alert rules\<close>

lemma alert_frames [preserves_intro]:
  "keeps_db P (create_alert u r)" "keeps_db P (update_alert u i r')" "keeps_db P (delete_alert u i)"
proof -
  show "keeps_db P (create_alert u r)"
    unfolding create_alert_def by (intro preserves_intro)
  show "keeps_db P (update_alert u i r')" "keeps_db P (delete_alert u i)"
    unfolding update_alert_def delete_alert_def
    by (rule gate_alert, (intro preserves_intro; assumption?))+
qed

section \<open>Networks\<close>

lemma network_loops_frame:
  "(\<And>c. keeps_db P (g c)) \<Longrightarrow> keeps_db P (with_container i g)"
  "(\<And>b. keeps_db P (h b)) \<Longrightarrow> keeps_db P (for_active_bridges j h)"
  unfolding with_container_def for_active_bridges_def by (intro preserves_intro; assumption)+

lemma teardown_frame [preserves_intro]: "keeps_db P (teardown_bridge peering bridge_id nets)"
  unfolding teardown_bridge_def by (intro preserves_intro)

lemma adopt_server_id: "adopt_server net inst e s = (Inr net', s') \<Longrightarrow> pn_id net' = pn_id net"
  by (auto simp: adopt_server_def bind_Inr_iff control_Inr_iff split: option.split_asm prod.split_asm)

lemma attach_steps [preserves_intro]:
  "may_net (pn_id net) \<Longrightarrow> keeps_db P (adopt_server net inst)"
  "may_net (pn_id net) \<Longrightarrow> keeps_db P (ensure_docker_network target net)"
  unfolding adopt_server_def ensure_docker_network_def by (intro preserves_intro; assumption?)+

lemma ensure_docker_network_id: "ensure_docker_network target net e s = (Inr (net', i), s') \<Longrightarrow> pn_id net' = pn_id net"
  by (auto simp: ensure_docker_network_def bind_Inr_iff control_Inr_iff asks_def split: option.split_asm prod.split_asm)

lemma bind_result:
  assumes "keeps_db P m" "\<And>e s x s'. m e s = (Inr x, s') \<Longrightarrow> Q x" "\<And>x. Q x \<Longrightarrow> keeps_db P (f x)"
  shows "keeps_db P (bind_app m f)"
  unfolding preserves_def
proof (intro allI impI)
  fix e and s :: app_state assume P: "P (db s)"
  obtain r s1 where m: "m e s = (r, s1)" by (cases "m e s")
  with assms(1) P have P1: "P (db s1)" by (rule preservesD)
  show "P (db (snd (bind_app m f e s)))"
  proof (cases r)
    case (Inr x)
    with assms(2,3) m have "keeps_db P (f x)" by blast
    with P1 m Inr show ?thesis by (simp add: preserves_def)
  qed (simp add: m P1)
qed

lemma join_frame: "may_net (pn_id net) \<Longrightarrow> keeps_db P (join_network net inst c)"
  unfolding join_network_def
  by (rule bind_result [where Q = "\<lambda>n. pn_id n = pn_id net"], erule attach_steps, erule adopt_server_id,
      rule preserves_bind, (intro preserves_intro)[1],
      rule bind_result [where Q = "\<lambda>(n, _). pn_id n = pn_id net"])
     (auto dest: ensure_docker_network_id intro!: preserves_intro network_loops_frame)

lemma network_frames [preserves_intro]:
  "keeps_db P (create_network_handler u name)"
  unfolding create_network_handler_def by (intro preserves_intro)

lemma peering_frames [preserves_intro]:
  "keeps_db P (delete_peering u i)" "keeps_db P (delete_firewall_rule u i j)"
proof -
  show "keeps_db P (delete_peering u i)"
    unfolding delete_peering_def by (rule gate_peer, (intro preserves_intro; assumption?))
  show "keeps_db P (delete_firewall_rule u i j)"
    unfolding delete_firewall_rule_def
    by (rule gate_peer, rule gate_rule, assumption, (intro preserves_intro; assumption?))
qed

lemma owned_network_frames [preserves_intro]:
  "keeps_db P (delete_network u i)" "keeps_db P (detach_database u i j)" "keeps_db P (attach_database u i j)"
proof -
  show "keeps_db P (delete_network u i)"
    unfolding delete_network_def
    by (rule gate_net, rule gate_peers, assumption, rule preserves_bind, rule preserves_for_each_mem,
        (intro preserves_intro; simp?)+)
  show "keeps_db P (detach_database u i j)"
    unfolding detach_database_def
    by (rule gate_net, (intro preserves_intro network_loops_frame; assumption?))
  show "keeps_db P (attach_database u i j)"
    unfolding attach_database_def
    by (rule gate_net, (intro preserves_intro join_frame; simp?))
qed

end

end
