(* ===== verification/System.thy ===== *)
theory System
  imports Server Handler_Frame
begin

text \<open>
  The system as a transition relation: a request served, a spawned task run, a round of one of
  the loops in the background. The locale \<open>service_frame\<close> lists what a predicate of the tables has
  to survive to hold after everything but a change of roles, and \<open>system_frame\<close> adds that change;
  they are interpreted for the constraints of the schema, for one invoice per month, for the
  separation of the tenants and for the administrators.
\<close>

section \<open>Any request of a user\<close>

lemma effects_keeps [preserves_intro]: "preserves I m \<Longrightarrow> preserves I (effects m)"
  unfolding effects_def by (intro preserves_intro)

lemma or_default_keeps [preserves_intro]: "preserves I m \<Longrightarrow> preserves I (or_default m dflt)"
  unfolding or_default_def by (intro preserves_intro)

lemma clone_is_stuck: "clone_database None i j name = throw (Internal ''Missing request extension'')"
  by (simp add: clone_database_def ok_or_def)

context user_frame
begin

lemma run_user_frame: "keeps_db P (run_user r u)"
  apply (cases r)
  apply (simp_all only: run_user.simps clone_is_stuck)
  apply (intro effects_keeps database_frames create_database_user_frame database_user_frames delete_backup_frame account_frames alert_frames network_frames peering_frames owned_network_frames creates_database writes_peering handlers_keep everything_keeps preserves_control)+
  done

end

section \<open>The interface of the system and the repositories\<close>

locale service_frame =
  fixes P :: "pg \<Rightarrow> bool"
  assumes account_writes [preserves_intro]:
      "keeps_db P (UserRepository_create mail hash UserRole_User)"
      "keeps_db P (UserRepository_delete i)"
      "keeps_db P (UserRepository_set_api_key i key)"
      "keeps_db P (InvitationRepository_create code i n expires)"
      "keeps_db P (InvitationRepository_use_invitation code i)"
      "keeps_db P (InvitationRepository_delete i)"
      "keeps_db P (FavoriteRepository_add j i)"
      "keeps_db P (FavoriteRepository_remove j i)"
    and billing_writes [preserves_intro]:
      "keeps_db P (BillingRepository_create_plan_template new_plan)"
      "keeps_db P (BillingRepository_update_plan_template i plan_change)"
      "keeps_db P (BillingRepository_delete_plan_template i)"
      "keeps_db P (BillingRepository_record_usage_event i event_type v name plan)"
      "keeps_db P (BillingService_handle_stripe_webhook event_type invoice_id)"
      "keeps_db P (BillingService_run_monthly_billing stripe_key)"
    and database_writes [preserves_intro]:
      "keeps_db P (DatabaseRepository_create u name type host port username password db_name cpu mem
         in_bundle mode plan on_server subdomain routing)"
      "keeps_db P (DatabaseRepository_create_bundle u name)"
      "keeps_db P (DatabaseRepository_update_bundle_network i net)"
      "keeps_db P (DatabaseRepository_update_provisioned i container net_opt cert)"
      "keeps_db P (DatabaseRepository_update_status i st)"
      "keeps_db P (DatabaseRepository_update_owner_password i secret)"
      "keeps_db P (DatabaseRepository_update_routing_mode i routing)"
      "keeps_db P (DatabaseRepository_delete i)"
      "keeps_db P (set_plan i plan_id template)"
      "keeps_db P (set_name i name)"
    and child_writes [preserves_intro]:
      "keeps_db P (DatabaseRepository_create_database_user i name secret permission)"
      "keeps_db P (DatabaseRepository_update_database_user_password i secret)"
      "keeps_db P (DatabaseRepository_delete_database_user i)"
      "keeps_db P (DatabaseRepository_create_backup i name size_bytes)"
      "keeps_db P (DatabaseRepository_delete_backup i)"
      "keeps_db P (BackupScheduleRepository_create i hours retention enabled)"
      "keeps_db P (BackupScheduleRepository_update i hours_opt retention_opt enabled_opt)"
      "keeps_db P (BackupScheduleRepository_update_last_run i)"
      "keeps_db P (BackupScheduleRepository_delete i)"
      "keeps_db P (MigrationService_record_migration i name checksum)"
    and server_writes [preserves_intro]:
      "keeps_db P (DockerServerRepository_create new_server)"
      "keeps_db P (DockerServerRepository_update i server_change)"
      "keeps_db P (DockerServerRepository_update_last_seen i)"
      "keeps_db P (DockerServerRepository_delete i)"
    and network_writes [preserves_intro]:
      "keeps_db P (PrivateNetworkRepository_create u name)"
      "keeps_db P (PrivateNetworkRepository_delete i)"
      "keeps_db P (PrivateNetworkRepository_update_docker_server_id i j)"
      "keeps_db P (PrivateNetworkRepository_update_docker_network_id i name)"
      "keeps_db P (PrivateNetworkRepository_update_subnet_info i subnet gateway)"
      "keeps_db P (PrivateNetworkRepository_add_member i j)"
      "keeps_db P (PrivateNetworkRepository_remove_member i j)"
      "keeps_db P (create_peering usr pr)"
      "keeps_db P (PrivateNetworkRepository_update_peering_status i status)"
      "keeps_db P (PrivateNetworkRepository_update_peering_bridge i name)"
      "keeps_db P (PrivateNetworkRepository_delete_peering i)"
      "keeps_db P (create_firewall_rule usr i fr)"
      "keeps_db P (PrivateNetworkRepository_delete_firewall_rule i)"
    and other_writes [preserves_intro]:
      "keeps_db P (AlertRepository_create_rule u target event_type hook email on)"
      "keeps_db P (AlertRepository_update_rule i hook email on_opt)"
      "keeps_db P (AlertRepository_delete_rule i)"
      "keeps_db P (AlertRepository_insert_history i event_type message)"
      "keeps_db P (AuditRepository_insert u_opt action resource_type i_opt details ip)"
      "keeps_db P (sql_execute (\<lambda>_. upsert_setting key val))"
begin

lemma creation_frames [preserves_intro]:
  "keeps_db P (create_database u r)" "keeps_db P (create_bundle u b)"
  unfolding create_database_def create_bundle_def or_release_def new_subdomain_def Let_def
  by (intro preserves_intro)+

end

sublocale service_frame \<subseteq> anyone: user_frame P u "\<lambda>_. True" "\<lambda>_. True" "\<lambda>_. True" "\<lambda>_. True"
  "\<lambda>_. True" "\<lambda>_. True" "\<lambda>_. True" for u
  by unfold_locales (intro TrueI account_writes billing_writes database_writes child_writes
      network_writes other_writes creation_frames)+

section \<open>Any request, task or round\<close>

context service_frame
begin

lemmas run_user_keeps = anyone.run_user_frame

lemma register_keeps [preserves_intro]: "keeps_db P (register r)"
  unfolding register_def by (intro preserves_intro)

lemma webhook_keeps [preserves_intro]: "keeps_db P (stripe_webhook signature body)"
  unfolding stripe_webhook_def Let_def by (intro preserves_intro)

lemma admin_parts [preserves_intro]:
  "keeps_db P (remove_user_database inst)" "keeps_db P (remove_user_network net)"
  "keeps_db P (check_server_health server)"
  unfolding remove_user_database_def remove_user_network_def check_server_health_def Let_def
  by (intro preserves_intro)+

lemma admin_user_frames [preserves_intro]:
  "keeps_db P (delete_user i)"
  "keeps_db P (force_delete_database i)"
  "keeps_db P (create_invitation ir)"
  "keeps_db P (delete_invitation i)"
  "keeps_db P (migrate_to_sni i)"
  unfolding delete_user_def force_delete_database_def create_invitation_def delete_invitation_def migrate_to_sni_def Let_def
  by (intro preserves_intro)+

lemma admin_plan_frames [preserves_intro]:
  "keeps_db P (admin_create_plan plan)"
  "keeps_db P (admin_update_plan i change)"
  "keeps_db P (admin_delete_plan i)"
  "keeps_db P admin_generate_billing"
  unfolding admin_create_plan_def admin_update_plan_def admin_delete_plan_def admin_generate_billing_def Let_def
  by (intro preserves_intro)+

lemma admin_setting_frames [preserves_intro]:
  "keeps_db P (toggle_registration enabled)"
  "keeps_db P (toggle_maintenance enabled)"
  unfolding toggle_registration_def toggle_maintenance_def Let_def
  by (intro preserves_intro)+

lemma admin_server_frames [preserves_intro]:
  "keeps_db P (create_server new_server)"
  "keeps_db P servers_status"
  "keeps_db P (update_server_handler i server_change)"
  "keeps_db P (delete_server i)"
  "keeps_db P (server_status i)"
  unfolding create_server_def servers_status_def update_server_handler_def delete_server_def server_status_def Let_def
  by (intro preserves_intro network_loops_keep)+

lemma run_admin_frame: "(\<And>i body. r \<noteq> R_update_user_role i body) \<Longrightarrow> keeps_db P (run_admin r)"
  by (cases r; ((simp only: run_admin.simps, (intro preserves_intro; fail)) | blast))

lemma run_public_keeps [preserves_intro]: "keeps_db P (run_public r)"
  by (cases r) (simp_all only: run_public.simps, (intro preserves_intro)+)

lemma serve_frame:
  "(\<And>i body. req \<noteq> Admin_request (R_update_user_role i body)) \<Longrightarrow> keeps_db P (serve within_quota head req)"
  unfolding serve_def
  by (cases req; simp only: request.case; intro preserves_intro run_user_keeps run_admin_frame; simp)

lemma task_parts [preserves_intro]:
  "keeps_db P (mark_failed t)" "keeps_db P (record_start t)" "keeps_db P (mark_provisioned t res cert)"
  "keeps_db P (set_peering_status i status)"
  unfolding mark_failed_def record_start_def mark_provisioned_def set_peering_status_def
  by (intro preserves_intro)+

lemma provision_keeps [preserves_intro]:
  "keeps_db P (provision_database t)" "keeps_db P (provision_bundle i pg redis)"
  unfolding provision_database_def provision_bundle_def Let_def by (intro preserves_intro)+

lemma run_task_keeps: "keeps_db P (run_task t)"
  by (cases t)
    (simp_all only: run_task.simps run_provision_database_def run_provision_bundle_def
      run_cleanup_database_def run_clone_database_def run_activate_peering_def run_write_audit_def Let_def,
     (intro preserves_intro)+)

lemma backup_parts [preserves_intro]:
  "keeps_db P (cleanup_old_backups i n dir)"
  unfolding cleanup_old_backups_def by (intro preserves_intro)

lemma scheduled_backup_keeps [preserves_intro]: "keeps_db P (scheduled_backup schedule)"
  unfolding scheduled_backup_def Let_def by (intro preserves_intro)

lemma alert_parts [preserves_intro]:
  "keeps_db P (fire_alert rule message)"
  unfolding fire_alert_def by (intro preserves_intro)

lemma check_rule_keeps [preserves_intro]:
  "keeps_db P (check_rule rule inst container target)"
  unfolding check_rule_def by (intro preserves_intro)

lemma rounds_keep:
  "keeps_db P (billing_round last_run)" "keeps_db P metrics_round" "keeps_db P backup_round"
  "keeps_db P alert_round"
  unfolding billing_round_def metrics_round_def backup_round_def alert_round_def
    BackupService_run_scheduled_backups_def check_container_health_def check_rule_target_def Let_def
  by (intro preserves_intro)+

lemma load_port_pool_keeps [preserves_intro]: "keeps_db P load_port_pool"
  unfolding load_port_pool_def
  by (intro preserves_intro) (simp add: preserves_def)

lemma start_up_keeps: "keeps_db P start_up"
  unfolding start_up_def expect_app_def
  by (intro preserves_intro)

end

section \<open>With the roles\<close>

locale system_frame = service_frame +
  assumes role_write [preserves_intro]: "keeps_db P (UserRepository_update_role i role)"
begin

lemma update_user_role_keeps [preserves_intro]: "keeps_db P (update_user_role i body)"
  unfolding update_user_role_def by (intro preserves_intro)

lemma serve_keeps: "keeps_db P (serve within_quota head req)"
proof (cases "\<exists>i body. req = Admin_request (R_update_user_role i body)")
  case True
  then show ?thesis
    unfolding serve_def by (auto simp only: request.case run_admin.simps intro!: preserves_intro)
qed (blast intro: serve_frame)

end

end
