(* ===== verification/Table_Frames.thy ===== *)
theory Table_Frames
  imports System
begin

text \<open>
  Which tables a statement leaves alone, with the predicate of those tables left open: every
  statement outside the private networks leaves the networks, peerings, firewall rules and
  invoices as they are, and every statement of the private networks the invoices.
\<close>

abbreviation of_networks_and_invoices ::
  "(private_network list \<Rightarrow> network_peering list \<Rightarrow> firewall_rule list \<Rightarrow> billing_period list \<Rightarrow> bool) \<Rightarrow> pg \<Rightarrow> bool" where
  "of_networks_and_invoices Q d \<equiv> Q (t_networks d) (t_peerings d) (t_rules d) (t_billing_periods d)"

abbreviation of_invoices :: "(billing_period list \<Rightarrow> bool) \<Rightarrow> pg \<Rightarrow> bool" where
  "of_invoices Q d \<equiv> Q (t_billing_periods d)"

lemma cascades_leave:
  "t_billing_periods (delete_database_row i d) = t_billing_periods d"
  "t_billing_periods (delete_network_row i d) = t_billing_periods d"
  "t_billing_periods (delete_peering_row i d) = t_billing_periods d"
  "t_billing_periods (delete_bundle_row i d) = t_billing_periods d"
  "t_billing_periods (delete_alert_rule_row i d) = t_billing_periods d"
  "t_networks (delete_database_row i d) = t_networks d" "t_peerings (delete_database_row i d) = t_peerings d"
  "t_rules (delete_database_row i d) = t_rules d"
  "t_networks (delete_bundle_row i d) = t_networks d" "t_peerings (delete_bundle_row i d) = t_peerings d"
  "t_rules (delete_bundle_row i d) = t_rules d"
  "t_networks (delete_alert_rule_row i d) = t_networks d" "t_peerings (delete_alert_rule_row i d) = t_peerings d"
  "t_rules (delete_alert_rule_row i d) = t_rules d"
  by (simp_all add: delete_database_row_def delete_network_row_def delete_peering_row_def
      delete_bundle_row_def delete_alert_rule_row_def Let_def)

lemma delete_user_row_invoices:
  "delete_user_row u d = Inr d' \<Longrightarrow> t_billing_periods d' = t_billing_periods d"
  by (auto simp: delete_user_row_def Let_def fold_frame [where g = t_billing_periods] cascades_leave
      split: if_split_asm)

lemmas one_table_only =
  insert_defs cascades_leave update_plan_def update_server_def delete_server_row_def with_result_def

lemma account_statements_leave:
  "keeps_db (of_networks_and_invoices Q) (UserRepository_create mail hash role)"
  "keeps_db (of_networks_and_invoices Q) (UserRepository_update_role i role)"
  "keeps_db (of_networks_and_invoices Q) (UserRepository_set_api_key i key)"
  "keeps_db (of_networks_and_invoices Q) (InvitationRepository_create code i n expires)"
  "keeps_db (of_networks_and_invoices Q) (InvitationRepository_use_invitation code i)"
  "keeps_db (of_networks_and_invoices Q) (InvitationRepository_delete i)"
  "keeps_db (of_networks_and_invoices Q) (FavoriteRepository_add j i)"
  "keeps_db (of_networks_and_invoices Q) (FavoriteRepository_remove j i)"
  unfolding UserRepository_create_def UserRepository_update_role_def UserRepository_set_api_key_def
    InvitationRepository_create_def InvitationRepository_use_invitation_def
    InvitationRepository_delete_def FavoriteRepository_add_def FavoriteRepository_remove_def Let_def
  by (intro preserves_intro keeps_db_insert keeps_db_execute keeps_db_update keeps_db_run_sql;
      auto simp: one_table_only split: if_split_asm sum.split_asm option.split_asm)+

lemma plan_statements_leave:
  "keeps_db (of_networks_and_invoices Q) (BillingRepository_create_plan_template new_plan)"
  "keeps_db (of_networks_and_invoices Q) (BillingRepository_update_plan_template i plan_change)"
  "keeps_db (of_networks_and_invoices Q) (BillingRepository_delete_plan_template i)"
  "keeps_db (of_networks_and_invoices Q) (BillingRepository_record_usage_event i event_type v name plan)"
  unfolding BillingRepository_create_plan_template_def BillingRepository_update_plan_template_def
    BillingRepository_delete_plan_template_def BillingRepository_record_usage_event_def Let_def
  by (intro preserves_intro keeps_db_insert keeps_db_execute keeps_db_update keeps_db_run_sql;
      auto simp: one_table_only split: if_split_asm sum.split_asm option.split_asm)+

lemma instance_statements_leave:
  "keeps_db (of_networks_and_invoices Q) (DatabaseRepository_create u name type host port username password db_name cpu mem in_bundle mode plan on_server subdomain routing)"
  "keeps_db (of_networks_and_invoices Q) (DatabaseRepository_create_bundle u name)"
  "keeps_db (of_networks_and_invoices Q) (DatabaseRepository_update_bundle_network i net)"
  "keeps_db (of_networks_and_invoices Q) (DatabaseRepository_update_provisioned i container net_opt cert)"
  "keeps_db (of_networks_and_invoices Q) (DatabaseRepository_update_status i st)"
  "keeps_db (of_networks_and_invoices Q) (DatabaseRepository_update_owner_password i secret)"
  "keeps_db (of_networks_and_invoices Q) (DatabaseRepository_update_routing_mode i routing)"
  "keeps_db (of_networks_and_invoices Q) (DatabaseRepository_delete i)"
  "keeps_db (of_networks_and_invoices Q) (set_plan i plan_id template)"
  "keeps_db (of_networks_and_invoices Q) (set_name i name)"
  "keeps_db (of_networks_and_invoices Q) (DatabaseRepository_create_database_user i name secret permission)"
  "keeps_db (of_networks_and_invoices Q) (DatabaseRepository_update_database_user_password i secret)"
  "keeps_db (of_networks_and_invoices Q) (DatabaseRepository_delete_database_user i)"
  "keeps_db (of_networks_and_invoices Q) (DatabaseRepository_create_backup i name size_bytes)"
  "keeps_db (of_networks_and_invoices Q) (DatabaseRepository_delete_backup i)"
  unfolding DatabaseRepository_create_def DatabaseRepository_create_bundle_def
    DatabaseRepository_update_bundle_network_def DatabaseRepository_update_provisioned_def
    DatabaseRepository_update_status_def DatabaseRepository_update_owner_password_def
    DatabaseRepository_update_routing_mode_def DatabaseRepository_delete_def set_plan_def
    set_name_def DatabaseRepository_create_database_user_def
    DatabaseRepository_update_database_user_password_def DatabaseRepository_delete_database_user_def
    DatabaseRepository_create_backup_def DatabaseRepository_delete_backup_def Let_def
  by (intro preserves_intro keeps_db_insert keeps_db_execute keeps_db_update keeps_db_run_sql;
      auto simp: one_table_only split: if_split_asm sum.split_asm option.split_asm)+

lemma child_statements_leave:
  "keeps_db (of_networks_and_invoices Q) (BackupScheduleRepository_create i hours retention enabled)"
  "keeps_db (of_networks_and_invoices Q) (BackupScheduleRepository_update i hours_opt retention_opt enabled_opt)"
  "keeps_db (of_networks_and_invoices Q) (BackupScheduleRepository_update_last_run i)"
  "keeps_db (of_networks_and_invoices Q) (BackupScheduleRepository_delete i)"
  "keeps_db (of_networks_and_invoices Q) (MigrationService_record_migration i name checksum)"
  "keeps_db (of_networks_and_invoices Q) (DockerServerRepository_create new_server)"
  "keeps_db (of_networks_and_invoices Q) (DockerServerRepository_update i server_change)"
  "keeps_db (of_networks_and_invoices Q) (DockerServerRepository_update_last_seen i)"
  "keeps_db (of_networks_and_invoices Q) (DockerServerRepository_delete i)"
  unfolding BackupScheduleRepository_create_def BackupScheduleRepository_update_def
    BackupScheduleRepository_update_last_run_def BackupScheduleRepository_delete_def
    MigrationService_record_migration_def DockerServerRepository_create_def
    DockerServerRepository_update_def DockerServerRepository_update_last_seen_def
    DockerServerRepository_delete_def Let_def
  by (intro preserves_intro keeps_db_insert keeps_db_execute keeps_db_update keeps_db_run_sql;
      auto simp: one_table_only split: if_split_asm sum.split_asm option.split_asm)+

lemma network_statements_leave:
  "keeps_db (of_invoices Q) (PrivateNetworkRepository_create u name)"
  "keeps_db (of_invoices Q) (PrivateNetworkRepository_delete i)"
  "keeps_db (of_invoices Q) (PrivateNetworkRepository_update_docker_server_id i j)"
  "keeps_db (of_invoices Q) (PrivateNetworkRepository_update_docker_network_id i name)"
  "keeps_db (of_invoices Q) (PrivateNetworkRepository_update_subnet_info i subnet gateway)"
  "keeps_db (of_invoices Q) (PrivateNetworkRepository_add_member i j)"
  "keeps_db (of_invoices Q) (PrivateNetworkRepository_remove_member i j)"
  "keeps_db (of_invoices Q) (PrivateNetworkRepository_create_peering u i j on_server)"
  "keeps_db (of_invoices Q) (PrivateNetworkRepository_update_peering_status i status)"
  "keeps_db (of_invoices Q) (PrivateNetworkRepository_update_peering_bridge i name)"
  "keeps_db (of_invoices Q) (PrivateNetworkRepository_delete_peering i)"
  "keeps_db (of_invoices Q) (PrivateNetworkRepository_create_firewall_rule i priority act src dst port_opt proto text)"
  "keeps_db (of_invoices Q) (PrivateNetworkRepository_delete_firewall_rule i)"
  unfolding PrivateNetworkRepository_create_def PrivateNetworkRepository_delete_def
    PrivateNetworkRepository_update_docker_server_id_def
    PrivateNetworkRepository_update_docker_network_id_def
    PrivateNetworkRepository_update_subnet_info_def PrivateNetworkRepository_add_member_def
    PrivateNetworkRepository_remove_member_def PrivateNetworkRepository_create_peering_def
    PrivateNetworkRepository_update_peering_status_def
    PrivateNetworkRepository_update_peering_bridge_def PrivateNetworkRepository_delete_peering_def
    PrivateNetworkRepository_create_firewall_rule_def
    PrivateNetworkRepository_delete_firewall_rule_def Let_def
  by (intro preserves_intro keeps_db_insert keeps_db_execute keeps_db_update keeps_db_run_sql;
      auto simp: one_table_only split: if_split_asm sum.split_asm option.split_asm)+

lemma alert_statements_leave:
  "keeps_db (of_networks_and_invoices Q) (AlertRepository_create_rule u target event_type hook email on)"
  "keeps_db (of_networks_and_invoices Q) (AlertRepository_update_rule i hook email on_opt)"
  "keeps_db (of_networks_and_invoices Q) (AlertRepository_delete_rule i)"
  "keeps_db (of_networks_and_invoices Q) (AlertRepository_insert_history i event_type message)"
  "keeps_db (of_networks_and_invoices Q) (AuditRepository_insert u_opt action resource_type i_opt details ip)"
  unfolding AlertRepository_create_rule_def AlertRepository_update_rule_def
    AlertRepository_delete_rule_def AlertRepository_insert_history_def AuditRepository_insert_def
    Let_def
  by (intro preserves_intro keeps_db_insert keeps_db_execute keeps_db_update keeps_db_run_sql;
      auto simp: one_table_only split: if_split_asm sum.split_asm option.split_asm)+

lemma delete_user_leaves: "keeps_db (of_invoices Q) (UserRepository_delete i)"
  unfolding UserRepository_delete_def
  by (rule keeps_db_run_sql) (auto simp: with_result_def split: sum.split_asm dest!: delete_user_row_invoices)

lemma setting_leaves: "keeps_db (of_networks_and_invoices Q) (sql_execute (\<lambda>_. upsert_setting key val))"
  by (rule keeps_db_execute) (simp add: upsert_setting_def)

lemmas other_statements_leave =
  account_statements_leave plan_statements_leave instance_statements_leave child_statements_leave
  alert_statements_leave setting_leaves

end
