(* ===== verification/Reachability.thy ===== *)
theory Reachability
  imports Table_Frames Scenario
begin

text \<open>
  The runs of the server and what holds in all of them. A step is a request served, a spawned
  task, a round of a loop in the background, the passing of time or a restart of the process,
  or the operator's change of a role by hand; a run starts on the tables the migrations leave.
  \<open>system_frame\<close> is interpreted here for the constraints of the schema and for "one invoice per
  user and month".
\<close>

section \<open>Steps\<close>

inductive step :: "env \<Rightarrow> app_state \<Rightarrow> app_state \<Rightarrow> bool" where
  a_request: "serve within_quota head req e s = (r, s') \<Longrightarrow> step e s s'"
| a_task: "spawned s = before @ t # after \<Longrightarrow>
    run_task t e (s\<lparr>spawned := before @ after\<rparr>) = (r, s') \<Longrightarrow> step e s s'"
| billing: "billing_round last_run e s = (r, s') \<Longrightarrow> step e s s'"
| metrics: "metrics_round e s = (r, s') \<Longrightarrow> step e s s'"
| backup: "backup_round e s = (r, s') \<Longrightarrow> step e s s'"
| alerting: "alert_round e s = (r, s') \<Longrightarrow> step e s s'"
| waiting: "clock s \<le> now \<Longrightarrow> step e s (s\<lparr>clock := now\<rparr>)"
| restart: "start_up e (s\<lparr>spawned := []\<rparr>) = (r, s') \<Longrightarrow> step e s s'"
  \<comment> \<open>tasks that had not run are lost\<close>
| operator: "UserRepository_update_role i role e s = (r, s') \<Longrightarrow> step e s s'"
  \<comment> \<open>by hand in PostgreSQL: no request makes a first administrator\<close>

inductive_cases stepE: "step e s s'"

section \<open>The tables of a new installation\<close>

definition seed_plan :: "string \<Rightarrow> db_type \<Rightarrow> f64 \<Rightarrow> i32 \<Rightarrow> i32 \<Rightarrow> i32 \<Rightarrow> bool \<Rightarrow> uuid \<Rightarrow> time \<Rightarrow> plan_template" where
  "seed_plan name type cpu mem monthly hourly bundled new now =
     \<lparr>pt_id = new, pt_name = name, pt_db_type = type, pt_cpu_limit = cpu, pt_memory_limit_mb = mem,
      pt_monthly_price_cents = monthly, pt_hourly_price_cents = hourly, pt_is_bundle = bundled,
      pt_active = True, pt_created_at = now\<rparr>"

definition seed_plans :: "(uuid \<Rightarrow> time \<Rightarrow> plan_template) list" where
  "seed_plans =
     [seed_plan ''PG Starter'' Postgresql (1 / 2) 256 500 2 False,
      seed_plan ''PG Pro'' Postgresql 1 512 1200 4 False,
      seed_plan ''PG Business'' Postgresql 2 1024 2500 7 False,
      seed_plan ''PG Enterprise'' Postgresql 4 2048 4500 12 False,
      seed_plan ''Redis Starter'' Redis (1 / 4) 128 300 1 False,
      seed_plan ''Redis Pro'' Redis (1 / 2) 256 800 3 False,
      seed_plan ''Redis Business'' Redis 1 512 1500 5 False,
      seed_plan ''Maria Starter'' Mariadb (1 / 2) 256 500 2 False,
      seed_plan ''Maria Pro'' Mariadb 1 512 1200 4 False,
      seed_plan ''Maria Business'' Mariadb 2 1024 2500 7 False,
      seed_plan ''Bundle Starter'' Postgresql (1 / 2) 256 700 3 True,
      seed_plan ''Bundle Pro'' Postgresql 1 512 1800 6 True,
      seed_plan ''Bundle Business'' Postgresql 2 1024 3500 10 True]"

definition empty_pg :: pg where
  "empty_pg = \<lparr>t_users = [], t_databases = [], t_bundles = [], t_db_users = [], t_backups = [],
     t_migrations = [], t_plans = [], t_usage_events = [], t_billing_periods = [],
     t_line_items = [], t_servers = [], t_networks = [], t_members = [], t_peerings = [],
     t_rules = [], t_invitations = [], t_schedules = [], t_audit_logs = [], t_alert_rules = [],
     t_alert_history = [], t_favorites = [], t_settings = []\<rparr>"

definition on_conflict_do_nothing :: "(pg \<Rightarrow> sqlx_error + pg) \<Rightarrow> pg \<Rightarrow> pg" where
  "on_conflict_do_nothing ins d = (case ins d of Inl _ \<Rightarrow> d | Inr d' \<Rightarrow> d')"

definition installed :: "(nat \<Rightarrow> uuid) \<Rightarrow> time \<Rightarrow> pg" where
  \<comment> \<open>given what \<open>gen_random_uuid()\<close> draws for the rows\<close>
  "installed new now =
     fold (\<lambda>(i, row). on_conflict_do_nothing (insert_plan (row (new i) now)))
       (enumerate 0 seed_plans) (empty_pg\<lparr>t_settings := [(''maintenance_mode'', ''false'')]\<rparr>)"

inductive reachable :: "env \<Rightarrow> app_state \<Rightarrow> bool" where
  start: "db s = installed new now \<Longrightarrow> start_up e s = (Inr (), s') \<Longrightarrow> reachable e s'"
| later: "reachable e s \<Longrightarrow> step e s s' \<Longrightarrow> reachable e s'"

context system_frame
begin

lemma step_keeps:
  assumes "step e s s'" "P (db s)"
  shows "P (db s')"
  using assms(1)
proof cases
  case (a_task before t after r)
  from run_task_keeps _ this(2) show ?thesis by (rule preservesD) (simp add: assms(2))
next
  case (restart r)
  from start_up_keeps _ this show ?thesis by (rule preservesD) (simp add: assms(2))
qed (use assms(2) in \<open>auto dest: preservesD [OF serve_keeps] preservesD [OF rounds_keep(1)]
  preservesD [OF rounds_keep(2)] preservesD [OF rounds_keep(3)] preservesD [OF rounds_keep(4)]
  preservesD [OF role_write]\<close>)

lemma reachable_keeps:
  assumes "reachable e s" "\<And>new now. P (installed new now)"
  shows "P (db s)"
  using assms(1)
proof induction
  case (start s new now e s')
  with assms(2) show ?case by (metis preservesD [OF start_up_keeps])
next
  case (later e s s')
  then show ?case by (blast intro: step_keeps)
qed

end

section \<open>The constraints of the schema\<close>

lemma plan_row_schema:
  assumes "schema_ok d" "i \<in> ids di_id (t_databases d) \<longrightarrow> plan_id \<in> ids pt_id (t_plans d)"
  shows "schema_ok (update_databases (\<lambda>x. di_id x = i) (\<lambda>x. x\<lparr>di_plan_template_id := Some plan_id,
      di_cpu_limit := cpu, di_memory_limit_mb := mem, di_updated_at := now\<rparr>) d)"
proof -
  have "fk_opt di_plan_template_id (update_where (\<lambda>x. di_id x = i) (\<lambda>x. x\<lparr>di_plan_template_id := Some plan_id,
      di_cpu_limit := cpu, di_memory_limit_mb := mem, di_updated_at := now\<rparr>) (t_databases d)) (ids pt_id (t_plans d))"
    using assms by (intro fk_opt_assign) (auto simp: schema_ok_def schema_parts_def ids_def)
  with assms(1) show ?thesis by (simp add: schema_ok_def schema_parts_def)
qed

lemma set_plan_schema [preserves_intro]: "keeps_db schema_ok (set_plan i plan_id template)"
  unfolding set_plan_def by (intro keeps_db_run_sql) (auto intro: plan_row_schema split: if_split_asm)

lemma setting_schema: "keeps_db schema_ok (sql_execute (\<lambda>_. upsert_setting key val))"
  by (rule keeps_db_execute) (simp add: upsert_setting_def schema_ok_def schema_parts_def)

lemma keyed_point:
  assumes "keyed h rs" "keyed k rs" "\<And>r. h (f r) = h r"
    and "\<And>x y. x \<in> set rs \<Longrightarrow> y \<in> set rs \<Longrightarrow> h x = i \<Longrightarrow> h y \<noteq> i \<Longrightarrow> k y \<noteq> k (f x)"
  shows "keyed k (update_where (\<lambda>x. h x = i) f rs)"
proof -
  let ?g = "\<lambda>x. k (if h x = i then f x else x)"
  have "inj_on ?g (set rs)"
    using assms by (auto simp: inj_on_def keyed_def distinct_map split: if_splits) metis+
  moreover have "distinct rs" using assms(1) by (simp add: keyed_def distinct_map)
  ultimately show ?thesis by (simp add: keyed_def update_where_def distinct_map comp_def)
qed

lemma rename_row_schema:
  assumes "schema_ok d"
    and "\<not> list_ex (\<lambda>x. di_id x = i \<and> list_ex (\<lambda>y. di_id y \<noteq> i \<and> di_user_id y = di_user_id x \<and> di_name y = name)
      (t_databases d)) (t_databases d)"
  shows "schema_ok (update_databases (\<lambda>x. di_id x = i) (\<lambda>x. x\<lparr>di_name := name, di_updated_at := now\<rparr>) d)"
proof -
  have "keyed (\<lambda>x. (di_user_id x, di_name x)) (update_where (\<lambda>x. di_id x = i)
      (\<lambda>x. x\<lparr>di_name := name, di_updated_at := now\<rparr>) (t_databases d))"
    using assms by (intro keyed_point) (auto simp: schema_ok_def schema_parts_def list_ex_iff)
  with assms(1) show ?thesis by (simp add: schema_ok_def schema_parts_def)
qed

lemma set_name_schema [preserves_intro]: "keeps_db schema_ok (set_name i name)"
  unfolding set_name_def by (intro keeps_db_run_sql) (auto intro: rename_row_schema split: if_split_asm)

lemma webhook_schema: "keeps_db schema_ok (BillingService_handle_stripe_webhook event_type invoice_id)"
proof -
  have "keeps_db schema_ok (sql_execute (\<lambda>_ d. d\<lparr>t_billing_periods :=
      update_where (\<lambda>x. bp_stripe_invoice_id x = Some invoice_id) (\<lambda>x. x\<lparr>bp_status := status\<rparr>) (t_billing_periods d)\<rparr>))"
    if "status \<in> {''paid'', ''failed''}" for status
    using that by (intro keeps_db_execute) (auto simp: schema_ok_def schema_parts_def list_all_update)
  then show ?thesis
    unfolding BillingService_handle_stripe_webhook_def by (auto intro: preserves_intro)
qed

lemma monthly_billing_schema: "keeps_db schema_ok (BillingService_run_monthly_billing key)"
  unfolding BillingService_run_monthly_billing_def BillingService_generate_monthly_invoice_def
    BillingService_create_stripe_invoice_def Let_def
  by (intro preserves_intro keeps_db_execute)

lemma peering_handlers_schema [preserves_intro]:
  "keeps_db schema_ok (create_peering u pr)" "keeps_db schema_ok (create_firewall_rule u i fr)"
  unfolding create_peering_def create_firewall_rule_def Let_def by (intro preserves_intro)+

interpretation schema: system_frame schema_ok
  by unfold_locales (intro preserves_intro setting_schema webhook_schema monthly_billing_schema)+

lemma empty_schema: "schema_ok (empty_pg\<lparr>t_settings := settings\<rparr>)"
  by (simp add: empty_pg_def schema_ok_def schema_parts_def keyed_opt_def fk_def fk_opt_def)

lemma seed_schema:
  "schema_ok d \<Longrightarrow> schema_ok (fold (\<lambda>(i, row). on_conflict_do_nothing (insert_plan (row (new i) now))) seeds d)"
  by (induction seeds arbitrary: d)
     (auto simp: on_conflict_do_nothing_def split: sum.split, metis insert_plan_ok)

lemma installed_schema: "schema_ok (installed new now)"
  unfolding installed_def by (intro seed_schema empty_schema)

section \<open>One invoice per user and month\<close>

lemmas statements_one_invoice =
  other_statements_leave [where Q = "\<lambda>_ _ _ ps. keyed (\<lambda>x. (bp_user_id x, bp_period_start x)) ps",
    folded one_invoice_def]

lemmas network_statements_one_invoice =
  network_statements_leave [where Q = "keyed (\<lambda>x. (bp_user_id x, bp_period_start x))", folded one_invoice_def]
  delete_user_leaves [where Q = "keyed (\<lambda>x. (bp_user_id x, bp_period_start x))", folded one_invoice_def]

lemma peering_handlers_one_invoice:
  "keeps_db one_invoice (create_peering u pr)" "keeps_db one_invoice (create_firewall_rule u i fr)"
  unfolding create_peering_def create_firewall_rule_def Let_def
  by (intro preserves_intro network_statements_one_invoice)+

lemma webhook_one_invoice:
  "keeps_db one_invoice (BillingService_handle_stripe_webhook event_type invoice_id)"
  unfolding BillingService_handle_stripe_webhook_def Let_def
  by (intro preserves_intro keeps_db_execute)
     (auto simp: one_invoice_def map_update_where elim!: keyed_same_keys [rotated])

interpretation invoices: system_frame one_invoice
  by unfold_locales
    (intro statements_one_invoice network_statements_one_invoice peering_handlers_one_invoice
      webhook_one_invoice run_monthly_billing_one_invoice)+

lemma installed_invoices: "t_billing_periods (installed new now) = []"
proof -
  have "t_billing_periods (fold (\<lambda>(i, row). on_conflict_do_nothing (insert_plan (row (new i) now))) seeds d)
      = t_billing_periods d" for seeds d
    by (rule fold_frame) (auto simp: on_conflict_do_nothing_def insert_plan_def)
  then show ?thesis by (simp add: installed_def empty_pg_def)
qed

section \<open>What holds in every reachable state\<close>

definition started_state :: app_state where
  "started_state = snd (start_up demo_env (demo_state\<lparr>db := installed (\<lambda>i. i) 0\<rparr>))"

definition registered_state :: app_state where
  \<comment> \<open>and a user has registered\<close>
  "registered_state = snd (serve (\<lambda>_. True)
     \<lparr>rh_authorization = None, rh_forwarded_for = None, rh_real_ip = None\<rparr>
     (Public_request (R_register \<lparr>cur_email = ''ada@example.com'', cur_password = ''lovelace1815'',
        cur_invitation_code = None\<rparr>)) demo_env started_state)"

lemma registered_reachable: "reachable demo_env registered_state"
proof -
  have "fst (start_up demo_env (demo_state\<lparr>db := installed (\<lambda>i. i) 0\<rparr>)) = Inr ()"
    by (simp add: start_up_def expect_app_def create_docker_client_def connect_docker_def
        TlsService_init_ca_def ensure_proxy_network_def with_docker_def load_port_pool_def demo_config_def
        demo_libraries_def demo_reply_def fs_create_dir_all_def fs_write_def fs_effect_def docker_request_def
        set_registration_def set_maintenance_def fs_exists_def path_join_def attempt_def bind_app_def
        asks_def return_app_def lift_result_def DatabaseRepository_get_allocated_ports_def Let_def
        sql_select_def run_sql_up split: sum.split)
  then have "reachable demo_env started_state"
    unfolding started_state_def by (intro reachable.start) (auto simp: prod_eq_iff)
  then show ?thesis
    unfolding registered_state_def by (rule reachable.later) (rule a_request [OF prod.collapse [symmetric]])
qed



text \<open>
  C7. In every reachable state of the server a user has at most one invoice for a month,
  although no constraint of the schema says so, whether the monthly run is started by the loop,
  by administrators or by both, is repeated, or is cut short by failures; as long as no two
  runs overlap in time, which nothing in the code prevents.
\<close>

theorem reachable_one_invoice: "reachable e s \<Longrightarrow> one_invoice (db s)"
  by (rule invoices.reachable_keeps) (simp_all add: one_invoice_def installed_invoices)

lemma reachable_one_invoice_witness: "one_invoice (db registered_state)"
  by (rule reachable_one_invoice [OF registered_reachable])

end
