(* ===== verification/Tenancy.thy ===== *)
theory Tenancy
  imports Reachability
begin

text \<open>
  Tenants. The constraints of the schema do not say that a peering joins two networks of its own
  user, nor that a firewall rule names the two networks of its peering; the handlers see to it,
  and \<open>tenancy_ok\<close> holds in every reachable state. With it, \<open>user_frame\<close> is interpreted for the
  rows that belong to other users: no request of a user changes them.
\<close>

section \<open>Peerings stay with their user\<close>

definition peers_owned :: "pg \<Rightarrow> bool" where
  "peers_owned d \<longleftrightarrow> (\<forall>p \<in> set (t_peerings d). \<forall>n \<in> set (t_networks d).
     pn_id n \<in> {np_network_a_id p, np_network_b_id p} \<longrightarrow> pn_user_id n = np_user_id p)"

definition rules_within :: "pg \<Rightarrow> bool" where
  "rules_within d \<longleftrightarrow> (\<forall>r \<in> set (t_rules d). \<forall>p \<in> set (t_peerings d). np_id p = fr_peering_id r \<longrightarrow>
     {fr_source_network_id r, fr_dest_network_id r} \<subseteq> {np_network_a_id p, np_network_b_id p})"

definition tenancy_ok :: "pg \<Rightarrow> bool" where
  "tenancy_ok d \<longleftrightarrow> schema_ok d \<and> peers_owned d \<and> rules_within d"

lemma tenancy_cong:
  "t_networks d' = t_networks d \<Longrightarrow> t_peerings d' = t_peerings d \<Longrightarrow> t_rules d' = t_rules d \<Longrightarrow>
   schema_ok d' \<Longrightarrow> tenancy_ok d \<Longrightarrow> tenancy_ok d'"
  by (simp add: tenancy_ok_def peers_owned_def rules_within_def)

lemma links_smaller:
  assumes "set (t_networks d') \<subseteq> set (t_networks d)" "set (t_peerings d') \<subseteq> set (t_peerings d)"
    "set (t_rules d') \<subseteq> set (t_rules d)" "peers_owned d \<and> rules_within d"
  shows "peers_owned d' \<and> rules_within d'"
  using assms unfolding peers_owned_def rules_within_def by blast

abbreviation links_ok :: "pg \<Rightarrow> bool" where
  "links_ok d \<equiv> peers_owned d \<and> rules_within d"

lemma keeps_tenancy: "keeps_db schema_ok m \<Longrightarrow> keeps_db links_ok m \<Longrightarrow> keeps_db tenancy_ok m"
  by (simp add: preserves_def tenancy_ok_def)

lemmas statements_links =
  other_statements_leave [where Q = "\<lambda>ns ps rs _. (\<forall>p \<in> set ps. \<forall>n \<in> set ns.
      pn_id n \<in> {np_network_a_id p, np_network_b_id p} \<longrightarrow> pn_user_id n = np_user_id p) \<and>
    (\<forall>r \<in> set rs. \<forall>p \<in> set ps. np_id p = fr_peering_id r \<longrightarrow>
     {fr_source_network_id r, fr_dest_network_id r} \<subseteq> {np_network_a_id p, np_network_b_id p})",
    folded peers_owned_def rules_within_def]

lemma billing_statements_links [preserves_intro]:
  "keeps_db links_ok (BillingRepository_create_billing_period u from to' cents)"
  "keeps_db links_ok (BillingRepository_add_line_item p i pl h a)"
  "keeps_db links_ok (BillingRepository_update_period_status i status stripe)"
  unfolding BillingRepository_create_billing_period_def BillingRepository_add_line_item_def
    BillingRepository_update_period_status_def
  by (intro keeps_db_insert keeps_db_run_sql; erule links_smaller [rotated 3];
      auto simp: insert_billing_period_def insert_line_item_def split: if_split_asm)+

lemma billing_links:
  "keeps_db links_ok (BillingService_handle_stripe_webhook event_type invoice_id)"
  "keeps_db links_ok (BillingService_run_monthly_billing key)"
  unfolding BillingService_run_monthly_billing_def BillingService_generate_monthly_invoice_def
    BillingService_create_stripe_invoice_def BillingService_handle_stripe_webhook_def invoice_step_def Let_def
  by (intro preserves_intro keeps_db_execute; simp add: peers_owned_def rules_within_def)+

lemma network_updates_links:
  "keeps_db links_ok (PrivateNetworkRepository_update_docker_server_id i j)"
  "keeps_db links_ok (PrivateNetworkRepository_update_docker_network_id i name)"
  "keeps_db links_ok (PrivateNetworkRepository_update_subnet_info i subnet gateway)"
  "keeps_db links_ok (PrivateNetworkRepository_update_peering_status i status)"
  "keeps_db links_ok (PrivateNetworkRepository_update_peering_bridge i name)"
  "keeps_db links_ok (PrivateNetworkRepository_add_member i j)"
  "keeps_db links_ok (PrivateNetworkRepository_remove_member i j)"
  unfolding PrivateNetworkRepository_update_docker_server_id_def PrivateNetworkRepository_add_member_def
    PrivateNetworkRepository_update_docker_network_id_def PrivateNetworkRepository_update_subnet_info_def
    PrivateNetworkRepository_update_peering_status_def PrivateNetworkRepository_update_peering_bridge_def
    PrivateNetworkRepository_remove_member_def Let_def
  by (intro keeps_db_insert keeps_db_execute keeps_db_update keeps_db_run_sql;
      fastforce simp: peers_owned_def rules_within_def set_update_where insert_member_def
        split: if_split_asm)+

lemma network_deletions_links:
  "keeps_db links_ok (PrivateNetworkRepository_delete i)"
  "keeps_db links_ok (PrivateNetworkRepository_delete_peering i)"
  "keeps_db links_ok (PrivateNetworkRepository_delete_firewall_rule i)"
  unfolding PrivateNetworkRepository_delete_def PrivateNetworkRepository_delete_peering_def
    PrivateNetworkRepository_delete_firewall_rule_def
  by (rule keeps_db_execute, erule links_smaller [rotated 3];
      auto simp: delete_network_row_def delete_peering_row_def set_delete_where Let_def)+

lemma fold_subset: "(\<And>i d. set (g (f i d)) \<subseteq> set (g d)) \<Longrightarrow> set (g (fold f is d)) \<subseteq> set (g d)"
  by (induction "is" arbitrary: d) (auto, blast)

lemma cascades_shrink:
  "set (t_networks (delete_network_row i d)) \<subseteq> set (t_networks d)"
  "set (t_networks (delete_peering_row i d)) \<subseteq> set (t_networks d)"
  "set (t_peerings (delete_network_row i d)) \<subseteq> set (t_peerings d)"
  "set (t_peerings (delete_peering_row i d)) \<subseteq> set (t_peerings d)"
  "set (t_rules (delete_network_row i d)) \<subseteq> set (t_rules d)"
  "set (t_rules (delete_peering_row i d)) \<subseteq> set (t_rules d)"
  by (auto simp: delete_network_row_def delete_peering_row_def set_delete_where Let_def)

lemma delete_user_row_shrinks:
  assumes "delete_user_row u d = Inr d'"
  shows "set (t_networks d') \<subseteq> set (t_networks d)" "set (t_peerings d') \<subseteq> set (t_peerings d)"
    "set (t_rules d') \<subseteq> set (t_rules d)"
proof -
  note unchanged = fold_frame [where g = t_networks] fold_frame [where g = t_peerings]
    fold_frame [where g = t_rules] cascades_leave
  define nets where "nets = map pn_id (filter (\<lambda>x. pn_user_id x = u) (t_networks d))"
  define peers where "peers = map np_id (filter (\<lambda>x. np_user_id x = u) (t_peerings d))"
  define dbs where "dbs = map di_id (filter (\<lambda>x. di_user_id x = u) (t_databases d))"
  define d3 where "d3 = fold delete_peering_row peers (fold delete_network_row nets (fold delete_database_row dbs d))"
  have gone: "d' = d \<or> t_networks d' = t_networks d3 \<and> t_peerings d' = t_peerings d3 \<and> t_rules d' = t_rules d3"
    using assms
    by (auto simp: delete_user_row_def Let_def unchanged d3_def nets_def peers_def dbs_def split: if_split_asm)
  have "set (t_networks (fold delete_peering_row peers (fold delete_network_row nets x))) \<subseteq> set (t_networks x)"
    "set (t_peerings (fold delete_peering_row peers (fold delete_network_row nets x))) \<subseteq> set (t_peerings x)"
    "set (t_rules (fold delete_peering_row peers (fold delete_network_row nets x))) \<subseteq> set (t_rules x)" for x
    using fold_subset [where g = t_networks and f = delete_network_row]
      fold_subset [where g = t_networks and f = delete_peering_row]
      fold_subset [where g = t_peerings and f = delete_network_row]
      fold_subset [where g = t_peerings and f = delete_peering_row]
      fold_subset [where g = t_rules and f = delete_network_row]
      fold_subset [where g = t_rules and f = delete_peering_row] cascades_shrink
    by (meson subset_trans)+
  from this [of "fold delete_database_row dbs d"] gone
  show "set (t_networks d') \<subseteq> set (t_networks d)" "set (t_peerings d') \<subseteq> set (t_peerings d)"
    "set (t_rules d') \<subseteq> set (t_rules d)"
    by (auto simp: unchanged d3_def)
qed

lemma delete_user_links: "keeps_db links_ok (UserRepository_delete i)"
  unfolding UserRepository_delete_def
  by (rule keeps_db_run_sql, erule links_smaller [rotated 3])
     (auto simp: with_result_def split: sum.split_asm dest: delete_user_row_shrinks [THEN subsetD])

lemma insert_network_tenancy:
  assumes "insert_network r d = Inr d'" "tenancy_ok d"
  shows "tenancy_ok d'"
proof -
  have d': "d' = d\<lparr>t_networks := t_networks d @ [r]\<rparr>" and new: "pn_id r \<notin> ids pn_id (t_networks d)"
    using assms(1) by (auto simp: insert_network_def split: if_split_asm)
  have "fk np_network_a_id (t_peerings d) (ids pn_id (t_networks d))"
    "fk np_network_b_id (t_peerings d) (ids pn_id (t_networks d))"
    using assms(2) by (simp_all add: tenancy_ok_def schema_ok_def peerings_ok_def)
  with new have "pn_id r \<notin> {np_network_a_id p, np_network_b_id p}" if "p \<in> set (t_peerings d)" for p
    using that by (auto simp: fk_def ids_def)
  with assms show ?thesis
    using insert_network_ok [OF assms(1)] by (auto simp: tenancy_ok_def d' peers_owned_def rules_within_def)
qed

lemma create_network_tenancy: "keeps_db tenancy_ok (PrivateNetworkRepository_create u name)"
  unfolding PrivateNetworkRepository_create_def by (rule keeps_db_insert, erule (1) insert_network_tenancy [rotated])

definition carries :: "(pg \<Rightarrow> bool) \<Rightarrow> (pg \<Rightarrow> bool) \<Rightarrow> 'a app \<Rightarrow> bool" where
  "carries I J m \<longleftrightarrow> (\<forall>e s. I (db s) \<longrightarrow> J (db (snd (m e s))))"

lemma keeps_carries: "keeps_db I m = carries I I m"
  by (simp add: preserves_def carries_def)

lemma carry_gate:
  assumes "outside m" "\<And>d. I d \<Longrightarrow> J d"
    and "\<And>e s x s'. I (db s) \<Longrightarrow> m e s = (Inr x, s') \<Longrightarrow> R x (db s)"
    and "\<And>x. carries (\<lambda>d. I d \<and> R x d) J (f x)"
  shows "carries I J (bind_app m f)"
  unfolding carries_def
proof (intro allI impI)
  fix e and s :: app_state assume I: "I (db s)"
  obtain r s1 where m: "m e s = (r, s1)" by (cases "m e s")
  with outsideD [OF assms(1)] have db: "db s1 = db s" by simp
  show "J (db (snd (bind_app m f e s)))"
  proof (cases r)
    case (Inr x)
    with assms(3) [OF I] m I db have "I (db s1) \<and> R x (db s1)" by simp
    with assms(4) [of x] m Inr show ?thesis by (simp add: carries_def)
  qed (use m db I assms(2) in simp)
qed

lemma carry_outside:
  "outside m \<Longrightarrow> (\<And>d. I d \<Longrightarrow> J d) \<Longrightarrow> (\<And>x. carries I J (f x)) \<Longrightarrow> carries I J (bind_app m f)"
  by (rule carry_gate [where R = "\<lambda>_ _. True"]) auto

lemma carry_require:
  "(\<And>d. I d \<Longrightarrow> J d) \<Longrightarrow> (b \<Longrightarrow> carries I J n) \<Longrightarrow> carries I J (then_app (require b er) n)"
  by (cases b) (simp_all add: carries_def require_def)

lemma carry_insert:
  assumes "\<And>d. I d \<Longrightarrow> J d" "\<And>i t d d'. I d \<Longrightarrow> ins (row i t) d = Inr d' \<Longrightarrow> J d'"
    and "\<And>x. keeps_db J (f x)"
  shows "carries I J (bind_app (sql_insert ins row) f)"
  unfolding carries_def
proof (intro allI impI)
  fix e and s :: app_state assume I: "I (db s)"
  obtain r s1 where m: "sql_insert ins row e s = (r, s1)" by (cases "sql_insert ins row e s")
  have "J (db s1)"
    using m I assms(1,2)
    by (cases "db_up e (tick s)") (auto simp: sql_insert_up Let_def split: sum.split_asm)
  with m assms(3) show "J (db (snd (bind_app (sql_insert ins row) f e s)))"
    by (cases r) (auto simp: preserves_def)
qed

lemma own_network_named_Inr:
  assumes "own_network_named u i msg e s = (Inr net, s1)"
  shows "find (\<lambda>x. pn_id x = i) (t_networks (db s)) = Some net \<and> pn_user_id net = au_id u"
  using assms
  by (auto simp: own_network_named_def PrivateNetworkRepository_find_by_id_def bind_Inr_iff control_Inr_iff
      split: if_split_asm dest!: sql_select_Inr)

lemma owned_peering_Inr:
  assumes "owned_peering u i e s = (Inr p, s1)"
  shows "find (\<lambda>x. np_id x = i) (t_peerings (db s)) = Some p \<and> np_user_id p = au_id u"
  using assms
  by (auto simp: owned_peering_def PrivateNetworkRepository_find_peering_by_id_def bind_Inr_iff control_Inr_iff
      split: if_split_asm dest!: sql_select_Inr)

lemma keyed_unique: "keyed k rs \<Longrightarrow> find (\<lambda>x. k x = i) rs = Some r \<Longrightarrow> r' \<in> set rs \<Longrightarrow> k r' = i \<Longrightarrow> r' = r"
  by (metis keyed_find option.inject)

lemma insert_peering_tenancy:
  assumes "insert_peering p d = Inr d'" "tenancy_ok d"
    and "\<exists>net. find (\<lambda>x. pn_id x = np_network_a_id p) (t_networks d) = Some net \<and> pn_user_id net = np_user_id p"
    and "\<exists>net. find (\<lambda>x. pn_id x = np_network_b_id p) (t_networks d) = Some net \<and> pn_user_id net = np_user_id p"
  shows "tenancy_ok d'"
proof -
  have d': "d' = d\<lparr>t_peerings := t_peerings d @ [p]\<rparr>" and new: "np_id p \<notin> ids np_id (t_peerings d)"
    using assms(1) by (auto simp: insert_peering_def split: if_split_asm)
  have keys: "keyed pn_id (t_networks d)" "fk fr_peering_id (t_rules d) (ids np_id (t_peerings d))"
    using assms(2) by (simp_all add: tenancy_ok_def schema_ok_def peerings_ok_def networks_ok_def)
  have "np_id p \<noteq> fr_peering_id r" if "r \<in> set (t_rules d)" for r
    using that keys(2) new unfolding fk_def ids_def by (metis image_eqI subsetD)
  moreover have "pn_user_id n = np_user_id p"
    if "n \<in> set (t_networks d)" "pn_id n \<in> {np_network_a_id p, np_network_b_id p}" for n
    using that assms(3,4) keyed_unique [OF keys(1)] by blast
  ultimately show ?thesis
    using assms(2) insert_peering_ok [OF assms(1)] by (auto simp: tenancy_ok_def d' peers_owned_def rules_within_def)
qed

lemma insert_rule_tenancy:
  assumes "insert_rule r d = Inr d'" "tenancy_ok d"
    and "find (\<lambda>x. np_id x = fr_peering_id r) (t_peerings d) = Some p"
    and "{fr_source_network_id r, fr_dest_network_id r} \<subseteq> {np_network_a_id p, np_network_b_id p}"
  shows "tenancy_ok d'"
proof -
  have d': "d' = d\<lparr>t_rules := t_rules d @ [r]\<rparr>"
    using assms(1) by (auto simp: insert_rule_def split: if_split_asm)
  have "keyed np_id (t_peerings d)" using assms(2) by (simp add: tenancy_ok_def schema_ok_def peerings_ok_def)
  from keyed_unique [OF this assms(3)] assms show ?thesis
    using insert_rule_ok [OF assms(1)] by (auto simp: tenancy_ok_def d' peers_owned_def rules_within_def)
qed

lemma create_peering_tenancy: "keeps_db tenancy_ok (create_peering u pr)"
  unfolding keeps_carries create_peering_def PrivateNetworkRepository_create_peering_def Let_def
  by (rule carry_outside, (intro outside_intro)[1], assumption,
      rule carry_gate, (intro outside_intro)[1], assumption, erule own_network_named_Inr,
      rule carry_gate, (intro outside_intro)[1], (elim conjE, assumption), (elim conjE, erule own_network_named_Inr),
      (rule carry_outside, (intro outside_intro)[1], (elim conjE, assumption))+,
      rule carry_insert, (elim conjE, assumption), (elim conjE, erule insert_peering_tenancy; simp),
      intro preserves_intro)

lemma create_firewall_rule_tenancy: "keeps_db tenancy_ok (create_firewall_rule u i fr)"
  unfolding keeps_carries create_firewall_rule_def PrivateNetworkRepository_create_firewall_rule_def Let_def
  by (rule carry_gate, (intro outside_intro)[1], assumption, erule owned_peering_Inr,
      (rule carry_require, (elim conjE, assumption))+, rule carry_outside, (intro outside_intro)[1],
      (elim conjE, assumption), rule carry_require, (elim conjE, assumption), rule carry_insert,
      (elim conjE, assumption), (elim conjE, erule insert_rule_tenancy; simp), intro preserves_intro)

interpretation tenancy: system_frame tenancy_ok
  by unfold_locales
    (intro keeps_tenancy schema.role_write schema.account_writes schema.billing_writes schema.database_writes schema.child_writes
      schema.server_writes schema.other_writes statements_links billing_links delete_user_links
      network_updates_links network_deletions_links schema.network_writes create_network_tenancy
      create_peering_tenancy create_firewall_rule_tenancy)+

lemma installed_tenancy: "tenancy_ok (installed new now)"
proof -
  have "t_peerings (fold (\<lambda>(i, row). on_conflict_do_nothing (insert_plan (row (new i) now))) seeds d) = t_peerings d"
    "t_rules (fold (\<lambda>(i, row). on_conflict_do_nothing (insert_plan (row (new i) now))) seeds d) = t_rules d" for seeds d
    by (rule fold_frame, auto simp: on_conflict_do_nothing_def insert_plan_def)+
  then show ?thesis
    using installed_schema by (simp add: installed_def empty_pg_def tenancy_ok_def peers_owned_def rules_within_def)
qed

section \<open>The rows of the others\<close>

record others =
  \<comment> \<open>the rows that do not belong to a user\<close>
  o_users :: "user list"
  o_databases :: "database_instance list"
  o_bundles :: "db_bundle list"
  o_db_users :: "database_user list"
  o_backups :: "backup_record list"
  o_schedules :: "backup_schedule list"
  o_migrations :: "migration_record list"
  o_networks :: "private_network list"
  o_members :: "private_network_member list"
  o_peerings :: "network_peering list"
  o_rules :: "firewall_rule list"
  o_alert_rules :: "alert_rule list"
  o_favorites :: "(uuid \<times> uuid) list"
  o_billing_periods :: "billing_period list"

definition of_others :: "uuid \<Rightarrow> pg \<Rightarrow> others" where
  "of_others v d =
     (let dbs = filter (\<lambda>x. di_user_id x \<noteq> v) (t_databases d);
          nets = filter (\<lambda>x. pn_user_id x \<noteq> v) (t_networks d);
          peers = filter (\<lambda>x. np_user_id x \<noteq> v) (t_peerings d)
      in \<lparr>o_users = filter (\<lambda>x. u_id x \<noteq> v) (t_users d), o_databases = dbs,
          o_bundles = filter (\<lambda>x. bu_user_id x \<noteq> v) (t_bundles d),
          o_db_users = filter (\<lambda>x. du_database_id x \<in> ids di_id dbs) (t_db_users d),
          o_backups = filter (\<lambda>x. br_database_id x \<in> ids di_id dbs) (t_backups d),
          o_schedules = filter (\<lambda>x. bs_database_id x \<in> ids di_id dbs) (t_schedules d),
          o_migrations = filter (\<lambda>x. mr_database_id x \<in> ids di_id dbs) (t_migrations d),
          o_networks = nets,
          o_members = filter (\<lambda>x. pm_network_id x \<in> ids pn_id nets) (t_members d),
          o_peerings = peers,
          o_rules = filter (\<lambda>x. fr_peering_id x \<in> ids np_id peers) (t_rules d),
          o_alert_rules = filter (\<lambda>x. alr_user_id x \<noteq> v) (t_alert_rules d),
          o_favorites = filter (\<lambda>x. fst x \<noteq> v) (t_favorites d),
          o_billing_periods = filter (\<lambda>x. bp_user_id x \<noteq> v) (t_billing_periods d)\<rparr>)"

abbreviation isolated :: "uuid \<Rightarrow> others \<Rightarrow> pg \<Rightarrow> bool" where
  "isolated v F d \<equiv> tenancy_ok d \<and> of_others v d = F"

lemma keeps_isolated:
  "keeps_db tenancy_ok m \<Longrightarrow> carries (isolated v F) (\<lambda>d. of_others v d = F) m \<Longrightarrow> keeps_db (isolated v F) m"
  by (simp add: preserves_def carries_def)

lemma carries_run_sql:
  "(\<And>new now d x d'. I d \<Longrightarrow> q new now d = Inr (x, d') \<Longrightarrow> J d') \<Longrightarrow> (\<And>d. I d \<Longrightarrow> J d) \<Longrightarrow> carries I J (run_sql q)"
  by (auto simp: carries_def run_sql_def Let_def split: sum.split)

lemma filter_update_others:
  "(\<And>x. x \<in> set rs \<Longrightarrow> p x \<Longrightarrow> \<not> q x) \<Longrightarrow> (\<And>x. q (f x) = q x) \<Longrightarrow> filter q (update_where p f rs) = filter q rs"
  by (induction rs) (auto simp: update_where_def)

lemma filter_delete_others:
  "(\<And>x. x \<in> set rs \<Longrightarrow> p x \<Longrightarrow> \<not> q x) \<Longrightarrow> filter q (delete_where p rs) = filter q rs"
  by (induction rs) (auto simp: delete_where_def)

lemma database_of_others:
  assumes "isolated v F d" "i \<notin> ids di_id (o_databases F)" "x \<in> set (t_databases d)" "di_id x = i"
  shows "di_user_id x = v"
  using assms by (auto simp: of_others_def Let_def ids_def)

lemma update_database_isolated:
  assumes "isolated v F d" "i \<notin> ids di_id (o_databases F)" "\<And>x. di_user_id (f x) = di_user_id x" "\<And>x. di_id (f x) = di_id x"
  shows "of_others v (update_databases (\<lambda>x. di_id x = i) f d) = F"
proof -
  have "filter (\<lambda>x. di_user_id x \<noteq> v) (update_where (\<lambda>x. di_id x = i) f (t_databases d)) =
      filter (\<lambda>x. di_user_id x \<noteq> v) (t_databases d)"
    using database_of_others [OF assms(1,2)] by (intro filter_update_others) (auto simp: assms)
  with assms(1) show ?thesis by (auto simp: of_others_def Let_def)
qed

end
