(* ===== verification/Access.thy ===== *)
theory Access
  imports Reachability
begin

text \<open>
  Who gets to run what: the identity behind the \<open>Authorization\<close> header, the role of
  administrators, the routes without a guard, tokens of \<open>login\<close>, and the key of the rate limiter.
\<close>

section \<open>Identity\<close>

definition identifies :: "env \<Rightarrow> app_state \<Rightarrow> string option \<Rightarrow> user \<Rightarrow> bool" where
  \<comment> \<open>the header carries a valid token for the user's id or the user's API key\<close>
  "identifies e s header row \<longleftrightarrow>
     (\<exists>tok cl. header = Some (''Bearer '' @ tok) \<and>
        l_jwt_decode (lib e) (clock s) (jwt_secret (cfg e)) tok = Inr cl \<and> cl_sub cl = u_id row) \<or>
     (\<exists>key. header = Some (''ApiKey '' @ key) \<and> u_api_key row = Some (hash_api_key (lib e) key))"

definition only_time_passed :: "app_state \<Rightarrow> app_state \<Rightarrow> bool" where
  "only_time_passed s s' \<longleftrightarrow> (\<exists>n now. s' = s\<lparr>tick := n, clock := now\<rparr>)"

lemma only_time_passed_refl [simp]: "only_time_passed s s"
  by (auto simp: only_time_passed_def intro!: exI [of _ "tick s"] exI [of _ "clock s"])

lemma only_time_passed_tick [simp]: "only_time_passed s (next_tick e s)"
  by (auto simp: only_time_passed_def next_tick_def)

lemma str_strip_prefix_eq: "str_strip_prefix xs pre = Some ys \<longleftrightarrow> xs = pre @ ys"
  by (auto simp: str_strip_prefix_def str_starts_with_def) (metis append_take_drop_id)

lemma find_user_cases:
  obtains (failed) er where "sql_select (\<lambda>_ d. find p (t_users d)) e s = (Inl (Err er), next_tick e s)"
  | (none) "sql_select (\<lambda>_ d. find p (t_users d)) e s = (Inr None, next_tick e s)"
  | (found) row where "sql_select (\<lambda>_ d. find p (t_users d)) e s = (Inr (Some row), next_tick e s)"
      "row \<in> set (t_users (db s))" "p row"
proof (cases rule: sql_select_cases [of "\<lambda>_ d. find p (t_users d)" e s])
  case up
  with none found find_Some_mem [of p "t_users (db s)"] show thesis
    by (cases "find p (t_users (db s))") auto
qed (rule failed)

lemma auth_middleware_cases:
  obtains (rejected) er s' where "auth_middleware header e s = (Inl (Err er), s')" "only_time_passed s s'"
  | (known) row where "auth_middleware header e s = (Inr (auth_user_of row), next_tick e s)"
      "row \<in> set (t_users (db s))" "identifies e s header row"
proof (cases header)
  case None
  then show thesis by (intro rejected) (auto simp: auth_middleware_def ok_or_def)
next
  case (Some h)
  consider (bearer) tok where "str_strip_prefix h ''Bearer '' = Some tok"
    | (key) k where "str_strip_prefix h ''Bearer '' = None" "str_strip_prefix h ''ApiKey '' = Some k"
    | (other) "str_strip_prefix h ''Bearer '' = None" "str_strip_prefix h ''ApiKey '' = None"
    by (cases "str_strip_prefix h ''Bearer ''"; cases "str_strip_prefix h ''ApiKey ''") auto
  then show thesis
  proof cases
    case bearer
    note strip = this
    then have h: "h = ''Bearer '' @ tok" by (simp only: str_strip_prefix_eq)
    show thesis
    proof (cases "l_jwt_decode (lib e) (clock s) (jwt_secret (cfg e)) tok")
      case (Inl msg)
      with Some strip show thesis
        by (intro rejected) (auto simp: auth_middleware_def decode_token_def utc_now_def asks_def bind_app_def
            lift_result_def throw_def ok_or_def return_app_def)
    next
      case (Inr cl)
      with Some strip have run: "auth_middleware header e s =
          bind_app (UserRepository_find_by_id (cl_sub cl)) (\<lambda>found.
            bind_app (ok_or found Unauthorized) (\<lambda>u. return_app (auth_user_of u))) e s"
        by (auto simp: auth_middleware_def decode_token_def utc_now_def asks_def bind_app_def
            lift_result_def ok_or_def return_app_def)
      have ident: "identifies e s header row" if "u_id row = cl_sub cl" for row
        using that Some h Inr by (simp add: identifies_def)
      show thesis
        by (rule find_user_cases [of "\<lambda>x. u_id x = cl_sub cl" e s])
           (use run rejected known ident in \<open>auto simp: UserRepository_find_by_id_def bind_app_def ok_or_def
              throw_def return_app_def\<close>)
    qed
  next
    case key
    note strip = this
    then have h: "h = ''ApiKey '' @ k" by (simp only: str_strip_prefix_eq)
    from strip Some have run: "auth_middleware header e s =
        bind_app (UserRepository_find_by_api_key k) (\<lambda>found.
          bind_app (ok_or found Unauthorized) (\<lambda>u. return_app (auth_user_of u))) e s"
      by (simp add: auth_middleware_def ok_or_def)
    have ident: "identifies e s header row" if "u_api_key row = Some (hash_api_key (lib e) k)" for row
      using that Some h by (simp add: identifies_def)
    show thesis
      by (rule find_user_cases [of "\<lambda>x. u_api_key x = Some (hash_api_key (lib e) k)" e s])
         (use run rejected known ident in \<open>auto simp: UserRepository_find_by_api_key_def Let_def asks_def
            bind_app_def ok_or_def throw_def return_app_def\<close>)
  next
    case other
    with Some show thesis by (intro rejected) (auto simp: auth_middleware_def ok_or_def)
  qed
qed

text \<open>
  C2. A request behind the authentication layer is answered with an error and leaves no trace
  (only time passes), or its \<open>Authorization\<close> header carries a valid token for, or the API key
  of, a user who is in the table now, and then exactly the handler of the request runs, with the
  id, e-mail and role of that row; a request for administrators runs its handler only when the
  role of the row, not that of the token, is \<open>admin\<close>.
\<close>

theorem guarded_requests_are_identified:
  assumes "serve within_quota head req e s = (res, s')" "\<forall>r. req \<noteq> Public_request r"
  shows "(\<exists>er. res = Inl (Err er)) \<and> only_time_passed s s' \<or>
    (\<exists>row \<in> set (t_users (db s)). identifies e s (rh_authorization head) row \<and>
       (case req of
          User_request r \<Rightarrow> (res, s') = run_user r (auth_user_of row) e (next_tick e s)
        | Admin_request r \<Rightarrow> u_role row = UserRole_Admin \<and> (res, s') = run_admin r e (next_tick e s)
        | Public_request r \<Rightarrow> False))"
proof (cases rule: auth_middleware_cases [of "rh_authorization head" e s])
  case (rejected er s'')
  with assms show ?thesis by (cases req) (auto simp: serve_def bind_app_def)
next
  case (known row)
  then show ?thesis
  proof (cases req)
    case (Admin_request r)
    with assms known show ?thesis
      by (cases "u_role row = UserRole_Admin")
         (auto simp: serve_def bind_app_def admin_middleware_def auth_user_of_def ok_or_def require_def
            return_app_def throw_def intro: bexI [of _ row])
  qed (use assms known in \<open>auto simp: serve_def bind_app_def intro!: bexI [of _ row]\<close>)
qed

lemma guarded_requests_are_identified_witness:
  "(\<exists>er. fst (serve (\<lambda>_. True) \<lparr>rh_authorization = Some ''Bearer jwt.1'', rh_forwarded_for = None,
        rh_real_ip = None\<rparr> (Admin_request R_list_users) demo_env demo_state) = Inl (Err er)) \<and>
   only_time_passed demo_state (snd (serve (\<lambda>_. True) \<lparr>rh_authorization = Some ''Bearer jwt.1'',
        rh_forwarded_for = None, rh_real_ip = None\<rparr> (Admin_request R_list_users) demo_env demo_state))"
  using guarded_requests_are_identified [of "\<lambda>_. True" "\<lparr>rh_authorization = Some ''Bearer jwt.1'',
    rh_forwarded_for = None, rh_real_ip = None\<rparr>" "Admin_request R_list_users" demo_env demo_state,
    OF prod.collapse [symmetric]]
  by auto

section \<open>Tokens\<close>

definition jwt_laws :: "libraries \<Rightarrow> bool" where
  \<comment> \<open>\<open>jsonwebtoken\<close>: what was signed decodes with the same secret until it expires\<close>
  "jwt_laws l \<longleftrightarrow> (\<forall>secret cl tok now. l_jwt_encode l secret cl = Inr tok \<longrightarrow>
     now div 10 ^ 9 \<le> int (cl_exp cl) \<longrightarrow> l_jwt_decode l now secret tok = Inr cl)"

lemma create_token_Inr:
  "create_token i mail role e s = (Inr tok, s') \<longleftrightarrow>
     l_jwt_encode (lib e) (jwt_secret (cfg e)) \<lparr>cl_sub = i, cl_email = mail, cl_role = role,
        cl_exp = nat ((clock s + 86400 * 10 ^ 9) div 10 ^ 9 mod 2 ^ 64)\<rparr> = Inr tok \<and> s' = s"
  by (auto simp: create_token_def bind_Inr_iff asks_def utc_now_def lift_result_def return_app_def throw_def
      split: sum.split)

text \<open>
  C20. The token that \<open>login\<close> returns authenticates its user: presented within 24 hours, to
  whatever state the server has reached in the meantime, it gives the id, e-mail and role that
  the row of the user has at that later time.
\<close>

theorem login_token_authenticates:
  assumes login: "login req e s = (Inr resp, s1)" and laws: "jwt_laws (lib e)"
    and now: "0 \<le> clock s" "clock s1 < 2 ^ 90" "clock s2 < clock s + 86400 * 10 ^ 9"
    and row: "db_up e (tick s2)"
      "find (\<lambda>x. u_id x = ui_id (ar_user resp)) (t_users (db s2)) = Some row"
  shows "fst (auth_middleware (Some (''Bearer '' @ ar_token resp)) e s2) = Inr (auth_user_of row)"
proof -
  define cl where "cl = \<lparr>cl_sub = ui_id (ar_user resp), cl_email = ui_email (ar_user resp),
      cl_role = ui_role (ar_user resp), cl_exp = nat ((clock s1 + 86400 * 10 ^ 9) div 10 ^ 9 mod 2 ^ 64)\<rparr>"
  have s1: "s1 = next_tick e s"
    and encoded: "l_jwt_encode (lib e) (jwt_secret (cfg e)) cl = Inr (ar_token resp)"
    using login unfolding cl_def
    by (cases "db_up e (tick s)";
        auto simp: login_def create_token_Inr UserRepository_find_by_email_def bind_Inr_iff
          control_Inr_iff asks_def UserInfo_from_def split: if_split_asm)+
  have "(clock s1 + 86400 * 10 ^ 9) div 10 ^ 9 mod 2 ^ 64 = (clock s1 + 86400 * 10 ^ 9) div 10 ^ 9"
    using now s1 by (intro mod_pos_pos_trivial) (auto simp: next_tick_def)
  moreover have "clock s2 div 10 ^ 9 \<le> (clock s1 + 86400 * 10 ^ 9) div 10 ^ 9"
    using now s1 by (intro zdiv_mono1) (auto simp: next_tick_def)
  ultimately have "l_jwt_decode (lib e) (clock s2) (jwt_secret (cfg e)) (ar_token resp) = Inr cl"
    using laws encoded by (fastforce simp: jwt_laws_def cl_def)
  moreover have "str_strip_prefix (''Bearer '' @ ar_token resp) ''Bearer '' = Some (ar_token resp)"
    by (simp only: str_strip_prefix_eq)
  ultimately show ?thesis
    using row by (simp add: cl_def auth_middleware_def decode_token_def UserRepository_find_by_id_def
        ok_or_def bind_app_def asks_def utc_now_def lift_result_def return_app_def)
qed

definition toy_token :: "claims \<Rightarrow> string" where
  \<comment> \<open>numbers in unary; nothing is signed\<close>
  "toy_token cl = replicate (cl_sub cl) CHR ''1'' @ CHR ''.'' # replicate (cl_exp cl) CHR ''1'' @
     (if cl_role cl = UserRole_Admin then CHR ''a'' else CHR ''u'') # cl_email cl"

definition toy_claims :: "time \<Rightarrow> string \<Rightarrow> string \<Rightarrow> string + claims" where
  "toy_claims now secret tok =
     (let rest = tl (dropWhile (\<lambda>c. c = CHR ''1'') tok); tail = dropWhile (\<lambda>c. c = CHR ''1'') rest;
          exp = length (takeWhile (\<lambda>c. c = CHR ''1'') rest)
      in if now div 10 ^ 9 \<le> int exp
         then Inr \<lparr>cl_sub = length (takeWhile (\<lambda>c. c = CHR ''1'') tok), cl_email = tl tail,
           cl_role = (if hd tail = CHR ''a'' then UserRole_Admin else UserRole_User), cl_exp = exp\<rparr>
         else Inl ''ExpiredSignature'')"

lemma unary_prefix:
  "c \<noteq> one \<Longrightarrow> takeWhile (\<lambda>x. x = one) (replicate n one @ c # xs) = replicate n one"
  "c \<noteq> one \<Longrightarrow> dropWhile (\<lambda>x. x = one) (replicate n one @ c # xs) = c # xs"
  by (induction n) simp_all

definition jwt_env :: env where
  "jwt_env = demo_env\<lparr>lib := demo_libraries\<lparr>l_jwt_encode := \<lambda>secret cl. Inr (toy_token cl),
     l_jwt_decode := toy_claims\<rparr>\<rparr>"

lemma jwt_env_laws: "jwt_laws (lib jwt_env)"
proof -
  have "toy_claims now secret (toy_token cl) = Inr cl" if "now div 10 ^ 9 \<le> int (cl_exp cl)" for now secret cl
    using that by (cases cl; cases "cl_role cl") (auto simp: toy_claims_def toy_token_def unary_prefix Let_def)
  then show ?thesis by (simp add: jwt_laws_def jwt_env_def)
qed

lemma login_token_authenticates_witness:
  "\<exists>resp. fst (login \<lparr>lr_email = ''u1@example.com'', lr_password = ''pw''\<rparr> jwt_env demo_state) = Inr resp \<and>
     fst (auth_middleware (Some (''Bearer '' @ ar_token resp)) jwt_env demo_state) = Inr (auth_user_of (demo_user 1))"
proof -
  have [simp]: "db_up jwt_env n" "latency jwt_env n = 0" for n by (simp_all add: jwt_env_def)
  have email: "u_email (demo_user 1) = ''u1@example.com''" by code_simp
  obtain resp where run: "login \<lparr>lr_email = ''u1@example.com'', lr_password = ''pw''\<rparr> jwt_env demo_state =
      (Inr resp, next_tick jwt_env demo_state)" and i: "ui_id (ar_user resp) = 1"
    using email by (auto simp: login_def UserRepository_find_by_email_def bind_app_def ok_or_def asks_def
      return_app_def verify_password_def lift_result_def create_token_def utc_now_def UserInfo_from_def
      jwt_env_def demo_libraries_def demo_user_def str_ends_with_def str_starts_with_def next_tick_def)
  have "fst (auth_middleware (Some (''Bearer '' @ ar_token resp)) jwt_env demo_state) = Inr (auth_user_of (demo_user 1))"
    by (rule login_token_authenticates [OF run jwt_env_laws]) (simp_all add: next_tick_def i)
  with run show ?thesis by simp
qed

end
