(* ===== verification/Isolation.thy ===== *)
theory Isolation
  imports Tenancy Access
begin

text \<open>
  \<open>user_frame\<close> for the rows of the others: what the statements of a user's handlers keep when
  the rows they name are not among the rows of the others.
\<close>

abbreviation keeps_others :: "uuid \<Rightarrow> others \<Rightarrow> 'a app \<Rightarrow> bool" where
  "keeps_others v F m \<equiv> carries (isolated v F) (\<lambda>d. of_others v d = F) m"

lemma keeps_others_sql:
  assumes "\<And>new now d x d'. tenancy_ok d \<Longrightarrow> may (of_others v d) \<Longrightarrow> q new now d = Inr (x, d') \<Longrightarrow>
    of_others v d' = of_others v d" and "may F"
  shows "keeps_others v F (run_sql q)"
  using assms by (auto intro!: carries_run_sql)

lemma keeps_others_insert:
  assumes "\<And>new now d d'. tenancy_ok d \<Longrightarrow> may (of_others v d) \<Longrightarrow> ins (row new now) d = Inr d' \<Longrightarrow>
    of_others v d' = of_others v d" and "may F"
  shows "keeps_others v F (sql_insert ins row)"
  unfolding sql_insert_def by (rule keeps_others_sql [where may = may]) (use assms in auto)

lemma keeps_others_execute:
  assumes "\<And>now d. tenancy_ok d \<Longrightarrow> may (of_others v d) \<Longrightarrow> of_others v (f now d) = of_others v d" and "may F"
  shows "keeps_others v F (sql_execute f)"
  unfolding sql_execute_def by (rule keeps_others_sql [where may = may]) (use assms in auto)

lemma others_filters:
  "o_networks (of_others v d) = filter (\<lambda>x. pn_user_id x \<noteq> v) (t_networks d)"
  "o_peerings (of_others v d) = filter (\<lambda>x. np_user_id x \<noteq> v) (t_peerings d)"
  "o_rules (of_others v d) = filter (\<lambda>x. fr_peering_id x \<in> ids np_id (o_peerings (of_others v d))) (t_rules d)"
  "o_backups (of_others v d) = filter (\<lambda>x. br_database_id x \<in> ids di_id (o_databases (of_others v d))) (t_backups d)"
  "o_db_users (of_others v d) = filter (\<lambda>x. du_database_id x \<in> ids di_id (o_databases (of_others v d))) (t_db_users d)"
  "o_alert_rules (of_others v d) = filter (\<lambda>x. alr_user_id x \<noteq> v) (t_alert_rules d)"
  "o_databases (of_others v d) = filter (\<lambda>x. di_user_id x \<noteq> v) (t_databases d)"
  by (simp_all add: of_others_def Let_def)

lemma others_same_databases:
  "filter (\<lambda>x. di_user_id x \<noteq> v) rs = filter (\<lambda>x. di_user_id x \<noteq> v) (t_databases d) \<Longrightarrow>
   of_others v (d\<lparr>t_databases := rs\<rparr>) = of_others v d"
  by (simp add: of_others_def Let_def)

lemma update_database_others:
  assumes "i \<notin> ids di_id (o_databases (of_others v d))" "\<And>x. di_user_id (f x) = di_user_id x"
  shows "of_others v (update_databases (\<lambda>x. di_id x = i) f d) = of_others v d"
  using assms
  by (intro others_same_databases filter_update_others) (auto simp: others_filters ids_def)

lemma instance_others:
  assumes "i \<notin> ids di_id (o_databases F)"
  shows "keeps_others v F (DatabaseRepository_update_status i st)"
    "keeps_others v F (DatabaseRepository_update_owner_password i secret)"
    "keeps_others v F (set_plan i plan_id template)"
    "keeps_others v F (set_name i name)"
  unfolding DatabaseRepository_update_status_def DatabaseRepository_update_owner_password_def set_plan_def
    set_name_def sql_execute_def
  by (rule keeps_others_sql [where may = "\<lambda>F. i \<notin> ids di_id (o_databases F)"];
      auto simp: assms update_database_others split: if_split_asm)+

lemma inserts_append:
  "insert_db_user r1 d = Inr d' \<Longrightarrow> d' = d\<lparr>t_db_users := t_db_users d @ [r1]\<rparr>"
  "insert_backup r2 d = Inr d' \<Longrightarrow> d' = d\<lparr>t_backups := t_backups d @ [r2]\<rparr>"
  "insert_schedule r3 d = Inr d' \<Longrightarrow> d' = d\<lparr>t_schedules := t_schedules d @ [r3]\<rparr>"
  "insert_migration r4 d = Inr d' \<Longrightarrow> d' = d\<lparr>t_migrations := t_migrations d @ [r4]\<rparr>"
  "insert_usage_event r5 d = Inr d' \<Longrightarrow> d' = d\<lparr>t_usage_events := t_usage_events d @ [r5]\<rparr>"
  "insert_alert_rule r6 d = Inr d' \<Longrightarrow> d' = d\<lparr>t_alert_rules := t_alert_rules d @ [r6]\<rparr>"
  "insert_network r7 d = Inr d' \<Longrightarrow> d' = d\<lparr>t_networks := t_networks d @ [r7]\<rparr>"
  "insert_member r8 d = Inr d' \<Longrightarrow> d' = d\<lparr>t_members := t_members d @ [r8]\<rparr>"
  "insert_peering r9 d = Inr d' \<Longrightarrow> d' = d\<lparr>t_peerings := t_peerings d @ [r9]\<rparr>"
  "insert_rule r10 d = Inr d' \<Longrightarrow> d' = d\<lparr>t_rules := t_rules d @ [r10]\<rparr>"
  "insert_database r11 d = Inr d' \<Longrightarrow> d' = d\<lparr>t_databases := t_databases d @ [r11]\<rparr>"
  "insert_bundle r12 d = Inr d' \<Longrightarrow> d' = d\<lparr>t_bundles := t_bundles d @ [r12]\<rparr>"
  by (simp_all add: insert_defs split: if_split_asm)

lemma appends_others:
  "du_database_id r1 \<notin> ids di_id (o_databases (of_others v d)) \<Longrightarrow>
    of_others v (d\<lparr>t_db_users := t_db_users d @ [r1]\<rparr>) = of_others v d"
  "br_database_id r2 \<notin> ids di_id (o_databases (of_others v d)) \<Longrightarrow>
    of_others v (d\<lparr>t_backups := t_backups d @ [r2]\<rparr>) = of_others v d"
  "bs_database_id r3 \<notin> ids di_id (o_databases (of_others v d)) \<Longrightarrow>
    of_others v (d\<lparr>t_schedules := t_schedules d @ [r3]\<rparr>) = of_others v d"
  "mr_database_id r4 \<notin> ids di_id (o_databases (of_others v d)) \<Longrightarrow>
    of_others v (d\<lparr>t_migrations := t_migrations d @ [r4]\<rparr>) = of_others v d"
  "of_others v (d\<lparr>t_usage_events := t_usage_events d @ [r5]\<rparr>) = of_others v d"
  "alr_user_id r6 = v \<Longrightarrow> of_others v (d\<lparr>t_alert_rules := t_alert_rules d @ [r6]\<rparr>) = of_others v d"
  "pn_user_id r7 = v \<Longrightarrow> of_others v (d\<lparr>t_networks := t_networks d @ [r7]\<rparr>) = of_others v d"
  "pm_network_id r8 \<notin> ids pn_id (o_networks (of_others v d)) \<Longrightarrow>
    of_others v (d\<lparr>t_members := t_members d @ [r8]\<rparr>) = of_others v d"
  "np_user_id r9 = v \<Longrightarrow> of_others v (d\<lparr>t_peerings := t_peerings d @ [r9]\<rparr>) = of_others v d"
  "fr_peering_id r10 \<notin> ids np_id (o_peerings (of_others v d)) \<Longrightarrow>
    of_others v (d\<lparr>t_rules := t_rules d @ [r10]\<rparr>) = of_others v d"
  "di_user_id r11 = v \<Longrightarrow> of_others v (d\<lparr>t_databases := t_databases d @ [r11]\<rparr>) = of_others v d"
  "bu_user_id r12 = v \<Longrightarrow> of_others v (d\<lparr>t_bundles := t_bundles d @ [r12]\<rparr>) = of_others v d"
  by (simp_all add: of_others_def Let_def)

lemma child_others:
  assumes "i \<notin> ids di_id (o_databases F)"
  shows "keeps_others v F (DatabaseRepository_create_database_user i name secret permission)"
    "keeps_others v F (DatabaseRepository_create_backup i name n)"
    "keeps_others v F (BackupScheduleRepository_create i hours retention enabled)"
    "keeps_others v F (MigrationService_record_migration i name checksum)"
  unfolding DatabaseRepository_create_database_user_def DatabaseRepository_create_backup_def
    BackupScheduleRepository_create_def MigrationService_record_migration_def
  by (rule keeps_others_insert [where may = "\<lambda>F. i \<notin> ids di_id (o_databases F)", OF _ assms];
      drule inserts_append; simp add: appends_others)+

lemma account_others:
  "keeps_others v F (BillingRepository_record_usage_event i event_type v' name plan)"
  "keeps_others v F (PrivateNetworkRepository_create v name)"
  "keeps_others v F (AlertRepository_create_rule v target event_type hook email on)"
  "keeps_others v F (DatabaseRepository_create_bundle v name)"
  "keeps_others v F (DatabaseRepository_create v nm ty h po un pw dbn cpu mem bu tls pl srv sub rm)"
  unfolding PrivateNetworkRepository_create_def AlertRepository_create_rule_def DatabaseRepository_create_bundle_def
    DatabaseRepository_create_def BillingRepository_record_usage_event_def
  by (rule keeps_others_insert [where may = "\<lambda>_. True", OF _ TrueI];
      drule inserts_append; simp add: appends_others)+

lemma updates_others:
  "(\<And>x. u_id (f1 x) = u_id x) \<Longrightarrow>
    of_others v (d\<lparr>t_users := update_where (\<lambda>x. u_id x = v) f1 (t_users d)\<rparr>) = of_others v d"
  "i \<notin> ids di_id (o_databases (of_others v d)) \<Longrightarrow> (\<And>x. bs_database_id (f2 x) = bs_database_id x) \<Longrightarrow>
    of_others v (d\<lparr>t_schedules := update_where (\<lambda>x. bs_database_id x = i) f2 (t_schedules d)\<rparr>) = of_others v d"
  "i \<notin> ids du_id (o_db_users (of_others v d)) \<Longrightarrow> (\<And>x. du_database_id (f3 x) = du_database_id x) \<Longrightarrow>
    of_others v (d\<lparr>t_db_users := update_where (\<lambda>x. du_id x = i) f3 (t_db_users d)\<rparr>) = of_others v d"
  "i \<notin> ids alr_id (o_alert_rules (of_others v d)) \<Longrightarrow> (\<And>x. alr_user_id (f4 x) = alr_user_id x) \<Longrightarrow>
    of_others v (d\<lparr>t_alert_rules := update_where (\<lambda>x. alr_id x = i) f4 (t_alert_rules d)\<rparr>) = of_others v d"
  by (auto simp: of_others_def Let_def ids_def intro!: filter_update_others)

lemma deletions_others:
  "(\<And>x. p1 x \<Longrightarrow> fst x = v) \<Longrightarrow>
    of_others v (d\<lparr>t_favorites := delete_where p1 (t_favorites d)\<rparr>) = of_others v d"
  "i \<notin> ids di_id (o_databases (of_others v d)) \<Longrightarrow>
    of_others v (d\<lparr>t_schedules := delete_where (\<lambda>x. bs_database_id x = i) (t_schedules d)\<rparr>) = of_others v d"
  "i \<notin> ids du_id (o_db_users (of_others v d)) \<Longrightarrow>
    of_others v (d\<lparr>t_db_users := delete_where (\<lambda>x. du_id x = i) (t_db_users d)\<rparr>) = of_others v d"
  "i \<notin> ids br_id (o_backups (of_others v d)) \<Longrightarrow>
    of_others v (d\<lparr>t_backups := delete_where (\<lambda>x. br_id x = i) (t_backups d)\<rparr>) = of_others v d"
  "i \<notin> ids fr_id (o_rules (of_others v d)) \<Longrightarrow>
    of_others v (d\<lparr>t_rules := delete_where (\<lambda>x. fr_id x = i) (t_rules d)\<rparr>) = of_others v d"
  "i \<notin> ids pn_id (o_networks (of_others v d)) \<Longrightarrow> (\<And>x. p2 x \<Longrightarrow> pm_network_id x = i) \<Longrightarrow>
    of_others v (d\<lparr>t_members := delete_where p2 (t_members d)\<rparr>) = of_others v d"
  "i \<notin> ids alr_id (o_alert_rules (of_others v d)) \<Longrightarrow> of_others v (delete_alert_rule_row i d) = of_others v d"
  by (auto simp: of_others_def delete_alert_rule_row_def Let_def ids_def intro!: filter_delete_others)

lemma update_network_others:
  assumes "i \<notin> ids pn_id (o_networks (of_others v d))" "\<And>x. pn_user_id (f x) = pn_user_id x"
  shows "of_others v (update_networks i f d) = of_others v d"
proof -
  have "filter (\<lambda>x. pn_user_id x \<noteq> v) (update_where (\<lambda>x. pn_id x = i) f (t_networks d)) =
      filter (\<lambda>x. pn_user_id x \<noteq> v) (t_networks d)"
    using assms by (intro filter_update_others) (auto simp: of_others_def Let_def ids_def)
  then show ?thesis by (simp add: of_others_def Let_def)
qed

lemma delete_peering_others:
  assumes "i \<notin> ids np_id (o_peerings (of_others v d))"
  shows "of_others v (delete_peering_row i d) = of_others v d"
proof -
  have "filter (\<lambda>x. np_user_id x \<noteq> v) (delete_where (\<lambda>x. np_id x = i) (t_peerings d)) =
      filter (\<lambda>x. np_user_id x \<noteq> v) (t_peerings d)"
    using assms by (intro filter_delete_others) (auto simp: of_others_def Let_def ids_def)
  then show ?thesis
    using assms by (auto simp: of_others_def delete_peering_row_def Let_def intro!: filter_delete_others)
qed

lemma delete_network_others:
  assumes ok: "tenancy_ok d" and may: "i \<notin> ids pn_id (o_networks (of_others v d))"
  shows "of_others v (delete_network_row i d) = of_others v d"
proof -
  have tables: "networks_ok d" "peerings_ok d" "peers_owned d" "rules_within d"
    using ok by (simp_all add: tenancy_ok_def schema_ok_def)
  have mine: "pn_user_id n = v" if "n \<in> set (t_networks d)" "pn_id n = i" for n
    using that may by (auto simp: of_others_def Let_def ids_def)
  have apart: "np_network_a_id p \<noteq> i" "np_network_b_id p \<noteq> i"
    if "p \<in> set (t_peerings d)" "np_user_id p \<noteq> v" for p
  proof -
    have "ids np_network_a_id (t_peerings d) \<subseteq> ids pn_id (t_networks d)"
      "ids np_network_b_id (t_peerings d) \<subseteq> ids pn_id (t_networks d)"
      using tables(2) by (simp_all add: peerings_ok_def fk_def)
    with that(1) have "np_network_a_id p \<in> pn_id ` set (t_networks d)" "np_network_b_id p \<in> pn_id ` set (t_networks d)"
      by (auto simp: ids_def)
    then obtain a b where ab: "a \<in> set (t_networks d)" "pn_id a = np_network_a_id p"
        "b \<in> set (t_networks d)" "pn_id b = np_network_b_id p"
      by (metis imageE)
    with that tables(3) have "pn_user_id a \<noteq> v" "pn_user_id b \<noteq> v" by (auto simp: peers_owned_def)
    with ab mine show "np_network_a_id p \<noteq> i" "np_network_b_id p \<noteq> i" by metis+
  qed
  let ?hit = "\<lambda>x. np_network_a_id x = i \<or> np_network_b_id x = i"
  have nets: "filter (\<lambda>x. pn_user_id x \<noteq> v) (delete_where (\<lambda>x. pn_id x = i) (t_networks d)) =
      filter (\<lambda>x. pn_user_id x \<noteq> v) (t_networks d)"
    using mine by (intro filter_delete_others) auto
  have peers: "filter (\<lambda>x. np_user_id x \<noteq> v) (delete_where ?hit (t_peerings d)) =
      filter (\<lambda>x. np_user_id x \<noteq> v) (t_peerings d)"
    using apart by (intro filter_delete_others) auto
  have "fr_peering_id r \<notin> ids np_id (filter (\<lambda>x. np_user_id x \<noteq> v) (t_peerings d))"
    if r: "r \<in> set (t_rules d)" "fr_peering_id r \<in> np_id ` {p \<in> set (t_peerings d). ?hit p} \<or>
      fr_source_network_id r = i \<or> fr_dest_network_id r = i" for r
  proof
    assume "fr_peering_id r \<in> ids np_id (filter (\<lambda>x. np_user_id x \<noteq> v) (t_peerings d))"
    then obtain p where p: "p \<in> set (t_peerings d)" "np_user_id p \<noteq> v" "np_id p = fr_peering_id r"
      by (auto simp: ids_def)
    have "inj_on np_id (set (t_peerings d))"
      using tables(2) by (simp add: peerings_ok_def keyed_def distinct_map)
    then have same: "q = p" if "q \<in> set (t_peerings d)" "np_id q = fr_peering_id r" for q
      using that p by (metis inj_onD)
    have "fr_peering_id r \<notin> np_id ` {p \<in> set (t_peerings d). ?hit p}"
    proof
      assume "fr_peering_id r \<in> np_id ` {p \<in> set (t_peerings d). ?hit p}"
      then obtain q where q: "q \<in> set (t_peerings d)" "fr_peering_id r = np_id q" "?hit q"
        by (elim imageE CollectE conjE)
      from same [OF q(1) q(2) [symmetric]] q(3) apart [OF p(1,2)] show False by simp
    qed
    with r(2) have "fr_source_network_id r = i \<or> fr_dest_network_id r = i" by blast
    moreover have "fr_source_network_id r \<in> {np_network_a_id p, np_network_b_id p}"
      "fr_dest_network_id r \<in> {np_network_a_id p, np_network_b_id p}"
      using p r(1) tables(4) by (auto simp: rules_within_def)
    ultimately show False using apart [OF p(1,2)] by auto
  qed
  then have rules: "filter (\<lambda>x. fr_peering_id x \<in> ids np_id (filter (\<lambda>x. np_user_id x \<noteq> v) (t_peerings d)))
      (t_rules (delete_network_row i d)) =
      filter (\<lambda>x. fr_peering_id x \<in> ids np_id (filter (\<lambda>x. np_user_id x \<noteq> v) (t_peerings d))) (t_rules d)"
    unfolding delete_network_row_def Let_def by (simp, intro filter_delete_others) auto
  have members: "filter (\<lambda>x. pm_network_id x \<in> ids pn_id (filter (\<lambda>x. pn_user_id x \<noteq> v) (t_networks d)))
      (delete_where (\<lambda>x. pm_network_id x = i) (t_members d)) =
      filter (\<lambda>x. pm_network_id x \<in> ids pn_id (filter (\<lambda>x. pn_user_id x \<noteq> v) (t_networks d))) (t_members d)"
    using mine by (intro filter_delete_others) (auto simp: ids_def)
  show ?thesis
    using nets peers rules members by (simp add: of_others_def delete_network_row_def Let_def)
qed

lemma keeps_others_update:
  assumes "\<And>now d. tenancy_ok d \<Longrightarrow> may (of_others v d) \<Longrightarrow> of_others v (f now d) = of_others v d" and "may F"
  shows "keeps_others v F (sql_update fit table f)"
  unfolding sql_update_def by (rule keeps_others_sql [where may = may]) (use assms in \<open>auto split: if_split_asm\<close>)

lemmas keeps_others_rules = keeps_others_sql keeps_others_insert keeps_others_execute keeps_others_update

lemma schedule_others:
  "i \<notin> ids di_id (o_databases F) \<Longrightarrow> keeps_others v F (BackupScheduleRepository_update i hours retention enabled)"
  "i \<notin> ids di_id (o_databases F) \<Longrightarrow> keeps_others v F (BackupScheduleRepository_delete i)"
  unfolding BackupScheduleRepository_update_def BackupScheduleRepository_delete_def Let_def
  by (erule keeps_others_rules [where may = "\<lambda>F. i \<notin> ids di_id (o_databases F)", rotated];
      auto simp: updates_others deletions_others split: option.split_asm)+

lemma db_user_others:
  "i \<notin> ids du_id (o_db_users F) \<Longrightarrow> keeps_others v F (DatabaseRepository_delete_database_user i)"
  "i \<notin> ids du_id (o_db_users F) \<Longrightarrow> keeps_others v F (DatabaseRepository_update_database_user_password i secret)"
  unfolding DatabaseRepository_delete_database_user_def DatabaseRepository_update_database_user_password_def
  by (erule keeps_others_rules [where may = "\<lambda>F. i \<notin> ids du_id (o_db_users F)", rotated];
      simp add: updates_others deletions_others)+

lemma backup_others: "i \<notin> ids br_id (o_backups F) \<Longrightarrow> keeps_others v F (DatabaseRepository_delete_backup i)"
  unfolding DatabaseRepository_delete_backup_def
  by (erule keeps_others_rules [where may = "\<lambda>F. i \<notin> ids br_id (o_backups F)", rotated])
    (simp add: deletions_others)

lemma alert_others:
  "i \<notin> ids alr_id (o_alert_rules F) \<Longrightarrow> keeps_others v F (AlertRepository_update_rule i hook email on)"
  "i \<notin> ids alr_id (o_alert_rules F) \<Longrightarrow> keeps_others v F (AlertRepository_delete_rule i)"
  unfolding AlertRepository_update_rule_def AlertRepository_delete_rule_def Let_def
  by (erule keeps_others_rules [where may = "\<lambda>F. i \<notin> ids alr_id (o_alert_rules F)", rotated];
      auto simp: updates_others deletions_others split: option.split_asm if_split_asm)+

lemma network_others:
  "i \<notin> ids pn_id (o_networks F) \<Longrightarrow> keeps_others v F (PrivateNetworkRepository_delete i)"
  "i \<notin> ids pn_id (o_networks F) \<Longrightarrow> keeps_others v F (PrivateNetworkRepository_update_docker_server_id i sid)"
  "i \<notin> ids pn_id (o_networks F) \<Longrightarrow> keeps_others v F (PrivateNetworkRepository_update_docker_network_id i name)"
  "i \<notin> ids pn_id (o_networks F) \<Longrightarrow> keeps_others v F (PrivateNetworkRepository_update_subnet_info i subnet gateway)"
  "i \<notin> ids pn_id (o_networks F) \<Longrightarrow> keeps_others v F (PrivateNetworkRepository_remove_member i j)"
  unfolding PrivateNetworkRepository_delete_def PrivateNetworkRepository_update_docker_server_id_def
    PrivateNetworkRepository_update_docker_network_id_def PrivateNetworkRepository_update_subnet_info_def
    PrivateNetworkRepository_remove_member_def
  by (erule keeps_others_rules [where may = "\<lambda>F. i \<notin> ids pn_id (o_networks F)", rotated];
      auto simp: update_network_others deletions_others delete_network_others split: if_split_asm)+

lemma add_member_others:
  "i \<notin> ids pn_id (o_networks F) \<Longrightarrow> keeps_others v F (PrivateNetworkRepository_add_member i j)"
  unfolding PrivateNetworkRepository_add_member_def
  by (erule keeps_others_insert [where may = "\<lambda>F. i \<notin> ids pn_id (o_networks F)", rotated];
      drule inserts_append; simp add: appends_others)

lemma peering_others:
  "i \<notin> ids np_id (o_peerings F) \<Longrightarrow> keeps_others v F (PrivateNetworkRepository_delete_peering i)"
  "j \<notin> ids fr_id (o_rules F) \<Longrightarrow> keeps_others v F (PrivateNetworkRepository_delete_firewall_rule j)"
  unfolding PrivateNetworkRepository_delete_peering_def PrivateNetworkRepository_delete_firewall_rule_def
  by (erule keeps_others_execute [where may = "\<lambda>F. i \<notin> ids np_id (o_peerings F)", rotated],
      simp add: delete_peering_others)
    (erule keeps_others_execute [where may = "\<lambda>F. j \<notin> ids fr_id (o_rules F)", rotated],
      simp add: deletions_others)

lemma own_row_others:
  "keeps_others v F (UserRepository_set_api_key v key)"
  "keeps_others v F (FavoriteRepository_add v i)"
  "keeps_others v F (FavoriteRepository_remove v i)"
proof -
  have favorite: "of_others v (d\<lparr>t_favorites := t_favorites d @ [(v, i)]\<rparr>) = of_others v d" for d
    by (simp add: of_others_def Let_def)
  show "keeps_others v F (FavoriteRepository_add v i)"
    unfolding FavoriteRepository_add_def
    by (rule keeps_others_sql [where may = "\<lambda>_. True"]) (auto simp: favorite split: if_split_asm)
  show "keeps_others v F (FavoriteRepository_remove v i)"
    unfolding FavoriteRepository_remove_def
    by (rule keeps_others_execute [where may = "\<lambda>_. True"], rule deletions_others(1)) auto
  show "keeps_others v F (UserRepository_set_api_key v key)"
    unfolding UserRepository_set_api_key_def Let_def
    by (rule carry_outside, intro outside_intro, simp, rule keeps_others_sql [where may = "\<lambda>_. True"])
       (auto simp: updates_others split: if_split_asm)
qed

section \<open>What the handlers look up\<close>

lemma owned_database_Inr:
  "owned_database u i e s = (Inr inst, s1) \<Longrightarrow>
   find (\<lambda>x. di_id x = i) (t_databases (db s)) = Some inst \<and> di_user_id inst = au_id u"
  by (auto simp: owned_database_def DatabaseRepository_find_by_id_def bind_Inr_iff control_Inr_iff
      split: if_split_asm dest!: sql_select_Inr)

lemma owned_network_Inr:
  "owned_network u i e s = (Inr net, s1) \<Longrightarrow>
   find (\<lambda>x. pn_id x = i) (t_networks (db s)) = Some net \<and> pn_user_id net = au_id u"
  by (auto simp: owned_network_def PrivateNetworkRepository_find_by_id_def bind_Inr_iff control_Inr_iff
      split: if_split_asm dest!: sql_select_Inr)

lemma owned_alert_Inr:
  "owned_alert u i e s = (Inr rule, s1) \<Longrightarrow>
   find (\<lambda>x. alr_id x = i) (t_alert_rules (db s)) = Some rule \<and> alr_user_id rule = au_id u"
  by (auto simp: owned_alert_def AlertRepository_find_by_id_def bind_Inr_iff control_Inr_iff
      split: if_split_asm dest!: sql_select_Inr)

lemma child_Inr:
  "user_of_database j i e s = (Inr row, s1) \<Longrightarrow>
   find (\<lambda>x. du_id x = i) (t_db_users (db s)) = Some row \<and> du_database_id row = j"
  "backup_of_database j i e s = (Inr backup, s1) \<Longrightarrow>
   find (\<lambda>x. br_id x = i) (t_backups (db s)) = Some backup \<and> br_database_id backup = j"
  "rule_of_peering j i e s = (Inr fw, s1) \<Longrightarrow>
   find (\<lambda>x. fr_id x = i) (t_rules (db s)) = Some fw \<and> fr_peering_id fw = j"
  by (auto simp: user_of_database_def backup_of_database_def rule_of_peering_def
      DatabaseRepository_find_database_user_by_id_def DatabaseRepository_find_backup_by_id_def
      PrivateNetworkRepository_find_rule_by_id_def bind_Inr_iff control_Inr_iff
      split: if_split_asm dest!: sql_select_Inr)

lemma not_of_others:
  assumes "keyed k rs" "find (\<lambda>x. k x = i) rs = Some r" "\<not> q r"
  shows "i \<notin> ids k (filter q rs)"
  using assms by (auto simp: ids_def dest: keyed_unique)

lemma tenancy_keys:
  assumes "tenancy_ok d"
  shows "keyed di_id (t_databases d)" "keyed pn_id (t_networks d)" "keyed alr_id (t_alert_rules d)"
    "keyed np_id (t_peerings d)" "keyed du_id (t_db_users d)" "keyed br_id (t_backups d)" "keyed fr_id (t_rules d)"
  using assms by (simp_all add: tenancy_ok_def schema_ok_def schema_parts_def)

lemma peering_of_network:
  assumes "tenancy_ok d" "i \<notin> ids pn_id (o_networks (of_others v d))"
    "p \<in> set (t_peerings d)" "np_network_a_id p = i \<or> np_network_b_id p = i"
  shows "np_id p \<notin> ids np_id (o_peerings (of_others v d))"
proof -
  have tables: "keyed np_id (t_peerings d)" "peerings_ok d" "peers_owned d"
    using assms(1) by (simp_all add: tenancy_ok_def schema_ok_def schema_parts_def)
  have "ids np_network_a_id (t_peerings d) \<subseteq> ids pn_id (t_networks d)"
    "ids np_network_b_id (t_peerings d) \<subseteq> ids pn_id (t_networks d)"
    using tables(2) by (simp_all add: peerings_ok_def fk_def)
  with assms(3,4) have "i \<in> ids pn_id (t_networks d)" by (auto simp: ids_def)
  then obtain n where n: "n \<in> set (t_networks d)" "pn_id n = i" by (auto simp: ids_def)
  with assms(2) have "pn_user_id n = v" by (auto simp: others_filters ids_def)
  with n tables(3) assms(3,4) have "np_user_id p = v" by (auto simp: peers_owned_def)
  moreover have "q = p" if "q \<in> set (t_peerings d)" "np_id q = np_id p" for q
    using that tables(1) assms(3) by (auto simp: keyed_def distinct_map dest: inj_onD)
  ultimately show ?thesis by (auto simp: others_filters ids_def)
qed

lemma create_database_others:
  "keeps_db (isolated (au_id u) F) (create_database u r)"
  "keeps_db (isolated (au_id u) F) (create_bundle u b)"
  unfolding create_database_def create_bundle_def or_release_def new_subdomain_def Let_def
  by (intro keeps_isolated [OF tenancy.database_writes(1) account_others(5)]
      keeps_isolated [OF tenancy.database_writes(2) account_others(4)] preserves_intro)+

lemma create_peering_others: "keeps_others (au_id u) F (create_peering u pr)"
  unfolding create_peering_def PrivateNetworkRepository_create_peering_def Let_def
  by (rule carry_outside, (intro outside_intro)[1], (elim conjE, assumption),
      (rule carry_outside, (intro outside_intro)[1], (elim conjE, assumption))+,
      rule carry_insert, (elim conjE, assumption), (elim conjE, drule inserts_append, simp add: appends_others),
      intro preserves_intro)

lemma owned_peering_others:
  assumes "tenancy_ok (db s)" "owned_peering u i e s = (Inr p, s')"
  shows "i \<notin> ids np_id (o_peerings (of_others (au_id u) (db s)))"
  unfolding others_filters(2) using owned_peering_Inr [OF assms(2)] tenancy_keys(4) [OF assms(1)]
  by (intro not_of_others) auto

lemma create_firewall_rule_others: "keeps_others (au_id u) F (create_firewall_rule u i fr)"
  unfolding create_firewall_rule_def PrivateNetworkRepository_create_firewall_rule_def Let_def
  by (rule carry_gate [where R = "\<lambda>_ d. i \<notin> ids np_id (o_peerings (of_others (au_id u) d))"],
      (intro outside_intro)[1], (elim conjE, assumption), (elim conjE, erule (1) owned_peering_others),
      (rule carry_require, (elim conjE, assumption))+, rule carry_outside, (intro outside_intro)[1],
      (elim conjE, assumption), rule carry_require, (elim conjE, assumption), rule carry_insert,
      (elim conjE, assumption), (elim conjE, drule inserts_append, simp add: appends_others), intro preserves_intro)

lemma owned_others:
  "tenancy_ok (db s) \<Longrightarrow> owned_database u i e s = (Inr inst, s') \<Longrightarrow>
    i \<notin> ids di_id (o_databases (of_others (au_id u) (db s)))"
  "tenancy_ok (db s) \<Longrightarrow> owned_network u i e s = (Inr net, s') \<Longrightarrow>
    i \<notin> ids pn_id (o_networks (of_others (au_id u) (db s)))"
  "tenancy_ok (db s) \<Longrightarrow> owned_alert u i e s = (Inr rule, s') \<Longrightarrow>
    i \<notin> ids alr_id (o_alert_rules (of_others (au_id u) (db s)))"
  unfolding others_filters
  by (drule owned_database_Inr owned_network_Inr owned_alert_Inr; erule conjE; rule not_of_others;
      (erule tenancy_keys | assumption | simp))+

lemma children_others:
  "tenancy_ok (db s) \<Longrightarrow> j \<notin> ids di_id (o_databases (of_others v (db s))) \<Longrightarrow>
    user_of_database j i e s = (Inr row, s') \<Longrightarrow> i \<notin> ids du_id (o_db_users (of_others v (db s)))"
  "tenancy_ok (db s) \<Longrightarrow> j \<notin> ids di_id (o_databases (of_others v (db s))) \<Longrightarrow>
    backup_of_database j i e s = (Inr backup, s') \<Longrightarrow> i \<notin> ids br_id (o_backups (of_others v (db s)))"
  "tenancy_ok (db s) \<Longrightarrow> j \<notin> ids np_id (o_peerings (of_others v (db s))) \<Longrightarrow>
    rule_of_peering j i e s = (Inr fw, s') \<Longrightarrow> i \<notin> ids fr_id (o_rules (of_others v (db s)))"
  by (drule child_Inr, subst others_filters, erule conjE, rule not_of_others,
      erule tenancy_keys, assumption, simp)+

lemma peers_others:
  assumes "tenancy_ok (db s)" "i \<notin> ids pn_id (o_networks (of_others v (db s)))"
    "PrivateNetworkRepository_find_peerings_for_network i e s = (Inr peerings, s')" "p \<in> set peerings"
  shows "np_id p \<notin> ids np_id (o_peerings (of_others v (db s)))"
  using assms(3,4) by (intro peering_of_network [OF assms(1,2)])
    (auto simp: PrivateNetworkRepository_find_peerings_for_network_def dest!: sql_select_Inr)

section \<open>Nothing of the others changes\<close>

interpretation isolation: user_frame "isolated (au_id u) F" u "\<lambda>i. i \<notin> ids di_id (o_databases F)"
  "\<lambda>i. i \<notin> ids pn_id (o_networks F)" "\<lambda>i. i \<notin> ids alr_id (o_alert_rules F)"
  "\<lambda>i. i \<notin> ids du_id (o_db_users F)" "\<lambda>i. i \<notin> ids br_id (o_backups F)"
  "\<lambda>i. i \<notin> ids np_id (o_peerings F)" "\<lambda>i. i \<notin> ids fr_id (o_rules F)" for u F
proof unfold_locales
qed (elim conjE; (hypsubst, (erule (1) owned_others owned_peering_others | erule (2) children_others | erule (3) peers_others)) |
  intro keeps_isolated tenancy.account_writes tenancy.billing_writes tenancy.database_writes tenancy.child_writes
    tenancy.network_writes tenancy.other_writes create_database_others
    create_peering_others create_firewall_rule_others instance_others child_others account_others schedule_others db_user_others backup_others
    alert_others network_others add_member_others peering_others own_row_others; assumption?)+

text \<open>
  C1. Tenants are isolated. In every reachable state, whatever a request behind the
  authentication layer does to the tables, the caller is a user of the table that the header
  identifies, and the rows that belong to other users (their accounts, databases with their
  users, backups, schedules and migrations, bundles, networks with their members, peerings and
  firewall rules, alert rules, favourites and invoices) are the same before and after; a
  request that identifies nobody changes no table.
\<close>

theorem tenant_isolation:
  assumes "reachable e s" "serve within_quota head (User_request r) e s = (res, s')"
  shows "db s' = db s \<or>
    (\<exists>row \<in> set (t_users (db s)). identifies e s (rh_authorization head) row \<and>
       of_others (u_id row) (db s') = of_others (u_id row) (db s))"
proof (cases rule: auth_middleware_cases [of "rh_authorization head" e s])
  case (rejected er s'')
  with assms(2) show ?thesis by (auto simp: serve_def bind_app_def only_time_passed_def)
next
  case (known row)
  let ?u = "auth_user_of row"
  have "(res, s') = run_user r ?u e (next_tick e s)"
    using known assms(2) by (simp add: serve_def bind_app_def)
  moreover have "tenancy_ok (db s)"
    by (rule tenancy.reachable_keeps [OF assms(1) installed_tenancy])
  ultimately have "isolated (au_id ?u) (of_others (au_id ?u) (db s)) (db s')"
    using preservesD [OF isolation.run_user_frame, of "next_tick e s" ?u "of_others (au_id ?u) (db s)" r e res s']
    by (simp add: next_tick_def)
  with known show ?thesis by (intro disjI2 bexI [of _ row]) (simp_all add: auth_user_of_def)
qed

lemma tenant_isolation_witness:
  "let head = \<lparr>rh_authorization = Some ''Bearer jwt.1'', rh_forwarded_for = None, rh_real_ip = None\<rparr>;
       s' = snd (serve (\<lambda>_. True) head (User_request (R_create_network ''lan'')) demo_env registered_state)
   in db s' = db registered_state \<or>
    (\<exists>row \<in> set (t_users (db registered_state)). identifies demo_env registered_state (rh_authorization head) row \<and>
       of_others (u_id row) (db s') = of_others (u_id row) (db registered_state))"
  using tenant_isolation [OF registered_reachable prod.collapse [symmetric]] by (simp add: Let_def)

end
