(* ===== verification/Privileges.thy ===== *)
theory Privileges
  imports Access
begin

text \<open>
  Who becomes an administrator. Every statement but \<open>update_role\<close> leaves the set of
  administrators as it is or makes it smaller, so \<open>service_frame\<close> is interpreted for "no
  administrator but those of this set"; the one handler with \<open>update_role\<close> is behind the role.
\<close>

definition admins :: "pg \<Rightarrow> uuid set" where
  "admins d = u_id ` {x \<in> set (t_users d). u_role x = UserRole_Admin}"

lemma admins_iff: "i \<in> admins d \<longleftrightarrow> (\<exists>x \<in> set (t_users d). u_role x = UserRole_Admin \<and> u_id x = i)"
  by (auto simp: admins_def)

abbreviation no_new_admin :: "uuid set \<Rightarrow> pg \<Rightarrow> bool" where
  "no_new_admin A d \<equiv> admins d \<subseteq> A"

section \<open>Statements that leave the users alone\<close>

abbreviation of_users :: "(user list \<Rightarrow> bool) \<Rightarrow> pg \<Rightarrow> bool" where
  "of_users Q d \<equiv> Q (t_users d)"

lemma cascades_leave_users:
  "t_users (delete_database_row i d) = t_users d" "t_users (delete_network_row i d) = t_users d"
  "t_users (delete_peering_row i d) = t_users d" "t_users (delete_bundle_row i d) = t_users d"
  "t_users (delete_alert_rule_row i d) = t_users d"
  by (simp_all add: delete_database_row_def delete_network_row_def delete_peering_row_def
      delete_bundle_row_def delete_alert_rule_row_def Let_def)

lemmas leaves_users = insert_defs cascades_leave_users update_plan_def update_server_def
  delete_server_row_def with_result_def

lemma account_statements_leave_users:
  "keeps_db (of_users Q) (InvitationRepository_create code i n expires)"
  "keeps_db (of_users Q) (InvitationRepository_use_invitation code i)"
  "keeps_db (of_users Q) (InvitationRepository_delete i)"
  "keeps_db (of_users Q) (FavoriteRepository_add j i)"
  "keeps_db (of_users Q) (FavoriteRepository_remove j i)"
  unfolding 
    InvitationRepository_create_def InvitationRepository_use_invitation_def
    InvitationRepository_delete_def FavoriteRepository_add_def FavoriteRepository_remove_def Let_def
  by (intro preserves_intro keeps_db_insert keeps_db_execute keeps_db_update keeps_db_run_sql;
      auto simp: leaves_users split: if_split_asm sum.split_asm option.split_asm)+

lemma plan_statements_leave_users:
  "keeps_db (of_users Q) (BillingRepository_create_plan_template new_plan)"
  "keeps_db (of_users Q) (BillingRepository_update_plan_template i plan_change)"
  "keeps_db (of_users Q) (BillingRepository_delete_plan_template i)"
  "keeps_db (of_users Q) (BillingRepository_record_usage_event i event_type v name plan)"
  unfolding BillingRepository_create_plan_template_def BillingRepository_update_plan_template_def
    BillingRepository_delete_plan_template_def BillingRepository_record_usage_event_def Let_def
  by (intro preserves_intro keeps_db_insert keeps_db_execute keeps_db_update keeps_db_run_sql;
      auto simp: leaves_users split: if_split_asm sum.split_asm option.split_asm)+

lemma instance_statements_leave_users:
  "keeps_db (of_users Q) (DatabaseRepository_create u name type host port username password db_name cpu mem in_bundle mode plan on_server subdomain routing)"
  "keeps_db (of_users Q) (DatabaseRepository_create_bundle u name)"
  "keeps_db (of_users Q) (DatabaseRepository_update_bundle_network i net)"
  "keeps_db (of_users Q) (DatabaseRepository_update_provisioned i container net_opt cert)"
  "keeps_db (of_users Q) (DatabaseRepository_update_status i st)"
  "keeps_db (of_users Q) (DatabaseRepository_update_owner_password i secret)"
  "keeps_db (of_users Q) (DatabaseRepository_update_routing_mode i routing)"
  "keeps_db (of_users Q) (DatabaseRepository_delete i)"
  "keeps_db (of_users Q) (set_plan i plan_id template)"
  "keeps_db (of_users Q) (set_name i name)"
  "keeps_db (of_users Q) (DatabaseRepository_create_database_user i name secret permission)"
  "keeps_db (of_users Q) (DatabaseRepository_update_database_user_password i secret)"
  "keeps_db (of_users Q) (DatabaseRepository_delete_database_user i)"
  "keeps_db (of_users Q) (DatabaseRepository_create_backup i name size_bytes)"
  "keeps_db (of_users Q) (DatabaseRepository_delete_backup i)"
  unfolding DatabaseRepository_create_def DatabaseRepository_create_bundle_def
    DatabaseRepository_update_bundle_network_def DatabaseRepository_update_provisioned_def
    DatabaseRepository_update_status_def DatabaseRepository_update_owner_password_def
    DatabaseRepository_update_routing_mode_def DatabaseRepository_delete_def set_plan_def
    set_name_def DatabaseRepository_create_database_user_def
    DatabaseRepository_update_database_user_password_def DatabaseRepository_delete_database_user_def
    DatabaseRepository_create_backup_def DatabaseRepository_delete_backup_def Let_def
  by (intro preserves_intro keeps_db_insert keeps_db_execute keeps_db_update keeps_db_run_sql;
      auto simp: leaves_users split: if_split_asm sum.split_asm option.split_asm)+

lemma child_statements_leave_users:
  "keeps_db (of_users Q) (BackupScheduleRepository_create i hours retention enabled)"
  "keeps_db (of_users Q) (BackupScheduleRepository_update i hours_opt retention_opt enabled_opt)"
  "keeps_db (of_users Q) (BackupScheduleRepository_update_last_run i)"
  "keeps_db (of_users Q) (BackupScheduleRepository_delete i)"
  "keeps_db (of_users Q) (MigrationService_record_migration i name checksum)"
  "keeps_db (of_users Q) (DockerServerRepository_create new_server)"
  "keeps_db (of_users Q) (DockerServerRepository_update i server_change)"
  "keeps_db (of_users Q) (DockerServerRepository_update_last_seen i)"
  "keeps_db (of_users Q) (DockerServerRepository_delete i)"
  unfolding BackupScheduleRepository_create_def BackupScheduleRepository_update_def
    BackupScheduleRepository_update_last_run_def BackupScheduleRepository_delete_def
    MigrationService_record_migration_def DockerServerRepository_create_def
    DockerServerRepository_update_def DockerServerRepository_update_last_seen_def
    DockerServerRepository_delete_def Let_def
  by (intro preserves_intro keeps_db_insert keeps_db_execute keeps_db_update keeps_db_run_sql;
      auto simp: leaves_users split: if_split_asm sum.split_asm option.split_asm)+

lemma network_statements_leave_users:
  "keeps_db (of_users Q) (PrivateNetworkRepository_create u name)"
  "keeps_db (of_users Q) (PrivateNetworkRepository_delete i)"
  "keeps_db (of_users Q) (PrivateNetworkRepository_update_docker_server_id i j)"
  "keeps_db (of_users Q) (PrivateNetworkRepository_update_docker_network_id i name)"
  "keeps_db (of_users Q) (PrivateNetworkRepository_update_subnet_info i subnet gateway)"
  "keeps_db (of_users Q) (PrivateNetworkRepository_add_member i j)"
  "keeps_db (of_users Q) (PrivateNetworkRepository_remove_member i j)"
  "keeps_db (of_users Q) (PrivateNetworkRepository_create_peering u i j on_server)"
  "keeps_db (of_users Q) (PrivateNetworkRepository_update_peering_status i status)"
  "keeps_db (of_users Q) (PrivateNetworkRepository_update_peering_bridge i name)"
  "keeps_db (of_users Q) (PrivateNetworkRepository_delete_peering i)"
  "keeps_db (of_users Q) (PrivateNetworkRepository_create_firewall_rule i priority act src dst port_opt proto text)"
  "keeps_db (of_users Q) (PrivateNetworkRepository_delete_firewall_rule i)"
  unfolding PrivateNetworkRepository_create_def PrivateNetworkRepository_delete_def
    PrivateNetworkRepository_update_docker_server_id_def
    PrivateNetworkRepository_update_docker_network_id_def
    PrivateNetworkRepository_update_subnet_info_def PrivateNetworkRepository_add_member_def
    PrivateNetworkRepository_remove_member_def PrivateNetworkRepository_create_peering_def
    PrivateNetworkRepository_update_peering_status_def
    PrivateNetworkRepository_update_peering_bridge_def PrivateNetworkRepository_delete_peering_def
    PrivateNetworkRepository_create_firewall_rule_def
    PrivateNetworkRepository_delete_firewall_rule_def Let_def
  by (intro preserves_intro keeps_db_insert keeps_db_execute keeps_db_update keeps_db_run_sql;
      auto simp: leaves_users split: if_split_asm sum.split_asm option.split_asm)+

lemma alert_statements_leave_users:
  "keeps_db (of_users Q) (AlertRepository_create_rule u target event_type hook email on)"
  "keeps_db (of_users Q) (AlertRepository_update_rule i hook email on_opt)"
  "keeps_db (of_users Q) (AlertRepository_delete_rule i)"
  "keeps_db (of_users Q) (AlertRepository_insert_history i event_type message)"
  "keeps_db (of_users Q) (AuditRepository_insert u_opt action resource_type i_opt details ip)"
  unfolding AlertRepository_create_rule_def AlertRepository_update_rule_def
    AlertRepository_delete_rule_def AlertRepository_insert_history_def AuditRepository_insert_def
    Let_def
  by (intro preserves_intro keeps_db_insert keeps_db_execute keeps_db_update keeps_db_run_sql;
      auto simp: leaves_users split: if_split_asm sum.split_asm option.split_asm)+

lemma billing_statements_leave_users [preserves_intro]:
  "keeps_db (of_users Q) (BillingRepository_create_billing_period u from to' cents)"
  "keeps_db (of_users Q) (BillingRepository_add_line_item p i pl h a)"
  "keeps_db (of_users Q) (BillingRepository_update_period_status i status stripe)"
  unfolding BillingRepository_create_billing_period_def BillingRepository_add_line_item_def
    BillingRepository_update_period_status_def
  by (intro keeps_db_insert keeps_db_run_sql; auto simp: leaves_users split: if_split_asm)+

lemma composed_leave_users:
  "keeps_db (of_users Q) (sql_execute (\<lambda>_. upsert_setting key val))"
  "keeps_db (of_users Q) (BillingService_handle_stripe_webhook event_type invoice_id)"
  "keeps_db (of_users Q) (BillingService_run_monthly_billing stripe_key)"
  "keeps_db (of_users Q) (create_peering usr pr)"
  "keeps_db (of_users Q) (create_firewall_rule usr i fr)"
  unfolding BillingService_run_monthly_billing_def BillingService_generate_monthly_invoice_def
    BillingService_create_stripe_invoice_def BillingService_handle_stripe_webhook_def invoice_step_def
    create_peering_def create_firewall_rule_def Let_def
  by (intro preserves_intro network_statements_leave_users keeps_db_execute; simp add: upsert_setting_def)+

section \<open>Statements of the users\<close>

lemma delete_user_row_users:
  "delete_user_row u d = Inr d' \<Longrightarrow> set (t_users d') \<subseteq> set (t_users d)"
  by (auto simp: delete_user_row_def Let_def fold_frame [where g = t_users] cascades_leave_users
      set_delete_where split: if_split_asm)

lemma user_statements_appoint_none:
  "keeps_db (no_new_admin A) (UserRepository_create mail hash UserRole_User)"
  "keeps_db (no_new_admin A) (UserRepository_set_api_key i key)"
  "keeps_db (no_new_admin A) (UserRepository_delete i)"
  unfolding UserRepository_create_def UserRepository_set_api_key_def UserRepository_delete_def Let_def
  by (intro preserves_intro keeps_db_insert keeps_db_execute keeps_db_update keeps_db_run_sql;
      fastforce simp: admins_def image_subset_iff insert_user_def set_update_where with_result_def
        split: if_split_asm sum.split_asm dest: delete_user_row_users)+

lemmas statements_leave_users =
  account_statements_leave_users plan_statements_leave_users instance_statements_leave_users
  child_statements_leave_users network_statements_leave_users alert_statements_leave_users
  composed_leave_users

lemmas statements_appoint_none =
  statements_leave_users [where Q = "\<lambda>us. u_id ` {x \<in> set us. u_role x = UserRole_Admin} \<subseteq> A" for A,
    folded admins_def]

interpretation appointments: service_frame "no_new_admin A" for A
  by unfold_locales (intro user_statements_appoint_none statements_appoint_none)+

section \<open>Appointments\<close>

lemma update_user_role_User:
  "body \<noteq> Some ''admin'' \<Longrightarrow> keeps_db (no_new_admin A) (update_user_role i body)"
  unfolding update_user_role_def ok_or_def UserRepository_update_role_def
  by (cases body) (auto intro!: preserves_intro keeps_db_execute simp: admins_def image_subset_iff set_update_where
      split: if_split_asm)

lemma update_role_one: "keeps_db (no_new_admin (insert i A)) (UserRepository_update_role i role)"
  unfolding UserRepository_update_role_def
  by (rule keeps_db_execute) (fastforce simp: admins_def image_subset_iff set_update_where split: if_split_asm)

lemma update_user_role_one: "keeps_db (no_new_admin (insert i A)) (update_user_role i body)"
  unfolding update_user_role_def by (intro preserves_intro update_role_one)

text \<open>
  C3. Only an administrator makes administrators: if somebody is an administrator after a request
  who was not before, then the request is \<open>PUT /api/admin/users/{id}/role\<close> for that very user
  with the role \<open>admin\<close>, and its \<open>Authorization\<close> header identifies a user whose row has the role
  \<open>admin\<close>. So registration, invitations, profile handlers and all other requests appoint nobody.
\<close>

theorem roles_come_from_admins:
  assumes "serve within_quota head req e s = (res, s')" "i \<in> admins (db s')" "i \<notin> admins (db s)"
  shows "req = Admin_request (R_update_user_role i (Some ''admin'')) \<and>
    (\<exists>row \<in> set (t_users (db s)). identifies e s (rh_authorization head) row \<and> u_role row = UserRole_Admin)"
proof -
  have appointed: "\<not> no_new_admin (admins (db s)) (db s')"
    using assms(2,3) by blast
  obtain j body where req: "req = Admin_request (R_update_user_role j body)"
    using appointed preservesD [OF appointments.serve_frame _ assms(1), of "admins (db s)"] by blast
  show ?thesis
  proof (cases rule: auth_middleware_cases [of "rh_authorization head" e s])
    case (rejected er s'')
    with assms(1) have "only_time_passed s s'" by (auto simp: req serve_def bind_app_def)
    with appointed show ?thesis by (auto simp: only_time_passed_def)
  next
    case (known row)
    show ?thesis
    proof (cases "u_role row = UserRole_Admin")
      case True
      with known assms(1) have "effects (update_user_role j body) e (next_tick e s) = (res, s')"
        by (simp add: req serve_def bind_app_def admin_middleware_def auth_user_of_def ok_or_def
            require_def return_app_def throw_def)
      then obtain r where run: "update_user_role j body e (next_tick e s) = (r, s')"
        by (cases "update_user_role j body e (next_tick e s)")
          (auto simp: effects_def bind_app_def return_app_def split: sum.split_asm)
      have same: "no_new_admin (admins (db s)) (db (next_tick e s))" by simp
      have "body = Some ''admin''"
        using appointed preservesD [OF update_user_role_User same run] by blast
      moreover have "j = i"
        using assms(2,3) preservesD [OF update_user_role_one [where i = j and A = "admins (db s)"] _ run] by auto
      ultimately show ?thesis using req True known by blast
    next
      case False
      with known assms(1) have "s' = next_tick e s"
        by (simp add: req serve_def bind_app_def admin_middleware_def auth_user_of_def ok_or_def
            require_def return_app_def throw_def)
      with appointed show ?thesis by simp
    qed
  qed
qed

definition appointing_state :: app_state where
  "appointing_state = demo_state\<lparr>db := demo_pg\<lparr>t_users := [(demo_user 1)\<lparr>u_role := UserRole_Admin\<rparr>, demo_user 2]\<rparr>\<rparr>"

lemma roles_come_from_admins_witness:
  "\<exists>row \<in> set (t_users (db appointing_state)).
     identifies demo_env appointing_state (Some ''Bearer jwt.1'') row \<and> u_role row = UserRole_Admin"
proof -
  define head where "head = \<lparr>rh_authorization = Some ''Bearer jwt.1'', rh_forwarded_for = None, rh_real_ip = None\<rparr>"
  obtain res s' where run: "serve (\<lambda>_. True) head (Admin_request (R_update_user_role 2 (Some ''admin'')))
      demo_env appointing_state = (res, s')"
    by (cases rule: prod.exhaust)
  moreover have "auth_middleware (rh_authorization head) demo_env appointing_state =
      (Inr (auth_user_of ((demo_user 1)\<lparr>u_role := UserRole_Admin\<rparr>)), next_tick demo_env appointing_state)"
    by (simp add: appointing_state_def head_def demo_libraries_def demo_config_def auth_middleware_def
        UserRepository_find_by_id_def decode_token_def utc_now_def asks_def bind_app_def lift_result_def
        ok_or_def return_app_def str_strip_prefix_def str_starts_with_def sql_select_def run_sql_up)
  ultimately have "2 \<in> admins (db s')" "2 \<notin> admins (db appointing_state)"
    by (auto simp: serve_def bind_app_def admin_middleware_def auth_user_of_def UserRepository_update_role_def
        update_user_role_def effects_def ok_or_def require_def return_app_def sql_execute_def run_sql_up
        admins_iff update_where_def appointing_state_def)
  from roles_come_from_admins [OF run this] show ?thesis by (simp add: head_def)
qed

end
