(* ===== verification/Creation.thy ===== *)
theory Creation
  imports Handler_Frame Scenario
begin

text \<open>
  The creation of a database as a whole: the row it adds, the quota, and what the owner reads
  later.
\<close>

section \<open>Handlers that read before they write\<close>

lemma wp_bind_reads:
  assumes "reads m"
    and "\<And>x s'. m e s = (Inr x, s') \<Longrightarrow> db s' = db s \<Longrightarrow> wp (f x) (on_ok Q E) e s'"
    and "\<And>s'. db s' = db s \<Longrightarrow> E s'"
  shows "wp (bind_app m f) (on_ok Q E) e s"
proof (rule wp_bind_ok)
  obtain r s1 where run: "m e s = (r, s1)" by (cases "m e s")
  with readsD [OF assms(1)] have "db s1 = db s" by blast
  with assms(2,3) run show "wp m (on_ok (\<lambda>x s'. wp (f x) (on_ok Q E) e s') E) e s"
    by (cases r) (simp_all add: wp_eq)
qed

lemma wp_then_reads:
  "reads m \<Longrightarrow> (\<And>s'. m e s = (Inr (), s') \<Longrightarrow> db s' = db s \<Longrightarrow> wp n (on_ok Q E) e s') \<Longrightarrow>
   (\<And>s'. db s' = db s \<Longrightarrow> E s') \<Longrightarrow> wp (then_app m n) (on_ok Q E) e s"
  by (rule wp_bind_reads) auto

section \<open>The row of a new database\<close>

definition stored :: "auth_user \<Rightarrow> database_response \<Rightarrow> env \<Rightarrow> database_instance \<Rightarrow> bool" where
  \<comment> \<open>the row that the answer of \<open>create_database\<close> shows\<close>
  "stored u resp e inst \<longleftrightarrow> di_user_id inst = au_id u \<and> di_id inst = dr_id resp \<and>
     di_status inst = Provisioning \<and> di_routing_mode inst = ''sni'' \<and>
     (\<exists>m. dr_password resp = generate_random_string (random_index e m) 32) \<and>
     (\<exists>n. encrypt_string (l_cipher (lib e)) (take 12 (random_bytes e n)) (dr_password resp)
        (encryption_key (cfg e)) = Inr (di_password_encrypted inst)) \<and>
     resp = database_view (cfg e) inst (dr_password resp)"

lemma encrypt_Inr: "encrypt str e s = (Inr y, s') \<longleftrightarrow>
   encrypt_string (l_cipher (lib e)) (take 12 (random_bytes e (tick s))) str (encryption_key (cfg e)) = Inr y \<and>
   s' = next_tick e s"
  by (auto simp: encrypt_def lift_result_def throw_def return_app_def split: sum.split)

lemma checked_ssl_mode_Inr: "checked_ssl_mode mode e s = (Inr x, s') \<Longrightarrow> x \<noteq> ''disabled'' \<and> s' = s"
  by (auto simp: checked_ssl_mode_def bind_app_def split: if_split_asm)

lemma wp_attempt_again:
  assumes ins: "\<And>sub s1. db s1 = before \<Longrightarrow> wp (ins sub) (on_ok (R sub) (\<lambda>s'. db s' = before)) e s1"
    and "reads again" "db s = before" "\<And>s'. db s' = before \<Longrightarrow> E s'"
    and k: "\<And>inst sub s'. R sub inst s' \<Longrightarrow> wp (k inst) (on_ok Q E) e s'"
  shows "wp (bind_app (attempt (ins first)) (\<lambda>r. bind_app (case r of
      Inl _ \<Rightarrow> bind_app again ins | Inr inst \<Rightarrow> return_app inst) k)) (on_ok Q E) e s"
proof -
  have retry: "wp (bind_app (bind_app again ins) k) (on_ok Q E) e s1" if "db s1 = before" for s1
    unfolding bind_assoc
    by (rule wp_bind_reads [OF assms(2)], rule wp_bind_ok, rule wp_weaken [OF ins])
       (use that assms(4) k in auto)
  obtain r s1 where run: "ins first e s = (r, s1)" by (cases "ins first e s")
  with ins [OF assms(3), of first] have out: "on_ok (R first) (\<lambda>s'. db s' = before) r s1" by (simp add: wp_def)
  show ?thesis
  proof (cases r)
    case (Inr inst)
    with out run k show ?thesis by (simp add: wp_def attempt_def bind_app_def return_app_def)
  next
    case (Inl er)
    with out run retry [of s1] assms(4) show ?thesis
      by (cases er) (simp_all add: wp_def attempt_def bind_app_eval)
  qed
qed

definition one_row ::
  "uuid \<Rightarrow> string \<Rightarrow> db_type \<Rightarrow> string \<Rightarrow> i32 \<Rightarrow> string \<Rightarrow> string \<Rightarrow> string option \<Rightarrow> f64 \<Rightarrow> i32 \<Rightarrow>
   uuid option \<Rightarrow> string \<Rightarrow> uuid option \<Rightarrow> uuid option \<Rightarrow> string \<Rightarrow> string \<Rightarrow> pg \<Rightarrow> database_instance \<Rightarrow> app_state \<Rightarrow> bool" where
  "one_row v nm ty h po un pw dbn cpu mem bu tls pl srv sub rm before inst s' \<longleftrightarrow>
     db s' = before\<lparr>t_databases := t_databases before @ [inst]\<rparr> \<and>
        di_id inst \<notin> ids di_id (t_databases before) \<and>
        (\<exists>now. inst = \<lparr>di_id = di_id inst, di_user_id = v, di_name = nm, di_db_type = ty,
          di_status = Provisioning, di_container_id = None, di_network_id = None, di_host = h,
          di_port = po, di_username = un, di_password_encrypted = pw,
          di_database_name = dbn, di_tls_cert = None, di_cpu_limit = cpu,
          di_memory_limit_mb = mem, di_bundle_id = bu, di_tls_mode = tls,
          di_plan_template_id = pl, di_subdomain = sub,
          di_routing_mode = rm, di_docker_server_id = srv,
          di_created_at = now, di_updated_at = now\<rparr>)"

lemma wp_row:
  "wp (DatabaseRepository_create v nm ty h po un pw dbn cpu mem bu tls pl srv sub rm)
    (on_ok (one_row v nm ty h po un pw dbn cpu mem bu tls pl srv sub rm (db s)) (\<lambda>s'. db s' = db s)) e s"
  unfolding DatabaseRepository_create_def one_row_def
  by (rule wp_insert_ok) (auto simp: insert_database_def split: if_split_asm)

lemma wp_create_again:
  assumes "reads again" "\<And>s'. db s' = db s \<Longrightarrow> E s'"
    and "\<And>inst sub s'. one_row v nm ty h po un pw dbn cpu mem bu tls pl srv sub rm (db s) inst s' \<Longrightarrow>
      wp (k inst) (on_ok Q E) e s'"
  shows "wp (bind_app (attempt (DatabaseRepository_create v nm ty h po un pw dbn cpu mem bu tls pl srv first rm))
    (\<lambda>r. bind_app (case r of
      Inl er \<Rightarrow> bind_app again (\<lambda>sub. DatabaseRepository_create v nm ty h po un pw dbn cpu mem bu tls pl srv sub rm)
    | Inr inst \<Rightarrow> return_app inst) k)) (on_ok Q E) e s"
  by (rule wp_attempt_again [where before = "db s" and
        ins = "\<lambda>sub. DatabaseRepository_create v nm ty h po un pw dbn cpu mem bu tls pl srv sub rm" and
        R = "\<lambda>sub. one_row v nm ty h po un pw dbn cpu mem bu tls pl srv sub rm (db s)"],
      rule wp_weaken [OF wp_row]) (use assms in auto)

lemma stored_created_view:
  assumes "one_row (au_id u) nm ty h po un pw dbn cpu mem bu mode pl srv sub ''sni'' before inst s'"
    and "encrypt_string (l_cipher (lib e)) (take 12 (random_bytes e n)) password (encryption_key (cfg e)) = Inr pw"
    and "password = generate_random_string (random_index e m) 32" and "mode \<noteq> ''disabled''"
  shows "stored u (created_view inst (di_name inst) ty (di_status inst)
    (subdomain_fqdn (di_subdomain inst) (platform_domain (cfg e))) un password dbn mode cpu mem bu pl) e inst"
  using assms
  by (cases inst) (auto simp: one_row_def stored_def created_view_def database_view_def Let_def)

lemma one_row_port: "one_row v nm ty h po un pw dbn cpu mem bu tls pl srv sub rm before inst s' \<Longrightarrow> po = di_port inst"
  by (cases inst) (auto simp: one_row_def)

lemma create_database_row:
  "wp (create_database u req) (on_ok
     (\<lambda>resp s'. \<exists>inst. db s' = (db s)\<lparr>t_databases := t_databases (db s) @ [inst]\<rparr> \<and>
        di_id inst \<notin> ids di_id (t_databases (db s)) \<and> stored u resp e inst \<and>
        (\<exists>before t. spawned s' = before @ [ProvisionDatabase t] \<and> pv_db_id t = di_id inst \<and>
           pv_port t = di_port inst \<and> pv_user_id t = au_id u) \<and>
        count_rows (\<lambda>x. di_user_id x = au_id u \<and> di_status x \<noteq> Deleting) (t_databases (db s))
          < max_databases_per_user (cfg e))
     (\<lambda>s'. db s' = db s)) e s"
  unfolding create_database_def DatabaseRepository_count_by_user_def new_subdomain_def Let_def
  apply (rule wp_then_reads, (intro readsI preserves_intro)[1])
  apply (rule wp_bind_reads, (intro readsI preserves_intro)[1])
  apply (rule wp_bind_reads, (intro readsI preserves_intro)[1], drule sql_select_Inr)
  apply (rule wp_bind_reads, (intro readsI preserves_intro)[1])
  apply (rule wp_then_reads, (intro readsI preserves_intro)[1])
  apply (rule wp_bind_reads, (intro readsI preserves_intro)[1], simp only: split_paired_all prod.case)
  apply (rule wp_bind_reads, (intro readsI preserves_intro)[1])
  apply (rule wp_bind_reads, (intro readsI preserves_intro)[1])
  apply (rule wp_bind_reads, (intro readsI preserves_intro)[1])
  apply (rule wp_bind_reads, (intro readsI preserves_intro)[1])
  apply (rule wp_bind_reads, (intro readsI preserves_intro)[1])
  apply (rule wp_bind_reads, (intro readsI preserves_intro)[1])
  apply (rule wp_create_again, (intro readsI preserves_intro)[1], simp)
  apply (clarsimp simp: wp_spawn wp_return wp_bind encrypt_Inr dest!: checked_ssl_mode_Inr split: if_split_asm)
  apply (frule one_row_def [THEN iffD1])
  apply (rule exI, intro conjI, erule conjunct1, elim conjE, assumption)
  apply (rule stored_created_view, simp, assumption, rule refl, assumption)
  apply simp_all
  apply (erule one_row_port)
  done

definition crypto_laws :: "env \<Rightarrow> bool" where
  \<comment> \<open>AES-GCM, base64, UTF-8 and the generators of random numbers, as documented\<close>
  "crypto_laws e \<longleftrightarrow> (let ci = l_cipher (lib e) in
     (\<forall>k n p c. aes_encrypt ci k n p = Some c \<longrightarrow> aes_decrypt ci k n c = Some p) \<and>
     (\<forall>x. b64_decode ci (b64_encode ci x) = Some x) \<and> (\<forall>x. list_all is_ascii x \<longrightarrow> cipher.utf8_valid ci x) \<and>
     (\<forall>n. 12 \<le> length (random_bytes e n)) \<and> (\<forall>n i. random_index e n i < 62))"

lemma decrypts_back:
  assumes "\<And>k n p c. aes_encrypt ci k n p = Some c \<Longrightarrow> aes_decrypt ci k n c = Some p"
    and "\<And>x. b64_decode ci (b64_encode ci x) = Some x"
    and "length nonce = 12" and "cipher.utf8_valid ci plaintext"
    and "encrypt_string ci nonce plaintext key_hex = Inr secret"
  shows "decrypt_string ci secret key_hex = Inr plaintext"
  using assms(3-)
  by (auto simp: encrypt_string_def decrypt_string_def assms(1,2) split: sum.splits option.splits if_splits)

lemma stored_password_decrypts:
  assumes "stored u resp e inst" "crypto_laws e"
  shows "decrypt (di_password_encrypted inst) e s = (Inr (dr_password resp), s)"
proof -
  obtain n m where enc: "encrypt_string (l_cipher (lib e)) (take 12 (random_bytes e n)) (dr_password resp)
      (encryption_key (cfg e)) = Inr (di_password_encrypted inst)"
    and pw: "dr_password resp = generate_random_string (random_index e m) 32"
    using assms(1) by (auto simp: stored_def)
  have "is_ascii c" if "c \<in> set (dr_password resp)" for c
    using generate_random_string_chars [of "random_index e m" c 32] that pw assms(2)
    by (auto simp: crypto_laws_def Let_def ascii_class_defs is_ascii_def less_eq_char_def)
  then have "cipher.utf8_valid (l_cipher (lib e)) (dr_password resp)"
    using assms(2) by (auto simp: crypto_laws_def Let_def list_all_iff)
  then have "decrypt_string (l_cipher (lib e)) (di_password_encrypted inst) (encryption_key (cfg e)) =
      Inr (dr_password resp)"
    using assms(2) by (intro decrypts_back [OF _ _ _ _ enc]) (auto simp: crypto_laws_def Let_def)
  then show ?thesis by (simp add: decrypt_def)
qed

lemma find_appended: "k r \<notin> ids k rs \<Longrightarrow> find (\<lambda>x. k x = k r) (rs @ [r]) = Some r"
  by (induction rs) (auto simp: ids_def)

text \<open>
  C10. The quota, and an all-or-nothing answer. When \<open>create_database\<close> answers, exactly one row
  was added, in status provisioning, owned by the caller and shown by the answer, and the
  caller's databases that are not being deleted stay within \<open>MAX_DATABASES_PER_USER\<close>; when it
  fails, for whatever reason, the tables are as they were.
\<close>

theorem create_database_within_quota:
  assumes "create_database u req e s = (res, s')"
  shows "case res of
      Inl _ \<Rightarrow> db s' = db s
    | Inr resp \<Rightarrow> \<exists>inst. db s' = (db s)\<lparr>t_databases := t_databases (db s) @ [inst]\<rparr> \<and>
        di_id inst = dr_id resp \<and> di_user_id inst = au_id u \<and> di_status inst = Provisioning \<and>
        int (length (filter (\<lambda>x. di_user_id x = au_id u \<and> di_status x \<noteq> Deleting) (t_databases (db s'))))
          \<le> max_databases_per_user (cfg e)"
  using create_database_row [of u req s e, unfolded wp_def assms prod.case]
  by (auto simp: on_ok_def stored_def count_rows_def split: sum.splits)

lemma view_of_provisioned:
  "database_view cf (inst\<lparr>di_status := st, di_container_id := container, di_network_id := net,
     di_tls_cert := cert, di_updated_at := now\<rparr>) pw = (database_view cf inst pw)\<lparr>dr_status := st\<rparr>"
  by (simp add: database_view_def Let_def)

lemma stored_is_read:
  assumes "stored u resp e inst" "crypto_laws e" "db_up e (tick s)"
    and "find (\<lambda>x. di_id x = dr_id resp) (t_databases (db s)) = Some (inst\<lparr>di_status := st,
      di_container_id := container, di_network_id := net, di_tls_cert := cert, di_updated_at := now\<rparr>)"
  shows "fst (get_database u (dr_id resp) e s) = Inr (resp\<lparr>dr_status := st\<rparr>)"
proof -
  have "au_id u = di_user_id inst" "database_view (cfg e) inst (dr_password resp) = resp"
    using assms(1) by (simp_all add: stored_def)
  with assms(3,4) stored_password_decrypts [OF assms(1,2)] show ?thesis
    by (simp add: get_database_def owned_database_def DatabaseRepository_find_by_id_def bind_app_eval view_of_def
        attempt_def view_of_provisioned)
qed

text \<open>
  C9. What \<open>create_database\<close> answers can be read again: \<open>get_database\<close> by the same user returns
  the same name, address, user, password, connection URL and limits, the password decrypted from
  the row, whatever provisioning has written to the status, container, network and certificate
  of the row in the meantime; only the status it shows is the new one.
\<close>

theorem created_database_is_readable:
  assumes created: "create_database u req e s = (Inr resp, s')" and laws: "crypto_laws e"
    and row: "find (\<lambda>x. di_id x = dr_id resp) (t_databases (db s')) = Some inst"
    and later: "db_up e (tick s2)" "find (\<lambda>x. di_id x = dr_id resp) (t_databases (db s2)) =
      Some (inst\<lparr>di_status := st, di_container_id := container, di_network_id := net, di_tls_cert := cert,
        di_updated_at := now\<rparr>)"
  shows "fst (get_database u (dr_id resp) e s2) = Inr (resp\<lparr>dr_status := st\<rparr>)"
proof -
  obtain inst' where inst': "t_databases (db s') = t_databases (db s) @ [inst']" "stored u resp e inst'"
    "di_id inst' \<notin> ids di_id (t_databases (db s))"
    using create_database_row [of u req s e, unfolded wp_def created prod.case] by auto
  with row find_appended [OF inst'(3)] have inst: "stored u resp e inst" by (simp add: stored_def)
  from stored_is_read [OF this laws later] show ?thesis .
qed

section \<open>A run\<close>

definition demo_request :: create_database_request where
  "demo_request = \<lparr>cdr_name = ''shop'', cdr_db_type = Redis, cdr_plan_template_id = None,
     cdr_cpu_limit = None, cdr_memory_limit_mb = None, cdr_ssl_mode = ''require'', cdr_server_id = None\<rparr>"

lemma demo_key: "case hex_decode (replicate 64 CHR ''f'') of Inr key \<Rightarrow> length key = 32 | Inl _ \<Rightarrow> False"
  by code_simp

lemma demo_encrypt:
  "encrypt pw demo_env s = (Inr (replicate 12 CHR ''x'' @ replicate 12 CHR ''x'' @ rev pw), s\<lparr>tick := Suc (tick s)\<rparr>)"
  using demo_key
  by (simp add: encrypt_def encrypt_string_def demo_config_def demo_libraries_def toy_cipher_def demo_env_def
      next_tick_def lift_result_def return_app_def split: sum.split_asm)

lemma demo_steps:
  "CreateDatabaseRequest_validate demo_request = Inr ()"
  "fst (PortPool_allocate (PortPool_new 10000 10009)) = Inr 10000"
  by code_simp+

lemma demo_subdomain: "new_subdomain ''shop'' demo_env s = (Inr (''shop-00000000.db''), s\<lparr>tick := Suc (tick s)\<rparr>)"
proof -
  have "sanitize_subdomain ''shop'' = ''shop''" by code_simp
  then show ?thesis
    by (simp add: new_subdomain_def uuid_string_def bind_app_eval generate_subdomain_def demo_libraries_def)
qed

lemma fits_short: "length xs \<le> n \<Longrightarrow> fits n xs"
  unfolding fits_def char_count_def by (rule order_trans [OF length_filter_le])

lemma demo_request_simps:
  "cdr_name demo_request = ''shop''" "cdr_db_type demo_request = Redis" "cdr_plan_template_id demo_request = None"
  "cdr_cpu_limit demo_request = None" "cdr_memory_limit_mb demo_request = None"
  "cdr_ssl_mode demo_request = ''require''" "cdr_server_id demo_request = None"
  by (simp_all add: demo_request_def)

lemma demo_created: "\<not> isl (fst (create_database (auth_user_of (demo_user 1)) demo_request demo_env demo_state))"
proof -
  obtain pool where port: "PortPool_allocate (PortPool_new 10000 10009) = (Inr 10000, pool)"
    using demo_steps(2) by (metis prod.collapse)
  have "fits 63 ''shop''" by code_simp
  show ?thesis
    by (simp add: create_database_def demo_steps(1) checked_ssl_mode_def DatabaseRepository_count_by_user_def
        count_rows_def demo_encrypt allocate_port_def port demo_subdomain resolve_plan_def
        select_server_def DockerServerRepository_select_best_client_server_def best_client_server_def
        auth_user_of_def demo_request_simps attempt_def DatabaseRepository_create_def fits_short sql_insert_up insert_database_def demo_config_def database_fits_def fits_opt_def opt_in_def ids_def Let_def
        cong: run_frozen)
qed


lemma demo_crypto_laws: "crypto_laws demo_env"
  by (simp add: crypto_laws_def demo_libraries_def toy_cipher_def demo_env_def)

lemma create_database_within_quota_witness:
  "\<exists>resp inst. fst (create_database (auth_user_of (demo_user 1)) demo_request demo_env demo_state) = Inr resp \<and>
     t_databases (db (snd (create_database (auth_user_of (demo_user 1)) demo_request demo_env demo_state))) = [inst] \<and>
     di_id inst = dr_id resp"
  using create_database_within_quota [OF prod.collapse [symmetric], of "auth_user_of (demo_user 1)"
      demo_request demo_env demo_state] demo_created
  by (auto split: sum.split_asm)

lemma created_database_is_readable_witness:
  "\<exists>resp s'. create_database (auth_user_of (demo_user 1)) demo_request demo_env demo_state = (Inr resp, s') \<and>
     fst (get_database (auth_user_of (demo_user 1)) (dr_id resp) demo_env s') = Inr resp"
proof -
  let ?u = "auth_user_of (demo_user 1)"
  obtain resp s' where run: "create_database ?u demo_request demo_env demo_state = (Inr resp, s')"
    using demo_created by (cases "create_database ?u demo_request demo_env demo_state"; cases "fst (create_database ?u demo_request demo_env demo_state)") auto
  then obtain inst where "t_databases (db s') = [inst]" "stored ?u resp demo_env inst"
    using create_database_row [of ?u demo_request demo_state demo_env, unfolded wp_def run prod.case] by auto
  then have "fst (get_database ?u (dr_id resp) demo_env s') = Inr (resp\<lparr>dr_status := di_status inst\<rparr>)"
    by (intro created_database_is_readable [OF run demo_crypto_laws, where inst = inst and
          container = "di_container_id inst" and net = "di_network_id inst" and cert = "di_tls_cert inst" and
          now = "di_updated_at inst"]) (auto simp: stored_def)
  moreover have "resp\<lparr>dr_status := di_status inst\<rparr> = resp"
    using \<open>stored ?u resp demo_env inst\<close> by (cases resp) (simp add: stored_def database_view_def Let_def)
  ultimately show ?thesis using run by auto
qed

end
