(* ===== verification/Background.thy ===== *)
theory Background
  imports Reachability
begin

text \<open>
  The work without a client: the rounds of the loops and the spawned tasks always come to an
  end without an error, whatever fails inside, and what they leave behind.
\<close>

named_theorems settles_intro \<open>rules that an operation ends without an error\<close>

section \<open>Ending without an error\<close>

definition settles :: "'a app \<Rightarrow> bool" where
  "settles m \<longleftrightarrow> (\<forall>e s. \<exists>x s'. m e s = (Inr x, s'))"

lemma settles_effects [settles_intro]:
  "settles (return_app x)" "settles (asks f)" "settles utc_now" "settles (sleep_secs n)"
  "settles (send_event ev)" "settles (release_port port)" "settles (set_gauges g)"
  "settles (json_post url obj)" "settles (send_mail to subject body)"
  by (auto simp: settles_def return_app_def asks_def utc_now_def sleep_secs_def send_event_def
      release_port_def set_gauges_def json_post_def send_mail_def)

lemma settles_bind [settles_intro]:
  "settles m \<Longrightarrow> (\<And>x. settles (f x)) \<Longrightarrow> settles (bind_app m f)"
  unfolding settles_def bind_app_def by (auto split: prod.split sum.split) (metis prod.inject sum.distinct(1))+

lemma settles_attempt [settles_intro]: "no_panic m \<Longrightarrow> settles (attempt m)"
  unfolding settles_def by (blast intro: attempt_returns)

lemma settles_for_each [settles_intro]: "(\<And>x. settles (f x)) \<Longrightarrow> settles (for_each xs f)"
  by (induction xs) (auto intro: settles_intro)

lemma settles_branches [settles_intro]:
  "(b \<Longrightarrow> settles m) \<Longrightarrow> (\<not> b \<Longrightarrow> settles n) \<Longrightarrow> settles (if b then m else n)"
  "(\<And>x. settles (f x)) \<Longrightarrow> settles (Let v f)"
  "settles m \<Longrightarrow> (\<And>x. settles (f x)) \<Longrightarrow> settles (case opt of None \<Rightarrow> m | Some x \<Rightarrow> f x)"
  "(\<And>x. settles (f x)) \<Longrightarrow> (\<And>y. settles (k y)) \<Longrightarrow> settles (case w of Inl x \<Rightarrow> f x | Inr y \<Rightarrow> k y)"
  "(\<And>x y. settles (h x y)) \<Longrightarrow> settles (case p of (x, y) \<Rightarrow> h x y)"
  by (auto split: option.split sum.split prod.split)

lemma writes_calm [no_panic_intro]:
  "no_panic (BillingRepository_record_usage_event a1 a2 a3 a4 a5)"
  "no_panic (DatabaseRepository_update_status b1 b2)"
  "no_panic (DatabaseRepository_update_provisioned c1 c2 c3 c4)"
  "no_panic (DatabaseRepository_update_bundle_network d1 d2)"
  "no_panic (DatabaseRepository_delete f1)"
  "no_panic (DatabaseRepository_create_backup g1 g2 g3)" "no_panic (DatabaseRepository_delete_backup h1)"
  "no_panic (BackupScheduleRepository_update_last_run i1)"
  "no_panic (PrivateNetworkRepository_update_peering_status j1 j2)"
  "no_panic (PrivateNetworkRepository_update_peering_bridge k1 k2)"
  "no_panic (AlertRepository_insert_history l1 l2 l3)"
  "no_panic (AuditRepository_insert m1 m2 m3 m4 m5 m6)"
  unfolding BillingRepository_record_usage_event_def DatabaseRepository_update_status_def
    DatabaseRepository_update_provisioned_def DatabaseRepository_update_bundle_network_def
    DatabaseRepository_delete_def DatabaseRepository_create_backup_def DatabaseRepository_delete_backup_def
    BackupScheduleRepository_update_last_run_def PrivateNetworkRepository_update_peering_status_def
    PrivateNetworkRepository_update_peering_bridge_def AlertRepository_insert_history_def
    AuditRepository_insert_def Let_def
  by (intro no_panic_intro)+

lemma billing_writes_calm [no_panic_intro]:
  "no_panic (BillingRepository_create_billing_period a1 a2 a3 a4)"
  "no_panic (BillingRepository_add_line_item b1 b2 b3 b4 b5)"
  "no_panic (BillingRepository_update_period_status c1 c2 c3)"
  unfolding BillingRepository_create_billing_period_def BillingRepository_add_line_item_def
    BillingRepository_update_period_status_def Let_def
  by (intro no_panic_intro)+

lemma fetch_one_calm [no_panic_intro]: "no_panic (fetch_one v)"
  by (cases v) (simp_all add: fetch_one_def no_panic_control)

lemma monthly_billing_calm [no_panic_intro]: "no_panic (BillingService_run_monthly_billing key)"
  unfolding BillingService_run_monthly_billing_def BillingService_generate_monthly_invoice_def
    BillingService_create_stripe_invoice_def invoice_step_def Let_def
  by (intro no_panic_intro handlers_calm)

lemma provision_calm [no_panic_intro]:
  "no_panic (provision_database t)" "no_panic (provision_bundle i pg redis)"
  unfolding provision_database_def provision_bundle_def record_start_def mark_provisioned_def Let_def
  by (intro no_panic_intro handlers_calm)+

lemma task_parts_settle [settles_intro]:
  "settles (mark_failed t)" "settles (set_peering_status i status)" "settles (docker_or_local sid)"
  "settles (remove_instance target inst)" "settles (timestamped suffix)"
  unfolding mark_failed_def set_peering_status_def docker_or_local_def remove_instance_def timestamped_def
  by (intro settles_intro no_panic_intro)+

lemma backup_settles [settles_intro]:
  "settles (cleanup_old_backups i n dir)"
  unfolding cleanup_old_backups_def by (intro settles_intro no_panic_intro)

lemma scheduled_backup_settles [settles_intro]: "settles (scheduled_backup schedule)"
  unfolding scheduled_backup_def Let_def by (intro settles_intro no_panic_intro)

lemma fire_alert_settles [settles_intro]: "settles (fire_alert rule message)"
  unfolding fire_alert_def send_webhook_def send_email_def by (intro settles_intro no_panic_intro)

lemma check_rule_settles [settles_intro]: "settles (check_rule rule inst container target)"
  unfolding check_rule_def by (intro settles_intro no_panic_intro)

lemma refresh_gauge_settles [settles_intro]: "no_panic query \<Longrightarrow> settles (refresh_gauge query f)"
  unfolding refresh_gauge_def by (intro settles_intro)

lemma attach_members_settles [settles_intro]: "settles (attach_members target bridge net)"
  unfolding attach_members_def with_container_def by (intro settles_intro no_panic_intro)

lemma clone_parts_settle [settles_intro]:
  "settles (find_server_or_none sid)" "settles (docker_or_fallback target)"
  unfolding find_server_or_none_def docker_or_fallback_def with_docker_def
  by (intro settles_intro no_panic_intro)+

lemma tasks_settle:
  "settles (run_provision_database t)" "settles (run_provision_bundle i pg redis)"
  "settles (run_cleanup_database inst target announce)" "settles (run_clone_database ct)"
  "settles (run_activate_peering i sid a b)" "settles (run_write_audit v act ty i_opt details ip)"
  unfolding run_provision_database_def run_provision_bundle_def run_cleanup_database_def
    run_clone_database_def run_activate_peering_def run_write_audit_def Let_def
  by (intro settles_intro no_panic_intro)+

lemma rounds_settle:
  "settles (billing_round last_run)" "settles metrics_round" "settles backup_round" "settles alert_round"
  unfolding billing_round_def metrics_round_def backup_round_def alert_round_def
    BackupService_run_scheduled_backups_def check_container_health_def check_rule_target_def
    refresh_platform_metrics_def Let_def
  by (intro settles_intro no_panic_intro)+

lemma run_task_settles: "settles (run_task t)"
  by (cases t) (simp_all only: run_task.simps tasks_settle)


end
