(* ===== verification/Provisioning.thy ===== *)
theory Provisioning
  imports Background
begin

text \<open>
  What the task that provisions a database leaves behind: the row is running with its
  container, or in error with its port back in the pool, and the owner's event says which.
\<close>

named_theorems quiet_intro \<open>rules that an operation leaves tables and ports alone\<close>

section \<open>Operations that leave tables and ports alone\<close>

definition quiet :: "'a app \<Rightarrow> bool" where
  "quiet m \<longleftrightarrow> (\<forall>e s. db (snd (m e s)) = db s \<and> ports (snd (m e s)) = ports s)"

lemma quietD: "quiet m \<Longrightarrow> m e s = (r, s') \<Longrightarrow> db s' = db s \<and> ports s' = ports s"
  unfolding quiet_def by (metis snd_conv)

lemma quietI: "(\<And>e s r s'. m e s = (r, s') \<Longrightarrow> db s' = db s \<and> ports s' = ports s) \<Longrightarrow> quiet m"
  unfolding quiet_def by (metis prod.collapse)

lemma quiet_effects [quiet_intro]:
  "quiet (return_app x)" "quiet (throw er)" "quiet (asks f)" "quiet utc_now" "quiet (require p er)"
  "quiet (ok_or v er)" "quiet (lift_result r)" "quiet (docker_request c call)" "quiet (sleep_secs n)"
  "quiet (fs_effect msg g)" "quiet (fs_create_dir_all dir msg)" "quiet (fs_write path data msg)"
  "quiet (fs_read path er)" "quiet (fs_exists path)" "quiet (connect_docker c msg)"
  "quiet (\<lambda>e s. lift_result (h e s) e (next_tick e s))" "quiet (send_event ev)"
  by (auto simp: quiet_def require_def ok_or_def docker_request_def sleep_secs_def fs_effect_def
      fs_create_dir_all_def fs_write_def fs_read_def fs_exists_def connect_docker_def lift_result_def
      send_event_def utc_now_def asks_def return_app_def throw_def Let_def split: option.split sum.split)

lemma quiet_bind [quiet_intro]: "quiet m \<Longrightarrow> (\<And>x. quiet (f x)) \<Longrightarrow> quiet (bind_app m f)"
  by (rule quietI) (fastforce simp: bind_app_def dest: quietD split: prod.split_asm sum.split_asm)

lemma quiet_attempt [quiet_intro]: "quiet m \<Longrightarrow> quiet (attempt m)"
  by (rule quietI) (fastforce simp: attempt_def dest: quietD split: prod.split_asm sum.split_asm fault.split_asm)

lemma quiet_branches [quiet_intro]:
  "(b \<Longrightarrow> quiet m) \<Longrightarrow> (\<not> b \<Longrightarrow> quiet n) \<Longrightarrow> quiet (if b then m else n)"
  "quiet m \<Longrightarrow> (\<And>x. quiet (f x)) \<Longrightarrow> quiet (case opt of None \<Rightarrow> m | Some x \<Rightarrow> f x)"
  "(\<And>x. quiet (f x)) \<Longrightarrow> (\<And>y. quiet (k y)) \<Longrightarrow> quiet (case w of Inl x \<Rightarrow> f x | Inr y \<Rightarrow> k y)"
  "(\<And>x y. quiet (h x y)) \<Longrightarrow> quiet (case p of (x, y) \<Rightarrow> h x y)"
  "quiet a \<Longrightarrow> quiet b' \<Longrightarrow> quiet c \<Longrightarrow> quiet (case ty of Postgresql \<Rightarrow> a | Redis \<Rightarrow> b' | Mariadb \<Rightarrow> c)"
  "quiet a \<Longrightarrow> quiet c \<Longrightarrow> quiet (case bl of True \<Rightarrow> a | False \<Rightarrow> c)"
  by (auto split: option.split sum.split prod.split db_type.split bool.split)

lemma quiet_with_docker [quiet_intro]: "(\<And>c. quiet (f c)) \<Longrightarrow> quiet (with_docker target f)"
  unfolding with_docker_def by (intro quiet_intro)

lemma quiet_wait_loop: "wait_loop c i t dl e s = (r, s') \<Longrightarrow> db s' = db s \<and> ports s' = ports s"
proof (induction c i t dl e s arbitrary: r s' rule: wait_loop.induct)
  case (1 c i t dl e s)
  have slept: "db (snd (sleep_secs 2 e x)) = db x" "ports (snd (sleep_secs 2 e x)) = ports x" for x
    by (simp_all add: sleep_secs_def)
  show ?case
    using "1.prems" quietD [OF quiet_effects(8)]
    by (subst (asm) wait_loop.simps)
      (fastforce simp: slept dest: "1.IH" split: if_split_asm prod.split_asm sum.split_asm health_verdict.split_asm)
qed

lemma provisioner_quiet [quiet_intro]:
  "quiet (wait_for_healthy c i t)" "quiet (ensure_image c img tag)" "quiet (create_container c n body)"
  "quiet (create_network_with_opts c n internal)" "quiet (ensure_proxy_network target)"
  "quiet (connect_to_proxy_network target i n)" "quiet (pem_dir_for_server srv)" "quiet (write_pem_file pem path)"
  unfolding wait_for_healthy_def ensure_image_def create_container_def create_network_with_opts_def
    ensure_proxy_network_def connect_to_proxy_network_def pem_dir_for_server_def write_pem_file_def Let_def
  by (intro quiet_intro; (rule quietI, erule quiet_wait_loop)?)+

lemma creation_quiet [quiet_intro]:
  "quiet (connect_to_server srv)" "quiet (create_postgres_container a1 a2 a3 a4 a5 a6 a7 a8 a9 a10)"
  "quiet (create_redis_container b1 b2 b3 b4 b5 b6 b7 b8)"
  "quiet (create_mariadb_container c1 c2 c3 c4 c5 c6 c7 c8 c9 c10)"
  "quiet (create_postgres_container_sni d1 d2 d3 d4 d5 d6 d7 d8)"
  "quiet (create_redis_container_sni f1 f2 f3 f4 f5 f6)"
  "quiet (create_mariadb_container_sni g1 g2 g3 g4 g5 g6 g7 g8)"
  unfolding connect_to_server_def create_postgres_container_def create_redis_container_def
    create_mariadb_container_def create_postgres_container_sni_def create_redis_container_sni_def
    create_mariadb_container_sni_def Let_def
  by (intro quiet_intro)+

lemma preparation_quiet [quiet_intro]:
  "quiet (create_database_sni a1 a2 a3 a4 a5 a6 a7 a8 a9 a10 a11)" "quiet (issue_cert nm alts)"
  "quiet (write_certs dir i cert key)"
  unfolding create_database_sni_def issue_cert_def write_certs_def Let_def by (intro quiet_intro)+

lemma steps_quiet [quiet_intro]:
  "quiet (connect_optional srv)" "quiet (TlsService_generate_cert_for_subdomain fqdn)"
  "quiet (create_container_of target t)" "quiet (docker_or_fallback target)" "quiet (route_database t res cert)"
  unfolding connect_optional_def TlsService_generate_cert_for_subdomain_def create_container_of_def
    docker_or_fallback_def route_database_def TraefikService_generate_sni_config_def Let_def
  by (intro quiet_intro)+

lemma wp_quiet_bind:
  assumes "quiet m" "\<And>s1. db s1 = db s \<Longrightarrow> ports s1 = ports s \<Longrightarrow> E s1"
    "\<And>x s1. db s1 = db s \<Longrightarrow> ports s1 = ports s \<Longrightarrow> wp (f x) (on_ok Q E) e s1"
  shows "wp (bind_app m f) (on_ok Q E) e s"
  using quietD [OF assms(1)] assms(2,3)
  by (intro wp_bind_ok; cases "m e s") (auto simp: wp_def on_ok_def split: sum.split)

section \<open>The task\<close>

abbreviation row_of :: "uuid \<Rightarrow> app_state \<Rightarrow> database_instance option" where
  "row_of i s \<equiv> find (\<lambda>x. di_id x = i) (t_databases (db s))"

lemma find_update_where:
  "(\<And>x. k (f x) = k x) \<Longrightarrow>
   find (\<lambda>x. k x = i) (update_where (\<lambda>x. k x = i) f rs) = map_option f (find (\<lambda>x. k x = i) rs)"
  by (induction rs) (auto simp: update_where_def)

definition provisioned :: "database_instance \<Rightarrow> database_instance \<Rightarrow> bool" where
  \<comment> \<open>what a successful task makes of the row\<close>
  "provisioned inst inst' \<longleftrightarrow> (\<exists>container net cert now. inst' = inst\<lparr>di_status := Running,
     di_container_id := Some container, di_network_id := net, di_tls_cert := cert, di_updated_at := now\<rparr>)"

definition failed :: "database_instance \<Rightarrow> database_instance \<Rightarrow> bool" where
  "failed inst inst' \<longleftrightarrow> (\<exists>now. inst' = inst\<lparr>di_status := Error, di_updated_at := now\<rparr>)"

lemma settled_rows:
  "provisioned inst (inst\<lparr>di_container_id := Some container, di_network_id := net, di_tls_cert := cert,
     di_status := Running, di_updated_at := now\<rparr>)"
  "failed inst (inst\<lparr>di_status := Error, di_updated_at := now\<rparr>)"
  "provisioned inst inst' \<Longrightarrow> di_status inst' = Running"
  "failed inst inst' \<Longrightarrow> di_status inst' = Error"
  by (cases inst, auto simp: provisioned_def failed_def)+

lemma mark_provisioned_wp:
  assumes "row_of (pv_db_id t) s = Some inst"
  shows "wp (mark_provisioned t res cert)
    (on_ok (\<lambda>_ s'. (\<exists>inst'. row_of (pv_db_id t) s' = Some inst' \<and> provisioned inst inst') \<and> ports s' = ports s)
      (\<lambda>s'. db s' = db s \<and> ports s' = ports s)) e s"
  using assms
  by (cases "db_up e (tick s)")
     (auto simp: mark_provisioned_def DatabaseRepository_update_provisioned_def wp_def sql_update_up
        find_update_where next_tick_def settled_rows)

lemma record_start_wp:
  "wp (record_start t) (on_ok (\<lambda>_ s'. t_databases (db s') = t_databases (db s) \<and> ports s' = ports s) (\<lambda>_. False)) e s"
  by (cases "db_up e (tick s)")
     (auto simp: record_start_def BillingRepository_record_usage_event_def wp_def attempt_def bind_app_def
        sql_insert_up insert_usage_event_def next_tick_def Let_def split: sum.split)

lemma provision_database_wp:
  assumes "row_of (pv_db_id t) s = Some inst"
  shows "wp (provision_database t)
    (on_ok (\<lambda>_ s'. (\<exists>inst'. row_of (pv_db_id t) s' = Some inst' \<and> provisioned inst inst') \<and> ports s' = ports s \<and>
        last (events s') = status_event (pv_user_id t) (pv_db_id t) Running)
      (\<lambda>s'. db s' = db s \<and> ports s' = ports s)) e s"
  unfolding provision_database_def
  by ((rule wp_quiet_bind, (intro quiet_intro)[1], simp)+,
      rule wp_bind_ok, rule wp_mono [OF mark_provisioned_wp])
     (auto simp: assms on_ok_def wp_send_event split: sum.splits
       intro!: wp_bind_ok wp_mono [OF record_start_wp])

lemma mark_failed_wp:
  assumes "db_up e (tick s)" "row_of (pv_db_id t) s = Some inst"
  shows "wp (mark_failed t) (on_ok (\<lambda>_ s'. (\<exists>inst'. row_of (pv_db_id t) s' = Some inst' \<and> failed inst inst') \<and>
      ports s' = ports s) (\<lambda>_. False)) e s"
  using assms
  by (auto simp: mark_failed_def DatabaseRepository_update_status_def wp_def attempt_def bind_app_def
      find_update_where next_tick_def settled_rows)

lemma run_provision_database_outcome:
  assumes "run_provision_database t e s = (res, s')" "\<And>n. db_up e n" "row_of (pv_db_id t) s = Some inst"
  shows "res = Inr () \<and> (\<exists>inst'. row_of (pv_db_id t) s' = Some inst' \<and>
      (provisioned inst inst' \<and> ports s' = ports s \<or>
       failed inst inst' \<and> ports s' = PortPool_release (as_u16 (pv_port t)) (ports s)) \<and>
      last (events s') = status_event (pv_user_id t) (pv_db_id t) (di_status inst'))"
proof -
  obtain r s1 where run: "provision_database t e s = (r, s1)" by (cases "provision_database t e s")
  note outcome = provision_database_wp [OF assms(3), of e, unfolded wp_def run prod.case]
  show ?thesis
  proof (cases r)
    case (Inr x)
    with assms(1) run outcome show ?thesis
      by (auto simp: run_provision_database_def bind_app_def attempt_def settled_rows)
  next
    case (Inl er)
    with run have "er \<noteq> Panic" using no_panicD [OF provision_calm(1)] by blast
    then obtain err where er: "er = Err err" by (cases er) auto
    have row: "row_of (pv_db_id t) s1 = Some inst" "ports s1 = ports s"
      using outcome Inl assms(3) by simp_all
    from mark_failed_wp [OF assms(2) this(1)] obtain s2 where "mark_failed t e s1 = (Inr (), s2)"
      "\<exists>inst'. row_of (pv_db_id t) s2 = Some inst' \<and> failed inst inst'" "ports s2 = ports s1"
      by (auto simp: wp_def on_ok_def split: prod.split_asm sum.split_asm)
    with assms(1) run Inl er row show ?thesis
      by (auto simp: run_provision_database_def bind_app_def attempt_def send_event_def release_port_def settled_rows)
  qed
qed


definition demo_database :: "uuid \<Rightarrow> uuid \<Rightarrow> db_status \<Rightarrow> database_instance" where
  \<comment> \<open>with this id and owner\<close>
  "demo_database i u st = \<lparr>di_id = i, di_user_id = u, di_name = ''db'' @ nat_to_string i,
     di_db_type = Redis, di_status = st, di_container_id = None, di_network_id = None,
     di_host = ''example.com'', di_port = 10003, di_username = ''default'', di_password_encrypted = ''x'',
     di_database_name = None, di_tls_cert = None, di_cpu_limit = 1, di_memory_limit_mb = 256,
     di_bundle_id = None, di_tls_mode = ''require'', di_plan_template_id = None,
     di_subdomain = ''db'' @ nat_to_string i, di_routing_mode = ''sni'', di_docker_server_id = None,
     di_created_at = 0, di_updated_at = 0\<rparr>"

definition demo_task :: provision_task where
  "demo_task = \<lparr>pv_server = None, pv_db_id = 7, pv_db_type = Redis, pv_username = ''default'',
     pv_password = ''pw'', pv_db_name = None, pv_cpu_limit = 1, pv_memory_limit_mb = 256, pv_port = 10003,
     pv_fqdn = ''db7.db.example.com'', pv_user_id = 1, pv_name = ''db7'', pv_plan_id = None\<rparr>"


end
