(* ===== verification/Deployment.thy ===== *)
theory Deployment
  imports Creation Provisioning
begin

text \<open>
  From the request to the running database: \<open>create_database\<close>, the task it spawns, and the
  answer its owner gets afterwards.
\<close>

lemma created_row:
  assumes "create_database u req e s = (Inr resp, s1)"
  obtains inst before t where "row_of (dr_id resp) s1 = Some inst" "stored u resp e inst"
    "spawned s1 = before @ [ProvisionDatabase t]" "pv_db_id t = dr_id resp" "pv_user_id t = au_id u"
proof -
  obtain inst where inst: "t_databases (db s1) = t_databases (db s) @ [inst]" "stored u resp e inst"
    "di_id inst \<notin> ids di_id (t_databases (db s))"
    "\<exists>before t. spawned s1 = before @ [ProvisionDatabase t] \<and> pv_db_id t = di_id inst \<and> pv_user_id t = au_id u"
    using create_database_row [of u req s e, unfolded wp_def assms prod.case] by fastforce
  moreover have "row_of (dr_id resp) s1 = Some inst"
    using inst(1,2) find_appended [OF inst(3)] by (simp add: stored_def)
  moreover have "di_id inst = dr_id resp" using inst(2) by (simp add: stored_def)
  ultimately show thesis using that by metis
qed

text \<open>
  C6. From the request to the database. When \<open>create_database\<close> answers, it has spawned the task
  that provisions the row it added. Run next, while PostgreSQL answers and whatever Docker, the
  file system and the certificate authority do, the task ends, the last event tells the owner
  how, and \<open>get_database\<close> then returns the very answer of \<open>create_database\<close>, password and connection
  URL included, with the status running or error of that event.
\<close>

theorem created_database_settles:
  assumes "create_database u req e s = (Inr resp, s1)" "crypto_laws e" "\<And>n. db_up e n"
  shows "\<exists>before t. spawned s1 = before @ [ProvisionDatabase t] \<and>
    (let (res, s2) = run_task (ProvisionDatabase t) e (s1\<lparr>spawned := before\<rparr>) in
       res = Inr () \<and> (\<exists>st \<in> {Running, Error}.
         last (events s2) = status_event (au_id u) (dr_id resp) st \<and>
         fst (get_database u (dr_id resp) e s2) = Inr (resp\<lparr>dr_status := st\<rparr>)))"
proof -
  from assms(1) obtain inst before t where created: "row_of (dr_id resp) s1 = Some inst" "stored u resp e inst"
    "spawned s1 = before @ [ProvisionDatabase t]" "pv_db_id t = dr_id resp" "pv_user_id t = au_id u"
    by (rule created_row)
  obtain res s2 where run: "run_provision_database t e (s1\<lparr>spawned := before\<rparr>) = (res, s2)"
    by (cases rule: prod.exhaust)
  obtain inst' where settled: "res = Inr ()" "row_of (dr_id resp) s2 = Some inst'"
      "provisioned inst inst' \<or> failed inst inst'"
      "last (events s2) = status_event (au_id u) (dr_id resp) (di_status inst')"
    using run_provision_database_outcome [OF run assms(3), of inst] created by auto
  have read: "fst (get_database u (dr_id resp) e s2) = Inr (resp\<lparr>dr_status := di_status inst'\<rparr>)"
  proof (rule stored_is_read [OF created(2) assms(2,3)])
    have "inst' = inst\<lparr>di_status := di_status inst', di_container_id := di_container_id inst',
        di_network_id := di_network_id inst', di_tls_cert := di_tls_cert inst', di_updated_at := di_updated_at inst'\<rparr>"
      using settled(3) by (cases inst) (auto simp: provisioned_def failed_def)
    with settled(2) show "row_of (dr_id resp) s2 = Some (inst\<lparr>di_status := di_status inst',
        di_container_id := di_container_id inst', di_network_id := di_network_id inst',
        di_tls_cert := di_tls_cert inst', di_updated_at := di_updated_at inst'\<rparr>)" by simp
  qed
  have "di_status inst' \<in> {Running, Error}" using settled(3) settled_rows(3,4) by blast
  with created(3) run settled(1,4) read show ?thesis by (auto simp: Let_def)
qed

lemma created_database_settles_witness:
  "\<exists>resp s1 before t. create_database (auth_user_of (demo_user 1)) demo_request demo_env demo_state = (Inr resp, s1) \<and>
     spawned s1 = before @ [ProvisionDatabase t] \<and>
     fst (run_task (ProvisionDatabase t) demo_env (s1\<lparr>spawned := before\<rparr>)) = Inr ()"
proof -
  let ?run = "create_database (auth_user_of (demo_user 1)) demo_request demo_env demo_state"
  obtain resp s1 where run: "?run = (Inr resp, s1)"
    using demo_created by (cases ?run; cases "fst ?run") auto
  from created_database_settles [OF this demo_crypto_laws] show ?thesis
    using run by (fastforce simp: Let_def split: prod.split_asm)
qed

end
