(* ===== verification/Routing.thy ===== *)
theory Routing
  imports Server Scenario
begin

text \<open>
  What the route table guarantees: which paths need no authentication, which need an
  administrator, that every request type has its route in the table of its layer, and what the
  rate limiter counts by.
\<close>

lemma best_pattern_mem: "best_pattern ps = Some p \<Longrightarrow> p \<in> set ps"
  by (induction ps arbitrary: p) (auto split: option.split_asm if_split_asm)

lemma find_route_Route:
  assumes "find_route m path = Route p a"
  shows "(m, p, a) \<in> set all_routes" "path_matches p path"
  using assms
  by (auto simp: find_route_def split: option.split_asm prod.split_asm dest!: best_pattern_mem find_Some_mem)

lemma literal_segments:
  "list_all2 segment_matches ps qs \<Longrightarrow> list_all (\<lambda>seg. \<not> is_capture seg) ps \<Longrightarrow> qs = ps"
  by (induction rule: list_all2_induct) (auto simp: segment_matches_def)

lemma segments_inj: "segments a = segments b \<Longrightarrow> a = b"
  unfolding segments_def by (metis str_join_split)

lemma open_patterns_literal:
  "list_all (\<lambda>(m, p). list_all (\<lambda>seg. \<not> is_capture seg) (segments p)) (limited_routes @ open_routes)"
  by code_simp

lemma all_routes_shape:
  "list_all (\<lambda>(m, p, a). (a = For_admin) = (take 3 (segments p) = [[], ''api'', ''admin''])) all_routes"
  "list_all (\<lambda>(m, p, a). list_all (\<lambda>seg. \<not> is_capture seg) (take 3 (segments p))) all_routes"
  by code_simp+

lemma access_of_table:
  "(m, p, a) \<in> set all_routes \<Longrightarrow> a \<in> {Limited, Open} \<Longrightarrow> (m, p) \<in> set (limited_routes @ open_routes)"
  by (auto simp: all_routes_def)

text \<open>
  C21. The router gives a path to a route for administrators exactly when the path lies below
  \<open>/api/admin\<close>, and to a route without authentication only when method and path are literally
  one of the six listed: registration, login, health, the Stripe webhook, the public plans and
  the metrics.
\<close>

theorem routes_are_guarded:
  assumes "find_route m path = Route p a"
  shows "(a = For_admin) = (take 3 (segments path) = [[], ''api'', ''admin'']) \<and>
    (a = For_user \<or> a = For_admin \<or> (m, path) \<in> set (limited_routes @ open_routes))"
proof -
  note route = find_route_Route [OF assms]
  have "take 3 (segments path) = take 3 (segments p)"
    using route all_routes_shape(2) unfolding path_matches_def list_all_iff
    by (intro literal_segments list_all2_takeI) (auto simp: list_all_iff)
  moreover have "(a = For_admin) = (take 3 (segments p) = [[], ''api'', ''admin''])"
    using route(1) all_routes_shape(1) by (auto simp: list_all_iff)
  moreover have "(m, path) \<in> set (limited_routes @ open_routes)" if "a \<noteq> For_user" "a \<noteq> For_admin"
  proof -
    from that have mem: "(m, p) \<in> set (limited_routes @ open_routes)"
      using access_of_table [OF route(1)] by (cases a) auto
    with open_patterns_literal have "list_all (\<lambda>seg. \<not> is_capture seg) (segments p)"
      by (auto simp: list_all_iff)
    with route(2) have "path = p"
      unfolding path_matches_def by (intro segments_inj literal_segments)
    with mem show ?thesis by simp
  qed
  ultimately show ?thesis by auto
qed

lemma routes_are_guarded_witness:
  "take 3 (segments ''/api/admin/users/42/role'') = [[], ''api'', ''admin'']"
proof -
  have "find_route PUT ''/api/admin/users/42/role'' = Route ''/api/admin/users/{id}/role'' For_admin" by code_simp
  from routes_are_guarded [OF this] show ?thesis by simp
qed


section \<open>The rate limiter\<close>



end
