(* ===== verification/Outcomes.thy ===== *)
theory Outcomes
  imports Provisioning
begin

text \<open>
  What the services leave behind: the backups that retention keeps, the files of the proxy, the
  port pool after a start, and the addresses the check of a webhook lets through.
\<close>

section \<open>Retention of backups\<close>

definition newest_backups :: "uuid \<Rightarrow> pg \<Rightarrow> backup_record list" where
  "newest_backups i d = newest_first br_created_at (filter (\<lambda>b. br_database_id b = i) (t_backups d))"

lemma attempt_Inr: "m e s = (Inr x, s') \<Longrightarrow> attempt m e s = (Inr (Inr x), s')"
  by (simp add: attempt_def)

lemma ignored_removal: "bind_app (attempt (fs_remove_file path [])) f e s =
   f (if fs_ok e (tick s) then Inr () else Inl (Internal [])) e
     (if fs_ok e (tick s) then (next_tick e s)\<lparr>files := (files s)(path := None)\<rparr> else next_tick e s)"
  by (simp add: attempt_def bind_app_def fs_remove_file_def fs_effect_def)

definition drop_backup :: "string \<Rightarrow> backup_record \<Rightarrow> unit app" where
  \<comment> \<open>one round of the loop of \<open>cleanup_old_backups\<close>\<close>
  "drop_backup dir b = ignore (fs_remove_file (dir @ ''/'' @ br_filename b) [])
     (ignore (DatabaseRepository_delete_backup (br_id b)) (return_app ()))"

lemma drop_backup_run:
  assumes "\<And>n. db_up e n"
  shows "\<exists>s1. drop_backup dir b e s = (Inr (), s1) \<and>
    db s1 = (db s)\<lparr>t_backups := delete_where (\<lambda>x. br_id x = br_id b) (t_backups (db s))\<rparr>"
proof -
  have "attempt (DatabaseRepository_delete_backup (br_id b)) e s = (Inr (Inr ()),
      (next_tick e s)\<lparr>db := (db s)\<lparr>t_backups := delete_where (\<lambda>x. br_id x = br_id b) (t_backups (db s))\<rparr>\<rparr>)" for s
    by (rule attempt_Inr) (simp add: DatabaseRepository_delete_backup_def assms)
  then show ?thesis unfolding drop_backup_def ignored_removal by (simp add: bind_app_def)
qed

lemma drop_backups_run:
  assumes "\<And>n. db_up e n"
  shows "\<exists>s'. for_each old (drop_backup dir) e s = (Inr (), s') \<and>
      db s' = (db s)\<lparr>t_backups := filter (\<lambda>b. br_id b \<notin> br_id ` set old) (t_backups (db s))\<rparr>"
proof (induction old arbitrary: s)
  case (Cons b old)
  obtain s1 where s1: "drop_backup dir b e s = (Inr (), s1)"
    "db s1 = (db s)\<lparr>t_backups := delete_where (\<lambda>x. br_id x = br_id b) (t_backups (db s))\<rparr>"
    using drop_backup_run [OF assms] by blast
  obtain s2 where s2: "for_each old (drop_backup dir) e s1 = (Inr (), s2)"
    "db s2 = (db s1)\<lparr>t_backups := filter (\<lambda>b. br_id b \<notin> br_id ` set old) (t_backups (db s1))\<rparr>"
    using Cons.IH [of s1] by blast
  have "filter (\<lambda>b. br_id b \<notin> br_id ` set old) (delete_where (\<lambda>x. br_id x = br_id b) (t_backups (db s))) =
      filter (\<lambda>x. br_id x \<notin> br_id ` set (b # old)) (t_backups (db s))"
    by (auto simp: delete_where_def intro: filter_cong)
  with s1 s2 show ?case by simp
qed simp


definition demo_backup :: "uuid \<Rightarrow> time \<Rightarrow> backup_record" where
  "demo_backup i t = \<lparr>br_id = i, br_database_id = 7, br_filename = ''f'', br_size_bytes = 1, br_created_at = t\<rparr>"


section \<open>Routes of the proxy\<close>

lemma path_join_last: "name \<noteq> [] \<Longrightarrow> last (path_join dir name) = last name"
  by (simp add: path_join_def)

lemma fs_write_Inr: "fs_write path data msg e s = (Inr x, s') \<longleftrightarrow>
    fs_ok e (tick s) \<and> s' = (next_tick e s)\<lparr>files := (files s)(path \<mapsto> data)\<rparr>"
  by (auto simp: fs_write_def fs_effect_def)



section \<open>Ports after a restart\<close>

lemma load_port_pool_run:
  assumes "\<And>n. db_up e n"
  shows "load_port_pool e s = (Inr (), (next_tick e s)\<lparr>ports :=
    PortPool_load_allocated (PortPool_new (port_range_start (cfg e)) (port_range_end (cfg e)))
      (map di_port (filter (\<lambda>x. di_status x \<noteq> Deleting) (t_databases (db s))))\<rparr>)"
  by (simp add: load_port_pool_def DatabaseRepository_get_allocated_ports_def attempt_def bind_app_def assms)

lemma start_up_ports:
  assumes "start_up e s = (Inr (), s')" "\<And>n. db_up e n"
  shows "t_databases (db s') = t_databases (db s)"
    "ports s' = PortPool_load_allocated (PortPool_new (port_range_start (cfg e)) (port_range_end (cfg e)))
      (map di_port (filter (\<lambda>x. di_status x \<noteq> Deleting) (t_databases (db s'))))"
proof -
  have "reads load_port_pool"
    unfolding load_port_pool_def by (rule readsI, intro preserves_intro) (simp add: preserves_def)
  then have "keeps_db P load_port_pool" for P by (simp add: reads_def preserves_def)
  then have "reads start_up"
    unfolding start_up_def expect_app_def by (intro readsI preserves_intro)
  from readsD [OF this assms(1)] show "t_databases (db s') = t_databases (db s)" by simp
  show "ports s' = PortPool_load_allocated (PortPool_new (port_range_start (cfg e)) (port_range_end (cfg e)))
      (map di_port (filter (\<lambda>x. di_status x \<noteq> Deleting) (t_databases (db s'))))"
    using assms(1) by (auto simp: start_up_def bind_Inr_iff load_port_pool_run assms(2))
qed

text \<open>
  C19. After a start at which PostgreSQL answers, the first port the pool hands out is held by no
  database of the tables, those being deleted apart.
\<close>

theorem started_pool_avoids_stored_ports:
  assumes "start_up e s = (Inr (), s')" "\<And>n. db_up e n"
    and "PortPool_allocate (ports s') = (Inr p, pool')"
    and "x \<in> set (t_databases (db s'))" "di_status x \<noteq> Deleting"
  shows "di_port x \<noteq> u16_as_i32 p"
proof
  assume port: "di_port x = u16_as_i32 p"
  have "u16_try_from (di_port x) = Some p"
    using port unsigned_less [of p, where ?'a = int] by (auto simp: u16_try_from_def u16_as_i32_def)
  then have "p \<in> pp_allocated (ports s')"
    using assms(4,5) start_up_ports(2) [OF assms(1,2)] by (auto simp: PortPool_load_allocated_set)
  with assms(3) show False by (cases rule: PortPool_allocate_cases [of "ports s'"]) auto
qed

lemma started_pool_avoids_stored_ports_witness:
  "\<exists>s'. start_up demo_env (demo_state\<lparr>db := demo_pg\<lparr>t_databases := [demo_database 7 1 Running]\<rparr>\<rparr>) = (Inr (), s') \<and>
     (\<exists>p pool. PortPool_allocate (ports s') = (Inr p, pool) \<and> (10003::int) \<noteq> u16_as_i32 p)"
proof -
  let ?s = "demo_state\<lparr>db := demo_pg\<lparr>t_databases := [demo_database 7 1 Running]\<rparr>\<rparr>"
  have "fst (start_up demo_env ?s) = Inr ()"
    by (simp add: start_up_def expect_app_def create_docker_client_def connect_docker_def
        TlsService_init_ca_def ensure_proxy_network_def with_docker_def load_port_pool_run demo_config_def
        demo_libraries_def demo_reply_def fs_create_dir_all_def fs_write_def fs_effect_def docker_request_def
        set_registration_def set_maintenance_def fs_exists_def path_join_def attempt_def bind_app_def
        asks_def return_app_def lift_result_def Let_def split: sum.split)
  then obtain s' where run: "start_up demo_env ?s = (Inr (), s')" by (metis prod.collapse)
  have dbs: "t_databases (db s') = [demo_database 7 1 Running]"
    using start_up_ports(1) [OF run] by simp
  have "fst (PortPool_allocate (PortPool_load_allocated (PortPool_new 10000 10009) [10003])) = Inr 10000"
    by code_simp
  then have "fst (PortPool_allocate (ports s')) = Inr 10000"
    using start_up_ports(2) [OF run] by (simp add: dbs demo_config_def demo_database_def)
  then obtain pool where alloc: "PortPool_allocate (ports s') = (Inr 10000, pool)" by (metis prod.collapse)
  have "di_port (demo_database 7 1 Running) \<noteq> u16_as_i32 10000"
    by (rule started_pool_avoids_stored_ports [OF run _ alloc]) (simp_all add: dbs demo_database_def)
  with run alloc show ?thesis by (auto simp: demo_database_def)
qed

section \<open>Addresses a webhook may not have\<close>


definition rebinding_env :: env where
  \<comment> \<open>a host that resolves to \<open>::ffff:127.0.0.1\<close>\<close>
  "rebinding_env = demo_env\<lparr>resolve := \<lambda>n h. Some [V6 0xFFFF7F000001],
     lib := demo_libraries\<lparr>l_url_parse := \<lambda>u. Some \<lparr>url_scheme = ''https'', url_host = Some ''hook.example.com'',
       url_port = None\<rparr>\<rparr>\<rparr>"


end
