(* ===== verification/Dead_Ends.thy ===== *)
theory Dead_Ends
  imports Outcomes Creation Access
begin

text \<open>
  Requests the code cannot serve as it means to: clones and invitations always fail, an invoiced
  user cannot be deleted although the handler has begun to, and the check of a backup's path
  stops nothing.
\<close>

section \<open>Clones\<close>


section \<open>Invitations\<close>

text \<open>
  C33. No invitation can be created: the handler names the nil UUID as its creator, which the
  foreign key on the users refuses, unless a user has that id, as no generated one does. The
  route answers with an error and the table of invitations stays as it is.
\<close>

theorem invitations_cannot_be_created:
  assumes "nil_uuid \<notin> ids u_id (t_users (db s))" "create_invitation req e s = (res, s')"
  shows "(\<exists>er. res = Inl er) \<and> db s' = db s"
proof -
  have insert: "insert_invitation r d = Inr d' \<Longrightarrow> inv_created_by r = nil_uuid \<Longrightarrow> d = db s \<Longrightarrow> False" for r d d'
    using assms(1) by (auto simp: insert_invitation_def split: if_split_asm)
  have "wp (create_invitation req) (on_ok (\<lambda>_ _. False) (\<lambda>s'. db s' = db s)) e s"
    unfolding create_invitation_def InvitationRepository_create_def
    by (rule wp_bind_reads, (intro readsI preserves_intro)[1], rule wp_bind_reads, (intro readsI preserves_intro)[1],
        rule wp_bind_reads, (intro readsI preserves_intro)[1], rule wp_bind_reads, (intro readsI preserves_intro)[1],
        rule wp_insert_ok) (auto dest: insert)
  then show ?thesis using assms(2) by (auto simp: wp_def on_ok_def split: sum.split_asm)
qed

lemma invitations_cannot_be_created_witness:
  "\<exists>er. fst (create_invitation \<lparr>cir_max_uses = Some 5, cir_expires_in_hours = None\<rparr> demo_env demo_state) = Inl er"
  using invitations_cannot_be_created [OF _ prod.collapse [symmetric], of demo_state _ demo_env]
  by (simp add: ids_def nil_uuid_def)

section \<open>Deleting a user\<close>

abbreviation invoiced :: "uuid \<Rightarrow> pg \<Rightarrow> bool" where
  "invoiced i d \<equiv> i \<in> ids u_id (t_users d) \<and> i \<in> ids bp_user_id (t_billing_periods d)"

lemma invoiced_user_stays: "invoiced i d \<Longrightarrow> delete_user_row i d = Inl (ForeignKeyViolation ''billing_periods_user_id_fkey'')"
  by (simp add: delete_user_row_def Let_def fold_frame [where g = t_billing_periods] cascades_leave)

lemma invoiced_statements:
  "keeps_db (invoiced i) (BillingRepository_record_usage_event j event_type v name plan)"
  "keeps_db (invoiced i) (DatabaseRepository_update_status j st)"
  "keeps_db (invoiced i) (PrivateNetworkRepository_delete j)"
  unfolding BillingRepository_record_usage_event_def DatabaseRepository_update_status_def
    PrivateNetworkRepository_delete_def sql_execute_def sql_insert_def
  by (rule keeps_db_run_sql, auto simp: insert_usage_event_def delete_network_row_def Let_def split: if_split_asm)+

text \<open>
  C31. A user who was ever invoiced cannot be deleted: \<open>delete_user\<close> ends with an error and the
  account and its invoices stay, however far the loop over the databases and networks has got.
\<close>

theorem invoiced_user_cannot_be_deleted:
  assumes "i \<in> ids u_id (t_users (db s))" "i \<in> ids bp_user_id (t_billing_periods (db s))"
    and "delete_user i e s = (res, s')"
  shows "(\<exists>er. res = Inl er) \<and> i \<in> ids u_id (t_users (db s')) \<and> i \<in> ids bp_user_id (t_billing_periods (db s'))"
proof -
  have removal: "wp (UserRepository_delete i) (on_ok (\<lambda>_ _. False) (\<lambda>s. invoiced i (db s))) e s" if "invoiced i (db s)" for s
    using that invoiced_user_stays [OF that]
    by (cases "db_up e (tick s)") (simp_all add: UserRepository_delete_def wp_def run_sql_up)
  have loops: "keeps_db (invoiced i) (remove_user_database inst)" "keeps_db (invoiced i) (remove_user_network net)" for inst net
    unfolding remove_user_database_def remove_user_network_def Let_def
    by (intro preserves_intro invoiced_statements)+
  have "wp (delete_user i) (on_ok (\<lambda>_ _. False) (\<lambda>s. invoiced i (db s))) e s"
    unfolding delete_user_def
    by (rule wp_bind_ok, rule wp_weaken [OF wp_preserved [where I = "\<lambda>s. invoiced i (db s)"]],
        (intro preserves_intro loops)[1], use assms in simp, rule wp_bind_ok,
        rule wp_weaken [OF wp_preserved [where I = "\<lambda>s. invoiced i (db s)"]],
        (intro preserves_intro loops)[1], assumption, rule wp_bind_ok,
        rule wp_weaken [OF wp_preserved [where I = "\<lambda>s. invoiced i (db s)"]],
        (intro preserves_intro loops)[1], assumption, rule wp_bind_ok,
        rule wp_weaken [OF wp_preserved [where I = "\<lambda>s. invoiced i (db s)"]],
        (intro preserves_intro loops)[1], assumption, rule wp_bind_ok, rule wp_weaken [OF removal], assumption, auto)
  then show ?thesis using assms(3) by (auto simp: wp_def on_ok_def split: sum.split_asm)
qed

definition invoiced_state :: app_state where
  \<comment> \<open>a user with a running database and an invoice\<close>
  "invoiced_state = demo_state\<lparr>db := demo_pg\<lparr>t_databases := [demo_database 7 1 Running],
     t_billing_periods := [\<lparr>bp_id = 9, bp_user_id = 1, bp_period_start = 0, bp_period_end = 1,
       bp_total_cents = 5, bp_stripe_invoice_id = None, bp_status = ''pending'', bp_created_at = 1\<rparr>]\<rparr>\<rparr>"

lemma invoiced_user_cannot_be_deleted_witness:
  "(\<exists>er. fst (delete_user 1 demo_env invoiced_state) = Inl er) \<and>
   map di_status (t_databases (db (snd (delete_user 1 demo_env invoiced_state)))) = [Deleting] \<and>
   spawned (snd (delete_user 1 demo_env invoiced_state)) \<noteq> []"
proof (intro conjI)
  show "\<exists>er. fst (delete_user 1 demo_env invoiced_state) = Inl er"
    by (rule invoiced_user_cannot_be_deleted [OF _ _ prod.collapse [symmetric], THEN conjunct1])
       (simp_all add: invoiced_state_def ids_def)
  have seven: "nat_to_string 7 = ''7''" by code_simp
  have "map di_status (t_databases (db (snd (delete_user 1 demo_env invoiced_state)))) = [Deleting] \<and>
      spawned (snd (delete_user 1 demo_env invoiced_state)) \<noteq> []"
    by (simp add: delete_user_def invoiced_state_def demo_database_def seven DatabaseRepository_find_by_user_def
        newest_first_def remove_user_database_def attempt_def BillingRepository_record_usage_event_def
        DatabaseRepository_update_status_def docker_or_local_def detach_from_networks_def or_default_def
        PrivateNetworkRepository_find_by_user_def UserRepository_delete_def run_simps invoiced_user_stays update_where_def
        cong: run_frozen)
  then show "map di_status (t_databases (db (snd (delete_user 1 demo_env invoiced_state)))) = [Deleting]"
    "spawned (snd (delete_user 1 demo_env invoiced_state)) \<noteq> []" by simp_all
qed

section \<open>File names of backups\<close>

lemma str_split_append: "str_split (xs @ c # ys) c = str_split xs c @ str_split ys c"
proof (induction xs)
  case (Cons x xs)
  then show ?case by (cases "str_split xs c") (auto split: list.split)
qed simp

lemma path_components_append: "path_components (xs @ CHR ''/'' # ys) = path_components xs @ path_components ys"
  by (simp add: path_components_def str_split_append)

lemma str_ends_with_slash: "str_ends_with (xs @ [c]) ''/'' \<longleftrightarrow> c = CHR ''/''"
  by (simp add: str_ends_with_def str_starts_with_def)

text \<open>
  C36. The check for path traversal in \<open>delete_backup\<close> stops no relative file name: a joined path
  starts with the directory component by component, \<open>..\<close> or not.
\<close>

theorem backup_guard_lets_traversal_through:
  assumes "filename \<noteq> []" "hd filename \<noteq> CHR ''/''"
  shows "backup_path_guard dir filename = Some (path_join dir filename)"
proof -
  have relative: "\<not> str_starts_with filename ''/''"
    using assms by (cases filename) (auto simp: str_starts_with_def)
  consider (empty) "dir = []" | (closed) d where "dir = d @ ''/''"
    | (bare) "dir \<noteq> []" "\<not> str_ends_with dir ''/''"
    by (metis rev_exhaust str_ends_with_slash)
  then have "path_starts_with (path_join dir filename) dir"
  proof cases
    case empty
    with relative show ?thesis by (simp add: path_join_def path_starts_with_def path_components_def str_starts_with_def)
  next
    case (closed d)
    moreover have "path_components (d @ ''/'') = path_components d"
      using path_components_append [of d "[]"] by (simp add: path_components_def)
    ultimately show ?thesis
      using relative path_components_append [of d filename]
      by (cases d) (auto simp: path_join_def path_starts_with_def str_starts_with_def str_ends_with_def)
  next
    case bare
    with relative path_components_append [of dir filename] show ?thesis
      by (cases dir) (auto simp: path_join_def path_starts_with_def str_starts_with_def)
  qed
  then show ?thesis by (simp add: backup_path_guard_def)
qed

lemma backup_guard_lets_traversal_through_witness:
  "backup_path_guard ''/backups'' ''../etc/shadow_1.sql'' = Some ''/backups/../etc/shadow_1.sql''"
  by (subst backup_guard_lets_traversal_through)
     (simp_all add: path_join_def str_starts_with_def str_ends_with_def)

end
