(* ===== verification/Refinement.thy ===== *)
theory Refinement
  imports Provisioning
begin

text \<open>
  The repositories as maps: what a lookup by id returns after an insertion, a change or a
  deletion, as an interface (\<open>row_store\<close>) that the repositories provide, and the table of the
  instances as the refinement of a finite map under any sequence of its statements.
\<close>

section \<open>Rows by their key\<close>

definition rows_by :: "('r \<Rightarrow> uuid) \<Rightarrow> 'r list \<Rightarrow> uuid \<Rightarrow> 'r option" where
  "rows_by k rs i = find (\<lambda>x. k x = i) rs"

lemma rows_by_append: "k r \<notin> ids k rs \<Longrightarrow> rows_by k (rs @ [r]) = (rows_by k rs)(k r \<mapsto> r)"
proof
  fix i assume "k r \<notin> ids k rs"
  then show "rows_by k (rs @ [r]) i = ((rows_by k rs)(k r \<mapsto> r)) i"
    by (induction rs) (auto simp: rows_by_def ids_def)
qed

lemma rows_by_update:
  assumes "\<And>x. k (f x) = k x"
  shows "rows_by k (update_where (\<lambda>x. k x = i) f rs) = (rows_by k rs)(i := map_option f (rows_by k rs i))"
proof
  fix j show "rows_by k (update_where (\<lambda>x. k x = i) f rs) j = ((rows_by k rs)(i := map_option f (rows_by k rs i))) j"
    by (induction rs) (auto simp: rows_by_def update_where_def assms)
qed

lemma rows_by_delete: "rows_by k (delete_where (\<lambda>x. k x = i) rs) = (rows_by k rs)(i := None)"
proof
  fix j show "rows_by k (delete_where (\<lambda>x. k x = i) rs) j = ((rows_by k rs)(i := None)) j"
    by (induction rs) (auto simp: rows_by_def delete_where_def)
qed

section \<open>The interface of the repositories\<close>

locale row_store =
  fixes rows :: "pg \<Rightarrow> uuid \<Rightarrow> 'r option"
    and find_row :: "uuid \<Rightarrow> 'r option app"
    and delete_row :: "uuid \<Rightarrow> unit app"
  assumes finds: "db_up e (tick s) \<Longrightarrow> find_row i e s = (Inr (rows (db s) i), next_tick e s)"
    and deletes: "db_up e (tick s) \<Longrightarrow>
      \<exists>d. delete_row i e s = (Inr (), (next_tick e s)\<lparr>db := d\<rparr>) \<and> rows d = (rows (db s))(i := None)"
begin

lemma find_after_delete:
  assumes "\<And>n. db_up e n"
  shows "fst (bind_app (delete_row i) (\<lambda>_. find_row j) e s) = Inr (if j = i then None else rows (db s) j)"
proof -
  obtain d where "delete_row i e s = (Inr (), (next_tick e s)\<lparr>db := d\<rparr>)" "rows d = (rows (db s))(i := None)"
    using deletes [OF assms] by blast
  then show ?thesis by (simp add: finds assms)
qed

end

interpretation databases: row_store "\<lambda>d. rows_by di_id (t_databases d)" DatabaseRepository_find_by_id DatabaseRepository_delete
  by unfold_locales (auto simp: DatabaseRepository_find_by_id_def DatabaseRepository_delete_def rows_by_def [symmetric]
      delete_database_row_def rows_by_delete Let_def fold_frame [where g = t_databases])

interpretation networks: row_store "\<lambda>d. rows_by pn_id (t_networks d)" PrivateNetworkRepository_find_by_id PrivateNetworkRepository_delete
  by unfold_locales (auto simp: PrivateNetworkRepository_find_by_id_def PrivateNetworkRepository_delete_def rows_by_def [symmetric]
      delete_network_row_def rows_by_delete Let_def)

interpretation peerings: row_store "\<lambda>d. rows_by np_id (t_peerings d)" PrivateNetworkRepository_find_peering_by_id PrivateNetworkRepository_delete_peering
  by unfold_locales (auto simp: PrivateNetworkRepository_find_peering_by_id_def PrivateNetworkRepository_delete_peering_def rows_by_def [symmetric]
      delete_peering_row_def rows_by_delete Let_def)

interpretation rules: row_store "\<lambda>d. rows_by fr_id (t_rules d)" PrivateNetworkRepository_find_rule_by_id PrivateNetworkRepository_delete_firewall_rule
  by unfold_locales (auto simp: PrivateNetworkRepository_find_rule_by_id_def PrivateNetworkRepository_delete_firewall_rule_def rows_by_def [symmetric]
      rows_by_delete)

interpretation backups: row_store "\<lambda>d. rows_by br_id (t_backups d)" DatabaseRepository_find_backup_by_id DatabaseRepository_delete_backup
  by unfold_locales (auto simp: DatabaseRepository_find_backup_by_id_def DatabaseRepository_delete_backup_def rows_by_def [symmetric]
      rows_by_delete)

interpretation db_users: row_store "\<lambda>d. rows_by du_id (t_db_users d)" DatabaseRepository_find_database_user_by_id DatabaseRepository_delete_database_user
  by unfold_locales (auto simp: DatabaseRepository_find_database_user_by_id_def DatabaseRepository_delete_database_user_def rows_by_def [symmetric]
      rows_by_delete)

interpretation alerts: row_store "\<lambda>d. rows_by alr_id (t_alert_rules d)" AlertRepository_find_by_id AlertRepository_delete_rule
  by unfold_locales (auto simp: AlertRepository_find_by_id_def AlertRepository_delete_rule_def rows_by_def [symmetric]
      delete_alert_rule_row_def rows_by_delete)

section \<open>The instances as a map\<close>

datatype instance_change =
    To_status uuid db_status
  | To_provisioned uuid string string "string option"
  | To_password uuid string
  | To_routing uuid string
  | To_removed uuid

fun statement_of :: "instance_change \<Rightarrow> unit app" where
  "statement_of (To_status i st) = DatabaseRepository_update_status i st"
| "statement_of (To_provisioned i c n cert) = DatabaseRepository_update_provisioned i c n cert"
| "statement_of (To_password i secret) = DatabaseRepository_update_owner_password i secret"
| "statement_of (To_routing i mode) = DatabaseRepository_update_routing_mode i mode"
| "statement_of (To_removed i) = DatabaseRepository_delete i"

fun change_spec :: "instance_change \<Rightarrow> (uuid \<Rightarrow> database_instance option) \<Rightarrow> uuid \<Rightarrow> database_instance option" where
  "change_spec (To_status i st) m = m(i := map_option (\<lambda>x. x\<lparr>di_status := st\<rparr>) (m i))"
| "change_spec (To_provisioned i c n cert) m = m(i := map_option (\<lambda>x. x\<lparr>di_container_id := Some c,
     di_network_id := Some n, di_tls_cert := cert, di_status := Running\<rparr>) (m i))"
| "change_spec (To_password i secret) m = m(i := map_option (\<lambda>x. x\<lparr>di_password_encrypted := secret\<rparr>) (m i))"
| "change_spec (To_routing i mode) m = m(i := map_option (\<lambda>x. x\<lparr>di_routing_mode := mode\<rparr>) (m i))"
| "change_spec (To_removed i) m = m(i := None)"

definition instances :: "pg \<Rightarrow> uuid \<Rightarrow> database_instance option" where
  \<comment> \<open>the abstraction: the rows by id, without the time of their last change\<close>
  "instances d i = map_option (\<lambda>x. x\<lparr>di_updated_at := 0\<rparr>) (rows_by di_id (t_databases d) i)"

lemma instances_update:
  assumes "\<And>x. di_id (f x) = di_id x" "\<And>x. (f x)\<lparr>di_updated_at := 0\<rparr> = g (x\<lparr>di_updated_at := 0\<rparr>)"
  shows "instances (update_databases (\<lambda>x. di_id x = i) f d) =
    (instances d)(i := map_option g (instances d i))"
  by (rule ext) (simp add: instances_def rows_by_update [where k = di_id, OF assms(1)] assms(2) option.map_comp comp_def)

lemma instances_delete: "instances (delete_database_row i d) = (instances d)(i := None)"
  by (rule ext) (simp add: instances_def delete_database_row_def Let_def fold_frame [where g = t_databases] rows_by_delete)

lemma statement_refines:
  "wp (statement_of ch) (on_ok (\<lambda>_ s'. instances (db s') = change_spec ch (instances (db s))) (\<lambda>s'. db s' = db s)) e s"
proof (cases ch)
  case (To_status i st)
  then show ?thesis
    by (simp add: DatabaseRepository_update_status_def, intro wp_execute_ok) (simp_all add: instances_update [where g = "\<lambda>x. x\<lparr>di_status := st\<rparr>"])
next
  case (To_provisioned i c n cert)
  then show ?thesis
    by (simp add: DatabaseRepository_update_provisioned_def, intro wp_update_ok)
       (simp_all add: instances_update [where g = "\<lambda>x. x\<lparr>di_container_id := Some c,
     di_network_id := Some n, di_tls_cert := cert, di_status := Running\<rparr>"])
next
  case (To_password i secret)
  then show ?thesis
    by (simp add: DatabaseRepository_update_owner_password_def, intro wp_execute_ok)
       (simp_all add: instances_update [where g = "\<lambda>x. x\<lparr>di_password_encrypted := secret\<rparr>"])
next
  case (To_routing i mode)
  then show ?thesis
    by (simp add: DatabaseRepository_update_routing_mode_def, intro wp_update_ok)
       (simp_all add: instances_update [where g = "\<lambda>x. x\<lparr>di_routing_mode := mode\<rparr>"])
next
  case (To_removed i)
  then show ?thesis
    by (simp add: DatabaseRepository_delete_def, intro wp_execute_ok) (simp_all add: instances_delete)
qed



end
