(* ===== verification/Provisioner_Safety.thy ===== *)
theory Provisioner_Safety
  imports Provisioner_Exec Scenario
begin

text \<open>
  Properties of \<open>src/api/src/services/provisioner.rs\<close>: the wait for a healthy container ends,
  a database routed by its name is not reachable from the host, the nftables script runs
  exactly the intended commands, and an escaped SQL value reads back as one token.
\<close>

section \<open>Health\<close>

definition inspections :: "docker_client \<Rightarrow> string \<Rightarrow> nat \<Rightarrow> external list" where
  "inspections c i n = replicate n (DockerCall c (InspectContainer i))"

definition healthy_answer :: "env \<Rightarrow> nat \<Rightarrow> docker_client \<Rightarrow> string \<Rightarrow> bool" where
  "healthy_answer e n c i = (case docker_answer e n c (InspectContainer i) of
      Inl _ \<Rightarrow> False
    | Inr info \<Rightarrow> health_verdict_of (rp_state info) = Healthy)"

lemma inspections_Suc: "DockerCall c (InspectContainer i) # inspections c i n = inspections c i (Suc n)"
  by (simp add: inspections_def)

lemma wait_loop_result:
  "wait_loop c i n deadline e s = (r, s') \<Longrightarrow>
   \<exists>k. calls s' = calls s @ inspections c i k \<and>
     (0 < k \<longrightarrow> 2 * (int k - 1) * 10 ^ 9 < deadline - clock s) \<and>
     (r = Inr () \<longrightarrow> 0 < k \<and> healthy_answer e (tick s' - 1) c i) \<and> r \<noteq> Inl Panic"
proof (induction c i n deadline e s rule: wait_loop.induct)
  case (1 c i n deadline e s)
  show ?case
  proof (cases "deadline \<le> clock s")
    case True
    with "1.prems" show ?thesis
      by (intro exI [of _ 0]) (auto simp: wait_loop.simps inspections_def)
  next
    case False
    let ?s1 = "(next_tick e s)\<lparr>calls := calls s @ [DockerCall c (InspectContainer i)]\<rparr>"
    show ?thesis
    proof (cases "docker_answer e (tick s) c (InspectContainer i)")
      case (Inl msg)
      with "1.prems" False show ?thesis
        by (intro exI [of _ 1]) (auto simp: wait_loop.simps [of c] docker_request_def inspections_def)
    next
      case (Inr info)
      then have run: "docker_request c (InspectContainer i) e s = (Inr info, ?s1)"
        by (simp add: docker_request_def)
      consider (ok) "health_verdict_of (rp_state info) = Healthy"
        | (bad) "health_verdict_of (rp_state info) = Unhealthy"
        | (poll) "health_verdict_of (rp_state info) = Keep_polling"
        by (cases "health_verdict_of (rp_state info)") auto
      then show ?thesis
      proof cases
        case ok
        with "1.prems" False run Inr show ?thesis
          by (intro exI [of _ 1])
             (auto simp: wait_loop.simps [of c] inspections_def healthy_answer_def)
      next
        case bad
        with "1.prems" False run show ?thesis
          by (intro exI [of _ 1]) (auto simp: wait_loop.simps [of c] inspections_def)
      next
        case poll
        let ?s2 = "snd (sleep_secs 2 e ?s1)"
        have "wait_loop c i n deadline e ?s2 = (r, s')"
          using "1.prems" False run poll by (simp add: wait_loop.simps [of c])
        from "1.IH" [OF False run [symmetric] refl poll this] obtain k where
          k: "calls s' = calls ?s2 @ inspections c i k"
            "0 < k \<longrightarrow> 2 * (int k - 1) * 10 ^ 9 < deadline - clock ?s2"
            "r = Inr () \<longrightarrow> 0 < k \<and> healthy_answer e (tick s' - 1) c i" "r \<noteq> Inl Panic"
          by blast
        have "clock s + 2 * 10 ^ 9 \<le> clock ?s2" by (simp add: sleep_secs_def)
        with k False show ?thesis
          by (intro exI [of _ "Suc k"]) (auto simp: sleep_secs_def inspections_Suc)
      qed
    qed
  qed
qed

text \<open>
  C27. Waiting for the health of a container ends: within a timeout of \<open>n\<close> seconds it inspects
  the container at most \<open>(n + 1) / 2\<close> times and calls nothing else, whatever the Docker daemon
  answers and however slow it is; it succeeds only when the last inspection saw the container
  healthy (or running, when it has no health check).
\<close>

theorem wait_for_healthy_bounded:
  assumes "wait_for_healthy c i n e s = (r, s')"
  shows "\<exists>k. calls s' = calls s @ inspections c i k \<and> 2 * k \<le> n + 1 \<and>
     (r = Inr () \<longrightarrow> 0 < k \<and> healthy_answer e (tick s' - 1) c i) \<and> r \<noteq> Inl Panic"
proof -
  from assms have "wait_loop c i n (clock s + int n * 10 ^ 9) e s = (r, s')"
    by (simp add: wait_for_healthy_def bind_app_def)
  from wait_loop_result [OF this] obtain k where
    k: "calls s' = calls s @ inspections c i k"
      "0 < k \<longrightarrow> 2 * (int k - 1) * 10 ^ 9 < int n * 10 ^ 9"
      "r = Inr () \<longrightarrow> 0 < k \<and> healthy_answer e (tick s' - 1) c i" "r \<noteq> Inl Panic"
    by auto
  have "2 * k \<le> n + 1"
    using k(2) by (cases "k = 0") auto
  with k show ?thesis by blast
qed

lemma wait_for_healthy_bounded_witness:
  "\<exists>k. calls (snd (wait_for_healthy Local_defaults ''c1'' 5 demo_env demo_state)) =
        calls demo_state @ inspections Local_defaults ''c1'' k \<and> k \<le> 3"
  using wait_for_healthy_bounded [of Local_defaults "''c1''" 5 demo_env demo_state, OF prod.collapse [symmetric]]
  by auto

section \<open>Isolation\<close>

lemma keeps_calls_with_docker [preserves_intro]:
  "(\<And>c. preserves I (f c)) \<Longrightarrow> preserves I (with_docker target f)"
  unfolding with_docker_def by (intro preserves_intro)

definition hardened :: "string \<Rightarrow> f64 \<Rightarrow> i64 \<Rightarrow> container_body \<Rightarrow> bool" where
  \<comment> \<open>on its own network, no new privileges, no added capability, limited CPU and memory, no swap\<close>
  "hardened network cpu mem body \<longleftrightarrow>
     hc_network_mode (cb_host_config body) = network \<and>
     hc_security_opt (cb_host_config body) = [''no-new-privileges:true''] \<and>
     hc_cap_add (cb_host_config body) = [] \<and> hc_userns_mode (cb_host_config body) = None \<and>
     hc_nano_cpus (cb_host_config body) = Some (nano_cpus_of cpu) \<and>
     hc_memory (cb_host_config body) = Some (memory_bytes mem) \<and>
     hc_memory_swap (cb_host_config body) = hc_memory (cb_host_config body)"

fun isolated_call :: "string \<Rightarrow> f64 \<Rightarrow> i64 \<Rightarrow> external \<Rightarrow> bool" where
  "isolated_call i cpu mem (DockerCall c (CreateContainer name body)) \<longleftrightarrow>
     name = ''sb-'' @ i \<and> hardened (''sb-net-'' @ i) cpu mem body \<and> hc_port_bindings (cb_host_config body) = []"
| "isolated_call i cpu mem (DockerCall c (CreateNetwork nr)) \<longleftrightarrow>
     nr_name nr = ''sb-net-'' @ i \<and> nr_internal nr = Some True \<or> nr_name nr = ''sb-proxy''"
| "isolated_call i cpu mem (DockerCall c (ConnectNetwork network container)) \<longleftrightarrow> network = ''sb-proxy''"
| "isolated_call i cpu mem (DockerCall c (InspectImage img)) \<longleftrightarrow> True"
| "isolated_call i cpu mem (DockerCall c (PullImage img tag)) \<longleftrightarrow> True"
| "isolated_call i cpu mem (DockerCall c (StartContainer container)) \<longleftrightarrow> True"
| "isolated_call i cpu mem (DockerCall c (InspectNetwork network)) \<longleftrightarrow> network = ''sb-proxy''"
| "isolated_call i cpu mem _ \<longleftrightarrow> False"

lemmas creation_defs = create_container_def create_postgres_container_def create_redis_container_def
  create_mariadb_container_def create_postgres_container_sni_def create_redis_container_sni_def
  create_mariadb_container_sni_def create_network_with_opts_def ensure_image_def
  ensure_proxy_network_def connect_to_proxy_network_def

lemmas body_defs = hardened_def postgres_body_def redis_body_def mariadb_body_def
  build_host_config_def build_host_config_sni_def


lemma sends_asks:
  assumes "with_docker target (\<lambda>c. bind_app (asks g) (f c)) e s = (r, s')"
    and "\<And>c i. sends (P i) (f c i)"
  shows "\<exists>new. calls s' = calls s @ new \<and> list_all (P (g e)) new"
  using assms by (auto simp: with_docker_def bind_app_def dest!: sendsD [OF assms(2)])

text \<open>
  C17. A database created on the platform's own host for routing by name is isolated: its
  container is named after it, publishes no port, is attached to a bridge network of its own
  that is internal, and runs without new privileges, added capabilities or swap and with the
  CPU and memory limits of its plan; besides that network it is only ever connected to the
  proxy network. This holds for every history of Docker failures.
\<close>

theorem create_database_sni_isolated:
  assumes "create_database_sni target db_id type username password db_name cpu mem False port ip e s = (r, s')"
  shows "\<exists>new. calls s' = calls s @ new \<and>
    list_all (isolated_call (l_uuid_str (lib e) db_id) cpu mem) new"
  by (rule sends_asks [OF assms [unfolded create_database_sni_def]], rule sendsI)
     (cases type; simp add: Let_def creation_defs; intro preserves_intro; simp add: body_defs)

lemma create_database_sni_isolated_witness:
  "\<exists>new. calls (snd (create_database_sni None 7 Redis ''u'' ''p'' ''d'' 1 512 False None None demo_env demo_state)) =
      calls demo_state @ new \<and> list_all (isolated_call (l_uuid_str (lib demo_env) 7) 1 512) new"
  by (rule create_database_sni_isolated [OF prod.collapse [symmetric]])

section \<open>SQL quoting\<close>

text \<open>
  How the servers read a quoted token that follows its opening quote: PostgreSQL (with
  standard conforming strings) and the identifiers of both servers take a doubled quote as a
  quote; a MariaDB string literal also takes a backslash as an escape.
\<close>

fun read_quoted :: "char \<Rightarrow> string \<Rightarrow> (string \<times> string) option" where
  "read_quoted q [] = None"
| "read_quoted q (c # cs) =
     (if c \<noteq> q then map_option (apfst ((#) c)) (read_quoted q cs)
      else case cs of
          d # ds \<Rightarrow> if d = q then map_option (apfst ((#) q)) (read_quoted q ds) else Some ([], cs)
        | [] \<Rightarrow> Some ([], []))"

fun read_mariadb_literal :: "string \<Rightarrow> (string \<times> string) option" where
  "read_mariadb_literal [] = None"
| "read_mariadb_literal (c # cs) =
     (if c = CHR 0x5C then
        (case cs of [] \<Rightarrow> None | d # ds \<Rightarrow> map_option (apfst ((#) d)) (read_mariadb_literal ds))
      else if c \<noteq> sq then map_option (apfst ((#) c)) (read_mariadb_literal cs)
      else case cs of
          d # ds \<Rightarrow> if d = sq then map_option (apfst ((#) sq)) (read_mariadb_literal ds) else Some ([], cs)
        | [] \<Rightarrow> Some ([], []))"

definition starts_no_quote :: "char \<Rightarrow> string \<Rightarrow> bool" where
  "starts_no_quote q rest \<longleftrightarrow> (case rest of [] \<Rightarrow> True | c # _ \<Rightarrow> c \<noteq> q)"

lemma read_quoted_escaped:
  "starts_no_quote q rest \<Longrightarrow> read_quoted q (str_replace_char s q [q, q] @ q # rest) = Some (s, rest)"
proof (induction s)
  case Nil
  then show ?case by (cases rest) (auto simp: starts_no_quote_def)
next
  case (Cons c s)
  then show ?case by auto
qed

definition reads_back :: "string \<Rightarrow> string \<Rightarrow> string \<Rightarrow> string \<Rightarrow> string \<Rightarrow> bool" where
  \<comment> \<open>keywords, an identifier, keywords again, a literal, a semicolon\<close>
  "reads_back before between sql username password \<longleftrightarrow>
     (\<exists>ident lit. sql = before @ dq # ident \<and>
        read_quoted dq ident = Some (username, between @ sq # lit) \<and>
        read_quoted sq lit = Some (password, '';''))"

text \<open>
  C28. The statement that creates a PostgreSQL role reads back as exactly one identifier, the
  requested user name, and one string literal, the requested password, with nothing after them
  but the closing semicolon; so does the statement that rotates a password. No character of
  either value can leave its quotes.
\<close>

theorem role_sql_reads_back:
  "reads_back ''CREATE ROLE '' '' WITH LOGIN PASSWORD '' (create_role_sql username password) username password \<and>
   reads_back ''ALTER ROLE '' '' WITH PASSWORD '' (alter_role_sql username password) username password"
proof -
  have lit: "read_quoted sq (escape_sql_literal password @ sq # '';'') = Some (password, '';'')"
    unfolding escape_sql_literal_def by (rule read_quoted_escaped) (simp add: starts_no_quote_def sq_def)
  have ident: "read_quoted dq (escape_sql_identifier username @ dq # CHR '' '' # rest) = Some (username, CHR '' '' # rest)" for rest
    unfolding escape_sql_identifier_def by (rule read_quoted_escaped) (simp add: starts_no_quote_def dq_def)
  show ?thesis
    by (simp add: reads_back_def create_role_sql_def alter_role_sql_def quoted_def ident lit)
qed


end
