(* ===== verification/Provisioner_Script.thy ===== *)
theory Provisioner_Script
  imports Provisioner_Exec Scenario
begin

text \<open>
  The nftables script of a peering (\<open>apply_firewall_rules\<close> of
  \<open>src/api/src/services/provisioner.rs\<close>): a reader of the shell's words and the proof that the
  script is read as the intended commands.
\<close>

section \<open>The nftables script\<close>

text \<open>
  The words of the commands of a script, as \<open>sh\<close> reads it: commands end at a semicolon, words
  at a space, a backslash takes the next character literally. A character that means anything
  else to the shell makes the reading fail. A redirection stays part of its word.
\<close>

definition sh_plain :: "char \<Rightarrow> bool" where
  "sh_plain c \<longleftrightarrow> is_ascii_alphanumeric c \<or> \<not> is_ascii c \<or> c \<in> set ''./-_:,{}>''"

primrec sh_push :: "char \<Rightarrow> string list list \<Rightarrow> string list list" where
  \<comment> \<open>onto the first word of the first command\<close>
  "sh_push c [] = [[[c]]]"
| "sh_push c (cmd # cmds) = (case cmd of [] \<Rightarrow> [[c]] | w # ws \<Rightarrow> (c # w) # ws) # cmds"

fun sh_read :: "string \<Rightarrow> string list list option" where
  "sh_read [] = Some [[[]]]"
| "sh_read (c # cs) =
     (if c = CHR '' '' then map_option (\<lambda>cmds. ([] # hd cmds) # tl cmds) (sh_read cs)
      else if c = CHR '';'' then map_option (\<lambda>cmds. [[]] # cmds) (sh_read cs)
      else if c = CHR 0x5C then
        (case cs of [] \<Rightarrow> None | d # ds \<Rightarrow> map_option (sh_push d) (sh_read ds))
      else if sh_plain c then map_option (sh_push c) (sh_read cs)
      else None)"

definition sh_commands :: "string \<Rightarrow> string list list option" where
  "sh_commands script = map_option (\<lambda>cmds. filter (\<lambda>cmd. cmd \<noteq> []) (map (filter (\<lambda>w. w \<noteq> [])) cmds))
     (sh_read script)"

definition lexes :: "string \<Rightarrow> string \<Rightarrow> bool" where
  \<comment> \<open>the text is read as these characters of one word\<close>
  "lexes src w \<longleftrightarrow> (\<forall>rest. sh_read (src @ rest) = map_option (\<lambda>cmds. foldr sh_push w cmds) (sh_read rest))"

lemma lexes_append: "lexes a v \<Longrightarrow> lexes b w \<Longrightarrow> lexes (a @ b) (v @ w)"
  by (simp add: lexes_def option.map_comp comp_def)

lemma sh_plain_not_special: "sh_plain c \<Longrightarrow> c \<notin> {CHR '' '', CHR '';'', CHR 0x5C}"
  by (auto simp: sh_plain_def ascii_class_defs is_ascii_def less_eq_char_def)

lemma lexes_plain_char: "sh_plain c \<Longrightarrow> lexes [c] [c]"
  using sh_plain_not_special by (simp add: lexes_def)

lemma lexes_plain: "list_all sh_plain w \<Longrightarrow> lexes w w"
proof (induction w)
  case Nil
  show ?case by (simp add: lexes_def option.map_ident)
next
  case (Cons c cs)
  then show ?case using lexes_append [of "[c]" "[c]" cs cs] lexes_plain_char by simp
qed

lemma lexes_semicolon: "lexes [CHR 0x5C, CHR '';''] '';''"
  by (simp add: lexes_def)

lemma sh_push_not_Nil [simp]: "sh_push c cmds \<noteq> []"
  by (cases cmds) auto

lemma lexes_escaped:
  "lexes [CHR ''-'', CHR ''1'', CHR 0x5C, CHR '';''] ''-1;''"
  "lexes [CHR ''a'', CHR ''c'', CHR ''c'', CHR ''e'', CHR ''p'', CHR ''t'', CHR 0x5C, CHR '';''] ''accept;''"
  using lexes_append [OF lexes_plain lexes_semicolon, of "''-1''"]
    lexes_append [OF lexes_plain lexes_semicolon, of "''accept''"]
  by (simp_all add: sh_plain_def ascii_class_defs less_eq_char_def)

lemma sh_read_not_Nil: "sh_read s = Some cmds \<Longrightarrow> cmds \<noteq> []"
  by (induction s arbitrary: cmds rule: sh_read.induct) (auto split: if_splits list.splits)

lemma foldr_push: "foldr sh_push w ((u # ws) # cmds) = ((w @ u) # ws) # cmds"
  by (induction w) auto

text \<open>One command of words that read as they should.\<close>

fun joins :: "string list \<Rightarrow> string" where
  "joins [] = '';''"
| "joins [w] = w @ '';''"
| "joins (w # v # ws) = w @ '' '' @ joins (v # ws)"

abbreviation words_of :: "string list \<Rightarrow> string list" where
  "words_of ws \<equiv> filter (\<lambda>w. w \<noteq> []) ws"

lemma sh_read_joins:
  assumes "list_all2 lexes srcs ws"
  shows "\<exists>vs. words_of vs = words_of ws \<and> vs \<noteq> [] \<and>
    (\<forall>rest. sh_read (joins srcs @ rest) = map_option (\<lambda>cmds. vs # cmds) (sh_read rest))"
  using assms
proof (induction srcs arbitrary: ws rule: joins.induct)
  case 1
  then show ?case by (intro exI [of _ "[[]]"]) (auto simp: fun_eq_iff)
next
  case (2 src)
  then obtain w where "ws = [w]" "lexes src w" by (auto simp: list_all2_Cons1)
  then show ?case
    by (intro exI [of _ "[w]"]) (auto simp: lexes_def option.map_comp comp_def foldr_push)
next
  case (3 src src' srcs)
  then obtain w ws' where ws: "ws = w # ws'" "lexes src w" "list_all2 lexes (src' # srcs) ws'"
    by (auto simp: list_all2_Cons1)
  from "3.IH" [OF ws(3)] obtain vs where
    vs: "words_of vs = words_of ws'"
      "\<And>rest. sh_read (joins (src' # srcs) @ rest) = map_option (\<lambda>cmds. vs # cmds) (sh_read rest)"
    by blast
  show ?case
    using ws(1,2) vs
    by (intro exI [of _ "w # vs"]) (auto simp: lexes_def option.map_comp comp_def foldr_push)
qed

lemma sh_commands_joins:
  assumes "list_all2 lexes srcs ws" "list_all (\<lambda>w. w \<noteq> []) ws" "ws \<noteq> []"
  shows "sh_commands (joins srcs @ '' '' @ rest) = map_option ((#) ws) (sh_commands rest)"
proof -
  obtain vs where vs: "words_of vs = words_of ws"
      "\<And>rest. sh_read (joins srcs @ rest) = map_option (\<lambda>cmds. vs # cmds) (sh_read rest)"
    using sh_read_joins [OF assms(1)] by blast
  have "words_of ws = ws"
    using assms(2) by (simp add: filter_id_conv list_all_iff)
  show ?thesis
  proof (cases "sh_read rest")
    case None
    then show ?thesis by (simp add: sh_commands_def vs(2))
  next
    case (Some cmds)
    with sh_read_not_Nil obtain cmd cs where "cmds = cmd # cs" by (cases cmds) auto
    with Some vs \<open>words_of ws = ws\<close> assms(3) show ?thesis by (simp add: sh_commands_def)
  qed
qed

section \<open>Values in the script\<close>

lemma concat_utf8_chars [simp]: "concat (utf8_chars s) = s"
  by (induction s rule: utf8_chars.induct) simp_all

lemma utf8_char_shape: "c \<in> set (utf8_chars s) \<Longrightarrow> \<exists>b bs. c = b # bs \<and> list_all is_continuation bs"
  by (induction s rule: utf8_chars.induct) (auto simp: list_all_iff dest: set_takeWhileD)

lemma nft_char_plain:
  assumes "nft_char_ok l c" "c = b # bs" "list_all is_continuation bs"
  shows "list_all sh_plain c"
proof -
  have "sh_plain x" if "is_continuation x" for x
    using that by (simp add: is_continuation_def sh_plain_def is_ascii_def)
  moreover have "sh_plain b"
    using assms(1,2) by (auto simp: nft_char_ok_def char_is_alphanumeric_def sh_plain_def split: if_splits)
  ultimately show ?thesis
    using assms(2,3) by (auto simp: list_all_iff)
qed

lemma validated_plain:
  assumes "validate_nft_value l v field = Inr u"
  shows "list_all sh_plain v" "v \<noteq> []"
proof -
  from assms have ok: "\<And>c. c \<in> set (utf8_chars v) \<Longrightarrow> nft_char_ok l c" and "v \<noteq> []"
    by (auto simp: validate_nft_value_def list_all_iff split: if_splits)
  then show "v \<noteq> []" by simp
  have "list_all sh_plain c" if "c \<in> set (utf8_chars v)" for c
    using nft_char_plain [OF ok [OF that]] utf8_char_shape [OF that] by blast
  then have "\<forall>x \<in> set (concat (utf8_chars v)). sh_plain x"
    unfolding set_concat by (auto simp: list_all_iff)
  then show "list_all sh_plain v" by (simp add: list_all_iff)
qed

lemma digits_plain: "list_all sh_plain (nat_to_string n)"
proof (induction n rule: nat_to_string.induct)
  case (1 n)
  have d: "sh_plain (digit_char k)" if "k < 10" for k
  proof -
    from that have "k \<in> {0,1,2,3,4,5,6,7,8,9}" by auto
    then show ?thesis
      by (auto simp: sh_plain_def digit_char_def ascii_class_defs less_eq_char_def)
  qed
  show ?case
    by (cases "n < 10") (use 1 d in \<open>simp_all add: nat_to_string.simps [of n]\<close>)
qed

lemma nat_to_string_not_Nil: "nat_to_string n \<noteq> []"
  by (simp add: nat_to_string.simps [of n])


section \<open>The commands\<close>

definition nft_filter :: "string \<Rightarrow> string \<Rightarrow> string list \<Rightarrow> string list" where
  "nft_filter table bridge_name rest =
     [''nft'', ''add'', ''rule'', ''inet'', table, ''forward'', ''iifname'', bridge_name, ''oifname'', bridge_name] @ rest"

fun rule_words :: "nft_rule \<Rightarrow> string list" where
  "rule_words (src, dst, port, protocol, action) =
     [''ip'', ''saddr'', src, ''ip'', ''daddr'', dst] @
     (case port of
        Some p \<Rightarrow> [case protocol of Some q \<Rightarrow> q | None \<Rightarrow> ''tcp'', ''dport'', int_to_string p]
      | None \<Rightarrow> []) @
     [if action = ''allow'' then ''accept'' else ''drop'']"

definition nft_commands :: "string \<Rightarrow> string \<Rightarrow> nft_rule list \<Rightarrow> string list list" where
  "nft_commands table bridge_name rules =
     [[''nft'', ''delete'', ''table'', ''inet'', table, ''2>/dev/null''],
      [''nft'', ''add'', ''table'', ''inet'', table],
      [''nft'', ''add'', ''chain'', ''inet'', table, ''forward'', ''{'', ''type'', ''filter'', ''hook'',
       ''forward'', ''priority'', ''-1;'', ''policy'', ''accept;'', ''}''],
      nft_filter table bridge_name [''ct'', ''state'', ''established,related'', ''accept'']]
     @ map (\<lambda>r. nft_filter table bridge_name (rule_words r)) rules
     @ [nft_filter table bridge_name [''drop''], [''echo'', ''OK'']]"

lemmas plain_eval = sh_plain_def ascii_class_defs less_eq_char_def

lemma sh_commands_plain:
  assumes "list_all (\<lambda>w. list_all sh_plain w \<and> w \<noteq> []) ws" "ws \<noteq> []"
  shows "sh_commands (joins ws @ '' '' @ rest) = map_option ((#) ws) (sh_commands rest)"
  using assms by (intro sh_commands_joins) (auto simp: list_all_iff list_all2_same lexes_plain)

lemma nft_forward_joins:
  "nft_forward table bridge_name (str_join ws '' '') = joins (nft_filter table bridge_name ws) @ '' ''"
  if "ws \<noteq> []"
proof -
  have "joins (w # ws) = str_join (w # ws) '' '' @ '';''" for w and ws :: "string list"
    by (induction ws arbitrary: w) auto
  with that show ?thesis
    by (cases ws) (simp_all add: nft_forward_def nft_filter_def)
qed

lemma nft_rule_line_joins:
  "nft_rule_line table bridge_name r = joins (nft_filter table bridge_name (rule_words r)) @ '' ''"
proof -
  obtain src dst port protocol action where r: "r = (src, dst, port, protocol, action)"
    by (cases r)
  have "nft_rule_line table bridge_name r = nft_forward table bridge_name (str_join (rule_words r) '' '')"
    by (cases port) (simp_all add: r nft_rule_line_def)
  moreover have "rule_words r \<noteq> []" by (simp add: r)
  ultimately show ?thesis using nft_forward_joins [of "rule_words r"] by metis
qed

lemma check_nft_rule_plain:
  assumes "check_nft_rule l r = Inr u"
  shows "list_all (\<lambda>w. list_all sh_plain w \<and> w \<noteq> []) (rule_words r)"
proof -
  obtain src dst port protocol action where r: "r = (src, dst, port, protocol, action)"
    by (cases r)
  let ?proto = "case protocol of Some p \<Rightarrow> p | None \<Rightarrow> ''tcp''"
  from assms r have "validate_nft_value l src ''source subnet'' = Inr ()"
    "validate_nft_value l dst ''destination subnet'' = Inr ()"
    "validate_nft_value l ?proto ''protocol'' = Inr ()" "\<And>p. port = Some p \<Longrightarrow> 0 \<le> p"
    by (auto simp: check_nft_rule_def Let_def split: sum.splits option.splits if_splits)
  from this(1-3) [THEN validated_plain(1)] this(1-3) [THEN validated_plain(2)] this(4)
  have "list_all sh_plain src" "list_all sh_plain dst" "list_all sh_plain ?proto" "src \<noteq> []"
    "dst \<noteq> []" "?proto \<noteq> []" "\<And>p. port = Some p \<Longrightarrow> list_all sh_plain (int_to_string p) \<and> int_to_string p \<noteq> []"
    by (simp_all add: int_to_string_def digits_plain nat_to_string_not_Nil)
  then show ?thesis
    by (cases port) (auto simp: r plain_eval)
qed

lemma nft_rule_lines_commands:
  assumes "nft_rule_lines l table bridge_name rules = Inr script"
    and "list_all (\<lambda>w. list_all sh_plain w \<and> w \<noteq> []) [table, bridge_name]"
  shows "sh_commands (script @ rest) =
    map_option (\<lambda>cmds. map (\<lambda>r. nft_filter table bridge_name (rule_words r)) rules @ cmds) (sh_commands rest)"
  using assms(1)
proof (induction rules arbitrary: script)
  case Nil
  then show ?case by (simp add: option.map_ident)
next
  case (Cons r rules)
  from Cons.prems obtain u script' where s: "check_nft_rule l r = Inr u"
      "nft_rule_lines l table bridge_name rules = Inr script'"
      "script = nft_rule_line table bridge_name r @ script'"
    by (auto split: sum.splits)
  have "list_all (\<lambda>w. list_all sh_plain w \<and> w \<noteq> []) (nft_filter table bridge_name (rule_words r))"
    using check_nft_rule_plain [OF s(1)] assms(2)
    by (auto simp: nft_filter_def plain_eval)
  moreover have "nft_filter table bridge_name (rule_words r) \<noteq> []" by (simp add: nft_filter_def)
  ultimately show ?case
    by (simp add: s(3) nft_rule_line_joins sh_commands_plain [simplified] Cons.IH [OF s(2)]
        option.map_comp comp_def)
qed


text \<open>
  C16. A shell that runs the script of a peering executes exactly the intended commands: the
  table of the peering is created afresh, established connections are accepted, then come the
  user's rules in the order given, each with its source, destination, protocol and port as one
  word of its own, and last the rule that drops everything else on the bridge. No value of a
  rule that passes the checks can end a command or start another one.
\<close>

theorem firewall_script_commands:
  assumes "firewall_script l peering_id bridge_name rules = Inr script"
  shows "sh_commands script = Some (nft_commands (nft_table peering_id) bridge_name rules)"
proof -
  let ?t = "nft_table peering_id"
  from assms obtain body where b: "nft_rule_lines l ?t bridge_name rules = Inr body"
    and v: "validate_nft_value l peering_id ''peering_id'' = Inr ()"
      "validate_nft_value l bridge_name ''bridge_name'' = Inr ()"
    and s: "script = joins [''nft'', ''delete'', ''table'', ''inet'', ?t, ''2>/dev/null''] @ '' ''
        @ joins [''nft'', ''add'', ''table'', ''inet'', ?t] @ '' ''
        @ joins [''nft'', ''add'', ''chain'', ''inet'', ?t, ''forward'', ''{'', ''type'', ''filter'', ''hook'',
            ''forward'', ''priority'', ''-1'' @ [CHR 0x5C, CHR '';''], ''policy'', ''accept'' @ [CHR 0x5C, CHR '';''], ''}''] @ '' ''
        @ nft_forward ?t bridge_name ''ct state established,related accept''
        @ body @ nft_forward ?t bridge_name ''drop'' @ ''echo OK''"
    by (auto simp: firewall_script_def Let_def split: sum.splits)
  have t: "list_all (\<lambda>w. list_all sh_plain w \<and> w \<noteq> []) [?t, bridge_name]"
    using validated_plain [OF v(1)] validated_plain [OF v(2)]
    by (auto simp: nft_table_def plain_eval list_all_iff dest!: in_set_takeD)
  have f: "nft_forward ?t bridge_name ''ct state established,related accept'' =
      joins (nft_filter ?t bridge_name [''ct'', ''state'', ''established,related'', ''accept'']) @ '' ''"
    "nft_forward ?t bridge_name ''drop'' = joins (nft_filter ?t bridge_name [''drop'']) @ '' ''"
    using nft_forward_joins [of "[''ct'', ''state'', ''established,related'', ''accept'']" ?t bridge_name]
      nft_forward_joins [of "[''drop'']" ?t bridge_name] by simp_all
  have chain: "sh_commands (joins [''nft'', ''add'', ''chain'', ''inet'', ?t, ''forward'', ''{'', ''type'', ''filter'', ''hook'',
            ''forward'', ''priority'', ''-1'' @ [CHR 0x5C, CHR '';''], ''policy'', ''accept'' @ [CHR 0x5C, CHR '';''], ''}''] @ '' '' @ rest)
      = map_option ((#) [''nft'', ''add'', ''chain'', ''inet'', ?t, ''forward'', ''{'', ''type'', ''filter'', ''hook'',
       ''forward'', ''priority'', ''-1;'', ''policy'', ''accept;'', ''}'']) (sh_commands rest)" for rest
    using t by (intro sh_commands_joins) (simp_all add: lexes_plain lexes_escaped plain_eval)
  let ?p = "\<lambda>ws. list_all (\<lambda>w. list_all sh_plain w \<and> w \<noteq> []) ws"
  have p: "?p [''nft'', ''delete'', ''table'', ''inet'', ?t, ''2>/dev/null'']"
    "?p [''nft'', ''add'', ''table'', ''inet'', ?t]"
    "?p (nft_filter ?t bridge_name [''ct'', ''state'', ''established,related'', ''accept''])"
    "?p (nft_filter ?t bridge_name [''drop''])"
    using t by (simp_all add: nft_filter_def plain_eval)
  have n: "nft_filter ?t bridge_name ws \<noteq> []" for ws by (simp add: nft_filter_def)
  have echo: "sh_commands ''echo OK'' = Some [[''echo'', ''OK'']]"
    by (simp add: sh_commands_def plain_eval)
  show ?thesis
    unfolding s f append_assoc
    by (simp only: sh_commands_plain [OF p(1) list.discI [OF refl]] sh_commands_plain [OF p(2) list.discI [OF refl]]
        sh_commands_plain [OF p(3) n] sh_commands_plain [OF p(4) n] chain
        nft_rule_lines_commands [OF b t] echo option.map) (simp only: nft_commands_def append.simps append_assoc)
qed

lemma firewall_script_commands_witness:
  "sh_commands (case firewall_script demo_libraries ''a1b2c3d4'' ''br-1''
      [(''10.0.0.0/24'', ''10.1.0.0/24'', Some 5432, None, ''allow'')] of Inr script \<Rightarrow> script | Inl _ \<Rightarrow> []) =
   Some (nft_commands ''sb_peer_a1b2c3d4'' ''br-1''
      [(''10.0.0.0/24'', ''10.1.0.0/24'', Some 5432, None, ''allow'')])"
proof -
  let ?rules = "[(''10.0.0.0/24'', ''10.1.0.0/24'', Some 5432, None, ''allow'')]"
  obtain script where s: "firewall_script demo_libraries ''a1b2c3d4'' ''br-1'' ?rules = Inr script"
    by (simp add: firewall_script_def Let_def check_nft_rule_def validate_nft_value_def nft_char_ok_def
        char_is_alphanumeric_def is_continuation_def is_ascii_def ascii_class_defs less_eq_char_def)
  from firewall_script_commands [OF s] show ?thesis
    by (simp add: s nft_table_def)
qed

end
