(* ===== verification/Spec2Isabelle.thy ===== *)
theory Spec2Isabelle
  imports Isolation Privileges Deployment Routing Outcomes Dead_Ends Refinement Provisioner_Safety
    Provisioner_Script
begin

text \<open>
  A model of DBSaaS, a platform that rents out databases: the Rust server of
  \<open>src/api/src\<close> with the schema of \<open>src/api/migrations\<close>.

  \<^bold>\<open>The program.\<close> Users register, log in and create PostgreSQL, Redis and MariaDB databases,
  alone or as bundles. A handler checks the request, writes rows to PostgreSQL and spawns a task;
  the task creates networks and containers through Docker (the local daemon or a registered
  server), waits until the container is healthy, issues a certificate, publishes the host name at
  the Traefik proxy and settles the row. Owners manage users, backups, schedules, exports and
  migrations of a database, and join databases by private networks, peerings and firewall rules,
  which end as an nftables script. Every start and stop is a usage event; once a month the events
  become invoices, charged through Stripe. Four loops run in the background (billing, metrics,
  backups, alerts). Handlers reach their rows only through the repositories, Docker only through
  the provisioner, and share the port pool, the event channel and two flags.

  \<^bold>\<open>How the code is rendered.\<close> An operation is a function of an environment and a state
  (\<open>'a app\<close> in \<open>Platform\<close>): it returns an \<open>app_error\<close>, a panic or a value, and the next state. The state
  holds the tables, the port pool, the flags, the events sent, the calls made, the tasks spawned,
  the files, the gauges, the clock and a counter of effects. The environment holds the
  configuration, the libraries (cipher, Argon2, JWT, HMAC, certificates, URL and time formats) as
  functions, and the answers of the outside world (PostgreSQL up or not, Docker, HTTP, SMTP, the file
  system, randomness, latency) as functions of that counter, so that a theorem about every
  environment is about every history of failures. Machine integers are words, \<open>f64\<close> is a
  rational with every result rounded (\<open>F64\<close>), a string is the list of its UTF-8 bytes, a table a list of
  rows; inserts enforce keys, foreign keys, lengths and checks and deletions cascade as the
  migrations say.

  \<^bold>\<open>Theories.\<close>
  \<^item> \<open>Prelude\<close>, \<open>F64\<close>, \<open>Models\<close> (\<open>models/*.rs\<close>, \<open>error.rs\<close>), \<open>Utils\<close> (\<open>utils/*.rs\<close>), \<open>Platform\<close>
    (\<open>lib.rs\<close>, the monad), \<open>Configuration\<close> (\<open>config.rs\<close>), \<open>Schema\<close> (\<open>migrations/*.sql\<close>).
  \<^item> \<open>Calculus\<close>: evaluation rules, weakest preconditions (\<open>wp\<close>), \<open>preserves\<close>, \<open>reads\<close>; \<open>Scenario\<close>: the
    concrete platform on which witnesses are evaluated.
  \<^item> Repositories (\<open>repository/*.rs\<close>): \<open>User_Repository\<close>, \<open>Database_Repository\<close>, \<open>Billing_Repository\<close>,
    \<open>Server_Repository\<close>, \<open>Network_Repository\<close>, \<open>Misc_Repository\<close>.
  \<^item> Services (\<open>services/*.rs\<close>): \<open>Provisioner\<close>, \<open>Provisioner_Exec\<close> (\<open>provisioner.rs\<close>), \<open>Services\<close> (Traefik,
    TLS, backup, clean-up, metrics, migration), \<open>Billing\<close>, \<open>Alerts\<close>.
  \<^item> Handlers and layers (\<open>handlers/*.rs\<close>, \<open>middleware/*.rs\<close>): \<open>Middleware\<close>, \<open>Billing_Handlers\<close>,
    \<open>Database_Service\<close> and \<open>Database_Handlers\<close> (\<open>databases.rs\<close>, \<open>migrations.rs\<close>), \<open>Network_Handlers\<close>,
    \<open>Administration\<close>; \<open>Server\<close> (\<open>main.rs\<close>) has the routes, \<open>serve\<close> for a request with its layers,
    \<open>run_task\<close>, the rounds of the loops and \<open>start_up\<close>.
  \<^item> Frames: \<open>Steady\<close> (what provisioner and services leave alone), \<open>Handler_Frame\<close> (\<open>user_frame\<close>),
    \<open>System\<close> (\<open>service_frame\<close>, \<open>system_frame\<close>), \<open>Table_Frames\<close>, \<open>Reachability\<close> (\<open>step\<close>, \<open>reachable\<close>).
  \<^item> Properties: \<open>Tenancy\<close> and \<open>Isolation\<close> (tenants), \<open>Access\<close> and \<open>Privileges\<close> (who runs what, who
    becomes an administrator), \<open>Routing\<close>, \<open>Creation\<close>, \<open>Provisioning\<close> and \<open>Deployment\<close> (from the request to
    the running database), \<open>Background\<close>, \<open>Outcomes\<close>, \<open>Refinement\<close>, \<open>Dead_Ends\<close> (what the code means to
    do and cannot), \<open>Provisioner_Safety\<close>, \<open>Provisioner_Script\<close>; those of single components are in
    \<open>Utils\<close>, \<open>Billing\<close> and \<open>Billing_Handlers\<close>.

  \<^bold>\<open>Interfaces.\<close> \<open>port_allocator\<close> (the port pool), \<open>rounding\<close> (the \<open>f64\<close> laws), \<open>row_store\<close> (lookup
  after insertion, change and deletion; interpreted for seven tables), \<open>user_frame\<close> (what a
  predicate of the tables has to survive to survive every request of a user; interpreted for the
  rows of other tenants), \<open>service_frame\<close> (the same for every request but a change of roles, every
  task, round and start; interpreted for the set of administrators; a sublocale of \<open>user_frame\<close>) and
  \<open>system_frame\<close> (with the change of roles; interpreted for the schema, for one invoice per user and
  month, and for the ownership of peerings and firewall rules).

  \<^bold>\<open>What is shown.\<close> Over every reachable state: the schema's constraints, one invoice per user and
  month, and that a user's request leaves the rows of other tenants alone. Over every request: who is
  identified, which routes are guarded, that only administrators appoint administrators. Of the
  life of a database: the quota, an all-or-nothing answer, that the spawned task settles the row
  while PostgreSQL answers, and that the owner reads back what was answered. Of the money: hours are the
  measure of the running time, totals are sums of lines, amounts are exact but for the rounding
  whose effect is bounded, only signed webhooks change invoices. Of the scripts and SQL text handed
  out: the firewall script has the default drop and only checked values, quoted names and
  passwords read back. Several theorems state behaviour that is not meant (an amount rounded up,
  a renamed database billed twice, requests that cannot succeed, checks that let too much through).

  \<^bold>\<open>Bounds.\<close> No fuel is used. \<open>wait_loop\<close> terminates by the time left to its deadline, as a round
  sleeps two seconds; \<open>first_free\<close> by the rest of the range of ports; the others are structural.
  Statements about times assume clocks below \<open>2 ^ 90\<close> ns where \<open>u64\<close> seconds could wrap.

  \<^bold>\<open>Not modelled.\<close> CORS, tracing, the body limit and the HTTP listener; the decoding of JSON bodies
  and paths by serde (requests are records); the text rendering of the Prometheus registry; the
  delivery of events on the broadcast channel (sending is recorded, lag is not); the database
  engines inside the containers; SQL beyond what the statements and the schema say (isolation
  levels, locks). A handler or a task runs to its end before the next begins, so races
  between two requests (two creations at the quota, two monthly runs) are outside the theorems.
  The web front ends, the DNS server and the nftables helper of the repository are other programs.
\<close>

end
